(* ===== verification/Prelude.thy ===== *)
theory Prelude
  imports Main "HOL-Library.Word" "HOL-Library.List_Lexorder" "HOL-Library.Monad_Syntax"
begin

text \<open>
  What every component shares: Go's bytes, strings and machine integers, the parts of
  \<^verbatim>\<open>encoding/binary\<close>, \<^verbatim>\<open>bytes\<close> and \<^verbatim>\<open>fmt\<close> that the sources use, and the generic
  lemmas about them.

  Conventions. A Go \<^verbatim>\<open>[]byte\<close> is a list of 8-bit words; a Go \<^verbatim>\<open>string\<close> is an
  Isabelle string, whose characters are bytes as Go's are. A \<^verbatim>\<open>uint64\<close> or \<^verbatim>\<open>int64\<close> is a
  64-bit word, read with \<open>unat\<close> or \<open>sint\<close>. A function that may panic (an index or a
  slice bound out of range, a \<^verbatim>\<open>Must\<close> function that fails) or may not return has an
  \<open>option\<close> result: \<open>None\<close> is "does not return normally". A returned Go error is a value
  inside that result.
\<close>

unbundle bit_operations_syntax

named_theorems go_simps \<open>unfolding rules for the standard-library functions the model uses\<close>
named_theorems wire_simps \<open>rewrite rules of the protobuf encoders and decoders\<close>
named_theorems store_simps \<open>rewrite rules of the stores and of the operations above them\<close>

type_synonym byte = "8 word"
type_synonym bytes = "byte list"
type_synonym u64 = "64 word"
type_synonym i64 = "64 word"
type_synonym i32 = "32 word"

section \<open>Strings and bytes\<close>

definition byte_of_char :: "char \<Rightarrow> byte" where
  "byte_of_char c = word_of_nat (of_char c)"

definition char_of_byte :: "byte \<Rightarrow> char" where
  "char_of_byte b = char_of (unat b)"

text \<open>The conversions \<^verbatim>\<open>[]byte(s)\<close> and \<^verbatim>\<open>string(b)\<close>.\<close>

definition bytes_of :: "string \<Rightarrow> bytes" where
  "bytes_of s = map byte_of_char s"

definition string_of :: "bytes \<Rightarrow> string" where
  "string_of b = map char_of_byte b"

lemma char_of_byte_of_char [simp]: "char_of_byte (byte_of_char c) = c"
proof -
  have "(of_char c :: nat) < 256" by simp
  then show ?thesis
    by (simp add: char_of_byte_def byte_of_char_def unat_of_nat)
qed

lemma byte_of_char_of_byte [simp]: "byte_of_char (char_of_byte b) = b"
proof -
  have "unat b < 256" using unsigned_less [of b, where ?'a = nat] by simp
  then show ?thesis
    by (simp add: char_of_byte_def byte_of_char_def)
qed

lemma string_of_bytes_of [simp]: "string_of (bytes_of s) = s"
  by (simp add: string_of_def bytes_of_def comp_def)

lemma bytes_of_string_of [simp]: "bytes_of (string_of b) = b"
  by (simp add: string_of_def bytes_of_def comp_def)

lemma bytes_of_inject [simp]: "bytes_of s = bytes_of t \<longleftrightarrow> s = t"
  by (metis string_of_bytes_of)

lemma length_bytes_of [simp]: "length (bytes_of s) = length s"
  by (simp add: bytes_of_def)

lemma length_string_of [simp]: "length (string_of b) = length b"
  by (simp add: string_of_def)

lemma bytes_of_Nil [simp]: "bytes_of [] = []"
  by (simp add: bytes_of_def)

lemma bytes_of_eq_Nil [simp]: "bytes_of s = [] \<longleftrightarrow> s = []"
  by (simp add: bytes_of_def)

lemma string_of_eq_Nil [simp]: "string_of b = [] \<longleftrightarrow> b = []"
  by (simp add: string_of_def)

lemma string_of_append [simp]: "string_of (b @ c) = string_of b @ string_of c"
  by (simp add: string_of_def)

lemma bytes_of_append [simp]: "bytes_of (s @ t) = bytes_of s @ bytes_of t"
  by (simp add: bytes_of_def)

text \<open>
  No Go slice or string is longer than the largest \<^verbatim>\<open>int\<close>. HOL lists have no such bound, so
  the facts that depend on it say so.
\<close>

definition go_len :: "'a list \<Rightarrow> bool" where
  "go_len xs \<longleftrightarrow> length xs < 2 ^ 63"

lemma go_len_Nil [simp]: "go_len []"
  by (simp add: go_len_def)

lemma go_len_bytes_of [simp]: "go_len (bytes_of s) \<longleftrightarrow> go_len s"
  by (simp add: go_len_def)

lemma go_len_string_of [simp]: "go_len (string_of b) \<longleftrightarrow> go_len b"
  by (simp add: go_len_def)

section \<open>Slices\<close>

text \<open>\<^verbatim>\<open>b[n:]\<close>, which panics unless \<open>0 \<le> n \<le> len(b)\<close>.\<close>

definition slice_from :: "'a list \<Rightarrow> int \<Rightarrow> 'a list option" where
  "slice_from b n = (if 0 \<le> n \<and> n \<le> int (length b) then Some (drop (nat n) b) else None)"

text \<open>\<^verbatim>\<open>b[i:j]\<close> on a slice whose capacity is its length.\<close>

definition slice_between :: "'a list \<Rightarrow> int \<Rightarrow> int \<Rightarrow> 'a list option" where
  "slice_between b i j =
     (if 0 \<le> i \<and> i \<le> j \<and> j \<le> int (length b) then Some (drop (nat i) (take (nat j) b)) else None)"

text \<open>\<^verbatim>\<open>copy(dst, src)\<close>: the new contents of \<^verbatim>\<open>dst\<close>.\<close>

definition go_copy :: "'a list \<Rightarrow> 'a list \<Rightarrow> 'a list" where
  "go_copy dst src = take (length dst) src @ drop (length src) dst"

lemma slice_from_append [simp]: "slice_from (xs @ ys) (int (length xs)) = Some ys"
  by (simp add: slice_from_def)

lemma length_go_copy [simp]: "length (go_copy dst src) = length dst"
  by (simp add: go_copy_def)

lemma go_copy_all: "length src = length dst \<Longrightarrow> go_copy dst src = src"
  by (simp add: go_copy_def)

section \<open>encoding/binary: big-endian 64-bit integers\<close>

definition PutUint64 :: "u64 \<Rightarrow> bytes" where
  "PutUint64 v =
     [ucast (drop_bit 56 v), ucast (drop_bit 48 v), ucast (drop_bit 40 v), ucast (drop_bit 32 v),
      ucast (drop_bit 24 v), ucast (drop_bit 16 v), ucast (drop_bit 8 v), ucast v]"

text \<open>\<^verbatim>\<open>binary.BigEndian.Uint64\<close> panics on fewer than eight bytes and ignores any after them.\<close>

definition Uint64 :: "bytes \<Rightarrow> u64 option" where
  "Uint64 b =
     (if length b < 8 then None
      else Some (ucast (b ! 7) OR push_bit 8 (ucast (b ! 6)) OR push_bit 16 (ucast (b ! 5))
        OR push_bit 24 (ucast (b ! 4)) OR push_bit 32 (ucast (b ! 3)) OR push_bit 40 (ucast (b ! 2))
        OR push_bit 48 (ucast (b ! 1)) OR push_bit 56 (ucast (b ! 0))))"

lemma length_PutUint64 [simp]: "length (PutUint64 v) = 8"
  by (simp add: PutUint64_def)

lemma bit_byte_at:
  "bit (push_bit k (ucast (ucast (drop_bit k v) :: byte)) :: u64) n \<longleftrightarrow> k \<le> n \<and> n < k + 8 \<and> n < 64 \<and> bit v n"
  by (auto simp: bit_simps)

lemma bit_low_byte: "bit (ucast (ucast v :: byte) :: u64) n \<longleftrightarrow> n < 8 \<and> bit v n"
  by (auto simp: bit_simps)

lemma Uint64_PutUint64 [simp]: "Uint64 (PutUint64 v) = Some v"
proof -
  have "n < 64 \<Longrightarrow> n < 8 \<or> 8 \<le> n \<and> n < 16 \<or> 16 \<le> n \<and> n < 24 \<or> 24 \<le> n \<and> n < 32 \<or>
    32 \<le> n \<and> n < 40 \<or> 40 \<le> n \<and> n < 48 \<or> 48 \<le> n \<and> n < 56 \<or> 56 \<le> n \<and> n < 64" for n :: nat
    by linarith
  then show ?thesis
    by (simp add: Uint64_def PutUint64_def, intro bit_word_eqI)
      (simp add: bit_or_iff bit_byte_at bit_low_byte, blast)
qed

lemma PutUint64_inject [simp]: "PutUint64 v = PutUint64 w \<longleftrightarrow> v = w"
  by (metis Uint64_PutUint64 option.inject)

lemma Uint64_eq_None: "Uint64 b = None \<longleftrightarrow> length b < 8"
  by (simp add: Uint64_def)

text \<open>
  Byte-wise order of the encodings is the order of the numbers: both compare the value of
  the digits in base 256.
\<close>

fun be_val :: "bytes \<Rightarrow> nat" where
  "be_val [] = 0"
| "be_val (x # xs) = unat x * 256 ^ length xs + be_val xs"

lemma be_val_less: "be_val xs < 256 ^ length xs"
proof (induction xs)
  case (Cons x xs)
  have "unat x < 256" using unsigned_less [of x, where ?'a = nat] by simp
  then have "unat x * 256 ^ length xs \<le> 255 * 256 ^ length xs"
    by (intro mult_right_mono) auto
  with Cons have "unat x * 256 ^ length xs + be_val xs < 255 * 256 ^ length xs + 256 ^ length xs"
    by linarith
  then show ?case by simp
qed simp

lemma be_val_less_iff:
  "length xs = length ys \<Longrightarrow> xs < ys \<longleftrightarrow> be_val xs < be_val ys"
proof (induction xs ys rule: list_induct2)
  case (Cons x xs y ys)
  note bx = be_val_less [of xs] and by' = be_val_less [of ys]
  show ?case
  proof (cases x y rule: linorder_cases)
    case less
    then have "(unat x + 1) * 256 ^ length xs \<le> unat y * 256 ^ length xs"
      by (intro mult_right_mono) (auto simp: word_less_nat_alt)
    with less bx Cons.hyps show ?thesis by simp
  next
    case equal
    with Cons show ?thesis by simp
  next
    case greater
    then have "(unat y + 1) * 256 ^ length ys \<le> unat x * 256 ^ length ys"
      by (intro mult_right_mono) (auto simp: word_less_nat_alt)
    with greater by' Cons.hyps show ?thesis by (auto simp: not_less)
  qed
qed simp

lemma unat_byte_of_drop: "unat (ucast (drop_bit n (v :: u64)) :: byte) = unat v div 2 ^ n mod 256"
  by (simp add: unat_drop_bit_eq unsigned_ucast_eq take_bit_eq_mod flip: drop_bit_eq_div)

lemma be_val_PutUint64: "be_val (PutUint64 v) = unat v"
proof -
  define q where "q k = unat v div 2 ^ k" for k
  define r where "r k = q k mod 256" for k
  have step: "q k = q (k + 8) * 256 + r k" for k
    by (simp add: q_def r_def power_add div_mult2_eq)
  have "unat v < 2 ^ 64" using unsigned_less [of v, where ?'a = nat] by simp
  then have top: "r 56 = q 56" by (simp add: r_def q_def)
  have "be_val (PutUint64 v) = r 56 * 256 ^ 7 + (r 48 * 256 ^ 6 + (r 40 * 256 ^ 5 + (r 32 * 256 ^ 4
      + (r 24 * 256 ^ 3 + (r 16 * 256 ^ 2 + (r 8 * 256 + r 0))))))"
    unfolding PutUint64_def be_val.simps
    using unat_byte_of_drop [of 0 v] by (simp add: unat_byte_of_drop r_def q_def)
  also have "\<dots> = q 0"
    using top step [of 0] step [of 8] step [of 16] step [of 24] step [of 32] step [of 40] step [of 48]
    by simp
  finally show ?thesis by (simp add: q_def)
qed

lemma PutUint64_less_iff [simp]: "PutUint64 v < PutUint64 w \<longleftrightarrow> v < w"
  by (simp add: be_val_less_iff be_val_PutUint64 word_less_nat_alt)

lemma PutUint64_le_iff [simp]: "PutUint64 v \<le> PutUint64 w \<longleftrightarrow> v \<le> w"
  by (auto simp: le_less)

section \<open>Go's 64-bit int\<close>

text \<open>
  An \<^verbatim>\<open>int\<close> is an integer in the range of 64 bits: \<open>wrap64\<close> is what arithmetic on it does
  with a result out of range. The conversion \<^verbatim>\<open>int(v)\<close> of a \<^verbatim>\<open>uint64\<close> is \<open>sint v\<close>.
\<close>

definition wrap64 :: "int \<Rightarrow> int" where
  "wrap64 i = signed_take_bit 63 i"

lemma wrap64_id: "- (2 ^ 63) \<le> i \<Longrightarrow> i < 2 ^ 63 \<Longrightarrow> wrap64 i = i"
  by (simp add: wrap64_def signed_take_bit_int_eq_self)

lemma wrap64_over: "2 ^ 63 \<le> i \<Longrightarrow> i < 2 ^ 64 \<Longrightarrow> wrap64 i = i - 2 ^ 64"
  using int_mod_pos_eq [of "i + 2 ^ 63" "2 ^ 64" 1 "i - 2 ^ 63"]
  by (simp add: wrap64_def signed_take_bit_eq_take_bit_shift take_bit_eq_mod)

lemma sint_u64: "sint (v :: u64) = (if unat v < 2 ^ 63 then int (unat v) else int (unat v) - 2 ^ 64)"
proof -
  obtain n where n: "uint v = int n" "unat v = n" by (metis uint_nat)
  moreover have "uint v < 2 ^ 64" using unsigned_less [of v, where ?'a = int] by simp
  moreover have "sint v = wrap64 (uint v)" by (simp add: sint_uint wrap64_def)
  ultimately show ?thesis
    using wrap64_id [of "int n"] wrap64_over [of "int n"] by (cases "n < 2 ^ 63") simp_all
qed

text \<open>For proofs about a word known by its value: no \<open>uint\<close> remains.\<close>

lemma u64_value:
  assumes "unat (v :: u64) = n"
  shows "sint v = (if n < 2 ^ 63 then int n else int n - 2 ^ 64)" "v = 0 \<longleftrightarrow> n = 0" "v > 0 \<longleftrightarrow> n > 0" "n < 2 ^ 64"
  using sint_u64 [of v] assms unsigned_less [of v, where ?'a = nat]
  by (auto simp: word_gt_0 unat_eq_0 gr0_conv_Suc [symmetric] simp flip: neq0_conv)

section \<open>fmt: decimal integers\<close>

text \<open>\<^verbatim>\<open>%d\<close> of an unsigned integer.\<close>

fun fmt_d :: "nat \<Rightarrow> string" where
  "fmt_d n = (if n < 10 then [char_of (48 + n)] else fmt_d (n div 10) @ [char_of (48 + n mod 10)])"

declare fmt_d.simps [simp del]

lemma fmt_d_nonempty [simp]: "fmt_d n \<noteq> []"
  by (subst fmt_d.simps) simp

section \<open>Lists\<close>

lemma list_less_append_left [simp]: "(p @ xs :: bytes) < p @ ys \<longleftrightarrow> xs < ys"
  by (induction p) auto

lemma list_le_append_left [simp]: "(p @ xs :: bytes) \<le> p @ ys \<longleftrightarrow> xs \<le> ys"
  by (induction p) auto

lemma prefix_le [simp]: "(p :: bytes) \<le> p @ xs"
  by (induction p) auto

section \<open>Results\<close>

text \<open>An error ends a computation; a list of results is the first error or all values.\<close>

definition try_bind :: "'e + 'a \<Rightarrow> ('a \<Rightarrow> 'e + 'b) \<Rightarrow> 'e + 'b" where
  "try_bind r f = (case r of Inl e \<Rightarrow> Inl e | Inr x \<Rightarrow> f x)"

lemma try_bind_simps [simp]: "try_bind (Inl e) f = Inl e" "try_bind (Inr x) f = f x"
  by (simp_all add: try_bind_def)

lemma try_bind_Inr: "try_bind r f = Inr y \<longleftrightarrow> (\<exists>x. r = Inr x \<and> f x = Inr y)"
  by (cases r) simp_all

fun collect_results :: "('e + 'a) list \<Rightarrow> 'e + 'a list" where
  "collect_results [] = Inr []"
| "collect_results (r # rs) = try_bind r (\<lambda>x. try_bind (collect_results rs) (\<lambda>xs. Inr (x # xs)))"

lemma collect_Inr: "collect_results (map Inr xs) = Inr xs"
  by (induction xs) simp_all

end
