(* ===== verification/Wire.thy ===== *)
theory Wire
  imports Prelude
begin

text \<open>
  The interface of \<^verbatim>\<open>google.golang.org/protobuf/encoding/protowire\<close>, on which every generated
  message of \<^verbatim>\<open>mychain/x/taskreg/types\<close> rests, and the hand-written helpers of
  \<^verbatim>\<open>tx.pb.go\<close> above it (\<open>appendString\<close>, \<open>appendUint64\<close>, \<open>sizeString\<close>, \<open>sizeUint64\<close>,
  \<open>skipField\<close>). The package is not part of the repository: it is the parameter \<open>pw\<close>, a record of
  its functions, and the locale \<open>wire_format\<close> states the documented behaviour the messages
  rely on. Theory \<open>Wire_Std\<close> interprets the locale on the documented encoding.

  The receiver loop that all generated \<^verbatim>\<open>Unmarshal\<close> methods share is \<open>unmarshal_loop\<close>; a
  message supplies the body of its \<^verbatim>\<open>switch\<close>. Its result is the message as the method leaves
  it (an error does not undo the fields already set) and the error returned, if any.
\<close>

section \<open>The protowire package\<close>

abbreviation VarintType :: int where "VarintType \<equiv> 0"
abbreviation BytesType :: int where "BytesType \<equiv> 2"

text \<open>
  \<^verbatim>\<open>Number\<close> and \<^verbatim>\<open>Type\<close> are small Go integers that the code only compares with constants.
  A \<^verbatim>\<open>Consume\<close> function returns the value and the number of bytes read, negative on a
  malformed input.
\<close>

record protowire =
  AppendTag :: "bytes \<Rightarrow> int \<Rightarrow> int \<Rightarrow> bytes"
  AppendVarint :: "bytes \<Rightarrow> u64 \<Rightarrow> bytes"
  AppendBytes :: "bytes \<Rightarrow> bytes \<Rightarrow> bytes"
  AppendString :: "bytes \<Rightarrow> string \<Rightarrow> bytes"
  SizeTag :: "int \<Rightarrow> int"
  SizeVarint :: "u64 \<Rightarrow> int"
  SizeBytes :: "int \<Rightarrow> int"
  ConsumeTag :: "bytes \<Rightarrow> int \<times> int \<times> int"
  ConsumeVarint :: "bytes \<Rightarrow> u64 \<times> int"
  ConsumeBytes :: "bytes \<Rightarrow> bytes \<times> int"
  ConsumeString :: "bytes \<Rightarrow> string \<times> int"
  ConsumeFieldValue :: "int \<Rightarrow> int \<Rightarrow> bytes \<Rightarrow> int"

text \<open>The field numbers and wire types for which tags are specified.\<close>

definition valid_tag :: "int \<Rightarrow> int \<Rightarrow> bool" where
  "valid_tag num wt \<longleftrightarrow> 1 \<le> num \<and> num < 2 ^ 29 \<and> 0 \<le> wt \<and> wt \<le> 5"

section \<open>Helpers of tx.pb.go\<close>

definition appendString :: "protowire \<Rightarrow> bytes \<Rightarrow> int \<Rightarrow> string \<Rightarrow> bytes" where
  "appendString pw b fieldNum s =
     (if s = [] then b
      else let b = AppendTag pw b fieldNum BytesType;
               b = AppendString pw b s
           in b)"

definition appendUint64 :: "protowire \<Rightarrow> bytes \<Rightarrow> int \<Rightarrow> u64 \<Rightarrow> bytes" where
  "appendUint64 pw b fieldNum v =
     (if v = 0 then b
      else let b = AppendTag pw b fieldNum VarintType;
               b = AppendVarint pw b v
           in b)"

definition sizeString :: "protowire \<Rightarrow> int \<Rightarrow> string \<Rightarrow> int" where
  "sizeString pw fieldNum s =
     (if s = [] then 0 else SizeTag pw fieldNum + SizeBytes pw (int (length s)))"

definition sizeUint64 :: "protowire \<Rightarrow> int \<Rightarrow> u64 \<Rightarrow> int" where
  "sizeUint64 pw fieldNum v =
     (if v = 0 then 0 else SizeTag pw fieldNum + SizeVarint pw v)"

definition skipField :: "protowire \<Rightarrow> bytes \<Rightarrow> int \<Rightarrow> (string + bytes) option" where
  "skipField pw b wt =
     (let n = ConsumeFieldValue pw 0 wt b
      in if n < 0 then Some (Inl ''invalid field'') else map_option Inr (slice_from b n))"

section \<open>The receiver loop of the generated Unmarshal methods\<close>

text \<open>
  The cases of the \<^verbatim>\<open>switch\<close>: a varint, a string, an embedded message and an unknown field.
  The new message is computed by \<open>upd\<close>; \<open>None\<close> is a panic of \<^verbatim>\<open>b[n:]\<close>.
\<close>

type_synonym 'm field_result = "('m \<times> (string + bytes)) option"

definition varint_case :: "protowire \<Rightarrow> (u64 \<Rightarrow> 'm) \<Rightarrow> 'm \<Rightarrow> bytes \<Rightarrow> 'm field_result" where
  "varint_case pw upd m b =
     (let (v, n) = ConsumeVarint pw b
      in if n < 0 then Some (m, Inl ''bad varint'')
         else map_option (\<lambda>b. (upd v, Inr b)) (slice_from b n))"

definition string_case :: "protowire \<Rightarrow> (string \<Rightarrow> 'm) \<Rightarrow> 'm \<Rightarrow> bytes \<Rightarrow> 'm field_result" where
  "string_case pw upd m b =
     (let (v, n) = ConsumeString pw b
      in if n < 0 then Some (m, Inl ''bad string'')
         else map_option (\<lambda>b. (upd v, Inr b)) (slice_from b n))"

definition message_case ::
  "protowire \<Rightarrow> (bytes \<Rightarrow> ('m \<times> string option) option) \<Rightarrow> 'm \<Rightarrow> bytes \<Rightarrow> 'm field_result" where
  "message_case pw dec m b =
     (let (bz, n) = ConsumeBytes pw b
      in if n < 0 then Some (m, Inl ''bad bytes'')
         else Option.bind (dec bz) (\<lambda>(m', err).
           case err of
             Some e \<Rightarrow> Some (m', Inl e)
           | None \<Rightarrow> map_option (\<lambda>b. (m', Inr b)) (slice_from b n)))"

definition default_case :: "protowire \<Rightarrow> int \<Rightarrow> 'm \<Rightarrow> bytes \<Rightarrow> 'm field_result" where
  "default_case pw wt m b = map_option (\<lambda>r. (m, r)) (skipField pw b wt)"

partial_function (option) unmarshal_loop ::
  "protowire \<Rightarrow> (int \<Rightarrow> int \<Rightarrow> bytes \<Rightarrow> 'm \<Rightarrow> 'm field_result) \<Rightarrow> 'm \<Rightarrow> bytes
    \<Rightarrow> ('m \<times> string option) option" where
  "unmarshal_loop pw fld m b =
     (if b = [] then Some (m, None)
      else case ConsumeTag pw b of (num, wt, n) \<Rightarrow>
        if n < 0 then Some (m, Some ''bad tag'')
        else Option.bind (slice_from b n) (\<lambda>b.
          Option.bind (fld num wt b m) (\<lambda>(m', r).
            case r of
              Inl e \<Rightarrow> Some (m', Some e)
            | Inr b' \<Rightarrow> unmarshal_loop pw fld m' b')))"

text \<open>
  \<^verbatim>\<open>MarshalTo\<close> and \<^verbatim>\<open>MarshalToSizedBuffer\<close> of every message: \<open>res\<close> is what its \<^verbatim>\<open>Marshal\<close>
  returns. The result is the buffer and the pair \<^verbatim>\<open>(int, error)\<close>; a buffer shorter than the
  encoding makes the second one panic.
\<close>

definition marshal_to :: "string + bytes \<Rightarrow> bytes \<Rightarrow> bytes \<times> (string + int)" where
  "marshal_to res dAtA =
     (case res of
        Inl err \<Rightarrow> (dAtA, Inl err)
      | Inr bz \<Rightarrow> (go_copy dAtA bz, Inr (int (length bz))))"

definition marshal_to_sized :: "string + bytes \<Rightarrow> bytes \<Rightarrow> (bytes \<times> (string + int)) option" where
  "marshal_to_sized res dAtA =
     (case res of
        Inl err \<Rightarrow> Some (dAtA, Inl err)
      | Inr bz \<Rightarrow>
          let k = int (length dAtA) - int (length bz)
          in map_option (\<lambda>tail. (take (nat k) dAtA @ go_copy tail bz, Inr (int (length bz))))
               (slice_from dAtA k))"

lemma marshal_to_sized_Inr:
  "length bz \<le> length d \<Longrightarrow>
   marshal_to_sized (Inr bz) d = Some (take (length d - length bz) d @ bz, Inr (int (length bz)))"
  by (simp add: marshal_to_sized_def slice_from_def go_copy_all Let_def nat_diff_distrib' flip: of_nat_diff)

lemma marshal_to_sized_panics: "length d < length bz \<Longrightarrow> marshal_to_sized (Inr bz) d = None"
  by (simp add: marshal_to_sized_def slice_from_def Let_def)

text \<open>
  A \<^verbatim>\<open>switch\<close> body is well behaved when it never panics and never hands back more input than
  it got.
\<close>

definition returns_within :: "bytes \<Rightarrow> 'm field_result \<Rightarrow> bool" where
  "returns_within b res \<longleftrightarrow>
     (\<exists>m r. res = Some (m, r) \<and> (\<forall>b'. r = Inr b' \<longrightarrow> length b' \<le> length b))"

definition field_total :: "(int \<Rightarrow> int \<Rightarrow> bytes \<Rightarrow> 'm \<Rightarrow> 'm field_result) \<Rightarrow> bool" where
  "field_total fld \<longleftrightarrow> (\<forall>num wt b m. returns_within b (fld num wt b m))"

section \<open>What the messages rely on\<close>

locale wire_format =
  fixes pw :: protowire
  assumes append_tag: "AppendTag pw b num wt = b @ AppendTag pw [] num wt"
    and append_varint: "AppendVarint pw b v = b @ AppendVarint pw [] v"
    and append_bytes: "AppendBytes pw b bs = b @ AppendBytes pw [] bs"
    and append_string: "AppendString pw b s = AppendBytes pw b (bytes_of s)"
    and size_tag: "valid_tag num wt \<Longrightarrow> SizeTag pw num = int (length (AppendTag pw [] num wt))"
    and size_varint: "SizeVarint pw v = int (length (AppendVarint pw [] v))"
    and size_bytes: "go_len bs \<Longrightarrow> SizeBytes pw (int (length bs)) = int (length (AppendBytes pw [] bs))"
    and consume_tag: "valid_tag num wt \<Longrightarrow>
      ConsumeTag pw (AppendTag pw [] num wt @ r) = (num, wt, int (length (AppendTag pw [] num wt)))"
    and consume_varint:
      "ConsumeVarint pw (AppendVarint pw [] v @ r) = (v, int (length (AppendVarint pw [] v)))"
    and consume_bytes: "go_len bs \<Longrightarrow>
      ConsumeBytes pw (AppendBytes pw [] bs @ r) = (bs, int (length (AppendBytes pw [] bs)))"
    and consume_string:
      "ConsumeString pw b = (case ConsumeBytes pw b of (v, n) \<Rightarrow> (string_of v, n))"
    and tag_bound: "ConsumeTag pw b = (num, wt, n) \<Longrightarrow> n < 0 \<or> 0 < n \<and> n \<le> int (length b)"
    and varint_bound: "ConsumeVarint pw b = (v, n) \<Longrightarrow> n \<le> int (length b)"
    and bytes_bound: "ConsumeBytes pw b = (bs, n) \<Longrightarrow> n \<le> int (length b)"
    and value_bound: "ConsumeFieldValue pw num wt b \<le> int (length b)"
    and skip_varint:
      "ConsumeFieldValue pw num VarintType (AppendVarint pw [] v @ r) = int (length (AppendVarint pw [] v))"
    and skip_bytes: "go_len bs \<Longrightarrow>
      ConsumeFieldValue pw num BytesType (AppendBytes pw [] bs @ r) = int (length (AppendBytes pw [] bs))"
begin

lemma valid_tag_varint [simp]: "1 \<le> num \<Longrightarrow> num < 2 ^ 29 \<Longrightarrow> valid_tag num VarintType"
  by (simp add: valid_tag_def)

lemma valid_tag_bytes [simp]: "1 \<le> num \<Longrightarrow> num < 2 ^ 29 \<Longrightarrow> valid_tag num BytesType"
  by (simp add: valid_tag_def)

text \<open>A tag is never empty: \<open>tag_bound\<close> on what \<open>consume_tag\<close> returns.\<close>

lemma tag_nonempty [simp]: "valid_tag num wt \<Longrightarrow> AppendTag pw [] num wt \<noteq> []"
  using consume_tag [of num wt "[]"] tag_bound [of "AppendTag pw [] num wt" num wt] by auto

subsection \<open>Every loop returns\<close>

lemma varint_case_total:
  "returns_within b (varint_case pw upd m b)"
  using varint_bound [of b]
  by (cases "ConsumeVarint pw b") (auto simp: returns_within_def varint_case_def slice_from_def)

lemma string_case_total:
  "returns_within b (string_case pw upd m b)"
  using bytes_bound [of b]
  by (cases "ConsumeBytes pw b") (auto simp: returns_within_def string_case_def consume_string slice_from_def)

lemma message_case_total:
  assumes "\<And>bz. dec bz \<noteq> None"
  shows "returns_within b (message_case pw dec m b)"
proof -
  obtain bz n where c: "ConsumeBytes pw b = (bz, n)" by force
  moreover obtain m' err where "dec bz = Some (m', err)" using assms [of bz] by auto
  ultimately show ?thesis
    using bytes_bound [OF c]
    by (cases err) (auto simp: returns_within_def message_case_def slice_from_def)
qed

lemma default_case_total:
  "returns_within b (default_case pw wt m b)"
  using value_bound [of 0 wt b]
  by (auto simp: returns_within_def default_case_def skipField_def slice_from_def Let_def)

lemmas case_total [simp] = varint_case_total string_case_total message_case_total default_case_total

lemma unmarshal_loop_total:
  assumes "field_total fld"
  shows "unmarshal_loop pw fld m b \<noteq> None"
proof (induction b arbitrary: m rule: length_induct)
  case (1 b)
  obtain num wt n where t: "ConsumeTag pw b = (num, wt, n)" by (cases "ConsumeTag pw b") auto
  show ?case
  proof (cases "b = [] \<or> n < 0")
    case True
    then show ?thesis using t by (auto simp: unmarshal_loop.simps [of pw fld m b])
  next
    case False
    then have n: "0 < n" "n \<le> int (length b)" using tag_bound [OF t] by auto
    then have sl: "slice_from b n = Some (drop (nat n) b)" by (simp add: slice_from_def)
    obtain m' r where f: "fld num wt (drop (nat n) b) m = Some (m', r)"
      and len: "\<And>b'. r = Inr b' \<Longrightarrow> length b' \<le> length (drop (nat n) b)"
      using assms unfolding field_total_def returns_within_def by blast
    show ?thesis
    proof (cases r)
      case (Inl e)
      with False t sl f show ?thesis by (simp add: unmarshal_loop.simps [of pw fld m b])
    next
      case (Inr b')
      with len n False have "length b' < length b" by fastforce
      then have "unmarshal_loop pw fld m' b' \<noteq> None" using "1.IH" by blast
      with Inr False t sl f show ?thesis by (simp add: unmarshal_loop.simps [of pw fld m b])
    qed
  qed
qed

subsection \<open>One encoded field at a time\<close>

lemma unmarshal_loop_Nil [simp]: "unmarshal_loop pw fld m [] = Some (m, None)"
  by (simp add: unmarshal_loop.simps)

lemma unmarshal_loop_tag:
  assumes "valid_tag num wt"
  shows "unmarshal_loop pw fld m (AppendTag pw [] num wt @ b) =
    Option.bind (fld num wt b m) (\<lambda>(m', r).
      case r of Inl e \<Rightarrow> Some (m', Some e) | Inr b' \<Rightarrow> unmarshal_loop pw fld m' b')"
  using assms
  by (simp add: unmarshal_loop.simps [of pw fld m "AppendTag pw [] num wt @ b"] consume_tag)

lemma varint_case_append [simp]:
  "varint_case pw upd m (AppendVarint pw [] v @ r) = Some (upd v, Inr r)"
  by (simp add: varint_case_def consume_varint)

lemma string_case_append [simp]:
  "go_len s \<Longrightarrow> string_case pw upd m (AppendString pw [] s @ r) = Some (upd s, Inr r)"
  by (simp add: string_case_def consume_string append_string consume_bytes)

lemma message_case_append:
  "go_len bz \<Longrightarrow> dec bz = Some (m', None) \<Longrightarrow>
   message_case pw dec m (AppendBytes pw [] bz @ r) = Some (m', Inr r)"
  by (simp add: message_case_def consume_bytes)

lemma default_case_append [simp]:
  "default_case pw VarintType m (AppendVarint pw [] v @ r) = Some (m, Inr r)"
  "go_len bs \<Longrightarrow> default_case pw BytesType m (AppendBytes pw [] bs @ r) = Some (m, Inr r)"
  by (simp_all add: default_case_def skipField_def skip_varint skip_bytes)

lemma appendUint64_eq:
  "appendUint64 pw b num v = b @ (if v = 0 then [] else AppendTag pw [] num VarintType @ AppendVarint pw [] v)"
  using append_tag [of b num VarintType] append_varint [of "b @ AppendTag pw [] num VarintType" v]
  by (simp add: appendUint64_def)

lemma appendString_eq:
  "appendString pw b num s = b @ (if s = [] then [] else AppendTag pw [] num BytesType @ AppendString pw [] s)"
  using append_tag [of b num BytesType] append_bytes [of "b @ AppendTag pw [] num BytesType" "bytes_of s"]
  by (simp add: appendString_def append_string)

lemma loop_uint64:
  assumes "1 \<le> num" "num < 2 ^ 29" and "\<And>b. fld num VarintType b m = varint_case pw upd m b"
  shows "unmarshal_loop pw fld m (appendUint64 pw [] num v @ r) =
    unmarshal_loop pw fld (if v = 0 then m else upd v) r"
  using assms by (simp add: appendUint64_eq unmarshal_loop_tag)

lemma loop_string:
  assumes "1 \<le> num" "num < 2 ^ 29" and "\<And>b. fld num BytesType b m = string_case pw upd m b" and "go_len s"
  shows "unmarshal_loop pw fld m (appendString pw [] num s @ r) =
    unmarshal_loop pw fld (if s = [] then m else upd s) r"
  using assms by (simp add: appendString_eq unmarshal_loop_tag)

lemma loop_message:
  assumes "1 \<le> num" "num < 2 ^ 29" and "\<And>b. fld num BytesType b m = message_case pw dec m b"
    and "go_len bz" and "dec bz = Some (m', None)"
  shows "unmarshal_loop pw fld m (AppendTag pw [] num BytesType @ AppendBytes pw [] bz @ r) =
    unmarshal_loop pw fld m' r"
  using assms by (simp add: unmarshal_loop_tag message_case_append)

lemma loop_unknown:
  assumes "1 \<le> num" "num < 2 ^ 29" and "\<And>wt b. fld num wt b m = default_case pw wt m b"
  shows "unmarshal_loop pw fld m (AppendTag pw [] num VarintType @ AppendVarint pw [] v @ r) =
      unmarshal_loop pw fld m r"
    and "go_len bs \<Longrightarrow>
      unmarshal_loop pw fld m (AppendTag pw [] num BytesType @ AppendBytes pw [] bs @ r) =
      unmarshal_loop pw fld m r"
  using assms by (simp_all add: unmarshal_loop_tag)

subsection \<open>Sizes\<close>

lemma sizeUint64_eq:
  "1 \<le> num \<Longrightarrow> num < 2 ^ 29 \<Longrightarrow> sizeUint64 pw num v = int (length (appendUint64 pw [] num v))"
  by (simp add: sizeUint64_def appendUint64_eq size_tag [of num VarintType] size_varint)

lemma sizeString_eq:
  "1 \<le> num \<Longrightarrow> num < 2 ^ 29 \<Longrightarrow> go_len s \<Longrightarrow>
   sizeString pw num s = int (length (appendString pw [] num s))"
  using size_bytes [of "bytes_of s"]
  by (simp add: sizeString_def appendString_eq append_string size_tag [of num BytesType])

text \<open>Appending to a buffer is appending to the empty one, oriented so that it does not loop.\<close>

lemma append_to_buffer [wire_simps]:
  "NO_MATCH [] b \<Longrightarrow> AppendTag pw b num wt = b @ AppendTag pw [] num wt"
  "NO_MATCH [] b \<Longrightarrow> AppendVarint pw b v = b @ AppendVarint pw [] v"
  "NO_MATCH [] b \<Longrightarrow> AppendBytes pw b bs = b @ AppendBytes pw [] bs"
  "NO_MATCH [] b \<Longrightarrow> appendUint64 pw b num v = b @ appendUint64 pw [] num v"
  "NO_MATCH [] b \<Longrightarrow> appendString pw b num s = b @ appendString pw [] num s"
  by (fact append_tag append_varint append_bytes | simp add: appendUint64_eq appendString_eq)+

end

end
