(* ===== verification/Wire_Std.thy ===== *)
theory Wire_Std
  imports Wire
begin

text \<open>
  The documented protobuf wire format (base-128 varints of at most ten bytes, tags, length
  prefixes, groups), as an instance of the interface of theory \<open>Wire\<close>. It shows that the laws
  of \<open>wire_format\<close> hold of the format the package implements, and gives the concrete \<open>pw\<close> at
  which the witnesses of the development evaluate. No property is stated about it alone.
\<close>

section \<open>Varints\<close>

fun uvarint :: "nat \<Rightarrow> bytes" where
  "uvarint n = (if n < 128 then [word_of_nat n] else word_of_nat (n mod 128 + 128) # uvarint (n div 128))"

declare uvarint.simps [simp del]

text \<open>The value and the number of bytes read, at most \<open>k\<close>.\<close>

fun read_uvarint :: "nat \<Rightarrow> bytes \<Rightarrow> (nat \<times> nat) option" where
  "read_uvarint k [] = None"
| "read_uvarint 0 (x # xs) = None"
| "read_uvarint (Suc k) (x # xs) =
     (if unat x < 128 then Some (unat x, 1)
      else map_option (\<lambda>(v, n). (unat x - 128 + 128 * v, Suc n)) (read_uvarint k xs))"

definition std_AppendVarint :: "bytes \<Rightarrow> u64 \<Rightarrow> bytes" where
  "std_AppendVarint b v = b @ uvarint (unat v)"

definition std_SizeVarint :: "u64 \<Rightarrow> int" where
  "std_SizeVarint v = int (length (uvarint (unat v)))"

definition std_ConsumeVarint :: "bytes \<Rightarrow> u64 \<times> int" where
  "std_ConsumeVarint b =
     (case read_uvarint 10 b of
        None \<Rightarrow> (0, -1)
      | Some (v, n) \<Rightarrow> if v < 2 ^ 64 then (word_of_nat v, int n) else (0, -3))"

lemma uvarint_nonempty [simp]: "uvarint n \<noteq> []"
  by (subst uvarint.simps) simp

lemma length_uvarint: "n < 128 ^ Suc k \<Longrightarrow> length (uvarint n) \<le> Suc k"
proof (induction k arbitrary: n)
  case 0
  then show ?case by (simp add: uvarint.simps)
next
  case (Suc k)
  from Suc.prems have "n div 128 < 128 ^ Suc k" by (simp add: less_mult_imp_div_less)
  then have "length (uvarint (n div 128)) \<le> Suc k" by (rule Suc.IH)
  then show ?case by (subst uvarint.simps) simp
qed

lemma read_uvarint_uvarint:
  "length (uvarint n) \<le> k \<Longrightarrow> read_uvarint k (uvarint n @ r) = Some (n, length (uvarint n))"
proof (induction n arbitrary: k rule: uvarint.induct)
  case (1 n)
  then obtain k' where k: "k = Suc k'" by (cases k) auto
  show ?case
  proof (cases "n < 128")
    case True
    then show ?thesis by (simp add: k uvarint.simps [of n] unat_of_nat)
  next
    case False
    have "length (uvarint n) = Suc (length (uvarint (n div 128)))"
      using False by (simp add: uvarint.simps [of n])
    with "1.prems" k have "length (uvarint (n div 128)) \<le> k'" by simp
    with False "1.IH" have IH: "read_uvarint k' (uvarint (n div 128) @ r) =
      Some (n div 128, length (uvarint (n div 128)))" by simp
    have "unat (word_of_nat (n mod 128 + 128) :: byte) = n mod 128 + 128"
      by (simp add: unat_of_nat del: of_nat_add)
    with False IH show ?thesis by (simp add: k uvarint.simps [of n])
  qed
qed

lemma read_uvarint_bound: "read_uvarint k b = Some (v, n) \<Longrightarrow> 0 < n \<and> n \<le> length b"
  by (induction k b arbitrary: v n rule: read_uvarint.induct) (auto split: if_splits)

lemma std_consume_varint:
  "std_ConsumeVarint (uvarint (unat v) @ r) = (v, int (length (uvarint (unat v))))"
proof -
  have lt: "unat v < 2 ^ 64" using unsigned_less [of v, where ?'a = nat] by simp
  then have "length (uvarint (unat v)) \<le> 10" using length_uvarint [of "unat v" 9] by simp
  from read_uvarint_uvarint [OF this] lt show ?thesis
    by (simp add: std_ConsumeVarint_def)
qed

lemma std_varint_bound:
  "std_ConsumeVarint b = (v, n) \<Longrightarrow> n < 0 \<or> 0 < n \<and> n \<le> int (length b)"
  by (auto simp: std_ConsumeVarint_def split: option.splits prod.splits if_splits dest: read_uvarint_bound)

section \<open>Tags and length-delimited values\<close>

definition std_tag :: "int \<Rightarrow> int \<Rightarrow> u64" where
  "std_tag num wt = word_of_int (num * 8 + wt)"

definition std_AppendTag :: "bytes \<Rightarrow> int \<Rightarrow> int \<Rightarrow> bytes" where
  "std_AppendTag b num wt = std_AppendVarint b (std_tag num wt)"

definition std_SizeTag :: "int \<Rightarrow> int" where
  "std_SizeTag num = std_SizeVarint (std_tag num 0)"

definition std_ConsumeTag :: "bytes \<Rightarrow> int \<times> int \<times> int" where
  "std_ConsumeTag b =
     (case std_ConsumeVarint b of (v, n) \<Rightarrow>
        if n < 0 then (0, 0, n)
        else let num = uint v div 8
             in if num < 1 \<or> 2 ^ 31 \<le> num then (0, 0, -2) else (num, uint v mod 8, n))"

definition std_AppendBytes :: "bytes \<Rightarrow> bytes \<Rightarrow> bytes" where
  "std_AppendBytes b bs = std_AppendVarint b (word_of_nat (length bs)) @ bs"

definition std_SizeBytes :: "int \<Rightarrow> int" where
  "std_SizeBytes n = std_SizeVarint (word_of_int n) + n"

definition std_ConsumeBytes :: "bytes \<Rightarrow> bytes \<times> int" where
  "std_ConsumeBytes b =
     (case std_ConsumeVarint b of (m, n) \<Rightarrow>
        if n < 0 then ([], n)
        else let rest = drop (nat n) b
             in if length rest < unat m then ([], -1) else (take (unat m) rest, n + int (unat m)))"

text \<open>The length of a value that is not a group, and the groups with their nesting.\<close>

definition std_scalar :: "int \<Rightarrow> bytes \<Rightarrow> int" where
  "std_scalar wt b =
     (if wt = 0 then snd (std_ConsumeVarint b)
      else if wt = 1 then (if length b < 8 then -1 else 8)
      else if wt = 2 then snd (std_ConsumeBytes b)
      else if wt = 5 then (if length b < 4 then -1 else 4)
      else if wt = 4 then -5 else -6)"

fun std_group :: "nat \<Rightarrow> int list \<Rightarrow> bytes \<Rightarrow> int option" where
  "std_group 0 gs b = None"
| "std_group (Suc fuel) [] b = Some 0"
| "std_group (Suc fuel) (g # gs) b =
     (case std_ConsumeTag b of (num, wt, n) \<Rightarrow>
        if n < 0 then None
        else let b' = drop (nat n) b in
          if wt = 4 then (if num = g then map_option (\<lambda>k. n + k) (std_group fuel gs b') else None)
          else if wt = 3 then map_option (\<lambda>k. n + k) (std_group fuel (num # g # gs) b')
          else let m = std_scalar wt b' in
            if m < 0 then None
            else map_option (\<lambda>k. n + m + k) (std_group fuel (g # gs) (drop (nat m) b')))"

definition std_ConsumeFieldValue :: "int \<Rightarrow> int \<Rightarrow> bytes \<Rightarrow> int" where
  "std_ConsumeFieldValue num wt b =
     (if wt = 3 then (case std_group (Suc (Suc (length b))) [num] b of None \<Rightarrow> -5 | Some n \<Rightarrow> n)
      else std_scalar wt b)"

definition std_wire :: protowire where
  "std_wire = \<lparr>
     AppendTag = std_AppendTag, AppendVarint = std_AppendVarint, AppendBytes = std_AppendBytes,
     AppendString = (\<lambda>b s. std_AppendBytes b (bytes_of s)),
     SizeTag = std_SizeTag, SizeVarint = std_SizeVarint, SizeBytes = std_SizeBytes,
     ConsumeTag = std_ConsumeTag, ConsumeVarint = std_ConsumeVarint, ConsumeBytes = std_ConsumeBytes,
     ConsumeString = (\<lambda>b. case std_ConsumeBytes b of (v, n) \<Rightarrow> (string_of v, n)),
     ConsumeFieldValue = std_ConsumeFieldValue \<rparr>"

lemma uint_tag: "valid_tag num wt \<Longrightarrow> uint (std_tag num wt) = num * 8 + wt"
  by (auto simp: valid_tag_def std_tag_def uint_word_of_int simp del: of_int_add of_int_mult
      intro!: mod_pos_pos_trivial)

lemma unat_tag: "valid_tag num wt \<Longrightarrow> unat (std_tag num wt) = nat (num * 8 + wt)"
  by (metis uint_tag unat_eq_nat_uint)

lemma length_uvarint_tag: "t < 8 \<Longrightarrow> length (uvarint (m * 8 + t)) = length (uvarint (m * 8))"
proof -
  assume t: "t < 8"
  have "(m * 8 + t) div 128 = m * 8 div 128"
    using t div_mult2_eq [of "m * 8 + t" 8 16] div_mult2_eq [of "m * 8" 8 16] by simp
  moreover have "m * 8 + t < 128 \<longleftrightarrow> m * 8 < 128" using t by (cases "m < 16") auto
  ultimately show ?thesis by (simp add: uvarint.simps [of "m * 8 + t"] uvarint.simps [of "m * 8"])
qed

lemma std_size_tag: "valid_tag num wt \<Longrightarrow> std_SizeTag num = int (length (std_AppendTag [] num wt))"
proof -
  assume v: "valid_tag num wt"
  then have v0: "valid_tag num 0" by (simp add: valid_tag_def)
  have "nat (num * 8 + wt) = nat num * 8 + nat wt" "nat (num * 8 + 0) = nat num * 8" "nat wt < 8"
    using v by (auto simp: valid_tag_def nat_add_distrib nat_mult_distrib)
  with length_uvarint_tag [of "nat wt" "nat num"] show ?thesis
    using unat_tag [OF v] unat_tag [OF v0]
    by (simp add: std_SizeTag_def std_SizeVarint_def std_AppendTag_def std_AppendVarint_def)
qed

lemma std_consume_tag:
  assumes "valid_tag num wt"
  shows "std_ConsumeTag (std_AppendTag [] num wt @ r) = (num, wt, int (length (std_AppendTag [] num wt)))"
proof -
  have "(num * 8 + wt) div 8 = num" "(num * 8 + wt) mod 8 = wt" "1 \<le> num" "num < 2 ^ 31"
    using assms by (auto simp: valid_tag_def)
  then show ?thesis
    by (simp add: std_ConsumeTag_def std_AppendTag_def std_AppendVarint_def std_consume_varint
        uint_tag [OF assms])
qed

lemma std_tag_bound:
  "std_ConsumeTag b = (num, wt, n) \<Longrightarrow> n < 0 \<or> 0 < n \<and> n \<le> int (length b)"
  using std_varint_bound [of b]
  by (auto simp: std_ConsumeTag_def Let_def split: prod.splits if_splits)

lemma unat_length: "go_len bs \<Longrightarrow> unat (word_of_nat (length bs) :: u64) = length bs"
  by (simp add: go_len_def unat_of_nat)

lemma std_consume_bytes:
  "go_len bs \<Longrightarrow>
   std_ConsumeBytes (std_AppendBytes [] bs @ r) = (bs, int (length (std_AppendBytes [] bs)))"
  using std_consume_varint [of "word_of_nat (length bs)" "bs @ r"]
  by (simp add: std_ConsumeBytes_def std_AppendBytes_def std_AppendVarint_def unat_length)

lemma std_bytes_bound: "std_ConsumeBytes b = (bs, n) \<Longrightarrow> n \<le> int (length b)"
  using std_varint_bound [of b]
  by (auto simp: std_ConsumeBytes_def Let_def simp del: of_nat_unat split: prod.splits if_splits)

lemma std_size_bytes: "go_len bs \<Longrightarrow> std_SizeBytes (int (length bs)) = int (length (std_AppendBytes [] bs))"
  by (simp add: std_SizeBytes_def std_AppendBytes_def std_SizeVarint_def std_AppendVarint_def)

lemma std_scalar_bound: "std_scalar wt b \<le> int (length b)"
  using std_varint_bound [of b] std_bytes_bound [of b]
  by (cases "std_ConsumeVarint b"; cases "std_ConsumeBytes b") (auto simp: std_scalar_def)

lemma std_group_bound: "std_group fuel gs b = Some k \<Longrightarrow> 0 \<le> k \<and> k \<le> int (length b)"
proof (induction fuel arbitrary: gs b k)
  case (Suc fuel)
  show ?case
  proof (cases gs)
    case (Cons g gs')
    obtain num wt n where t: "std_ConsumeTag b = (num, wt, n)" by (cases "std_ConsumeTag b") auto
    have n: "n \<ge> 0 \<Longrightarrow> 0 < n \<and> n \<le> int (length b)" using std_tag_bound [OF t] by auto
    have sc: "std_scalar wt (drop (nat n) b) \<le> int (length (drop (nat n) b))" by (rule std_scalar_bound)
    from Suc.prems Cons t n sc show ?thesis
      by (auto simp: Let_def of_nat_diff split: if_splits dest!: Suc.IH)
  qed (use Suc.prems in simp)
qed simp

lemma std_value_bound: "std_ConsumeFieldValue num wt b \<le> int (length b)"
  using std_scalar_bound [of wt b] std_group_bound [of "Suc (Suc (length b))" "[num]" b]
  by (auto simp: std_ConsumeFieldValue_def split: option.splits)

text \<open>The laws, instantiated: every assumption of \<open>wire_format\<close> is one of the lemmas above.\<close>

interpretation std: wire_format std_wire
proof
  show "AppendTag std_wire b num wt = b @ AppendTag std_wire [] num wt" for b num wt
    by (simp add: std_wire_def std_AppendTag_def std_AppendVarint_def)
  show "AppendVarint std_wire b v = b @ AppendVarint std_wire [] v" for b v
    by (simp add: std_wire_def std_AppendVarint_def)
  show "AppendBytes std_wire b bs = b @ AppendBytes std_wire [] bs" for b bs
    by (simp add: std_wire_def std_AppendBytes_def std_AppendVarint_def)
  show "ConsumeVarint std_wire (AppendVarint std_wire [] v @ r)
      = (v, int (length (AppendVarint std_wire [] v)))" for v r
    by (simp add: std_wire_def std_AppendVarint_def std_consume_varint)
  show "ConsumeVarint std_wire b = (v, n) \<Longrightarrow> n \<le> int (length b)" for b v n
    by (auto simp: std_wire_def dest: std_varint_bound)
  show "ConsumeFieldValue std_wire num VarintType (AppendVarint std_wire [] v @ r)
      = int (length (AppendVarint std_wire [] v))" for num v r
    by (simp add: std_wire_def std_ConsumeFieldValue_def std_scalar_def std_AppendVarint_def
        std_consume_varint)
  show "go_len bs \<Longrightarrow> ConsumeFieldValue std_wire num BytesType (AppendBytes std_wire [] bs @ r)
      = int (length (AppendBytes std_wire [] bs))" for bs num r
    by (simp add: std_wire_def std_ConsumeFieldValue_def std_scalar_def std_consume_bytes)
qed (auto simp: std_wire_def std_size_tag std_size_bytes std_consume_tag std_consume_bytes
    std_value_bound std_SizeVarint_def std_AppendVarint_def dest: std_tag_bound std_bytes_bound)

end
