(* ===== verification/Types_Pb.thy ===== *)
theory Types_Pb
  imports Wire_Std
begin

text \<open>
  \<^verbatim>\<open>mychain/x/taskreg/types/types.pb.go\<close> and \<^verbatim>\<open>genesis.pb.go\<close>: the stored \<open>Task\<close>, its status
  enumeration and the genesis state, with their encoders, sizes and decoders, over the
  interface of theory \<open>Wire\<close>. An encoder's \<^verbatim>\<open>error\<close> result is a sum; the decoders merge into the
  message they are called on, as the generated methods do.
\<close>

section \<open>TaskStatus\<close>

text \<open>A Go enumeration is its integer type: a decoded status may be any \<^verbatim>\<open>int32\<close>.\<close>

type_synonym TaskStatus = i32

definition TASK_STATUS_UNSPECIFIED :: TaskStatus where "TASK_STATUS_UNSPECIFIED = 0"
definition TASK_STATUS_OPEN :: TaskStatus where "TASK_STATUS_OPEN = 1"
definition TASK_STATUS_ASSIGNED :: TaskStatus where "TASK_STATUS_ASSIGNED = 2"
definition TASK_STATUS_COMPLETED :: TaskStatus where "TASK_STATUS_COMPLETED = 3"

lemmas status_defs = TASK_STATUS_UNSPECIFIED_def TASK_STATUS_OPEN_def TASK_STATUS_ASSIGNED_def
  TASK_STATUS_COMPLETED_def

lemma status_distinct [simp]:
  "TASK_STATUS_OPEN \<noteq> TASK_STATUS_ASSIGNED" "TASK_STATUS_ASSIGNED \<noteq> TASK_STATUS_OPEN"
  "TASK_STATUS_OPEN \<noteq> TASK_STATUS_COMPLETED" "TASK_STATUS_COMPLETED \<noteq> TASK_STATUS_OPEN"
  "TASK_STATUS_ASSIGNED \<noteq> TASK_STATUS_COMPLETED" "TASK_STATUS_COMPLETED \<noteq> TASK_STATUS_ASSIGNED"
  by (simp_all add: status_defs)

definition TaskStatus_name :: "(i32 \<times> string) list" where
  "TaskStatus_name =
     [(0, ''TASK_STATUS_UNSPECIFIED''), (1, ''TASK_STATUS_OPEN''), (2, ''TASK_STATUS_ASSIGNED''),
      (3, ''TASK_STATUS_COMPLETED'')]"

definition TaskStatus_value :: "(string \<times> i32) list" where
  "TaskStatus_value =
     [(''TASK_STATUS_UNSPECIFIED'', 0), (''TASK_STATUS_OPEN'', 1), (''TASK_STATUS_ASSIGNED'', 2),
      (''TASK_STATUS_COMPLETED'', 3)]"

lemma TaskStatus_value_name: "map_of TaskStatus_value s = Some v \<longleftrightarrow> map_of TaskStatus_name v = Some s"
  by (auto simp: TaskStatus_value_def TaskStatus_name_def)

section \<open>Task\<close>

record Task =
  task_Id :: u64
  task_Title :: string
  task_Description :: string
  task_Creator :: string
  task_Assignee :: string
  task_Status :: TaskStatus

text \<open>The zero value \<^verbatim>\<open>Task{}\<close>, to which \<^verbatim>\<open>Reset\<close> sets the receiver.\<close>

definition zero_task :: Task where
  "zero_task = \<lparr>task_Id = 0, task_Title = [], task_Description = [], task_Creator = [],
     task_Assignee = [], task_Status = 0\<rparr>"

definition Task_String :: "Task \<Rightarrow> string" where
  "Task_String m = ''Task{id:'' @ fmt_d (unat (task_Id m)) @ '',title:'' @ task_Title m @ ''}''"

definition Task_Marshal :: "protowire \<Rightarrow> Task \<Rightarrow> string + bytes" where
  "Task_Marshal pw m =
     (let b = [];
          b = appendUint64 pw b 1 (task_Id m);
          b = appendString pw b 2 (task_Title m);
          b = appendString pw b 3 (task_Description m);
          b = appendString pw b 4 (task_Creator m);
          b = appendString pw b 5 (task_Assignee m);
          b = (if task_Status m \<noteq> 0
               then let b = AppendTag pw b 6 VarintType
                    in AppendVarint pw b (scast (task_Status m))
               else b)
      in Inr b)"

definition Task_MarshalTo :: "protowire \<Rightarrow> Task \<Rightarrow> bytes \<Rightarrow> bytes \<times> (string + int)" where
  "Task_MarshalTo pw m dAtA = marshal_to (Task_Marshal pw m) dAtA"

definition Task_MarshalToSizedBuffer ::
  "protowire \<Rightarrow> Task \<Rightarrow> bytes \<Rightarrow> (bytes \<times> (string + int)) option" where
  "Task_MarshalToSizedBuffer pw m dAtA = marshal_to_sized (Task_Marshal pw m) dAtA"

definition Task_Size :: "protowire \<Rightarrow> Task \<Rightarrow> int" where
  "Task_Size pw m =
     (let n = sizeUint64 pw 1 (task_Id m);
          n = n + sizeString pw 2 (task_Title m);
          n = n + sizeString pw 3 (task_Description m);
          n = n + sizeString pw 4 (task_Creator m);
          n = n + sizeString pw 5 (task_Assignee m)
      in if task_Status m \<noteq> 0
         then n + (SizeTag pw 6 + SizeVarint pw (scast (task_Status m)))
         else n)"

text \<open>The \<^verbatim>\<open>switch num\<close> of \<^verbatim>\<open>Unmarshal\<close>; \<^verbatim>\<open>TaskStatus(v)\<close> keeps the low 32 bits.\<close>

definition Task_field :: "protowire \<Rightarrow> int \<Rightarrow> int \<Rightarrow> bytes \<Rightarrow> Task \<Rightarrow> Task field_result" where
  "Task_field pw num wt b m =
     (if num = 1 then varint_case pw (\<lambda>v. m\<lparr>task_Id := v\<rparr>) m b
      else if num = 2 then string_case pw (\<lambda>v. m\<lparr>task_Title := v\<rparr>) m b
      else if num = 3 then string_case pw (\<lambda>v. m\<lparr>task_Description := v\<rparr>) m b
      else if num = 4 then string_case pw (\<lambda>v. m\<lparr>task_Creator := v\<rparr>) m b
      else if num = 5 then string_case pw (\<lambda>v. m\<lparr>task_Assignee := v\<rparr>) m b
      else if num = 6 then varint_case pw (\<lambda>v. m\<lparr>task_Status := ucast v\<rparr>) m b
      else default_case pw wt m b)"

definition Task_Unmarshal :: "protowire \<Rightarrow> Task \<Rightarrow> bytes \<Rightarrow> (Task \<times> string option) option" where
  "Task_Unmarshal pw m b = unmarshal_loop pw (Task_field pw) m b"

subsection \<open>The encoding as a concatenation of fields\<close>

text \<open>Every string of a task held by the program is a Go string.\<close>

definition go_task :: "Task \<Rightarrow> bool" where
  "go_task t \<longleftrightarrow> go_len (task_Title t) \<and> go_len (task_Description t) \<and> go_len (task_Creator t)
     \<and> go_len (task_Assignee t)"

definition Task_wire :: "protowire \<Rightarrow> Task \<Rightarrow> bytes" where
  "Task_wire pw t =
     appendUint64 pw [] 1 (task_Id t) @ appendString pw [] 2 (task_Title t)
     @ appendString pw [] 3 (task_Description t) @ appendString pw [] 4 (task_Creator t)
     @ appendString pw [] 5 (task_Assignee t) @ appendUint64 pw [] 6 (scast (task_Status t))"

text \<open>Decoding the encoding of \<open>t\<close> into \<open>m\<close>: the fields that differ from the zero value win.\<close>

definition Task_merge :: "Task \<Rightarrow> Task \<Rightarrow> Task" where
  "Task_merge m t =
     m\<lparr>task_Id := (if task_Id t = 0 then task_Id m else task_Id t),
      task_Title := (if task_Title t = [] then task_Title m else task_Title t),
      task_Description := (if task_Description t = [] then task_Description m else task_Description t),
      task_Creator := (if task_Creator t = [] then task_Creator m else task_Creator t),
      task_Assignee := (if task_Assignee t = [] then task_Assignee m else task_Assignee t),
      task_Status := (if task_Status t = 0 then task_Status m else task_Status t)\<rparr>"

lemma Task_merge_zero [simp]: "Task_merge zero_task t = t"
  by (simp add: Task_merge_def zero_task_def)

lemma ucast_scast_status [simp]: "ucast (scast (s :: i32) :: u64) = s"
  by (rule bit_word_eqI) (auto simp: bit_simps)

lemma scast_status_eq_0 [simp]: "(scast (s :: i32) :: u64) = 0 \<longleftrightarrow> s = 0"
  by (metis ucast_scast_status signed_0 unsigned_0)

context wire_format
begin

lemma Task_Marshal_eq [wire_simps]: "Task_Marshal pw t = Inr (Task_wire pw t)"
  by (simp add: Task_Marshal_def Task_wire_def Let_def appendUint64_eq [of _ 6] wire_simps)

lemma length_Task_wire: "go_task t \<Longrightarrow> int (length (Task_wire pw t)) = Task_Size pw t"
  by (simp add: Task_wire_def Task_Size_def Let_def go_task_def sizeUint64_eq sizeString_eq
      appendUint64_eq [of _ 6] size_tag [of 6 VarintType] size_varint)

lemma field_total_Task: "field_total (Task_field pw)"
  by (simp add: field_total_def Task_field_def)

lemma Task_Unmarshal_total: "Task_Unmarshal pw m b \<noteq> None"
  by (simp add: Task_Unmarshal_def unmarshal_loop_total field_total_Task del: not_None_eq)

lemma loop_Task_fields [wire_simps]:
  "unmarshal_loop pw (Task_field pw) m (appendUint64 pw [] 1 v @ r) =
   unmarshal_loop pw (Task_field pw) (m\<lparr>task_Id := if v = 0 then task_Id m else v\<rparr>) r"
  "go_len s \<Longrightarrow> unmarshal_loop pw (Task_field pw) m (appendString pw [] 2 s @ r) =
   unmarshal_loop pw (Task_field pw) (m\<lparr>task_Title := if s = [] then task_Title m else s\<rparr>) r"
  "go_len s \<Longrightarrow> unmarshal_loop pw (Task_field pw) m (appendString pw [] 3 s @ r) =
   unmarshal_loop pw (Task_field pw) (m\<lparr>task_Description := if s = [] then task_Description m else s\<rparr>) r"
  "go_len s \<Longrightarrow> unmarshal_loop pw (Task_field pw) m (appendString pw [] 4 s @ r) =
   unmarshal_loop pw (Task_field pw) (m\<lparr>task_Creator := if s = [] then task_Creator m else s\<rparr>) r"
  "go_len s \<Longrightarrow> unmarshal_loop pw (Task_field pw) m (appendString pw [] 5 s @ r) =
   unmarshal_loop pw (Task_field pw) (m\<lparr>task_Assignee := if s = [] then task_Assignee m else s\<rparr>) r"
  "unmarshal_loop pw (Task_field pw) m (appendUint64 pw [] 6 v @ r) =
   unmarshal_loop pw (Task_field pw) (m\<lparr>task_Status := if v = 0 then task_Status m else ucast v\<rparr>) r"
  using loop_uint64 [where num = 1 and upd = "\<lambda>v. m\<lparr>task_Id := v\<rparr>" and fld = "Task_field pw"]
    loop_string [where num = 2 and upd = "\<lambda>v. m\<lparr>task_Title := v\<rparr>" and fld = "Task_field pw"]
    loop_string [where num = 3 and upd = "\<lambda>v. m\<lparr>task_Description := v\<rparr>" and fld = "Task_field pw"]
    loop_string [where num = 4 and upd = "\<lambda>v. m\<lparr>task_Creator := v\<rparr>" and fld = "Task_field pw"]
    loop_string [where num = 5 and upd = "\<lambda>v. m\<lparr>task_Assignee := v\<rparr>" and fld = "Task_field pw"]
    loop_uint64 [where num = 6 and upd = "\<lambda>v. m\<lparr>task_Status := ucast v\<rparr>" and fld = "Task_field pw"]
  by (simp_all add: Task_field_def)

lemma loop_Task_wire:
  "go_task t \<Longrightarrow> unmarshal_loop pw (Task_field pw) m (Task_wire pw t @ r) =
    unmarshal_loop pw (Task_field pw) (Task_merge m t) r"
  by (simp add: Task_wire_def go_task_def wire_simps Task_merge_def split del: if_split cong: if_cong)

lemma Task_Unmarshal_wire:
  "go_task t \<Longrightarrow> Task_Unmarshal pw m (Task_wire pw t) = Some (Task_merge m t, None)"
  using loop_Task_wire [of t m "[]"] by (simp add: Task_Unmarshal_def)

end

section \<open>GenesisState\<close>

record GenesisState =
  gs_Tasks :: "Task list"
  gs_NextTaskId :: u64

definition zero_genesis :: GenesisState where
  "zero_genesis = \<lparr>gs_Tasks = [], gs_NextTaskId = 0\<rparr>"

text \<open>The getters are called on pointers that may be nil.\<close>

definition GenesisState_GetTasks :: "GenesisState option \<Rightarrow> Task list" where
  "GenesisState_GetTasks m = (case m of Some m \<Rightarrow> gs_Tasks m | None \<Rightarrow> [])"

definition GenesisState_GetNextTaskId :: "GenesisState option \<Rightarrow> u64" where
  "GenesisState_GetNextTaskId m = (case m of Some m \<Rightarrow> gs_NextTaskId m | None \<Rightarrow> 0)"

text \<open>The \<^verbatim>\<open>for i := range m.Tasks\<close> loop, which \<^verbatim>\<open>QueryListTasksResponse\<close> shares.\<close>

fun append_tasks :: "protowire \<Rightarrow> bytes \<Rightarrow> Task list \<Rightarrow> string + bytes" where
  "append_tasks pw b [] = Inr b"
| "append_tasks pw b (t # ts) =
     (case Task_Marshal pw t of
        Inl err \<Rightarrow> Inl err
      | Inr taskBz \<Rightarrow>
          let b = AppendTag pw b 1 BytesType;
              b = AppendBytes pw b taskBz
          in append_tasks pw b ts)"

fun size_tasks :: "protowire \<Rightarrow> int \<Rightarrow> Task list \<Rightarrow> int" where
  "size_tasks pw n [] = n"
| "size_tasks pw n (t # ts) =
     (let taskSize = Task_Size pw t
      in size_tasks pw (n + (SizeTag pw 1 + SizeBytes pw taskSize)) ts)"

definition GenesisState_Marshal :: "protowire \<Rightarrow> GenesisState \<Rightarrow> string + bytes" where
  "GenesisState_Marshal pw m =
     (case append_tasks pw [] (gs_Tasks m) of
        Inl err \<Rightarrow> Inl err
      | Inr b \<Rightarrow> Inr (appendUint64 pw b 2 (gs_NextTaskId m)))"

definition GenesisState_MarshalTo :: "protowire \<Rightarrow> GenesisState \<Rightarrow> bytes \<Rightarrow> bytes \<times> (string + int)" where
  "GenesisState_MarshalTo pw m dAtA = marshal_to (GenesisState_Marshal pw m) dAtA"

definition GenesisState_MarshalToSizedBuffer ::
  "protowire \<Rightarrow> GenesisState \<Rightarrow> bytes \<Rightarrow> (bytes \<times> (string + int)) option" where
  "GenesisState_MarshalToSizedBuffer pw m dAtA = marshal_to_sized (GenesisState_Marshal pw m) dAtA"

definition GenesisState_Size :: "protowire \<Rightarrow> GenesisState \<Rightarrow> int" where
  "GenesisState_Size pw m = size_tasks pw 0 (gs_Tasks m) + sizeUint64 pw 2 (gs_NextTaskId m)"

text \<open>An embedded task is decoded into a fresh \<^verbatim>\<open>var task Task\<close>, then appended.\<close>

definition append_task_case :: "protowire \<Rightarrow> (Task \<Rightarrow> 'm) \<Rightarrow> 'm \<Rightarrow> bytes \<Rightarrow> ('m \<times> string option) option" where
  "append_task_case pw upd m bz =
     map_option (\<lambda>(task, err). case err of Some e \<Rightarrow> (m, Some e) | None \<Rightarrow> (upd task, None))
       (Task_Unmarshal pw zero_task bz)"

definition GenesisState_field ::
  "protowire \<Rightarrow> int \<Rightarrow> int \<Rightarrow> bytes \<Rightarrow> GenesisState \<Rightarrow> GenesisState field_result" where
  "GenesisState_field pw num wt b m =
     (if num = 1 then
        message_case pw (append_task_case pw (\<lambda>task. m\<lparr>gs_Tasks := gs_Tasks m @ [task]\<rparr>) m) m b
      else if num = 2 then varint_case pw (\<lambda>v. m\<lparr>gs_NextTaskId := v\<rparr>) m b
      else default_case pw wt m b)"

definition GenesisState_Unmarshal ::
  "protowire \<Rightarrow> GenesisState \<Rightarrow> bytes \<Rightarrow> (GenesisState \<times> string option) option" where
  "GenesisState_Unmarshal pw m b = unmarshal_loop pw (GenesisState_field pw) m b"

definition go_genesis :: "protowire \<Rightarrow> GenesisState \<Rightarrow> bool" where
  "go_genesis pw gs \<longleftrightarrow> (\<forall>t \<in> set (gs_Tasks gs). go_task t \<and> go_len (Task_wire pw t))"

definition tasks_wire :: "protowire \<Rightarrow> Task list \<Rightarrow> bytes" where
  "tasks_wire pw ts =
     concat (map (\<lambda>t. AppendTag pw [] 1 BytesType @ AppendBytes pw [] (Task_wire pw t)) ts)"

context wire_format
begin

lemma append_tasks_eq [wire_simps]: "append_tasks pw b ts = Inr (b @ tasks_wire pw ts)"
  by (induction ts arbitrary: b) (simp_all add: tasks_wire_def wire_simps Let_def)

lemma GenesisState_Marshal_eq [wire_simps]:
  "GenesisState_Marshal pw gs =
   Inr (tasks_wire pw (gs_Tasks gs) @ appendUint64 pw [] 2 (gs_NextTaskId gs))"
  by (simp add: GenesisState_Marshal_def wire_simps appendUint64_eq [of "tasks_wire pw _"]
      appendUint64_eq [of "[]"])

lemma size_tasks_eq:
  "\<forall>t \<in> set ts. go_task t \<and> go_len (Task_wire pw t) \<Longrightarrow>
   size_tasks pw n ts = n + int (length (tasks_wire pw ts))"
  by (induction ts arbitrary: n)
    (simp_all add: tasks_wire_def size_tag [of 1 BytesType] size_bytes flip: length_Task_wire)

lemma GenesisState_Size_eq:
  "go_genesis pw gs \<Longrightarrow> GenesisState_Marshal pw gs = Inr bz \<Longrightarrow>
   GenesisState_Size pw gs = int (length bz)"
  by (auto simp: GenesisState_Size_def GenesisState_Marshal_eq size_tasks_eq sizeUint64_eq go_genesis_def)

lemma append_task_case_wire [simp]:
  "go_task t \<Longrightarrow> append_task_case pw upd m (Task_wire pw t) = Some (upd t, None)"
  by (simp add: append_task_case_def Task_Unmarshal_wire)

lemma append_task_case_total: "append_task_case pw upd m bz \<noteq> None"
  using Task_Unmarshal_total [of zero_task bz] by (auto simp: append_task_case_def)

lemma field_total_GenesisState: "field_total (GenesisState_field pw)"
  by (simp add: field_total_def GenesisState_field_def append_task_case_total del: not_None_eq)

lemma loop_GenesisState_tasks:
  "\<forall>t \<in> set ts. go_task t \<and> go_len (Task_wire pw t) \<Longrightarrow>
   unmarshal_loop pw (GenesisState_field pw) m (tasks_wire pw ts @ r) =
   unmarshal_loop pw (GenesisState_field pw) (m\<lparr>gs_Tasks := gs_Tasks m @ ts\<rparr>) r"
proof (induction ts arbitrary: m)
  case Nil
  then show ?case by (simp add: tasks_wire_def)
next
  case (Cons t ts)
  then have "unmarshal_loop pw (GenesisState_field pw) m (tasks_wire pw (t # ts) @ r) =
    unmarshal_loop pw (GenesisState_field pw) (m\<lparr>gs_Tasks := gs_Tasks m @ [t]\<rparr>) (tasks_wire pw ts @ r)"
    using loop_message [where num = 1 and fld = "GenesisState_field pw" and m = m and bz = "Task_wire pw t"
        and r = "tasks_wire pw ts @ r"
        and dec = "append_task_case pw (\<lambda>task. m\<lparr>gs_Tasks := gs_Tasks m @ [task]\<rparr>) m"]
    by (simp add: GenesisState_field_def tasks_wire_def)
  with Cons show ?case by simp
qed

lemma GenesisState_Unmarshal_wire:
  assumes "go_genesis pw gs" and "GenesisState_Marshal pw gs = Inr bz"
  shows "GenesisState_Unmarshal pw zero_genesis bz = Some (gs, None)"
proof -
  have "unmarshal_loop pw (GenesisState_field pw) m (appendUint64 pw [] 2 v @ []) =
    unmarshal_loop pw (GenesisState_field pw) (if v = 0 then m else m\<lparr>gs_NextTaskId := v\<rparr>) []" for m v
    by (rule loop_uint64) (simp_all add: GenesisState_field_def)
  with assms show ?thesis
    by (auto simp: GenesisState_Unmarshal_def GenesisState_Marshal_eq go_genesis_def zero_genesis_def
        loop_GenesisState_tasks)
qed

end

end
