(* ===== verification/Tx_Pb.thy ===== *)
theory Tx_Pb
  imports Types_Pb
begin

text \<open>
  \<^verbatim>\<open>mychain/x/taskreg/types/tx.pb.go\<close>: the three transaction messages of the module and their
  responses. As for \<open>Task\<close>, each message has its encoder, size and decoder over the interface of
  theory \<open>Wire\<close>, and the lemmas that every decoder returns, that the size is the length of the
  encoding and that decoding the encoding gives the message back.
\<close>

section \<open>MsgCreateTask\<close>

record MsgCreateTask =
  ct_Creator :: string
  ct_Title :: string
  ct_Description :: string

definition zero_MsgCreateTask :: MsgCreateTask where
  "zero_MsgCreateTask = \<lparr>ct_Creator = [], ct_Title = [], ct_Description = []\<rparr>"

definition MsgCreateTask_String :: "MsgCreateTask \<Rightarrow> string" where
  "MsgCreateTask_String m = ''MsgCreateTask{creator:'' @ ct_Creator m @ ''}''"

definition MsgCreateTask_Marshal :: "protowire \<Rightarrow> MsgCreateTask \<Rightarrow> string + bytes" where
  "MsgCreateTask_Marshal pw m =
     (let b = [];
          b = appendString pw b 1 (ct_Creator m);
          b = appendString pw b 2 (ct_Title m);
          b = appendString pw b 3 (ct_Description m)
      in Inr b)"

definition MsgCreateTask_MarshalTo ::
  "protowire \<Rightarrow> MsgCreateTask \<Rightarrow> bytes \<Rightarrow> bytes \<times> (string + int)" where
  "MsgCreateTask_MarshalTo pw m dAtA = marshal_to (MsgCreateTask_Marshal pw m) dAtA"

definition MsgCreateTask_MarshalToSizedBuffer ::
  "protowire \<Rightarrow> MsgCreateTask \<Rightarrow> bytes \<Rightarrow> (bytes \<times> (string + int)) option" where
  "MsgCreateTask_MarshalToSizedBuffer pw m dAtA = marshal_to_sized (MsgCreateTask_Marshal pw m) dAtA"

definition MsgCreateTask_Size :: "protowire \<Rightarrow> MsgCreateTask \<Rightarrow> int" where
  "MsgCreateTask_Size pw m = sizeString pw 1 (ct_Creator m) + sizeString pw 2 (ct_Title m) + sizeString pw 3 (ct_Description m)"

definition MsgCreateTask_field ::
  "protowire \<Rightarrow> int \<Rightarrow> int \<Rightarrow> bytes \<Rightarrow> MsgCreateTask \<Rightarrow> MsgCreateTask field_result" where
  "MsgCreateTask_field pw num wt b m =
     (if num = 1 then string_case pw (\<lambda>v. m\<lparr>ct_Creator := v\<rparr>) m b
      else if num = 2 then string_case pw (\<lambda>v. m\<lparr>ct_Title := v\<rparr>) m b
      else if num = 3 then string_case pw (\<lambda>v. m\<lparr>ct_Description := v\<rparr>) m b
      else default_case pw wt m b)"

definition MsgCreateTask_Unmarshal ::
  "protowire \<Rightarrow> MsgCreateTask \<Rightarrow> bytes \<Rightarrow> (MsgCreateTask \<times> string option) option" where
  "MsgCreateTask_Unmarshal pw m b = unmarshal_loop pw (MsgCreateTask_field pw) m b"

definition go_MsgCreateTask :: "MsgCreateTask \<Rightarrow> bool" where
  "go_MsgCreateTask m \<longleftrightarrow> go_len (ct_Creator m) \<and> go_len (ct_Title m) \<and> go_len (ct_Description m)"

context wire_format
begin

lemma MsgCreateTask_Marshal_eq [wire_simps]:
  "MsgCreateTask_Marshal pw m =
   Inr (appendString pw [] 1 (ct_Creator m) @ appendString pw [] 2 (ct_Title m) @ appendString pw [] 3 (ct_Description m))"
  by (simp add: MsgCreateTask_Marshal_def Let_def appendUint64_eq appendString_eq)

lemma MsgCreateTask_Size_eq:
  "go_MsgCreateTask m \<Longrightarrow> MsgCreateTask_Marshal pw m = Inr bz \<Longrightarrow> MsgCreateTask_Size pw m = int (length bz)"
  by (auto simp: MsgCreateTask_Marshal_eq MsgCreateTask_Size_def go_MsgCreateTask_def sizeUint64_eq sizeString_eq)

lemma field_total_MsgCreateTask: "field_total (MsgCreateTask_field pw)"
  by (simp add: field_total_def MsgCreateTask_field_def)

lemma loop_MsgCreateTask_fields [wire_simps]:
  "go_len s \<Longrightarrow> unmarshal_loop pw (MsgCreateTask_field pw) m (appendString pw [] 1 s @ r) =
   unmarshal_loop pw (MsgCreateTask_field pw) (m\<lparr>ct_Creator := if s = [] then ct_Creator m else s\<rparr>) r"
  "go_len s \<Longrightarrow> unmarshal_loop pw (MsgCreateTask_field pw) m (appendString pw [] 2 s @ r) =
   unmarshal_loop pw (MsgCreateTask_field pw) (m\<lparr>ct_Title := if s = [] then ct_Title m else s\<rparr>) r"
  "go_len s \<Longrightarrow> unmarshal_loop pw (MsgCreateTask_field pw) m (appendString pw [] 3 s @ r) =
   unmarshal_loop pw (MsgCreateTask_field pw) (m\<lparr>ct_Description := if s = [] then ct_Description m else s\<rparr>) r"
  using loop_string [where num = 1 and upd = "\<lambda>v. m\<lparr>ct_Creator := v\<rparr>" and fld = "MsgCreateTask_field pw"]
    loop_string [where num = 2 and upd = "\<lambda>v. m\<lparr>ct_Title := v\<rparr>" and fld = "MsgCreateTask_field pw"]
    loop_string [where num = 3 and upd = "\<lambda>v. m\<lparr>ct_Description := v\<rparr>" and fld = "MsgCreateTask_field pw"]
  by (simp_all add: MsgCreateTask_field_def)

lemma MsgCreateTask_Unmarshal_wire:
  assumes "go_MsgCreateTask m" and "MsgCreateTask_Marshal pw m = Inr bz"
  shows "MsgCreateTask_Unmarshal pw zero_MsgCreateTask bz = Some (m, None)"
  using assms loop_MsgCreateTask_fields(3) [where r = "[]"]
  by (auto simp: MsgCreateTask_Unmarshal_def MsgCreateTask_Marshal_eq go_MsgCreateTask_def wire_simps zero_MsgCreateTask_def)

end

section \<open>MsgCreateTaskResponse\<close>

record MsgCreateTaskResponse =
  ctr_Id :: u64

definition zero_MsgCreateTaskResponse :: MsgCreateTaskResponse where
  "zero_MsgCreateTaskResponse = \<lparr>ctr_Id = 0\<rparr>"

definition MsgCreateTaskResponse_String :: "MsgCreateTaskResponse \<Rightarrow> string" where
  "MsgCreateTaskResponse_String m = ''MsgCreateTaskResponse{id:'' @ fmt_d (unat (ctr_Id m)) @ ''}''"

definition MsgCreateTaskResponse_Marshal :: "protowire \<Rightarrow> MsgCreateTaskResponse \<Rightarrow> string + bytes" where
  "MsgCreateTaskResponse_Marshal pw m =
     (let b = [];
          b = appendUint64 pw b 1 (ctr_Id m)
      in Inr b)"

definition MsgCreateTaskResponse_MarshalTo ::
  "protowire \<Rightarrow> MsgCreateTaskResponse \<Rightarrow> bytes \<Rightarrow> bytes \<times> (string + int)" where
  "MsgCreateTaskResponse_MarshalTo pw m dAtA = marshal_to (MsgCreateTaskResponse_Marshal pw m) dAtA"

definition MsgCreateTaskResponse_MarshalToSizedBuffer ::
  "protowire \<Rightarrow> MsgCreateTaskResponse \<Rightarrow> bytes \<Rightarrow> (bytes \<times> (string + int)) option" where
  "MsgCreateTaskResponse_MarshalToSizedBuffer pw m dAtA = marshal_to_sized (MsgCreateTaskResponse_Marshal pw m) dAtA"

definition MsgCreateTaskResponse_Size :: "protowire \<Rightarrow> MsgCreateTaskResponse \<Rightarrow> int" where
  "MsgCreateTaskResponse_Size pw m = sizeUint64 pw 1 (ctr_Id m)"

definition MsgCreateTaskResponse_field ::
  "protowire \<Rightarrow> int \<Rightarrow> int \<Rightarrow> bytes \<Rightarrow> MsgCreateTaskResponse \<Rightarrow> MsgCreateTaskResponse field_result" where
  "MsgCreateTaskResponse_field pw num wt b m =
     (if num = 1 then varint_case pw (\<lambda>v. m\<lparr>ctr_Id := v\<rparr>) m b
      else default_case pw wt m b)"

definition MsgCreateTaskResponse_Unmarshal ::
  "protowire \<Rightarrow> MsgCreateTaskResponse \<Rightarrow> bytes \<Rightarrow> (MsgCreateTaskResponse \<times> string option) option" where
  "MsgCreateTaskResponse_Unmarshal pw m b = unmarshal_loop pw (MsgCreateTaskResponse_field pw) m b"

context wire_format
begin

lemma MsgCreateTaskResponse_Marshal_eq [wire_simps]:
  "MsgCreateTaskResponse_Marshal pw m =
   Inr (appendUint64 pw [] 1 (ctr_Id m))"
  by (simp add: MsgCreateTaskResponse_Marshal_def Let_def appendUint64_eq appendString_eq)

lemma MsgCreateTaskResponse_Size_eq:
  "MsgCreateTaskResponse_Marshal pw m = Inr bz \<Longrightarrow> MsgCreateTaskResponse_Size pw m = int (length bz)"
  by (auto simp: MsgCreateTaskResponse_Marshal_eq MsgCreateTaskResponse_Size_def sizeUint64_eq sizeString_eq)

lemma field_total_MsgCreateTaskResponse: "field_total (MsgCreateTaskResponse_field pw)"
  by (simp add: field_total_def MsgCreateTaskResponse_field_def)

lemma loop_MsgCreateTaskResponse_fields [wire_simps]:
  "unmarshal_loop pw (MsgCreateTaskResponse_field pw) m (appendUint64 pw [] 1 v @ r) =
   unmarshal_loop pw (MsgCreateTaskResponse_field pw) (m\<lparr>ctr_Id := if v = 0 then ctr_Id m else v\<rparr>) r"
  using loop_uint64 [where num = 1 and upd = "\<lambda>v. m\<lparr>ctr_Id := v\<rparr>" and fld = "MsgCreateTaskResponse_field pw"]
  by (simp_all add: MsgCreateTaskResponse_field_def)

lemma MsgCreateTaskResponse_Unmarshal_wire:
  assumes "MsgCreateTaskResponse_Marshal pw m = Inr bz"
  shows "MsgCreateTaskResponse_Unmarshal pw zero_MsgCreateTaskResponse bz = Some (m, None)"
  using assms loop_MsgCreateTaskResponse_fields(1) [where r = "[]"]
  by (auto simp: MsgCreateTaskResponse_Unmarshal_def MsgCreateTaskResponse_Marshal_eq wire_simps zero_MsgCreateTaskResponse_def)

end

section \<open>MsgAssignTask\<close>

record MsgAssignTask =
  at_Creator :: string
  at_TaskId :: u64
  at_Assignee :: string

definition zero_MsgAssignTask :: MsgAssignTask where
  "zero_MsgAssignTask = \<lparr>at_Creator = [], at_TaskId = 0, at_Assignee = []\<rparr>"

definition MsgAssignTask_String :: "MsgAssignTask \<Rightarrow> string" where
  "MsgAssignTask_String m = ''MsgAssignTask{creator:'' @ at_Creator m @ ''}''"

definition MsgAssignTask_Marshal :: "protowire \<Rightarrow> MsgAssignTask \<Rightarrow> string + bytes" where
  "MsgAssignTask_Marshal pw m =
     (let b = [];
          b = appendString pw b 1 (at_Creator m);
          b = appendUint64 pw b 2 (at_TaskId m);
          b = appendString pw b 3 (at_Assignee m)
      in Inr b)"

definition MsgAssignTask_MarshalTo ::
  "protowire \<Rightarrow> MsgAssignTask \<Rightarrow> bytes \<Rightarrow> bytes \<times> (string + int)" where
  "MsgAssignTask_MarshalTo pw m dAtA = marshal_to (MsgAssignTask_Marshal pw m) dAtA"

definition MsgAssignTask_MarshalToSizedBuffer ::
  "protowire \<Rightarrow> MsgAssignTask \<Rightarrow> bytes \<Rightarrow> (bytes \<times> (string + int)) option" where
  "MsgAssignTask_MarshalToSizedBuffer pw m dAtA = marshal_to_sized (MsgAssignTask_Marshal pw m) dAtA"

definition MsgAssignTask_Size :: "protowire \<Rightarrow> MsgAssignTask \<Rightarrow> int" where
  "MsgAssignTask_Size pw m = sizeString pw 1 (at_Creator m) + sizeUint64 pw 2 (at_TaskId m) + sizeString pw 3 (at_Assignee m)"

definition MsgAssignTask_field ::
  "protowire \<Rightarrow> int \<Rightarrow> int \<Rightarrow> bytes \<Rightarrow> MsgAssignTask \<Rightarrow> MsgAssignTask field_result" where
  "MsgAssignTask_field pw num wt b m =
     (if num = 1 then string_case pw (\<lambda>v. m\<lparr>at_Creator := v\<rparr>) m b
      else if num = 2 then varint_case pw (\<lambda>v. m\<lparr>at_TaskId := v\<rparr>) m b
      else if num = 3 then string_case pw (\<lambda>v. m\<lparr>at_Assignee := v\<rparr>) m b
      else default_case pw wt m b)"

definition MsgAssignTask_Unmarshal ::
  "protowire \<Rightarrow> MsgAssignTask \<Rightarrow> bytes \<Rightarrow> (MsgAssignTask \<times> string option) option" where
  "MsgAssignTask_Unmarshal pw m b = unmarshal_loop pw (MsgAssignTask_field pw) m b"

definition go_MsgAssignTask :: "MsgAssignTask \<Rightarrow> bool" where
  "go_MsgAssignTask m \<longleftrightarrow> go_len (at_Creator m) \<and> go_len (at_Assignee m)"

context wire_format
begin

lemma MsgAssignTask_Marshal_eq [wire_simps]:
  "MsgAssignTask_Marshal pw m =
   Inr (appendString pw [] 1 (at_Creator m) @ appendUint64 pw [] 2 (at_TaskId m) @ appendString pw [] 3 (at_Assignee m))"
  by (simp add: MsgAssignTask_Marshal_def Let_def appendUint64_eq appendString_eq)

lemma MsgAssignTask_Size_eq:
  "go_MsgAssignTask m \<Longrightarrow> MsgAssignTask_Marshal pw m = Inr bz \<Longrightarrow> MsgAssignTask_Size pw m = int (length bz)"
  by (auto simp: MsgAssignTask_Marshal_eq MsgAssignTask_Size_def go_MsgAssignTask_def sizeUint64_eq sizeString_eq)

lemma field_total_MsgAssignTask: "field_total (MsgAssignTask_field pw)"
  by (simp add: field_total_def MsgAssignTask_field_def)

lemma loop_MsgAssignTask_fields [wire_simps]:
  "go_len s \<Longrightarrow> unmarshal_loop pw (MsgAssignTask_field pw) m (appendString pw [] 1 s @ r) =
   unmarshal_loop pw (MsgAssignTask_field pw) (m\<lparr>at_Creator := if s = [] then at_Creator m else s\<rparr>) r"
  "unmarshal_loop pw (MsgAssignTask_field pw) m (appendUint64 pw [] 2 v @ r) =
   unmarshal_loop pw (MsgAssignTask_field pw) (m\<lparr>at_TaskId := if v = 0 then at_TaskId m else v\<rparr>) r"
  "go_len s \<Longrightarrow> unmarshal_loop pw (MsgAssignTask_field pw) m (appendString pw [] 3 s @ r) =
   unmarshal_loop pw (MsgAssignTask_field pw) (m\<lparr>at_Assignee := if s = [] then at_Assignee m else s\<rparr>) r"
  using loop_string [where num = 1 and upd = "\<lambda>v. m\<lparr>at_Creator := v\<rparr>" and fld = "MsgAssignTask_field pw"]
    loop_uint64 [where num = 2 and upd = "\<lambda>v. m\<lparr>at_TaskId := v\<rparr>" and fld = "MsgAssignTask_field pw"]
    loop_string [where num = 3 and upd = "\<lambda>v. m\<lparr>at_Assignee := v\<rparr>" and fld = "MsgAssignTask_field pw"]
  by (simp_all add: MsgAssignTask_field_def)

lemma MsgAssignTask_Unmarshal_wire:
  assumes "go_MsgAssignTask m" and "MsgAssignTask_Marshal pw m = Inr bz"
  shows "MsgAssignTask_Unmarshal pw zero_MsgAssignTask bz = Some (m, None)"
  using assms loop_MsgAssignTask_fields(3) [where r = "[]"]
  by (auto simp: MsgAssignTask_Unmarshal_def MsgAssignTask_Marshal_eq go_MsgAssignTask_def wire_simps zero_MsgAssignTask_def)

end

section \<open>MsgCompleteTask\<close>

record MsgCompleteTask =
  cp_Assignee :: string
  cp_TaskId :: u64

definition zero_MsgCompleteTask :: MsgCompleteTask where
  "zero_MsgCompleteTask = \<lparr>cp_Assignee = [], cp_TaskId = 0\<rparr>"

definition MsgCompleteTask_String :: "MsgCompleteTask \<Rightarrow> string" where
  "MsgCompleteTask_String m = ''MsgCompleteTask{assignee:'' @ cp_Assignee m @ ''}''"

definition MsgCompleteTask_Marshal :: "protowire \<Rightarrow> MsgCompleteTask \<Rightarrow> string + bytes" where
  "MsgCompleteTask_Marshal pw m =
     (let b = [];
          b = appendString pw b 1 (cp_Assignee m);
          b = appendUint64 pw b 2 (cp_TaskId m)
      in Inr b)"

definition MsgCompleteTask_MarshalTo ::
  "protowire \<Rightarrow> MsgCompleteTask \<Rightarrow> bytes \<Rightarrow> bytes \<times> (string + int)" where
  "MsgCompleteTask_MarshalTo pw m dAtA = marshal_to (MsgCompleteTask_Marshal pw m) dAtA"

definition MsgCompleteTask_MarshalToSizedBuffer ::
  "protowire \<Rightarrow> MsgCompleteTask \<Rightarrow> bytes \<Rightarrow> (bytes \<times> (string + int)) option" where
  "MsgCompleteTask_MarshalToSizedBuffer pw m dAtA = marshal_to_sized (MsgCompleteTask_Marshal pw m) dAtA"

definition MsgCompleteTask_Size :: "protowire \<Rightarrow> MsgCompleteTask \<Rightarrow> int" where
  "MsgCompleteTask_Size pw m = sizeString pw 1 (cp_Assignee m) + sizeUint64 pw 2 (cp_TaskId m)"

definition MsgCompleteTask_field ::
  "protowire \<Rightarrow> int \<Rightarrow> int \<Rightarrow> bytes \<Rightarrow> MsgCompleteTask \<Rightarrow> MsgCompleteTask field_result" where
  "MsgCompleteTask_field pw num wt b m =
     (if num = 1 then string_case pw (\<lambda>v. m\<lparr>cp_Assignee := v\<rparr>) m b
      else if num = 2 then varint_case pw (\<lambda>v. m\<lparr>cp_TaskId := v\<rparr>) m b
      else default_case pw wt m b)"

definition MsgCompleteTask_Unmarshal ::
  "protowire \<Rightarrow> MsgCompleteTask \<Rightarrow> bytes \<Rightarrow> (MsgCompleteTask \<times> string option) option" where
  "MsgCompleteTask_Unmarshal pw m b = unmarshal_loop pw (MsgCompleteTask_field pw) m b"

definition go_MsgCompleteTask :: "MsgCompleteTask \<Rightarrow> bool" where
  "go_MsgCompleteTask m \<longleftrightarrow> go_len (cp_Assignee m)"

context wire_format
begin

lemma MsgCompleteTask_Marshal_eq [wire_simps]:
  "MsgCompleteTask_Marshal pw m =
   Inr (appendString pw [] 1 (cp_Assignee m) @ appendUint64 pw [] 2 (cp_TaskId m))"
  by (simp add: MsgCompleteTask_Marshal_def Let_def appendUint64_eq appendString_eq)

lemma MsgCompleteTask_Size_eq:
  "go_MsgCompleteTask m \<Longrightarrow> MsgCompleteTask_Marshal pw m = Inr bz \<Longrightarrow> MsgCompleteTask_Size pw m = int (length bz)"
  by (auto simp: MsgCompleteTask_Marshal_eq MsgCompleteTask_Size_def go_MsgCompleteTask_def sizeUint64_eq sizeString_eq)

lemma field_total_MsgCompleteTask: "field_total (MsgCompleteTask_field pw)"
  by (simp add: field_total_def MsgCompleteTask_field_def)

lemma loop_MsgCompleteTask_fields [wire_simps]:
  "go_len s \<Longrightarrow> unmarshal_loop pw (MsgCompleteTask_field pw) m (appendString pw [] 1 s @ r) =
   unmarshal_loop pw (MsgCompleteTask_field pw) (m\<lparr>cp_Assignee := if s = [] then cp_Assignee m else s\<rparr>) r"
  "unmarshal_loop pw (MsgCompleteTask_field pw) m (appendUint64 pw [] 2 v @ r) =
   unmarshal_loop pw (MsgCompleteTask_field pw) (m\<lparr>cp_TaskId := if v = 0 then cp_TaskId m else v\<rparr>) r"
  using loop_string [where num = 1 and upd = "\<lambda>v. m\<lparr>cp_Assignee := v\<rparr>" and fld = "MsgCompleteTask_field pw"]
    loop_uint64 [where num = 2 and upd = "\<lambda>v. m\<lparr>cp_TaskId := v\<rparr>" and fld = "MsgCompleteTask_field pw"]
  by (simp_all add: MsgCompleteTask_field_def)

lemma MsgCompleteTask_Unmarshal_wire:
  assumes "go_MsgCompleteTask m" and "MsgCompleteTask_Marshal pw m = Inr bz"
  shows "MsgCompleteTask_Unmarshal pw zero_MsgCompleteTask bz = Some (m, None)"
  using assms loop_MsgCompleteTask_fields(2) [where r = "[]"]
  by (auto simp: MsgCompleteTask_Unmarshal_def MsgCompleteTask_Marshal_eq go_MsgCompleteTask_def wire_simps zero_MsgCompleteTask_def)

end

section \<open>The empty responses\<close>

text \<open>
  \<^verbatim>\<open>MsgAssignTaskResponse\<close> and \<^verbatim>\<open>MsgCompleteTaskResponse\<close> have no fields: they encode to nothing,
  and their decoders accept, and ignore, every input.
\<close>

datatype MsgAssignTaskResponse = MsgAssignTaskResponse
datatype MsgCompleteTaskResponse = MsgCompleteTaskResponse

definition MsgAssignTaskResponse_Marshal :: "MsgAssignTaskResponse \<Rightarrow> string + bytes" where
  "MsgAssignTaskResponse_Marshal m = Inr []"

definition MsgAssignTaskResponse_MarshalTo :: "MsgAssignTaskResponse \<Rightarrow> bytes \<Rightarrow> bytes \<times> (string + int)" where
  "MsgAssignTaskResponse_MarshalTo m dAtA = (dAtA, Inr 0)"

definition MsgAssignTaskResponse_MarshalToSizedBuffer :: "MsgAssignTaskResponse \<Rightarrow> bytes \<Rightarrow> bytes \<times> (string + int)" where
  "MsgAssignTaskResponse_MarshalToSizedBuffer m dAtA = (dAtA, Inr 0)"

definition MsgAssignTaskResponse_Size :: "MsgAssignTaskResponse \<Rightarrow> int" where
  "MsgAssignTaskResponse_Size m = 0"

definition MsgAssignTaskResponse_Unmarshal ::
  "MsgAssignTaskResponse \<Rightarrow> bytes \<Rightarrow> MsgAssignTaskResponse \<times> string option" where
  "MsgAssignTaskResponse_Unmarshal m b = (m, None)"

definition MsgCompleteTaskResponse_Marshal :: "MsgCompleteTaskResponse \<Rightarrow> string + bytes" where
  "MsgCompleteTaskResponse_Marshal m = Inr []"

definition MsgCompleteTaskResponse_MarshalTo :: "MsgCompleteTaskResponse \<Rightarrow> bytes \<Rightarrow> bytes \<times> (string + int)" where
  "MsgCompleteTaskResponse_MarshalTo m dAtA = (dAtA, Inr 0)"

definition MsgCompleteTaskResponse_MarshalToSizedBuffer :: "MsgCompleteTaskResponse \<Rightarrow> bytes \<Rightarrow> bytes \<times> (string + int)" where
  "MsgCompleteTaskResponse_MarshalToSizedBuffer m dAtA = (dAtA, Inr 0)"

definition MsgCompleteTaskResponse_Size :: "MsgCompleteTaskResponse \<Rightarrow> int" where
  "MsgCompleteTaskResponse_Size m = 0"

definition MsgCompleteTaskResponse_Unmarshal ::
  "MsgCompleteTaskResponse \<Rightarrow> bytes \<Rightarrow> MsgCompleteTaskResponse \<times> string option" where
  "MsgCompleteTaskResponse_Unmarshal m b = (m, None)"

end
