(* ===== verification/Taskreg_Keeper.thy ===== *)
theory Taskreg_Keeper
  imports Tx_Pb
begin

text \<open>
  The keeper of the task registry (\<^verbatim>\<open>x/taskreg/keeper/keeper.go\<close>) and its keys
  (\<^verbatim>\<open>types/keys.go\<close>). The keeper's collaborators are fields of the record \<open>Keeper\<close>, as in the
  code: the binary codec and the store service of the Cosmos SDK, whose behaviour the locales
  \<open>task_codec\<close> and \<open>kv_store\<close> state. Its contract towards the message server, the query server
  and the genesis code is the locale \<open>task_store\<close>, over the abstract registry of tasks by id.
\<close>

section \<open>Keys\<close>

definition TaskKeyPrefix :: string where "TaskKeyPrefix = ''Task/value/''"
definition TaskCountKey :: string where "TaskCountKey = ''Task/count''"

definition KeyTask :: "u64 \<Rightarrow> bytes" where
  "KeyTask tid = (let bz = PutUint64 tid in bytes_of TaskKeyPrefix @ bz)"

abbreviation task_prefix :: bytes where "task_prefix \<equiv> bytes_of TaskKeyPrefix"
abbreviation count_key :: bytes where "count_key \<equiv> bytes_of TaskCountKey"

definition has_prefix :: "bytes \<Rightarrow> bytes \<Rightarrow> bool" where
  "has_prefix p key \<longleftrightarrow> take (length p) key = p"

lemma KeyTask_inject [simp]: "KeyTask i = KeyTask j \<longleftrightarrow> i = j"
  by (simp add: KeyTask_def)

lemma KeyTask_less_iff [simp]: "KeyTask i < KeyTask j \<longleftrightarrow> i < j"
  by (simp add: KeyTask_def)

lemma KeyTask_nonempty [simp]: "KeyTask i \<noteq> []"
  by (simp add: KeyTask_def TaskKeyPrefix_def)

lemma has_prefix_KeyTask [simp]: "has_prefix task_prefix (KeyTask i)"
  by (simp add: KeyTask_def has_prefix_def Let_def)

lemma not_has_prefix_count [simp]: "\<not> has_prefix task_prefix count_key"
  by (auto simp: has_prefix_def TaskKeyPrefix_def TaskCountKey_def dest: arg_cong [where f = length])

lemma KeyTask_neq_count [simp]: "KeyTask i \<noteq> count_key" "count_key \<noteq> KeyTask i"
  using not_has_prefix_count has_prefix_KeyTask by metis+

lemma prefix_nonempty [simp]: "TaskKeyPrefix \<noteq> []" "TaskCountKey \<noteq> []"
  by (simp_all add: TaskKeyPrefix_def TaskCountKey_def)

lemma has_prefix_length: "has_prefix p key \<Longrightarrow> length p \<le> length key"
  unfolding has_prefix_def by (drule arg_cong [where f = length]) simp

lemma has_prefix_le: "has_prefix p key \<Longrightarrow> p \<le> key"
  by (metis append_take_drop_id has_prefix_def prefix_le)

text \<open>The keys with a prefix are an initial segment of the keys from the prefix on.\<close>

lemma has_prefix_between: "p \<le> k \<Longrightarrow> k < k' \<Longrightarrow> has_prefix p k' \<Longrightarrow> has_prefix p k"
proof (induction p arbitrary: k k')
  case Nil
  then show ?case by (simp add: has_prefix_def)
next
  case (Cons a p)
  then obtain b l c l' where kk: "k = b # l" "k' = c # l'"
    by (cases k; cases k') (auto simp: has_prefix_def)
  with Cons.prems have "c = a" "b = a" by (auto simp: has_prefix_def)
  with Cons.prems Cons.IH [of l l'] show ?case by (auto simp: has_prefix_def kk)
qed

section \<open>What the keeper is built on\<close>

text \<open>
  \<^verbatim>\<open>core/store.KVStore\<close>: \<open>Get\<close> gives the value, nil (\<open>None\<close>) or an error; \<open>Set\<close> the store after
  the call and its error; \<open>Iterator\<close> the pairs from \<open>start\<close> up to, excluding, \<open>end\<close>, in key order.
\<close>

record 's kvstore =
  kvGet :: "'s \<Rightarrow> bytes \<Rightarrow> string + bytes option"
  kvSet :: "'s \<Rightarrow> bytes \<Rightarrow> bytes \<Rightarrow> 's \<times> string option"
  kvIterator :: "'s \<Rightarrow> bytes \<Rightarrow> bytes option \<Rightarrow> string + (bytes \<times> bytes) list"

text \<open>\<^verbatim>\<open>codec.BinaryCodec\<close> at tasks; the \<^verbatim>\<open>Must\<close> functions panic (\<open>None\<close>) on an error.\<close>

record codec =
  MustMarshal :: "Task \<Rightarrow> bytes option"
  MustUnmarshal :: "bytes \<Rightarrow> Task option"

record 's Keeper =
  cdc :: codec
  storeService :: "'s kvstore"
  authority :: string

text \<open>The logger and the bank keeper, which no operation uses, are not kept.\<close>

definition NewKeeper :: "codec \<Rightarrow> 's kvstore \<Rightarrow> 'l \<Rightarrow> 'b \<Rightarrow> string \<Rightarrow> 's Keeper" where
  "NewKeeper c storeSvc logger bankKeeper auth = \<lparr>cdc = c, storeService = storeSvc, authority = auth\<rparr>"

section \<open>The operations\<close>

text \<open>The error of \<^verbatim>\<open>st.Set\<close> is dropped, as in the code.\<close>

definition SetTask :: "'s Keeper \<Rightarrow> 's \<Rightarrow> Task \<Rightarrow> 's option" where
  "SetTask k st task =
     do {
       bz \<leftarrow> MustMarshal (cdc k) task;
       Some (fst (kvSet (storeService k) st (KeyTask (task_Id task)) bz))
     }"

definition GetTask :: "'s Keeper \<Rightarrow> 's \<Rightarrow> u64 \<Rightarrow> (Task \<times> bool) option" where
  "GetTask k st tid =
     (case kvGet (storeService k) st (KeyTask tid) of
        Inr (Some bz) \<Rightarrow> do { task \<leftarrow> MustUnmarshal (cdc k) bz; Some (task, True) }
      | _ \<Rightarrow> Some (zero_task, False))"

definition GetNextTaskID :: "'s Keeper \<Rightarrow> 's \<Rightarrow> u64 option" where
  "GetNextTaskID k st =
     (case kvGet (storeService k) st count_key of
        Inr (Some bz) \<Rightarrow> Uint64 bz
      | _ \<Rightarrow> Some 1)"

definition SetNextTaskID :: "'s Keeper \<Rightarrow> 's \<Rightarrow> u64 \<Rightarrow> 's" where
  "SetNextTaskID k st tid = (let bz = PutUint64 tid in fst (kvSet (storeService k) st count_key bz))"

text \<open>
  \<^verbatim>\<open>IterateTasks\<close> with the state that its callback closes over made explicit: the callback returns
  the new state and whether to stop. \<open>key_matches\<close> is the byte-by-byte comparison with the prefix,
  made after the length check.
\<close>

definition key_matches :: "bytes \<Rightarrow> bytes \<Rightarrow> bool" where
  "key_matches prefix key \<longleftrightarrow> list_all (\<lambda>i. key ! i = prefix ! i) [0..<length prefix]"

fun iterate_loop ::
  "codec \<Rightarrow> bytes \<Rightarrow> (Task \<Rightarrow> 'a \<Rightarrow> 'a \<times> bool) \<Rightarrow> (bytes \<times> bytes) list \<Rightarrow> 'a \<Rightarrow> 'a option" where
  "iterate_loop c prefix cb [] a = Some a"
| "iterate_loop c prefix cb ((key, val) # iter) a =
     (if length key < length prefix then Some a
      else if \<not> key_matches prefix key then Some a
      else do {
        task \<leftarrow> MustUnmarshal c val;
        let (a', stop) = cb task a;
        if stop then Some a' else iterate_loop c prefix cb iter a'
      })"

definition IterateTasks :: "'s Keeper \<Rightarrow> 's \<Rightarrow> (Task \<Rightarrow> 'a \<Rightarrow> 'a \<times> bool) \<Rightarrow> 'a \<Rightarrow> 'a option" where
  "IterateTasks k st cb a =
     (case kvIterator (storeService k) st task_prefix None of
        Inl err \<Rightarrow> Some a
      | Inr iter \<Rightarrow> iterate_loop (cdc k) task_prefix cb iter a)"

text \<open>The callback both callers pass: append every task, never stop.\<close>

definition collect_task :: "Task \<Rightarrow> Task list \<Rightarrow> Task list \<times> bool" where
  "collect_task task tasks = (tasks @ [task], False)"

lemma key_matches_iff: "length p \<le> length key \<Longrightarrow> key_matches p key \<longleftrightarrow> has_prefix p key"
  by (auto simp: key_matches_def has_prefix_def list_all_iff list_eq_iff_nth_eq [of "take (length p) key"])

section \<open>The abstract registry\<close>

record registry =
  reg_tasks :: "u64 \<Rightarrow> Task option"
  reg_next :: u64

text \<open>Every task is stored under its own id.\<close>

definition reg_wf :: "registry \<Rightarrow> bool" where
  "reg_wf r \<longleftrightarrow> (\<forall>i t. reg_tasks r i = Some t \<longrightarrow> task_Id t = i \<and> go_task t)"

definition registry_of :: "codec \<Rightarrow> (bytes \<Rightarrow> bytes option) \<Rightarrow> registry" where
  "registry_of c m =
     \<lparr>reg_tasks = (\<lambda>i. Option.bind (m (KeyTask i)) (MustUnmarshal c)),
      reg_next = (case m count_key of
                    None \<Rightarrow> 1
                  | Some bz \<Rightarrow> (case Uint64 bz of None \<Rightarrow> 0 | Some v \<Rightarrow> v))\<rparr>"

text \<open>
  The shape of the module's store: under the task prefix only encodings of tasks, each at the key
  of its id, and at the counter, if it is there, at least eight bytes.
\<close>

definition store_wf :: "codec \<Rightarrow> (bytes \<Rightarrow> bytes option) \<Rightarrow> bool" where
  "store_wf c m \<longleftrightarrow>
     (\<forall>key bz. m key = Some bz \<longrightarrow> has_prefix task_prefix key \<longrightarrow>
        (\<exists>t. MustUnmarshal c bz = Some t \<and> key = KeyTask (task_Id t) \<and> go_task t))
     \<and> (\<forall>bz. m count_key = Some bz \<longrightarrow> 8 \<le> length bz)"

section \<open>The interfaces\<close>

text \<open>
  The SDK store, read through the map \<open>kv_map\<close> of its contents. A write of a non-empty key
  succeeds and changes that key only; an iteration without an end lists the entries from its start
  on in strictly ascending key order.
\<close>

locale kv_store =
  fixes st_ops :: "'s kvstore" and kv_map :: "'s \<Rightarrow> bytes \<Rightarrow> bytes option"
  assumes kv_get: "kvGet st_ops s key = Inr (kv_map s key)"
    and kv_set: "key \<noteq> [] \<Longrightarrow> kv_map (fst (kvSet st_ops s key v)) = (kv_map s)(key \<mapsto> v)"
    and kv_set_err: "key \<noteq> [] \<Longrightarrow> snd (kvSet st_ops s key v) = None"
    and kv_iterator: "start \<noteq> [] \<Longrightarrow> \<exists>xs. kvIterator st_ops s start None = Inr xs
      \<and> sorted_wrt (<) (map fst xs)
      \<and> (\<forall>key v. (key, v) \<in> set xs \<longleftrightarrow> kv_map s key = Some v \<and> start \<le> key)"

text \<open>The codec: encoding a task never panics, and decoding gives it back.\<close>

locale task_codec =
  fixes c :: codec
  assumes codec_roundtrip:
    "go_task t \<Longrightarrow> \<exists>bz. MustMarshal c t = Some bz \<and> MustUnmarshal c bz = Some t"

text \<open>
  The keeper's own contract: operations over a store that represents a registry. Its clients,
  the message server, the query server and the genesis code, use these laws only.
\<close>

locale task_store =
  fixes get_task :: "'s \<Rightarrow> u64 \<Rightarrow> (Task \<times> bool) option"
    and set_task :: "'s \<Rightarrow> Task \<Rightarrow> 's option"
    and get_next :: "'s \<Rightarrow> u64 option"
    and set_next :: "'s \<Rightarrow> u64 \<Rightarrow> 's"
    and list_tasks :: "'s \<Rightarrow> Task list option"
    and reg :: "'s \<Rightarrow> registry"
    and invar :: "'s \<Rightarrow> bool"
  assumes get_task_law: "invar s \<Longrightarrow> get_task s i =
      Some (case reg_tasks (reg s) i of Some t \<Rightarrow> (t, True) | None \<Rightarrow> (zero_task, False))"
    and set_task_law: "invar s \<Longrightarrow> go_task t \<Longrightarrow> \<exists>s'. set_task s t = Some s' \<and> invar s'
      \<and> reg s' = (reg s)\<lparr>reg_tasks := (reg_tasks (reg s))(task_Id t \<mapsto> t)\<rparr>"
    and get_next_law: "invar s \<Longrightarrow> get_next s = Some (reg_next (reg s))"
    and set_next_law: "invar s \<Longrightarrow> invar (set_next s n) \<and> reg (set_next s n) = (reg s)\<lparr>reg_next := n\<rparr>"
    and list_tasks_law: "invar s \<Longrightarrow> \<exists>ts. list_tasks s = Some ts
      \<and> sorted_wrt (<) (map task_Id ts) \<and> (\<forall>t. t \<in> set ts \<longleftrightarrow> reg_tasks (reg s) (task_Id t) = Some t)"
    and reg_wf_law: "invar s \<Longrightarrow> reg_wf (reg s)"
begin

lemma list_tasks_eq:
  assumes "invar s" "list_tasks s = Some ts"
  shows "sorted_wrt (<) (map task_Id ts)" "t \<in> set ts \<longleftrightarrow> reg_tasks (reg s) (task_Id t) = Some t"
  using list_tasks_law [OF assms(1)] assms(2) by auto

lemma list_tasks_ids:
  assumes "invar s" "list_tasks s = Some ts"
  shows "task_Id ` set ts = dom (reg_tasks (reg s))"
proof (rule set_eqI, rule iffI)
  fix i
  assume "i \<in> task_Id ` set ts"
  then show "i \<in> dom (reg_tasks (reg s))" using list_tasks_eq(2) [OF assms] by auto
next
  fix i
  assume "i \<in> dom (reg_tasks (reg s))"
  then obtain t where t: "reg_tasks (reg s) i = Some t" by blast
  with reg_wf_law [OF assms(1)] have "task_Id t = i" by (simp add: reg_wf_def)
  with t list_tasks_eq(2) [OF assms, of t] show "i \<in> task_Id ` set ts" by (auto intro: rev_image_eqI)
qed

text \<open>The listing is a function of the registry alone.\<close>

end

section \<open>The keeper implements its contract\<close>

text \<open>The two callers of \<^verbatim>\<open>IterateTasks\<close> collect every task.\<close>

abbreviation all_tasks :: "'s Keeper \<Rightarrow> 's \<Rightarrow> Task list option" where
  "all_tasks k st \<equiv> IterateTasks k st collect_task []"

locale keeper_env = task_codec "cdc k" + kv_store "storeService k" kv_map
  for k :: "'s Keeper" and kv_map :: "'s \<Rightarrow> bytes \<Rightarrow> bytes option"
begin

lemma GetTask_eq:
  assumes "store_wf (cdc k) (kv_map s)"
  shows "GetTask k s i = Some (case reg_tasks (registry_of (cdc k) (kv_map s)) i of
      Some t \<Rightarrow> (t, True) | None \<Rightarrow> (zero_task, False))"
proof (cases "kv_map s (KeyTask i)")
  case (Some bz)
  with assms obtain t where "MustUnmarshal (cdc k) bz = Some t"
    unfolding store_wf_def using has_prefix_KeyTask by blast
  with Some show ?thesis by (simp add: GetTask_def kv_get registry_of_def)
qed (simp add: GetTask_def kv_get registry_of_def)

lemma SetTask_eq:
  assumes wf: "store_wf (cdc k) (kv_map s)" and t: "go_task t"
  shows "\<exists>s'. SetTask k s t = Some s' \<and> store_wf (cdc k) (kv_map s') \<and>
    registry_of (cdc k) (kv_map s') =
      (registry_of (cdc k) (kv_map s))\<lparr>reg_tasks :=
        (reg_tasks (registry_of (cdc k) (kv_map s)))(task_Id t \<mapsto> t)\<rparr>"
proof -
  obtain bz where bz: "MustMarshal (cdc k) t = Some bz" "MustUnmarshal (cdc k) bz = Some t"
    using codec_roundtrip [OF t] by blast
  let ?s' = "fst (kvSet (storeService k) s (KeyTask (task_Id t)) bz)"
  have m: "kv_map ?s' = (kv_map s)(KeyTask (task_Id t) \<mapsto> bz)" by (simp add: kv_set)
  have "store_wf (cdc k) (kv_map ?s')"
    using wf bz t unfolding store_wf_def m by auto
  moreover have "registry_of (cdc k) (kv_map ?s') =
      (registry_of (cdc k) (kv_map s))\<lparr>reg_tasks :=
        (reg_tasks (registry_of (cdc k) (kv_map s)))(task_Id t \<mapsto> t)\<rparr>"
    using bz by (auto simp: registry_of_def m fun_eq_iff)
  ultimately show ?thesis using bz by (simp add: SetTask_def)
qed

lemma GetNextTaskID_eq:
  assumes "store_wf (cdc k) (kv_map s)"
  shows "GetNextTaskID k s = Some (reg_next (registry_of (cdc k) (kv_map s)))"
proof (cases "kv_map s count_key")
  case (Some bz)
  with assms have "Uint64 bz \<noteq> None" by (simp add: store_wf_def Uint64_eq_None not_less del: not_None_eq)
  with Some show ?thesis by (auto simp: GetNextTaskID_def kv_get registry_of_def)
qed (simp add: GetNextTaskID_def kv_get registry_of_def)

lemma SetNextTaskID_eq:
  assumes "store_wf (cdc k) (kv_map s)"
  shows "store_wf (cdc k) (kv_map (SetNextTaskID k s n)) \<and>
    registry_of (cdc k) (kv_map (SetNextTaskID k s n)) =
      (registry_of (cdc k) (kv_map s))\<lparr>reg_next := n\<rparr>"
proof -
  have m: "kv_map (SetNextTaskID k s n) = (kv_map s)(count_key \<mapsto> PutUint64 n)"
    by (simp add: SetNextTaskID_def kv_set)
  show ?thesis
    using assms by (auto simp: store_wf_def registry_of_def m fun_eq_iff)
qed

text \<open>The loop over sorted entries decodes the prefixed ones, all of which come first.\<close>

lemma iterate_loop_collect:
  assumes "sorted_wrt (<) (map fst xs)" and "\<forall>(key, v) \<in> set xs. task_prefix \<le> key"
    and "\<forall>(key, v) \<in> set xs. has_prefix task_prefix key \<longrightarrow> MustUnmarshal c v = Some (dec v)"
  shows "iterate_loop c task_prefix collect_task xs ts =
    Some (ts @ map (\<lambda>(key, v). dec v) (filter (\<lambda>(key, v). has_prefix task_prefix key) xs))"
  using assms
proof (induction xs arbitrary: ts)
  case (Cons x xs)
  obtain key v where x: "x = (key, v)" by force
  show ?case
  proof (cases "has_prefix task_prefix key")
    case True
    then have "length task_prefix \<le> length key" by (rule has_prefix_length)
    moreover have "MustUnmarshal c v = Some (dec v)" using Cons.prems(3) True x by simp
    moreover have "iterate_loop c task_prefix collect_task xs (ts @ [dec v]) =
      Some ((ts @ [dec v]) @ map (\<lambda>(key, v). dec v) (filter (\<lambda>(key, v). has_prefix task_prefix key) xs))"
      using Cons.prems by (intro Cons.IH) auto
    ultimately show ?thesis using True x by (simp add: collect_task_def [of "dec v" ts] key_matches_iff)
  next
    case False
    have "\<not> has_prefix task_prefix key'" if "(key', v') \<in> set xs" for key' v'
      using that False Cons.prems x has_prefix_between [of task_prefix key key'] by force
    then have "filter (\<lambda>(key, v). has_prefix task_prefix key) xs = []" by (auto simp: filter_empty_conv)
    with False x show ?thesis by (auto simp: key_matches_iff not_less)
  qed
qed simp

lemma all_tasks_eq:
  assumes wf: "store_wf (cdc k) (kv_map s)"
  shows "\<exists>ts. all_tasks k s = Some ts \<and> sorted_wrt (<) (map task_Id ts)
    \<and> (\<forall>t. t \<in> set ts \<longleftrightarrow> reg_tasks (registry_of (cdc k) (kv_map s)) (task_Id t) = Some t)"
proof -
  obtain xs where xs: "kvIterator (storeService k) s task_prefix None = Inr xs"
      "sorted_wrt (<) (map fst xs)"
      "\<And>key v. (key, v) \<in> set xs \<longleftrightarrow> kv_map s key = Some v \<and> task_prefix \<le> key"
    using kv_iterator [of task_prefix s] by auto
  define dec where "dec v = the (MustUnmarshal (cdc k) v)" for v
  let ?ys = "filter (\<lambda>(key, v). has_prefix task_prefix key) xs"
  let ?ts = "map (\<lambda>(key, v). dec v) ?ys"
  have dec: "MustUnmarshal (cdc k) v = Some (dec v) \<and> key = KeyTask (task_Id (dec v))"
    if "kv_map s key = Some v" "has_prefix task_prefix key" for key v
    using wf that unfolding store_wf_def dec_def by force
  have all: "all_tasks k s = Some ?ts"
    using iterate_loop_collect [of xs "cdc k" dec "[]"] xs dec by (auto simp: IterateTasks_def)
  have "map fst ?ys = map KeyTask (map task_Id ?ts)"
    using xs(3) dec by (auto simp: case_prod_beta)
  moreover have "sorted_wrt (<) (map fst ?ys)"
    using xs(2) by (simp add: sorted_wrt_map sorted_wrt_filter)
  ultimately have "sorted_wrt (<) (map KeyTask (map task_Id ?ts))" by metis
  then have "sorted_wrt (<) (map task_Id ?ts)" by (simp only: sorted_wrt_map KeyTask_less_iff)
  moreover have "t \<in> set ?ts \<longleftrightarrow> reg_tasks (registry_of (cdc k) (kv_map s)) (task_Id t) = Some t" for t
  proof
    assume "t \<in> set ?ts"
    then obtain key v where "(key, v) \<in> set xs" "has_prefix task_prefix key" "t = dec v" by auto
    with xs(3) dec [of key v] show "reg_tasks (registry_of (cdc k) (kv_map s)) (task_Id t) = Some t"
      by (auto simp: registry_of_def)
  next
    assume "reg_tasks (registry_of (cdc k) (kv_map s)) (task_Id t) = Some t"
    then obtain v where v: "kv_map s (KeyTask (task_Id t)) = Some v" "MustUnmarshal (cdc k) v = Some t"
      by (auto simp: registry_of_def bind_eq_Some_conv)
    then have "(KeyTask (task_Id t), v) \<in> set ?ys" by (simp add: xs(3) has_prefix_le)
    moreover have "dec v = t" using v by (simp add: dec_def)
    ultimately show "t \<in> set ?ts" by force
  qed
  ultimately show ?thesis using all by blast
qed

lemma registry_of_wf: "store_wf (cdc k) (kv_map s) \<Longrightarrow> reg_wf (registry_of (cdc k) (kv_map s))"
  by (fastforce simp: reg_wf_def registry_of_def store_wf_def bind_eq_Some_conv)

sublocale task_store "GetTask k" "SetTask k" "GetNextTaskID k" "SetNextTaskID k" "all_tasks k"
  "\<lambda>s. registry_of (cdc k) (kv_map s)" "\<lambda>s. store_wf (cdc k) (kv_map s)"
  by unfold_locales
    (simp_all add: GetTask_eq SetTask_eq GetNextTaskID_eq SetNextTaskID_eq all_tasks_eq registry_of_wf)

end

end
