(* ===== verification/Store_Std.thy ===== *)
theory Store_Std
  imports Taskreg_Keeper "HOL-Library.RBT"
begin

text \<open>
  Providers of the keeper's interfaces. The codec is the SDK's protobuf codec, which calls the
  generated \<^verbatim>\<open>Marshal\<close> and \<^verbatim>\<open>Unmarshal\<close> of the task: given a wire format, the code of
  \<^verbatim>\<open>types.pb.go\<close> satisfies the law the keeper asks for. The store is a sorted tree map, at which
  the witnesses evaluate; the SDK's own store is outside the repository.
\<close>

section \<open>The protobuf codec over the generated code\<close>

definition proto_codec :: "protowire \<Rightarrow> codec" where
  "proto_codec pw =
     \<lparr>MustMarshal = (\<lambda>t. case Task_Marshal pw t of Inl err \<Rightarrow> None | Inr bz \<Rightarrow> Some bz),
      MustUnmarshal = (\<lambda>bz. case Task_Unmarshal pw zero_task bz of
         Some (t, None) \<Rightarrow> Some t | _ \<Rightarrow> None)\<rparr>"

sublocale wire_format \<subseteq> proto: task_codec "proto_codec pw"
  by unfold_locales (simp add: proto_codec_def Task_Marshal_eq Task_Unmarshal_wire)

text \<open>The keeper over the generated code, for any wire format and any store.\<close>

context wire_format
begin

lemma proto_task_codec: "task_codec (proto_codec pw)"
  by (rule proto.task_codec_axioms)

end

lemma proto_keeper_env:
  assumes "wire_format pw" "kv_store (storeService k) m" "cdc k = proto_codec pw"
  shows "keeper_env k m"
  using wire_format.proto_task_codec [OF assms(1)] assms(2,3) by (simp add: keeper_env_def)

section \<open>A store\<close>

definition rbt_store :: "(bytes, bytes) RBT.rbt kvstore" where
  "rbt_store =
     \<lparr>kvGet = (\<lambda>s key. Inr (RBT.lookup s key)),
      kvSet = (\<lambda>s key v. (RBT.insert key v s, None)),
      kvIterator = (\<lambda>s start stop. Inr (filter
        (\<lambda>(key, v). start \<le> key \<and> (case stop of None \<Rightarrow> True | Some e \<Rightarrow> key < e)) (RBT.entries s)))\<rparr>"

lemma sorted_rbt_entries: "sorted_wrt (<) (map fst (RBT.entries s))"
  by (simp add: strict_sorted_iff RBT.sorted_entries RBT.distinct_entries)

interpretation rbt: kv_store rbt_store RBT.lookup
proof
  fix s :: "(bytes, bytes) RBT.rbt" and start :: bytes
  let ?xs = "filter (\<lambda>(key, v). start \<le> key \<and> True) (RBT.entries s)"
  have "sorted_wrt (<) (map fst ?xs)"
    using sorted_rbt_entries [of s] by (simp add: sorted_wrt_map sorted_wrt_filter)
  then show "\<exists>xs. kvIterator rbt_store s start None = Inr xs \<and> sorted_wrt (<) (map fst xs) \<and>
      (\<forall>key v. (key, v) \<in> set xs \<longleftrightarrow> RBT.lookup s key = Some v \<and> start \<le> key)"
    by (auto simp: rbt_store_def RBT.lookup_in_tree)
qed (simp_all add: rbt_store_def fun_eq_iff)

definition std_keeper :: "(bytes, bytes) RBT.rbt Keeper" where
  "std_keeper = \<lparr>cdc = proto_codec std_wire, storeService = rbt_store, authority = ''gov''\<rparr>"

interpretation std_env: keeper_env std_keeper RBT.lookup
  using std.proto.task_codec_axioms rbt.kv_store_axioms
  by (simp add: keeper_env_def std_keeper_def)

lemma std_keeper_empty_wf [simp]: "store_wf (cdc std_keeper) (RBT.lookup RBT.empty)"
  by (simp add: store_wf_def)

end
