(* ===== verification/Msg_Server.thy ===== *)
theory Msg_Server
  imports Store_Std
begin

text \<open>
  The transactions of the task registry: \<^verbatim>\<open>x/taskreg/keeper/msg_server.go\<close>, the stateless
  checks of \<^verbatim>\<open>types/msgs.go\<close>, and the errors and events of \<^verbatim>\<open>types/errors.go\<close> and
  \<^verbatim>\<open>types/events.go\<close>. A handler takes the SDK context (the module's store and the events emitted
  so far) and returns the context after the call with the response or the error. The
  specification is a transition of the abstract registry for each message; the handlers refine it.
\<close>

section \<open>Errors and events\<close>

text \<open>The registered errors, each with the text it is wrapped with, and their ABCI codes.\<close>

datatype task_error =
    ErrTaskNotFound string
  | ErrUnauthorized string
  | ErrInvalidStatus string

fun error_code :: "task_error \<Rightarrow> nat" where
  "error_code (ErrTaskNotFound _) = 2"
| "error_code (ErrUnauthorized _) = 3"
| "error_code (ErrInvalidStatus _) = 4"

definition EventTypeCreateTask :: string where "EventTypeCreateTask = ''create_task''"
definition EventTypeAssignTask :: string where "EventTypeAssignTask = ''assign_task''"
definition EventTypeCompleteTask :: string where "EventTypeCompleteTask = ''complete_task''"
definition AttributeKeyTaskID :: string where "AttributeKeyTaskID = ''task_id''"
definition AttributeKeyCreator :: string where "AttributeKeyCreator = ''creator''"
definition AttributeKeyAssignee :: string where "AttributeKeyAssignee = ''assignee''"
definition AttributeKeyTitle :: string where "AttributeKeyTitle = ''title''"
definition AttributeKeyStatus :: string where "AttributeKeyStatus = ''status''"

record event =
  event_type :: string
  event_attributes :: "(string \<times> string) list"

record 's ctx =
  ctx_store :: 's
  ctx_events :: "event list"

definition EmitEvent :: "'s ctx \<Rightarrow> event \<Rightarrow> 's ctx" where
  "EmitEvent ctx ev = ctx\<lparr>ctx_events := ctx_events ctx @ [ev]\<rparr>"

section \<open>Stateless validation\<close>

text \<open>
  \<^verbatim>\<open>sdk.AccAddressFromBech32\<close> is the parameter \<open>addr\<close>: it decodes an address or fails. A
  failed check is that error or one of the module's.
\<close>

datatype basic_error = AddressError string | ModuleError task_error

definition MsgCreateTask_ValidateBasic ::
  "(string \<Rightarrow> string + bytes) \<Rightarrow> MsgCreateTask \<Rightarrow> basic_error option" where
  "MsgCreateTask_ValidateBasic addr msg =
     (case addr (ct_Creator msg) of
        Inl err \<Rightarrow> Some (AddressError err)
      | Inr _ \<Rightarrow>
          if ct_Title msg = [] then Some (ModuleError (ErrInvalidStatus ''title cannot be empty''))
          else None)"

definition MsgAssignTask_ValidateBasic ::
  "(string \<Rightarrow> string + bytes) \<Rightarrow> MsgAssignTask \<Rightarrow> basic_error option" where
  "MsgAssignTask_ValidateBasic addr msg =
     (case addr (at_Creator msg) of
        Inl err \<Rightarrow> Some (AddressError err)
      | Inr _ \<Rightarrow>
          (case addr (at_Assignee msg) of
             Inl err \<Rightarrow> Some (AddressError err)
           | Inr _ \<Rightarrow> None))"

definition MsgCompleteTask_ValidateBasic ::
  "(string \<Rightarrow> string + bytes) \<Rightarrow> MsgCompleteTask \<Rightarrow> basic_error option" where
  "MsgCompleteTask_ValidateBasic addr msg =
     (case addr (cp_Assignee msg) of
        Inl err \<Rightarrow> Some (AddressError err)
      | Inr _ \<Rightarrow> None)"

section \<open>The handlers\<close>

text \<open>\<^verbatim>\<open>fmt.Sprintf("task %d not found", id)\<close> and \<^verbatim>\<open>fmt.Sprintf("%d", id)\<close>.\<close>

definition not_found :: "u64 \<Rightarrow> task_error" where
  "not_found tid = ErrTaskNotFound (''task '' @ fmt_d (unat tid) @ '' not found'')"

definition CreateTask ::
  "'s Keeper \<Rightarrow> 's ctx \<Rightarrow> MsgCreateTask \<Rightarrow> ('s ctx \<times> (task_error + MsgCreateTaskResponse)) option" where
  "CreateTask k ctx msg =
     do {
       tid \<leftarrow> GetNextTaskID k (ctx_store ctx);
       let task = \<lparr>task_Id = tid, task_Title = ct_Title msg, task_Description = ct_Description msg,
         task_Creator = ct_Creator msg, task_Assignee = [], task_Status = TASK_STATUS_OPEN\<rparr>;
       st \<leftarrow> SetTask k (ctx_store ctx) task;
       let st = SetNextTaskID k st (tid + 1);
       let ctx = EmitEvent (ctx\<lparr>ctx_store := st\<rparr>)
         \<lparr>event_type = EventTypeCreateTask,
          event_attributes = [(AttributeKeyTaskID, fmt_d (unat tid)),
            (AttributeKeyCreator, ct_Creator msg), (AttributeKeyTitle, ct_Title msg)]\<rparr>;
       Some (ctx, Inr \<lparr>ctr_Id = tid\<rparr>)
     }"

definition AssignTask ::
  "'s Keeper \<Rightarrow> 's ctx \<Rightarrow> MsgAssignTask \<Rightarrow> ('s ctx \<times> (task_error + MsgAssignTaskResponse)) option" where
  "AssignTask k ctx msg =
     do {
       (task, found) \<leftarrow> GetTask k (ctx_store ctx) (at_TaskId msg);
       if \<not> found then Some (ctx, Inl (not_found (at_TaskId msg)))
       else if task_Creator task \<noteq> at_Creator msg then
         Some (ctx, Inl (ErrUnauthorized ''only the task creator can assign''))
       else if task_Status task \<noteq> TASK_STATUS_OPEN then
         Some (ctx, Inl (ErrInvalidStatus ''task must be OPEN to assign''))
       else do {
         let task = task\<lparr>task_Assignee := at_Assignee msg\<rparr>;
         let task = task\<lparr>task_Status := TASK_STATUS_ASSIGNED\<rparr>;
         st \<leftarrow> SetTask k (ctx_store ctx) task;
         let ctx = EmitEvent (ctx\<lparr>ctx_store := st\<rparr>)
           \<lparr>event_type = EventTypeAssignTask,
            event_attributes = [(AttributeKeyTaskID, fmt_d (unat (at_TaskId msg))),
              (AttributeKeyAssignee, at_Assignee msg)]\<rparr>;
         Some (ctx, Inr MsgAssignTaskResponse)
       }
     }"

definition CompleteTask ::
  "'s Keeper \<Rightarrow> 's ctx \<Rightarrow> MsgCompleteTask \<Rightarrow> ('s ctx \<times> (task_error + MsgCompleteTaskResponse)) option" where
  "CompleteTask k ctx msg =
     do {
       (task, found) \<leftarrow> GetTask k (ctx_store ctx) (cp_TaskId msg);
       if \<not> found then Some (ctx, Inl (not_found (cp_TaskId msg)))
       else if task_Assignee task \<noteq> cp_Assignee msg then
         Some (ctx, Inl (ErrUnauthorized ''only the assignee can complete''))
       else if task_Status task \<noteq> TASK_STATUS_ASSIGNED then
         Some (ctx, Inl (ErrInvalidStatus ''task must be ASSIGNED to complete''))
       else do {
         let task = task\<lparr>task_Status := TASK_STATUS_COMPLETED\<rparr>;
         st \<leftarrow> SetTask k (ctx_store ctx) task;
         let ctx = EmitEvent (ctx\<lparr>ctx_store := st\<rparr>)
           \<lparr>event_type = EventTypeCompleteTask,
            event_attributes = [(AttributeKeyTaskID, fmt_d (unat (cp_TaskId msg))),
              (AttributeKeyStatus, ''completed'')]\<rparr>;
         Some (ctx, Inr MsgCompleteTaskResponse)
       }
     }"

section \<open>The specification on the abstract registry\<close>

definition new_task :: "registry \<Rightarrow> MsgCreateTask \<Rightarrow> Task" where
  "new_task r msg =
     \<lparr>task_Id = reg_next r, task_Title = ct_Title msg, task_Description = ct_Description msg,
      task_Creator = ct_Creator msg, task_Assignee = [], task_Status = TASK_STATUS_OPEN\<rparr>"

definition put_task :: "registry \<Rightarrow> Task \<Rightarrow> registry" where
  "put_task r t = r\<lparr>reg_tasks := (reg_tasks r)(task_Id t \<mapsto> t)\<rparr>"

definition reg_create :: "registry \<Rightarrow> MsgCreateTask \<Rightarrow> registry" where
  "reg_create r msg = (put_task r (new_task r msg))\<lparr>reg_next := reg_next r + 1\<rparr>"

definition reg_assign :: "registry \<Rightarrow> MsgAssignTask \<Rightarrow> task_error + registry" where
  "reg_assign r msg =
     (case reg_tasks r (at_TaskId msg) of
        None \<Rightarrow> Inl (not_found (at_TaskId msg))
      | Some t \<Rightarrow>
          if task_Creator t \<noteq> at_Creator msg then Inl (ErrUnauthorized ''only the task creator can assign'')
          else if task_Status t \<noteq> TASK_STATUS_OPEN then
            Inl (ErrInvalidStatus ''task must be OPEN to assign'')
          else Inr (put_task r (t\<lparr>task_Assignee := at_Assignee msg, task_Status := TASK_STATUS_ASSIGNED\<rparr>)))"

definition reg_complete :: "registry \<Rightarrow> MsgCompleteTask \<Rightarrow> task_error + registry" where
  "reg_complete r msg =
     (case reg_tasks r (cp_TaskId msg) of
        None \<Rightarrow> Inl (not_found (cp_TaskId msg))
      | Some t \<Rightarrow>
          if task_Assignee t \<noteq> cp_Assignee msg then Inl (ErrUnauthorized ''only the assignee can complete'')
          else if task_Status t \<noteq> TASK_STATUS_ASSIGNED then
            Inl (ErrInvalidStatus ''task must be ASSIGNED to complete'')
          else Inr (put_task r (t\<lparr>task_Status := TASK_STATUS_COMPLETED\<rparr>)))"

text \<open>The events that the accepted transactions emit.\<close>

definition create_event :: "registry \<Rightarrow> MsgCreateTask \<Rightarrow> event" where
  "create_event r msg =
     \<lparr>event_type = ''create_task'',
      event_attributes = [(''task_id'', fmt_d (unat (reg_next r))), (''creator'', ct_Creator msg),
        (''title'', ct_Title msg)]\<rparr>"

definition assign_event :: "MsgAssignTask \<Rightarrow> event" where
  "assign_event msg =
     \<lparr>event_type = ''assign_task'',
      event_attributes = [(''task_id'', fmt_d (unat (at_TaskId msg))), (''assignee'', at_Assignee msg)]\<rparr>"

definition complete_event :: "MsgCompleteTask \<Rightarrow> event" where
  "complete_event msg =
     \<lparr>event_type = ''complete_task'',
      event_attributes = [(''task_id'', fmt_d (unat (cp_TaskId msg))), (''status'', ''completed'')]\<rparr>"

lemmas event_defs = EventTypeCreateTask_def EventTypeAssignTask_def EventTypeCompleteTask_def
  AttributeKeyTaskID_def AttributeKeyCreator_def AttributeKeyAssignee_def AttributeKeyTitle_def
  AttributeKeyStatus_def create_event_def assign_event_def complete_event_def

section \<open>Refinement\<close>

abbreviation reg_at :: "'s Keeper \<Rightarrow> ('s \<Rightarrow> bytes \<Rightarrow> bytes option) \<Rightarrow> 's ctx \<Rightarrow> registry" where
  "reg_at k m ctx \<equiv> registry_of (cdc k) (m (ctx_store ctx))"

abbreviation wf_at :: "'s Keeper \<Rightarrow> ('s \<Rightarrow> bytes \<Rightarrow> bytes option) \<Rightarrow> 's ctx \<Rightarrow> bool" where
  "wf_at k m ctx \<equiv> store_wf (cdc k) (m (ctx_store ctx))"

lemma put_task_law:
  "r' = r\<lparr>reg_tasks := (reg_tasks r)(task_Id t \<mapsto> t)\<rparr> \<longleftrightarrow> r' = put_task r t"
  by (simp add: put_task_def)

context keeper_env
begin

lemma set_task_put:
  assumes "store_wf (cdc k) (kv_map s)" "go_task t"
  obtains s' where "SetTask k s t = Some s'" "store_wf (cdc k) (kv_map s')"
    "registry_of (cdc k) (kv_map s') = put_task (registry_of (cdc k) (kv_map s)) t"
  using set_task_law [OF assms] unfolding put_task_law by blast

lemma stored_task:
  assumes "wf_at k kv_map ctx" "reg_tasks (reg_at k kv_map ctx) i = Some t"
  shows "task_Id t = i" "go_task t"
  using registry_of_wf [OF assms(1)] assms(2) by (auto simp: reg_wf_def)

lemma CreateTask_refines:
  assumes wf: "wf_at k kv_map ctx" and go: "go_MsgCreateTask msg"
  shows "\<exists>ctx'. CreateTask k ctx msg = Some (ctx', Inr \<lparr>ctr_Id = reg_next (reg_at k kv_map ctx)\<rparr>)
    \<and> wf_at k kv_map ctx' \<and> reg_at k kv_map ctx' = reg_create (reg_at k kv_map ctx) msg
    \<and> ctx_events ctx' = ctx_events ctx @ [create_event (reg_at k kv_map ctx) msg]"
proof -
  let ?r = "reg_at k kv_map ctx"
  have "go_task (new_task ?r msg)"
    using go by (simp add: go_task_def go_MsgCreateTask_def new_task_def)
  then obtain s' where s': "SetTask k (ctx_store ctx) (new_task ?r msg) = Some s'"
    "store_wf (cdc k) (kv_map s')" "registry_of (cdc k) (kv_map s') = put_task ?r (new_task ?r msg)"
    by (rule set_task_put [OF wf])
  from set_next_law [OF s'(2), of "reg_next ?r + 1"] s'(1,3) show ?thesis
    by (simp add: CreateTask_def get_next_law [OF wf] new_task_def [symmetric] reg_create_def EmitEvent_def event_defs)
qed

lemma AssignTask_refines:
  assumes wf: "wf_at k kv_map ctx" and go: "go_MsgAssignTask msg"
  shows "case reg_assign (reg_at k kv_map ctx) msg of
      Inl e \<Rightarrow> AssignTask k ctx msg = Some (ctx, Inl e)
    | Inr r' \<Rightarrow> (\<exists>ctx'. AssignTask k ctx msg = Some (ctx', Inr MsgAssignTaskResponse)
        \<and> wf_at k kv_map ctx' \<and> reg_at k kv_map ctx' = r'
        \<and> ctx_events ctx' = ctx_events ctx @ [assign_event msg])"
proof (cases "reg_tasks (reg_at k kv_map ctx) (at_TaskId msg)")
  case None
  then show ?thesis by (simp add: AssignTask_def reg_assign_def get_task_law [OF wf])
next
  case (Some t)
  let ?t = "t\<lparr>task_Assignee := at_Assignee msg, task_Status := TASK_STATUS_ASSIGNED\<rparr>"
  have "go_task ?t"
    using stored_task(2) [OF wf Some] go by (simp add: go_task_def go_MsgAssignTask_def)
  then obtain s' where "SetTask k (ctx_store ctx) ?t = Some s'"
    "store_wf (cdc k) (kv_map s')" "registry_of (cdc k) (kv_map s') = put_task (reg_at k kv_map ctx) ?t"
    by (rule set_task_put [OF wf])
  with Some show ?thesis
    by (simp add: AssignTask_def reg_assign_def get_task_law [OF wf] EmitEvent_def event_defs)
qed

lemma CompleteTask_refines:
  assumes wf: "wf_at k kv_map ctx"
  shows "case reg_complete (reg_at k kv_map ctx) msg of
      Inl e \<Rightarrow> CompleteTask k ctx msg = Some (ctx, Inl e)
    | Inr r' \<Rightarrow> (\<exists>ctx'. CompleteTask k ctx msg = Some (ctx', Inr MsgCompleteTaskResponse)
        \<and> wf_at k kv_map ctx' \<and> reg_at k kv_map ctx' = r'
        \<and> ctx_events ctx' = ctx_events ctx @ [complete_event msg])"
proof (cases "reg_tasks (reg_at k kv_map ctx) (cp_TaskId msg)")
  case None
  then show ?thesis by (simp add: CompleteTask_def reg_complete_def get_task_law [OF wf])
next
  case (Some t)
  let ?t = "t\<lparr>task_Status := TASK_STATUS_COMPLETED\<rparr>"
  have "go_task ?t"
    using stored_task(2) [OF wf Some] by (simp add: go_task_def)
  then obtain s' where "SetTask k (ctx_store ctx) ?t = Some s'"
    "store_wf (cdc k) (kv_map s')" "registry_of (cdc k) (kv_map s') = put_task (reg_at k kv_map ctx) ?t"
    by (rule set_task_put [OF wf])
  with Some show ?thesis
    by (simp add: CompleteTask_def reg_complete_def get_task_law [OF wf] EmitEvent_def event_defs)
qed

end

end
