(* ===== verification/Taskreg_Genesis.thy ===== *)
theory Taskreg_Genesis
  imports Msg_Server
begin

text \<open>
  Genesis of the task registry: \<^verbatim>\<open>types/genesis.go\<close>, \<^verbatim>\<open>keeper/genesis.go\<close> and the genesis
  methods of \<^verbatim>\<open>module.go\<close>. The JSON codec of the module methods is the SDK's and a parameter.
\<close>

section \<open>Default and validation\<close>

definition DefaultGenesis :: GenesisState where
  "DefaultGenesis = \<lparr>gs_Tasks = [], gs_NextTaskId = 1\<rparr>"

text \<open>The loop of \<open>Validate\<close>, over the map \<^verbatim>\<open>taskIDs\<close>, whose absent keys read as false.\<close>

fun validate_loop :: "(u64 \<Rightarrow> bool) \<Rightarrow> Task list \<Rightarrow> task_error option" where
  "validate_loop taskIDs [] = None"
| "validate_loop taskIDs (task # tasks) =
     (if taskIDs (task_Id task) then
        Some (ErrInvalidStatus (''duplicate task id: '' @ fmt_d (unat (task_Id task))))
      else validate_loop (taskIDs(task_Id task := True)) tasks)"

definition Validate :: "GenesisState \<Rightarrow> task_error option" where
  "Validate gs = validate_loop (\<lambda>_. False) (gs_Tasks gs)"

lemma validate_loop_None:
  "validate_loop seen ts = None \<longleftrightarrow> distinct (map task_Id ts) \<and> (\<forall>t \<in> set ts. \<not> seen (task_Id t))"
  by (induction ts arbitrary: seen) (auto intro: rev_image_eqI)

lemma validate_loop_Some:
  assumes "validate_loop seen ts = Some e"
  obtains us t vs where "ts = us @ t # vs" "distinct (map task_Id us)" "\<forall>u \<in> set us. \<not> seen (task_Id u)"
    "seen (task_Id t) \<or> task_Id t \<in> task_Id ` set us"
    "e = ErrInvalidStatus (''duplicate task id: '' @ fmt_d (unat (task_Id t)))"
  using assms
proof (induction ts arbitrary: seen thesis)
  case (Cons t ts)
  show ?case
  proof (cases "seen (task_Id t)")
    case True
    with Cons.prems(2) show ?thesis by (intro Cons.prems(1) [of "[]" t ts]) auto
  next
    case False
    with Cons.prems(2) have "validate_loop (seen(task_Id t := True)) ts = Some e" by simp
    then obtain us u vs where "ts = us @ u # vs" "distinct (map task_Id us)"
      "\<forall>w \<in> set us. \<not> (seen(task_Id t := True)) (task_Id w)"
      "(seen(task_Id t := True)) (task_Id u) \<or> task_Id u \<in> task_Id ` set us"
      "e = ErrInvalidStatus (''duplicate task id: '' @ fmt_d (unat (task_Id u)))"
      by (rule Cons.IH [rotated])
    with False show ?thesis by (intro Cons.prems(1) [of "t # us" u vs]) (auto split: if_splits)
  qed
qed simp

section \<open>Import and export\<close>

fun set_tasks :: "'s Keeper \<Rightarrow> 's \<Rightarrow> Task list \<Rightarrow> 's option" where
  "set_tasks k st [] = Some st"
| "set_tasks k st (task # tasks) = do { st \<leftarrow> SetTask k st task; set_tasks k st tasks }"

definition InitGenesis :: "'s Keeper \<Rightarrow> 's \<Rightarrow> GenesisState \<Rightarrow> 's option" where
  "InitGenesis k st gs =
     do {
       st \<leftarrow> set_tasks k st (gs_Tasks gs);
       Some (SetNextTaskID k st (gs_NextTaskId gs))
     }"

definition ExportGenesis :: "'s Keeper \<Rightarrow> 's \<Rightarrow> GenesisState option" where
  "ExportGenesis k st =
     do {
       tasks \<leftarrow> IterateTasks k st collect_task [];
       nextId \<leftarrow> GetNextTaskID k st;
       Some \<lparr>gs_Tasks = tasks, gs_NextTaskId = nextId\<rparr>
     }"

section \<open>The module's genesis methods\<close>

text \<open>
  \<^verbatim>\<open>codec.JSONCodec\<close> at genesis states: \<open>UnmarshalJSON\<close> decodes into a fresh \<^verbatim>\<open>gs\<close>, and
  \<^verbatim>\<open>MustUnmarshalJSON\<close> panics where it fails.
\<close>

record json_codec =
  MustMarshalJSON :: "GenesisState \<Rightarrow> bytes option"
  UnmarshalJSON :: "bytes \<Rightarrow> string + GenesisState"
  MustUnmarshalJSON :: "bytes \<Rightarrow> GenesisState option"

datatype genesis_error = UnmarshalError string | InvalidGenesis task_error

definition ModuleName :: string where "ModuleName = ''taskreg''"

definition Module_DefaultGenesis :: "json_codec \<Rightarrow> bytes option" where
  "Module_DefaultGenesis js = MustMarshalJSON js DefaultGenesis"

definition Module_ValidateGenesis :: "json_codec \<Rightarrow> bytes \<Rightarrow> genesis_error option" where
  "Module_ValidateGenesis js bz =
     (case UnmarshalJSON js bz of
        Inl err \<Rightarrow> Some (UnmarshalError (''failed to unmarshal '' @ ModuleName @ '' genesis state: '' @ err))
      | Inr gs \<Rightarrow> map_option InvalidGenesis (Validate gs))"

definition Module_InitGenesis :: "'s Keeper \<Rightarrow> 's \<Rightarrow> json_codec \<Rightarrow> bytes \<Rightarrow> 's option" where
  "Module_InitGenesis k st js data = do { gs \<leftarrow> MustUnmarshalJSON js data; InitGenesis k st gs }"

definition Module_ExportGenesis :: "'s Keeper \<Rightarrow> 's \<Rightarrow> json_codec \<Rightarrow> bytes option" where
  "Module_ExportGenesis k st js = do { gs \<leftarrow> ExportGenesis k st; MustMarshalJSON js gs }"

section \<open>On the abstract registry\<close>

definition put_tasks :: "registry \<Rightarrow> Task list \<Rightarrow> registry" where
  "put_tasks r ts = fold (\<lambda>t r. put_task r t) ts r"

definition reg_init :: "registry \<Rightarrow> GenesisState \<Rightarrow> registry" where
  "reg_init r gs = (put_tasks r (gs_Tasks gs))\<lparr>reg_next := gs_NextTaskId gs\<rparr>"

definition empty_registry :: registry where
  "empty_registry = \<lparr>reg_tasks = (\<lambda>_. None), reg_next = 1\<rparr>"

definition go_tasks :: "GenesisState \<Rightarrow> bool" where
  "go_tasks gs \<longleftrightarrow> (\<forall>t \<in> set (gs_Tasks gs). go_task t)"

lemma put_tasks_Nil [simp]: "put_tasks r [] = r"
  and put_tasks_Cons [simp]: "put_tasks r (t # ts) = put_tasks (put_task r t) ts"
  by (simp_all add: put_tasks_def)

lemma reg_next_put_tasks [simp]: "reg_next (put_tasks r ts) = reg_next r"
  by (induction ts arbitrary: r) (simp_all add: put_task_def)

text \<open>The last task with an id wins; with distinct ids each is stored.\<close>

lemma reg_tasks_put_tasks:
  "reg_tasks (put_tasks r ts) i =
   (case find (\<lambda>t. task_Id t = i) (rev ts) of None \<Rightarrow> reg_tasks r i | Some t \<Rightarrow> Some t)"
proof (induction ts arbitrary: r)
  case (Cons t ts)
  have "find P (xs @ [y]) = (case find P xs of None \<Rightarrow> if P y then Some y else None | Some z \<Rightarrow> Some z)"
    for P :: "Task \<Rightarrow> bool" and xs y by (induction xs) auto
  with Cons show ?case by (auto simp: put_task_def split: option.split)
qed simp

lemma reg_tasks_put_distinct:
  assumes "distinct (map task_Id ts)" "t \<in> set ts"
  shows "reg_tasks (put_tasks r ts) (task_Id t) = Some t"
proof (cases "find (\<lambda>u. task_Id u = task_Id t) (rev ts)")
  case None
  with assms(2) show ?thesis by (auto simp: find_None_iff)
next
  case (Some u)
  then have "u \<in> set ts" "task_Id u = task_Id t"
    by (auto simp: find_Some_iff) (metis nth_mem set_rev length_rev)
  with assms have "u = t" by (auto simp: distinct_map inj_on_def)
  with Some show ?thesis by (simp add: reg_tasks_put_tasks)
qed

lemma reg_tasks_put_other:
  "i \<notin> task_Id ` set ts \<Longrightarrow> reg_tasks (put_tasks r ts) i = reg_tasks r i"
  by (induction ts arbitrary: r) (auto simp: put_task_def)

context keeper_env
begin

lemma set_tasks_refines:
  assumes "store_wf (cdc k) (kv_map s)" "\<forall>t \<in> set ts. go_task t"
  shows "\<exists>s'. set_tasks k s ts = Some s' \<and> store_wf (cdc k) (kv_map s')
    \<and> registry_of (cdc k) (kv_map s') = put_tasks (registry_of (cdc k) (kv_map s)) ts"
  using assms
proof (induction ts arbitrary: s)
  case (Cons t ts)
  obtain s1 where s1: "SetTask k s t = Some s1" "store_wf (cdc k) (kv_map s1)"
    "registry_of (cdc k) (kv_map s1) = put_task (registry_of (cdc k) (kv_map s)) t"
    using set_task_put [of s t] Cons.prems by auto
  from Cons.IH [OF s1(2)] Cons.prems(2) s1 show ?case by auto
qed simp

lemma InitGenesis_refines:
  assumes "store_wf (cdc k) (kv_map s)" "go_tasks gs"
  shows "\<exists>s'. InitGenesis k s gs = Some s' \<and> store_wf (cdc k) (kv_map s')
    \<and> registry_of (cdc k) (kv_map s') = reg_init (registry_of (cdc k) (kv_map s)) gs"
proof -
  obtain s1 where s1: "set_tasks k s (gs_Tasks gs) = Some s1" "store_wf (cdc k) (kv_map s1)"
    "registry_of (cdc k) (kv_map s1) = put_tasks (registry_of (cdc k) (kv_map s)) (gs_Tasks gs)"
    using set_tasks_refines [OF assms(1)] assms(2) by (auto simp: go_tasks_def)
  from set_next_law [OF s1(2), of "gs_NextTaskId gs"] s1 show ?thesis
    by (simp add: InitGenesis_def reg_init_def)
qed

text \<open>The export lists the registry: every task once, in the order of the ids, and the counter.\<close>

lemma ExportGenesis_eq:
  assumes wf: "store_wf (cdc k) (kv_map s)"
  shows "\<exists>ts. ExportGenesis k s = Some \<lparr>gs_Tasks = ts, gs_NextTaskId = reg_next (registry_of (cdc k) (kv_map s))\<rparr>
    \<and> all_tasks k s = Some ts \<and> sorted_wrt (<) (map task_Id ts)
    \<and> (\<forall>t. t \<in> set ts \<longleftrightarrow> reg_tasks (registry_of (cdc k) (kv_map s)) (task_Id t) = Some t)"
  using list_tasks_law [OF wf] get_next_law [OF wf] by (auto simp: ExportGenesis_def)

lemma export_go_tasks:
  assumes wf: "store_wf (cdc k) (kv_map s)" and "ExportGenesis k s = Some gs"
  shows "go_tasks gs" "distinct (map task_Id (gs_Tasks gs))"
proof -
  from ExportGenesis_eq [OF wf] assms(2) obtain ts where ts: "gs_Tasks gs = ts" "sorted_wrt (<) (map task_Id ts)"
    "\<And>t. t \<in> set ts \<longleftrightarrow> reg_tasks (registry_of (cdc k) (kv_map s)) (task_Id t) = Some t" by auto
  show "go_tasks gs"
    using registry_of_wf [OF wf] ts by (auto simp: go_tasks_def reg_wf_def)
  show "distinct (map task_Id (gs_Tasks gs))" using ts by (simp add: strict_sorted_iff)
qed

text \<open>A store that represents the exported tasks and nothing else represents the registry itself.\<close>

lemma registry_from_listing:
  assumes wf: "store_wf (cdc k) (kv_map s)" and ts: "all_tasks k s = Some ts"
    and r0: "reg_tasks r0 = (\<lambda>_. None)"
  shows "reg_tasks (put_tasks r0 ts) = reg_tasks (registry_of (cdc k) (kv_map s))"
proof
  fix i
  let ?r = "registry_of (cdc k) (kv_map s)"
  show "reg_tasks (put_tasks r0 ts) i = reg_tasks ?r i"
  proof (cases "reg_tasks ?r i")
    case None
    then have "i \<notin> task_Id ` set ts" using list_tasks_ids [OF wf ts] by auto
    with None r0 show ?thesis by (simp add: reg_tasks_put_other)
  next
    case (Some t)
    then have i: "task_Id t = i" using registry_of_wf [OF wf] by (simp add: reg_wf_def)
    with Some list_tasks_eq(2) [OF wf ts, of t] have "t \<in> set ts" by simp
    moreover have "distinct (map task_Id ts)"
      using list_tasks_eq(1) [OF wf ts] by (simp add: strict_sorted_iff)
    ultimately show ?thesis using reg_tasks_put_distinct [of ts t r0] i Some by simp
  qed
qed

text \<open>Importing an export into an empty store gives the registry back.\<close>

lemma init_of_export:
  assumes wf: "store_wf (cdc k) (kv_map s)" and gs: "ExportGenesis k s = Some gs"
    and empty: "kv_map s0 = Map.empty"
  shows "\<exists>s'. InitGenesis k s0 gs = Some s' \<and> store_wf (cdc k) (kv_map s')
    \<and> registry_of (cdc k) (kv_map s') = registry_of (cdc k) (kv_map s)"
proof -
  let ?r0 = "registry_of (cdc k) (kv_map s0)"
  have wf0: "store_wf (cdc k) (kv_map s0)" and r0: "reg_tasks ?r0 = (\<lambda>_. None)"
    by (simp_all add: store_wf_def registry_of_def empty)
  obtain s' where s': "InitGenesis k s0 gs = Some s'" "store_wf (cdc k) (kv_map s')"
    "registry_of (cdc k) (kv_map s') = reg_init ?r0 gs"
    using InitGenesis_refines [OF wf0 export_go_tasks(1) [OF wf gs]] by blast
  obtain ts where ts: "all_tasks k s = Some ts"
    "gs = \<lparr>gs_Tasks = ts, gs_NextTaskId = reg_next (registry_of (cdc k) (kv_map s))\<rparr>"
    using ExportGenesis_eq [OF wf] gs by auto
  have "reg_init ?r0 gs = registry_of (cdc k) (kv_map s)"
    using registry_from_listing [OF wf ts(1) r0] ts(2) by (simp add: reg_init_def)
  with s' show ?thesis by metis
qed

end

end
