(* ===== verification/Query_Pb.thy ===== *)
theory Query_Pb
  imports Tx_Pb
begin

text \<open>
  \<^verbatim>\<open>mychain/x/taskreg/types/query.pb.go\<close>: the requests and responses of the query service. The
  pagination messages are the SDK's (\<^verbatim>\<open>types/query\<close>): their fields are records here, and their
  encoders and decoders are the parameter \<open>pages\<close>, whose round trips the locale \<open>page_format\<close>
  states. A pointer field that may be nil is an \<open>option\<close>.
\<close>

section \<open>The SDK's pagination messages\<close>

record PageRequest =
  pr_Key :: bytes
  pr_Offset :: u64
  pr_Limit :: u64
  pr_CountTotal :: bool
  pr_Reverse :: bool

record PageResponse =
  ps_NextKey :: bytes
  ps_Total :: u64

definition zero_PageRequest :: PageRequest where
  "zero_PageRequest = \<lparr>pr_Key = [], pr_Offset = 0, pr_Limit = 0, pr_CountTotal = False, pr_Reverse = False\<rparr>"

text \<open>\<^verbatim>\<open>Unmarshal\<close> is called on a fresh message: the fields give the message it leaves and its error.\<close>

record pages =
  MarshalPageRequest :: "PageRequest \<Rightarrow> string + bytes"
  SizePageRequest :: "PageRequest \<Rightarrow> int"
  UnmarshalPageRequest :: "bytes \<Rightarrow> PageRequest \<times> string option"
  MarshalPageResponse :: "PageResponse \<Rightarrow> string + bytes"
  SizePageResponse :: "PageResponse \<Rightarrow> int"
  UnmarshalPageResponse :: "bytes \<Rightarrow> PageResponse \<times> string option"

section \<open>QueryTaskRequest\<close>

record QueryTaskRequest =
  qtr_Id :: u64

definition zero_QueryTaskRequest :: QueryTaskRequest where
  "zero_QueryTaskRequest = \<lparr>qtr_Id = 0\<rparr>"

definition QueryTaskRequest_Marshal :: "protowire \<Rightarrow> QueryTaskRequest \<Rightarrow> string + bytes" where
  "QueryTaskRequest_Marshal pw m =
     (let b = [];
          b = appendUint64 pw b 1 (qtr_Id m)
      in Inr b)"

definition QueryTaskRequest_MarshalTo ::
  "protowire \<Rightarrow> QueryTaskRequest \<Rightarrow> bytes \<Rightarrow> bytes \<times> (string + int)" where
  "QueryTaskRequest_MarshalTo pw m dAtA = marshal_to (QueryTaskRequest_Marshal pw m) dAtA"

definition QueryTaskRequest_MarshalToSizedBuffer ::
  "protowire \<Rightarrow> QueryTaskRequest \<Rightarrow> bytes \<Rightarrow> (bytes \<times> (string + int)) option" where
  "QueryTaskRequest_MarshalToSizedBuffer pw m dAtA = marshal_to_sized (QueryTaskRequest_Marshal pw m) dAtA"

definition QueryTaskRequest_Size :: "protowire \<Rightarrow> QueryTaskRequest \<Rightarrow> int" where
  "QueryTaskRequest_Size pw m = sizeUint64 pw 1 (qtr_Id m)"

definition QueryTaskRequest_field ::
  "protowire \<Rightarrow> int \<Rightarrow> int \<Rightarrow> bytes \<Rightarrow> QueryTaskRequest \<Rightarrow> QueryTaskRequest field_result" where
  "QueryTaskRequest_field pw num wt b m =
     (if num = 1 then varint_case pw (\<lambda>v. m\<lparr>qtr_Id := v\<rparr>) m b
      else default_case pw wt m b)"

definition QueryTaskRequest_Unmarshal ::
  "protowire \<Rightarrow> QueryTaskRequest \<Rightarrow> bytes \<Rightarrow> (QueryTaskRequest \<times> string option) option" where
  "QueryTaskRequest_Unmarshal pw m b = unmarshal_loop pw (QueryTaskRequest_field pw) m b"

context wire_format
begin

lemma QueryTaskRequest_Marshal_eq [wire_simps]:
  "QueryTaskRequest_Marshal pw m =
   Inr (appendUint64 pw [] 1 (qtr_Id m))"
  by (simp add: QueryTaskRequest_Marshal_def Let_def appendUint64_eq appendString_eq)

lemma QueryTaskRequest_Size_eq:
  "QueryTaskRequest_Marshal pw m = Inr bz \<Longrightarrow> QueryTaskRequest_Size pw m = int (length bz)"
  by (auto simp: QueryTaskRequest_Marshal_eq QueryTaskRequest_Size_def sizeUint64_eq sizeString_eq)

lemma field_total_QueryTaskRequest: "field_total (QueryTaskRequest_field pw)"
  by (simp add: field_total_def QueryTaskRequest_field_def)

lemma loop_QueryTaskRequest_fields [wire_simps]:
  "unmarshal_loop pw (QueryTaskRequest_field pw) m (appendUint64 pw [] 1 v @ r) =
   unmarshal_loop pw (QueryTaskRequest_field pw) (m\<lparr>qtr_Id := if v = 0 then qtr_Id m else v\<rparr>) r"
  using loop_uint64 [where num = 1 and upd = "\<lambda>v. m\<lparr>qtr_Id := v\<rparr>" and fld = "QueryTaskRequest_field pw"]
  by (simp_all add: QueryTaskRequest_field_def)

lemma QueryTaskRequest_Unmarshal_wire:
  assumes "QueryTaskRequest_Marshal pw m = Inr bz"
  shows "QueryTaskRequest_Unmarshal pw zero_QueryTaskRequest bz = Some (m, None)"
  using assms loop_QueryTaskRequest_fields(1) [where r = "[]"]
  by (auto simp: QueryTaskRequest_Unmarshal_def QueryTaskRequest_Marshal_eq wire_simps zero_QueryTaskRequest_def)

end

section \<open>What the messages rely on\<close>

definition go_PageRequest :: "PageRequest \<Rightarrow> bool" where
  "go_PageRequest p \<longleftrightarrow> go_len (pr_Key p)"

definition go_PageResponse :: "PageResponse \<Rightarrow> bool" where
  "go_PageResponse p \<longleftrightarrow> go_len (ps_NextKey p)"

definition zero_PageResponse :: PageResponse where
  "zero_PageResponse = \<lparr>ps_NextKey = [], ps_Total = 0\<rparr>"

locale page_format =
  fixes pg :: pages
  assumes page_request: "go_PageRequest p \<Longrightarrow> \<exists>bz. MarshalPageRequest pg p = Inr bz
      \<and> UnmarshalPageRequest pg bz = (p, None) \<and> SizePageRequest pg p = int (length bz)"
    and page_request_zero: "MarshalPageRequest pg zero_PageRequest = Inr []"
    and page_response: "go_PageResponse q \<Longrightarrow> \<exists>bz. MarshalPageResponse pg q = Inr bz
      \<and> UnmarshalPageResponse pg bz = (q, None) \<and> SizePageResponse pg q = int (length bz)"
    and page_response_zero: "MarshalPageResponse pg zero_PageResponse = Inr []"
begin

lemma page_request_empty:
  assumes "go_PageRequest p" "MarshalPageRequest pg p = Inr []"
  shows "p = zero_PageRequest"
proof -
  have "UnmarshalPageRequest pg [] = (p, None)" using page_request [OF assms(1)] assms(2) by auto
  moreover have "UnmarshalPageRequest pg [] = (zero_PageRequest, None)"
    using page_request [of zero_PageRequest] page_request_zero by (auto simp: go_PageRequest_def zero_PageRequest_def)
  ultimately show ?thesis by simp
qed

lemma page_response_empty:
  assumes "go_PageResponse p" "MarshalPageResponse pg p = Inr []"
  shows "p = zero_PageResponse"
proof -
  have "UnmarshalPageResponse pg [] = (p, None)" using page_response [OF assms(1)] assms(2) by auto
  moreover have "UnmarshalPageResponse pg [] = (zero_PageResponse, None)"
    using page_response [of zero_PageResponse] page_response_zero
    by (auto simp: go_PageResponse_def zero_PageResponse_def)
  ultimately show ?thesis by simp
qed

end

text \<open>An embedded message is written, if its encoding is not empty, behind the tag of its field.\<close>

definition append_message :: "protowire \<Rightarrow> bytes \<Rightarrow> int \<Rightarrow> bytes \<Rightarrow> bytes" where
  "append_message pw b num bz =
     (if bz \<noteq> [] then AppendBytes pw (AppendTag pw b num BytesType) bz else b)"

definition size_message :: "protowire \<Rightarrow> int \<Rightarrow> int \<Rightarrow> int" where
  "size_message pw num n = (if n = 0 then 0 else SizeTag pw num + SizeBytes pw n)"

context wire_format
begin

lemma append_message_eq [wire_simps]:
  "NO_MATCH [] b \<Longrightarrow> append_message pw b num bz = b @ append_message pw [] num bz"
  using append_tag [of b num BytesType] append_bytes [of "b @ AppendTag pw [] num BytesType" bz]
  by (simp add: append_message_def append_bytes [of "AppendTag pw [] num BytesType"])

lemma size_message_eq:
  "1 \<le> num \<Longrightarrow> num < 2 ^ 29 \<Longrightarrow> go_len bz \<Longrightarrow>
   size_message pw num (int (length bz)) = int (length (append_message pw [] num bz))"
  by (simp add: size_message_def append_message_def size_tag [of num BytesType] size_bytes
      append_bytes [of "AppendTag pw [] num BytesType"])

lemma loop_append_message:
  assumes "1 \<le> num" "num < 2 ^ 29" and "\<And>b. fld num BytesType b m = message_case pw dec m b"
    and "go_len bz" and "bz \<noteq> [] \<Longrightarrow> dec bz = Some (m', None)"
  shows "unmarshal_loop pw fld m (append_message pw [] num bz @ r) =
    unmarshal_loop pw fld (if bz = [] then m else m') r"
  using assms loop_message [where fld = fld and num = num and m = m and dec = dec and bz = bz and m' = m']
  by (simp add: append_message_def append_bytes [of "AppendTag pw [] num BytesType"])

end

section \<open>QueryTaskResponse\<close>

record QueryTaskResponse =
  qts_Task :: Task

definition zero_QueryTaskResponse :: QueryTaskResponse where
  "zero_QueryTaskResponse = \<lparr>qts_Task = zero_task\<rparr>"

definition QueryTaskResponse_Marshal :: "protowire \<Rightarrow> QueryTaskResponse \<Rightarrow> string + bytes" where
  "QueryTaskResponse_Marshal pw m =
     (case Task_Marshal pw (qts_Task m) of
        Inl err \<Rightarrow> Inl err
      | Inr taskBz \<Rightarrow> Inr (append_message pw [] 1 taskBz))"

definition QueryTaskResponse_MarshalTo ::
  "protowire \<Rightarrow> QueryTaskResponse \<Rightarrow> bytes \<Rightarrow> bytes \<times> (string + int)" where
  "QueryTaskResponse_MarshalTo pw m dAtA = marshal_to (QueryTaskResponse_Marshal pw m) dAtA"

definition QueryTaskResponse_MarshalToSizedBuffer ::
  "protowire \<Rightarrow> QueryTaskResponse \<Rightarrow> bytes \<Rightarrow> (bytes \<times> (string + int)) option" where
  "QueryTaskResponse_MarshalToSizedBuffer pw m dAtA = marshal_to_sized (QueryTaskResponse_Marshal pw m) dAtA"

definition QueryTaskResponse_Size :: "protowire \<Rightarrow> QueryTaskResponse \<Rightarrow> int" where
  "QueryTaskResponse_Size pw m = size_message pw 1 (Task_Size pw (qts_Task m))"

text \<open>The embedded task is decoded in place, into the task the response already holds.\<close>

definition QueryTaskResponse_field ::
  "protowire \<Rightarrow> int \<Rightarrow> int \<Rightarrow> bytes \<Rightarrow> QueryTaskResponse \<Rightarrow> QueryTaskResponse field_result" where
  "QueryTaskResponse_field pw num wt b m =
     (if num = 1 then
        message_case pw (\<lambda>bz. map_option (\<lambda>(task, err). (m\<lparr>qts_Task := task\<rparr>, err))
          (Task_Unmarshal pw (qts_Task m) bz)) m b
      else default_case pw wt m b)"

definition QueryTaskResponse_Unmarshal ::
  "protowire \<Rightarrow> QueryTaskResponse \<Rightarrow> bytes \<Rightarrow> (QueryTaskResponse \<times> string option) option" where
  "QueryTaskResponse_Unmarshal pw m b = unmarshal_loop pw (QueryTaskResponse_field pw) m b"

context wire_format
begin

lemma QueryTaskResponse_Marshal_eq [wire_simps]:
  "QueryTaskResponse_Marshal pw m = Inr (append_message pw [] 1 (Task_wire pw (qts_Task m)))"
  by (simp add: QueryTaskResponse_Marshal_def Task_Marshal_eq)

lemma QueryTaskResponse_Size_eq:
  assumes "go_task (qts_Task m)" "go_len (Task_wire pw (qts_Task m))" "QueryTaskResponse_Marshal pw m = Inr bz"
  shows "QueryTaskResponse_Size pw m = int (length bz)"
  using assms by (auto simp: QueryTaskResponse_Marshal_eq QueryTaskResponse_Size_def size_message_eq
      simp flip: length_Task_wire)

lemma field_total_QueryTaskResponse: "field_total (QueryTaskResponse_field pw)"
  using Task_Unmarshal_total by (simp add: field_total_def QueryTaskResponse_field_def del: not_None_eq)

lemma Task_wire_empty: "go_task t \<Longrightarrow> Task_wire pw t = [] \<Longrightarrow> t = zero_task"
  using Task_Unmarshal_wire [of t zero_task] by (simp add: Task_Unmarshal_def)

lemma QueryTaskResponse_Unmarshal_wire:
  assumes "go_task (qts_Task m)" "go_len (Task_wire pw (qts_Task m))"
    and "QueryTaskResponse_Marshal pw m = Inr bz"
  shows "QueryTaskResponse_Unmarshal pw zero_QueryTaskResponse bz = Some (m, None)"
proof -
  have "unmarshal_loop pw (QueryTaskResponse_field pw) zero_QueryTaskResponse
      (append_message pw [] 1 (Task_wire pw (qts_Task m)) @ []) =
    unmarshal_loop pw (QueryTaskResponse_field pw)
      (if Task_wire pw (qts_Task m) = [] then zero_QueryTaskResponse else m) []"
    by (rule loop_append_message [where dec = "\<lambda>bz. map_option (\<lambda>(task, err).
        (zero_QueryTaskResponse\<lparr>qts_Task := task\<rparr>, err)) (Task_Unmarshal pw (qts_Task zero_QueryTaskResponse) bz)"])
      (use assms in \<open>simp_all add: QueryTaskResponse_field_def zero_QueryTaskResponse_def Task_Unmarshal_wire\<close>)
  with assms Task_wire_empty [of "qts_Task m"] show ?thesis
    by (auto simp: QueryTaskResponse_Unmarshal_def QueryTaskResponse_Marshal_eq zero_QueryTaskResponse_def)
qed

end

section \<open>QueryListTasksRequest\<close>

record QueryListTasksRequest =
  qlr_Pagination :: "PageRequest option"

definition zero_QueryListTasksRequest :: QueryListTasksRequest where
  "zero_QueryListTasksRequest = \<lparr>qlr_Pagination = None\<rparr>"

definition QueryListTasksRequest_Marshal ::
  "protowire \<Rightarrow> pages \<Rightarrow> QueryListTasksRequest \<Rightarrow> string + bytes" where
  "QueryListTasksRequest_Marshal pw pg m =
     (case qlr_Pagination m of
        None \<Rightarrow> Inr []
      | Some p \<Rightarrow>
          (case MarshalPageRequest pg p of
             Inl err \<Rightarrow> Inl err
           | Inr pagBz \<Rightarrow> Inr (append_message pw [] 1 pagBz)))"

definition QueryListTasksRequest_MarshalTo ::
  "protowire \<Rightarrow> pages \<Rightarrow> QueryListTasksRequest \<Rightarrow> bytes \<Rightarrow> bytes \<times> (string + int)" where
  "QueryListTasksRequest_MarshalTo pw pg m dAtA = marshal_to (QueryListTasksRequest_Marshal pw pg m) dAtA"

definition QueryListTasksRequest_MarshalToSizedBuffer ::
  "protowire \<Rightarrow> pages \<Rightarrow> QueryListTasksRequest \<Rightarrow> bytes \<Rightarrow> (bytes \<times> (string + int)) option" where
  "QueryListTasksRequest_MarshalToSizedBuffer pw pg m dAtA =
     marshal_to_sized (QueryListTasksRequest_Marshal pw pg m) dAtA"

definition QueryListTasksRequest_Size :: "protowire \<Rightarrow> pages \<Rightarrow> QueryListTasksRequest \<Rightarrow> int" where
  "QueryListTasksRequest_Size pw pg m =
     (case qlr_Pagination m of
        None \<Rightarrow> 0
      | Some p \<Rightarrow> size_message pw 1 (SizePageRequest pg p))"

definition QueryListTasksRequest_field ::
  "protowire \<Rightarrow> pages \<Rightarrow> int \<Rightarrow> int \<Rightarrow> bytes \<Rightarrow> QueryListTasksRequest \<Rightarrow> QueryListTasksRequest field_result" where
  "QueryListTasksRequest_field pw pg num wt b m =
     (if num = 1 then
        message_case pw (\<lambda>bz. let (p, err) = UnmarshalPageRequest pg bz
          in Some (m\<lparr>qlr_Pagination := Some p\<rparr>, err)) m b
      else default_case pw wt m b)"

definition QueryListTasksRequest_Unmarshal ::
  "protowire \<Rightarrow> pages \<Rightarrow> QueryListTasksRequest \<Rightarrow> bytes \<Rightarrow> (QueryListTasksRequest \<times> string option) option" where
  "QueryListTasksRequest_Unmarshal pw pg m b = unmarshal_loop pw (QueryListTasksRequest_field pw pg) m b"

section \<open>QueryListTasksResponse\<close>

record QueryListTasksResponse =
  qls_Tasks :: "Task list"
  qls_Pagination :: "PageResponse option"

definition zero_QueryListTasksResponse :: QueryListTasksResponse where
  "zero_QueryListTasksResponse = \<lparr>qls_Tasks = [], qls_Pagination = None\<rparr>"

definition QueryListTasksResponse_Marshal ::
  "protowire \<Rightarrow> pages \<Rightarrow> QueryListTasksResponse \<Rightarrow> string + bytes" where
  "QueryListTasksResponse_Marshal pw pg m =
     (case append_tasks pw [] (qls_Tasks m) of
        Inl err \<Rightarrow> Inl err
      | Inr b \<Rightarrow>
          (case qls_Pagination m of
             None \<Rightarrow> Inr b
           | Some p \<Rightarrow>
               (case MarshalPageResponse pg p of
                  Inl err \<Rightarrow> Inl err
                | Inr pagBz \<Rightarrow> Inr (append_message pw b 2 pagBz))))"

definition QueryListTasksResponse_MarshalTo ::
  "protowire \<Rightarrow> pages \<Rightarrow> QueryListTasksResponse \<Rightarrow> bytes \<Rightarrow> bytes \<times> (string + int)" where
  "QueryListTasksResponse_MarshalTo pw pg m dAtA = marshal_to (QueryListTasksResponse_Marshal pw pg m) dAtA"

definition QueryListTasksResponse_MarshalToSizedBuffer ::
  "protowire \<Rightarrow> pages \<Rightarrow> QueryListTasksResponse \<Rightarrow> bytes \<Rightarrow> (bytes \<times> (string + int)) option" where
  "QueryListTasksResponse_MarshalToSizedBuffer pw pg m dAtA =
     marshal_to_sized (QueryListTasksResponse_Marshal pw pg m) dAtA"

definition QueryListTasksResponse_Size :: "protowire \<Rightarrow> pages \<Rightarrow> QueryListTasksResponse \<Rightarrow> int" where
  "QueryListTasksResponse_Size pw pg m =
     (let n = size_tasks pw 0 (qls_Tasks m)
      in case qls_Pagination m of
           None \<Rightarrow> n
         | Some p \<Rightarrow>
             (let pagSize = SizePageResponse pg p
              in if pagSize > 0 then n + (SizeTag pw 2 + SizeBytes pw pagSize) else n))"

definition QueryListTasksResponse_field ::
  "protowire \<Rightarrow> pages \<Rightarrow> int \<Rightarrow> int \<Rightarrow> bytes \<Rightarrow> QueryListTasksResponse \<Rightarrow> QueryListTasksResponse field_result" where
  "QueryListTasksResponse_field pw pg num wt b m =
     (if num = 1 then
        message_case pw (append_task_case pw (\<lambda>task. m\<lparr>qls_Tasks := qls_Tasks m @ [task]\<rparr>) m) m b
      else if num = 2 then
        message_case pw (\<lambda>bz. let (p, err) = UnmarshalPageResponse pg bz
          in Some (m\<lparr>qls_Pagination := Some p\<rparr>, err)) m b
      else default_case pw wt m b)"

definition QueryListTasksResponse_Unmarshal ::
  "protowire \<Rightarrow> pages \<Rightarrow> QueryListTasksResponse \<Rightarrow> bytes \<Rightarrow> (QueryListTasksResponse \<times> string option) option" where
  "QueryListTasksResponse_Unmarshal pw pg m b = unmarshal_loop pw (QueryListTasksResponse_field pw pg) m b"

section \<open>The list messages on the wire\<close>

text \<open>
  A pagination message with all fields zero has an empty encoding, which is not written: it comes
  back as nil.
\<close>

definition drop_zero :: "'p \<Rightarrow> 'p option \<Rightarrow> 'p option" where
  "drop_zero z p = (if p = Some z then None else p)"

definition opt_wire :: "('p \<Rightarrow> string + bytes) \<Rightarrow> 'p option \<Rightarrow> bytes" where
  "opt_wire enc p = (case p of None \<Rightarrow> [] | Some q \<Rightarrow> (case enc q of Inl _ \<Rightarrow> [] | Inr bz \<Rightarrow> bz))"

definition go_ListRequest :: "pages \<Rightarrow> QueryListTasksRequest \<Rightarrow> bool" where
  "go_ListRequest pg m \<longleftrightarrow> (\<forall>p. qlr_Pagination m = Some p \<longrightarrow> go_PageRequest p)
     \<and> go_len (opt_wire (MarshalPageRequest pg) (qlr_Pagination m))"

definition go_ListResponse :: "protowire \<Rightarrow> pages \<Rightarrow> QueryListTasksResponse \<Rightarrow> bool" where
  "go_ListResponse pw pg m \<longleftrightarrow> (\<forall>t \<in> set (qls_Tasks m). go_task t \<and> go_len (Task_wire pw t))
     \<and> (\<forall>p. qls_Pagination m = Some p \<longrightarrow> go_PageResponse p)
     \<and> go_len (opt_wire (MarshalPageResponse pg) (qls_Pagination m))"

locale query_wire = wire_format pw + page_format pg for pw pg
begin

lemma field_total_ListRequest: "field_total (QueryListTasksRequest_field pw pg)"
  by (simp add: field_total_def QueryListTasksRequest_field_def case_prod_beta Let_def)

lemma field_total_ListResponse: "field_total (QueryListTasksResponse_field pw pg)"
  by (simp add: field_total_def QueryListTasksResponse_field_def case_prod_beta Let_def
      append_task_case_total del: not_None_eq)

lemma ListRequest_wire:
  assumes "go_ListRequest pg m"
  shows "\<exists>bz. QueryListTasksRequest_Marshal pw pg m = Inr bz
    \<and> QueryListTasksRequest_Size pw pg m = int (length bz)
    \<and> QueryListTasksRequest_Unmarshal pw pg zero_QueryListTasksRequest bz =
        Some (m\<lparr>qlr_Pagination := drop_zero zero_PageRequest (qlr_Pagination m)\<rparr>, None)"
proof (cases "qlr_Pagination m")
  case None
  then show ?thesis
    by (simp add: QueryListTasksRequest_Marshal_def QueryListTasksRequest_Size_def drop_zero_def
        QueryListTasksRequest_Unmarshal_def zero_QueryListTasksRequest_def)
next
  case (Some p)
  then have "go_PageRequest p" using assms by (simp add: go_ListRequest_def)
  from page_request [OF this] page_request_empty [OF this] obtain bz where
    bz: "MarshalPageRequest pg p = Inr bz" "UnmarshalPageRequest pg bz = (p, None)"
      "SizePageRequest pg p = int (length bz)" and empty: "bz = [] \<Longrightarrow> p = zero_PageRequest" by auto
  have len: "go_len bz" using assms Some bz by (simp add: go_ListRequest_def opt_wire_def)
  have "unmarshal_loop pw (QueryListTasksRequest_field pw pg) zero_QueryListTasksRequest
      (append_message pw [] 1 bz @ []) = unmarshal_loop pw (QueryListTasksRequest_field pw pg)
        (if bz = [] then zero_QueryListTasksRequest else zero_QueryListTasksRequest\<lparr>qlr_Pagination := Some p\<rparr>) []"
    by (rule loop_append_message [where dec = "\<lambda>bz. let (p, err) = UnmarshalPageRequest pg bz
        in Some (zero_QueryListTasksRequest\<lparr>qlr_Pagination := Some p\<rparr>, err)"])
      (use bz len in \<open>simp_all add: QueryListTasksRequest_field_def\<close>)
  with Some bz len empty page_request_zero show ?thesis
    by (auto simp: QueryListTasksRequest_Marshal_def QueryListTasksRequest_Size_def size_message_eq
        QueryListTasksRequest_Unmarshal_def zero_QueryListTasksRequest_def drop_zero_def)
qed

lemma loop_ListResponse_tasks:
  "\<forall>t \<in> set ts. go_task t \<and> go_len (Task_wire pw t) \<Longrightarrow>
   unmarshal_loop pw (QueryListTasksResponse_field pw pg) m (tasks_wire pw ts @ r) =
   unmarshal_loop pw (QueryListTasksResponse_field pw pg) (m\<lparr>qls_Tasks := qls_Tasks m @ ts\<rparr>) r"
proof (induction ts arbitrary: m)
  case Nil
  then show ?case by (simp add: tasks_wire_def)
next
  case (Cons t ts)
  then have "unmarshal_loop pw (QueryListTasksResponse_field pw pg) m (tasks_wire pw (t # ts) @ r) =
    unmarshal_loop pw (QueryListTasksResponse_field pw pg) (m\<lparr>qls_Tasks := qls_Tasks m @ [t]\<rparr>)
      (tasks_wire pw ts @ r)"
    using loop_message [where num = 1 and fld = "QueryListTasksResponse_field pw pg" and m = m
        and bz = "Task_wire pw t" and r = "tasks_wire pw ts @ r"
        and dec = "append_task_case pw (\<lambda>task. m\<lparr>qls_Tasks := qls_Tasks m @ [task]\<rparr>) m"]
    by (simp add: QueryListTasksResponse_field_def tasks_wire_def)
  with Cons show ?case by simp
qed

lemma ListResponse_wire:
  assumes "go_ListResponse pw pg m"
  shows "\<exists>bz. QueryListTasksResponse_Marshal pw pg m = Inr bz
    \<and> QueryListTasksResponse_Size pw pg m = int (length bz)
    \<and> QueryListTasksResponse_Unmarshal pw pg zero_QueryListTasksResponse bz =
        Some (m\<lparr>qls_Pagination := drop_zero zero_PageResponse (qls_Pagination m)\<rparr>, None)"
proof (cases "qls_Pagination m")
  case None
  with assms show ?thesis
    using loop_ListResponse_tasks [of "qls_Tasks m" zero_QueryListTasksResponse "[]"]
    by (simp add: QueryListTasksResponse_Marshal_def QueryListTasksResponse_Size_def drop_zero_def
        QueryListTasksResponse_Unmarshal_def zero_QueryListTasksResponse_def go_ListResponse_def
        append_tasks_eq size_tasks_eq)
next
  case (Some p)
  then have "go_PageResponse p" using assms by (simp add: go_ListResponse_def)
  from page_response [OF this] page_response_empty [OF this] obtain bz where
    bz: "MarshalPageResponse pg p = Inr bz" "UnmarshalPageResponse pg bz = (p, None)"
      "SizePageResponse pg p = int (length bz)" and empty: "bz = [] \<Longrightarrow> p = zero_PageResponse" by auto
  have len: "go_len bz" and ts: "\<forall>t \<in> set (qls_Tasks m). go_task t \<and> go_len (Task_wire pw t)"
    using assms Some bz by (simp_all add: go_ListResponse_def opt_wire_def)
  let ?m = "zero_QueryListTasksResponse\<lparr>qls_Tasks := qls_Tasks m\<rparr>"
  have "unmarshal_loop pw (QueryListTasksResponse_field pw pg) ?m (append_message pw [] 2 bz @ []) =
      unmarshal_loop pw (QueryListTasksResponse_field pw pg)
        (if bz = [] then ?m else ?m\<lparr>qls_Pagination := Some p\<rparr>) []"
    by (rule loop_append_message [where dec = "\<lambda>bz. let (p, err) = UnmarshalPageResponse pg bz
        in Some (?m\<lparr>qls_Pagination := Some p\<rparr>, err)"])
      (use bz len in \<open>simp_all add: QueryListTasksResponse_field_def\<close>)
  moreover have "QueryListTasksResponse_Marshal pw pg m =
      Inr (tasks_wire pw (qls_Tasks m) @ append_message pw [] 2 bz)"
    using Some bz by (simp add: QueryListTasksResponse_Marshal_def append_tasks_eq append_message_def
        append_tag [of "tasks_wire pw _"] append_bytes [of "_ @ _"] append_bytes [of "AppendTag pw [] 2 BytesType"])
  moreover have "QueryListTasksResponse_Size pw pg m =
      int (length (tasks_wire pw (qls_Tasks m) @ append_message pw [] 2 bz))"
    using Some bz size_message_eq [of 2 bz] len ts
    by (simp add: QueryListTasksResponse_Size_def size_tasks_eq size_message_def split: if_splits)
  moreover have "unmarshal_loop pw (QueryListTasksResponse_field pw pg) zero_QueryListTasksResponse
      (tasks_wire pw (qls_Tasks m) @ append_message pw [] 2 bz) =
      unmarshal_loop pw (QueryListTasksResponse_field pw pg) ?m (append_message pw [] 2 bz)"
    using loop_ListResponse_tasks [OF ts, of zero_QueryListTasksResponse]
    by (simp add: zero_QueryListTasksResponse_def)
  ultimately show ?thesis
    using Some bz empty page_response_zero
    by (auto simp: QueryListTasksResponse_Unmarshal_def zero_QueryListTasksResponse_def drop_zero_def)
qed

end

end
