(* ===== verification/Query_Std.thy ===== *)
theory Query_Std
  imports Query_Pb
begin

text \<open>
  A provider of \<open>page_format\<close>: the encoding of the SDK's pagination messages by their published
  schema (\<^verbatim>\<open>cosmos/base/query/v1beta1/pagination.proto\<close>: key 1, offset 2, limit 3,
  count_total 4, reverse 5; next_key 1, total 2), over any wire format.
\<close>

definition bool_u64 :: "bool \<Rightarrow> u64" where
  "bool_u64 b = (if b then 1 else 0)"

lemma bool_u64_eq [simp]: "bool_u64 b = 0 \<longleftrightarrow> \<not> b"
  by (simp add: bool_u64_def)

definition PageRequest_wire :: "protowire \<Rightarrow> PageRequest \<Rightarrow> bytes" where
  "PageRequest_wire pw p =
     appendString pw [] 1 (string_of (pr_Key p)) @ appendUint64 pw [] 2 (pr_Offset p)
     @ appendUint64 pw [] 3 (pr_Limit p) @ appendUint64 pw [] 4 (bool_u64 (pr_CountTotal p))
     @ appendUint64 pw [] 5 (bool_u64 (pr_Reverse p))"

definition PageRequest_field ::
  "protowire \<Rightarrow> int \<Rightarrow> int \<Rightarrow> bytes \<Rightarrow> PageRequest \<Rightarrow> PageRequest field_result" where
  "PageRequest_field pw num wt b m =
     (if num = 1 then string_case pw (\<lambda>v. m\<lparr>pr_Key := bytes_of v\<rparr>) m b
      else if num = 2 then varint_case pw (\<lambda>v. m\<lparr>pr_Offset := v\<rparr>) m b
      else if num = 3 then varint_case pw (\<lambda>v. m\<lparr>pr_Limit := v\<rparr>) m b
      else if num = 4 then varint_case pw (\<lambda>v. m\<lparr>pr_CountTotal := v \<noteq> 0\<rparr>) m b
      else if num = 5 then varint_case pw (\<lambda>v. m\<lparr>pr_Reverse := v \<noteq> 0\<rparr>) m b
      else default_case pw wt m b)"

definition PageResponse_wire :: "protowire \<Rightarrow> PageResponse \<Rightarrow> bytes" where
  "PageResponse_wire pw p =
     appendString pw [] 1 (string_of (ps_NextKey p)) @ appendUint64 pw [] 2 (ps_Total p)"

definition PageResponse_field ::
  "protowire \<Rightarrow> int \<Rightarrow> int \<Rightarrow> bytes \<Rightarrow> PageResponse \<Rightarrow> PageResponse field_result" where
  "PageResponse_field pw num wt b m =
     (if num = 1 then string_case pw (\<lambda>v. m\<lparr>ps_NextKey := bytes_of v\<rparr>) m b
      else if num = 2 then varint_case pw (\<lambda>v. m\<lparr>ps_Total := v\<rparr>) m b
      else default_case pw wt m b)"

definition decoded :: "('m \<times> string option) option \<Rightarrow> 'm \<Rightarrow> 'm \<times> string option" where
  "decoded res z = (case res of None \<Rightarrow> (z, Some ''panic'') | Some r \<Rightarrow> r)"

definition std_pages :: "protowire \<Rightarrow> pages" where
  "std_pages pw =
     \<lparr>MarshalPageRequest = (\<lambda>p. Inr (PageRequest_wire pw p)),
      SizePageRequest = (\<lambda>p. int (length (PageRequest_wire pw p))),
      UnmarshalPageRequest = (\<lambda>bz.
        decoded (unmarshal_loop pw (PageRequest_field pw) zero_PageRequest bz) zero_PageRequest),
      MarshalPageResponse = (\<lambda>p. Inr (PageResponse_wire pw p)),
      SizePageResponse = (\<lambda>p. int (length (PageResponse_wire pw p))),
      UnmarshalPageResponse = (\<lambda>bz.
        decoded (unmarshal_loop pw (PageResponse_field pw) zero_PageResponse bz) zero_PageResponse)\<rparr>"

context wire_format
begin

lemma loop_PageRequest_fields [wire_simps]:
  "go_len s \<Longrightarrow> unmarshal_loop pw (PageRequest_field pw) m (appendString pw [] 1 s @ r) =
   unmarshal_loop pw (PageRequest_field pw) (m\<lparr>pr_Key := if s = [] then pr_Key m else bytes_of s\<rparr>) r"
  "unmarshal_loop pw (PageRequest_field pw) m (appendUint64 pw [] 2 v @ r) =
   unmarshal_loop pw (PageRequest_field pw) (m\<lparr>pr_Offset := if v = 0 then pr_Offset m else v\<rparr>) r"
  "unmarshal_loop pw (PageRequest_field pw) m (appendUint64 pw [] 3 v @ r) =
   unmarshal_loop pw (PageRequest_field pw) (m\<lparr>pr_Limit := if v = 0 then pr_Limit m else v\<rparr>) r"
  "unmarshal_loop pw (PageRequest_field pw) m (appendUint64 pw [] 4 v @ r) =
   unmarshal_loop pw (PageRequest_field pw) (m\<lparr>pr_CountTotal := if v = 0 then pr_CountTotal m else True\<rparr>) r"
  "unmarshal_loop pw (PageRequest_field pw) m (appendUint64 pw [] 5 v @ r) =
   unmarshal_loop pw (PageRequest_field pw) (m\<lparr>pr_Reverse := if v = 0 then pr_Reverse m else True\<rparr>) r"
  using loop_string [where num = 1 and upd = "\<lambda>v. m\<lparr>pr_Key := bytes_of v\<rparr>" and fld = "PageRequest_field pw"]
    loop_uint64 [where num = 2 and upd = "\<lambda>v. m\<lparr>pr_Offset := v\<rparr>" and fld = "PageRequest_field pw"]
    loop_uint64 [where num = 3 and upd = "\<lambda>v. m\<lparr>pr_Limit := v\<rparr>" and fld = "PageRequest_field pw"]
    loop_uint64 [where num = 4 and upd = "\<lambda>v. m\<lparr>pr_CountTotal := v \<noteq> 0\<rparr>" and fld = "PageRequest_field pw"]
    loop_uint64 [where num = 5 and upd = "\<lambda>v. m\<lparr>pr_Reverse := v \<noteq> 0\<rparr>" and fld = "PageRequest_field pw"]
  by (simp_all add: PageRequest_field_def)

lemma loop_PageResponse_fields [wire_simps]:
  "go_len s \<Longrightarrow> unmarshal_loop pw (PageResponse_field pw) m (appendString pw [] 1 s @ r) =
   unmarshal_loop pw (PageResponse_field pw) (m\<lparr>ps_NextKey := if s = [] then ps_NextKey m else bytes_of s\<rparr>) r"
  "unmarshal_loop pw (PageResponse_field pw) m (appendUint64 pw [] 2 v @ r) =
   unmarshal_loop pw (PageResponse_field pw) (m\<lparr>ps_Total := if v = 0 then ps_Total m else v\<rparr>) r"
  using loop_string [where num = 1 and upd = "\<lambda>v. m\<lparr>ps_NextKey := bytes_of v\<rparr>" and fld = "PageResponse_field pw"]
    loop_uint64 [where num = 2 and upd = "\<lambda>v. m\<lparr>ps_Total := v\<rparr>" and fld = "PageResponse_field pw"]
  by (simp_all add: PageResponse_field_def)

lemma PageRequest_loop_wire:
  "go_PageRequest p \<Longrightarrow>
   unmarshal_loop pw (PageRequest_field pw) zero_PageRequest (PageRequest_wire pw p) = Some (p, None)"
  using loop_PageRequest_fields(5) [where r = "[]"]
  by (cases p) (simp add: PageRequest_wire_def go_PageRequest_def zero_PageRequest_def wire_simps)

lemma PageResponse_loop_wire:
  "go_PageResponse p \<Longrightarrow>
   unmarshal_loop pw (PageResponse_field pw) zero_PageResponse (PageResponse_wire pw p) = Some (p, None)"
  using loop_PageResponse_fields(2) [where r = "[]"]
  by (cases p) (simp add: PageResponse_wire_def go_PageResponse_def zero_PageResponse_def wire_simps)

end

sublocale wire_format \<subseteq> std_pages: page_format "std_pages pw"
  by unfold_locales
    (simp_all add: std_pages_def decoded_def PageRequest_loop_wire PageResponse_loop_wire,
     simp_all add: PageRequest_wire_def PageResponse_wire_def zero_PageRequest_def zero_PageResponse_def
       appendString_def appendUint64_def string_of_def)

interpretation std_query: query_wire std_wire "std_pages std_wire"
  by unfold_locales

end
