(* ===== verification/Query_Server.thy ===== *)
theory Query_Server
  imports Msg_Server Query_Std
begin

text \<open>
  The query service of the task registry, \<^verbatim>\<open>x/taskreg/keeper/grpc_query.go\<close>. A request is a
  pointer that may be nil. \<open>ListTasks\<close> slices the full listing with bounds computed in Go's 64-bit
  \<^verbatim>\<open>int\<close> from the request's \<^verbatim>\<open>uint64\<close> fields, so the model keeps the conversion, the
  wrap-around of the sum and the panic of the slice expression.
\<close>

section \<open>The handlers\<close>

datatype query_error = InvalidArgument string | TaskError task_error

definition Query_Task ::
  "'s Keeper \<Rightarrow> 's \<Rightarrow> QueryTaskRequest option \<Rightarrow> (query_error + QueryTaskResponse) option" where
  "Query_Task k st req =
     (case req of
        None \<Rightarrow> Some (Inl (InvalidArgument ''empty request''))
      | Some req \<Rightarrow> do {
          (task, found) \<leftarrow> GetTask k st (qtr_Id req);
          if \<not> found then Some (Inl (TaskError (not_found (qtr_Id req))))
          else Some (Inr \<lparr>qts_Task = task\<rparr>)
        })"

text \<open>The bounds of the slice: a nil pagination leaves \<open>0\<close> and \<open>len\<close>.\<close>

definition page_start :: "int \<Rightarrow> PageRequest option \<Rightarrow> int" where
  "page_start len pag =
     (case pag of
        None \<Rightarrow> 0
      | Some p \<Rightarrow>
          if pr_Offset p > 0 then
            let start = sint (pr_Offset p) in if start > len then len else start
          else 0)"

definition page_end :: "int \<Rightarrow> int \<Rightarrow> PageRequest option \<Rightarrow> int" where
  "page_end len start pag =
     (case pag of
        None \<Rightarrow> len
      | Some p \<Rightarrow>
          if pr_Limit p > 0 then
            let end' = wrap64 (start + sint (pr_Limit p)) in if end' > len then len else end'
          else len)"

definition ListTasks ::
  "'s Keeper \<Rightarrow> 's \<Rightarrow> QueryListTasksRequest option \<Rightarrow> (query_error + QueryListTasksResponse) option" where
  "ListTasks k st req =
     (case req of
        None \<Rightarrow> Some (Inl (InvalidArgument ''empty request''))
      | Some req \<Rightarrow> do {
          allTasks \<leftarrow> IterateTasks k st collect_task [];
          let len = int (length allTasks);
          let start = page_start len (qlr_Pagination req);
          let end' = page_end len start (qlr_Pagination req);
          paginated \<leftarrow> slice_between allTasks start end';
          Some (Inr \<lparr>qls_Tasks = paginated,
            qls_Pagination = Some \<lparr>ps_NextKey = [], ps_Total = word_of_nat (length allTasks)\<rparr>\<rparr>)
        })"

section \<open>The bounds\<close>

definition page_offset :: "PageRequest option \<Rightarrow> nat" where
  "page_offset pag = (case pag of None \<Rightarrow> 0 | Some p \<Rightarrow> unat (pr_Offset p))"

text \<open>A limit of zero is no limit.\<close>

definition page_limit :: "nat \<Rightarrow> PageRequest option \<Rightarrow> nat" where
  "page_limit len pag =
     (case pag of None \<Rightarrow> len | Some p \<Rightarrow> if pr_Limit p = 0 then len else unat (pr_Limit p))"

text \<open>The page the request asks for.\<close>

definition page_of :: "Task list \<Rightarrow> PageRequest option \<Rightarrow> Task list" where
  "page_of ts pag = take (page_limit (length ts) pag) (drop (page_offset pag) ts)"

text \<open>
  The requests whose bounds fit the 64-bit arithmetic: both fields below \<open>2 ^ 63\<close>, and so the sum
  of the clamped offset and the limit.
\<close>

definition page_fits :: "nat \<Rightarrow> PageRequest option \<Rightarrow> bool" where
  "page_fits len pag \<longleftrightarrow>
     (case pag of
        None \<Rightarrow> True
      | Some p \<Rightarrow> unat (pr_Offset p) < 2 ^ 63
          \<and> (pr_Limit p = 0 \<or> min (unat (pr_Offset p)) len + unat (pr_Limit p) < 2 ^ 63))"

lemma page_start_eq:
  assumes "len < 2 ^ 63"
  shows "page_start (int len) pag =
    (if page_offset pag < 2 ^ 63 then int (min (page_offset pag) len) else int (page_offset pag) - 2 ^ 64)"
proof (cases pag)
  case None
  then show ?thesis by (simp add: page_start_def page_offset_def)
next
  case (Some p)
  define n where "n = unat (pr_Offset p)"
  have "page_offset pag = n" "n < 2 ^ 64"
    "page_start (int len) pag = (if n > 0 then
       let start = (if n < 2 ^ 63 then int n else int n - 2 ^ 64) in if start > int len then int len else start
     else 0)"
    using Some u64_value [of "pr_Offset p" n] by (simp_all add: page_start_def page_offset_def n_def [symmetric])
  with assms show ?thesis by (auto simp: Let_def)
qed

text \<open>The end, for a start that is in range, as a function of the limit's value.\<close>

lemma page_end_eq:
  assumes "start < 2 ^ 63" "start \<le> len" "len < 2 ^ 63" and l: "unat (pr_Limit p) = l"
  shows "page_end (int len) (int start) (Some p) =
    (if l = 0 then int len
     else if start + l < 2 ^ 63 then int (min (start + l) len)
     else int start + int l - 2 ^ 64)"
proof -
  note v = u64_value [OF l]
  have sum: "int start + sint (pr_Limit p) =
      (if l < 2 ^ 63 then int (start + l) else int start + int l - 2 ^ 64)"
    using v(1) by simp
  have "wrap64 (int start + sint (pr_Limit p)) =
      (if start + l < 2 ^ 63 then int (start + l) else int start + int l - 2 ^ 64)"
  proof (cases "l < 2 ^ 63")
    case True
    with sum assms wrap64_id [of "int (start + l)"] wrap64_over [of "int (start + l)"] show ?thesis
      by auto
  next
    case False
    with assms(1-3) v(4) wrap64_id [of "int start + int l - 2 ^ 64"]
    have "wrap64 (int start + int l - 2 ^ 64) = int start + int l - 2 ^ 64" by simp
    with sum False show ?thesis by (simp only: if_False) simp
  qed
  with v assms show ?thesis by (auto simp: page_end_def Let_def)
qed

lemma page_bounds_panic:
  assumes len: "length ts < 2 ^ 63" and unfit: "\<not> page_fits (length ts) pag"
  shows "slice_between ts (page_start (int (length ts)) pag)
    (page_end (int (length ts)) (page_start (int (length ts)) pag) pag) = None"
proof -
  obtain p where p: "pag = Some p" using unfit by (cases pag) (auto simp: page_fits_def)
  define n l where "n = unat (pr_Offset p)" and "l = unat (pr_Limit p)"
  have lt: "n < 2 ^ 64" "l < 2 ^ 64"
    unfolding n_def l_def by (rule u64_value(4) [OF refl])+
  note s = page_start_eq [OF len, of pag]
  have off: "page_offset pag = n" by (simp add: p page_offset_def n_def)
  show ?thesis
  proof (cases "n < 2 ^ 63")
    case False
    with s off lt show ?thesis by (simp add: slice_between_def)
  next
    case True
    have "pr_Limit p \<noteq> 0" "\<not> min n (length ts) + l < 2 ^ 63"
      using unfit p True by (auto simp: page_fits_def n_def [symmetric] l_def [symmetric])
    moreover have "l \<noteq> 0" using \<open>pr_Limit p \<noteq> 0\<close> u64_value(2) [of "pr_Limit p" l] by (simp add: l_def)
    ultimately show ?thesis
      using s off True lt len p page_end_eq [of "min n (length ts)" "length ts" p l]
      by (simp add: slice_between_def l_def [symmetric])
  qed
qed

lemma page_bounds_slice:
  assumes len: "length ts < 2 ^ 63" and fits: "page_fits (length ts) pag"
  shows "slice_between ts (page_start (int (length ts)) pag)
    (page_end (int (length ts)) (page_start (int (length ts)) pag) pag) = Some (page_of ts pag)"
proof (cases pag)
  case None
  then show ?thesis
    by (simp add: page_start_def page_end_def slice_between_def page_of_def page_limit_def page_offset_def)
next
  case (Some p)
  define n l where "n = unat (pr_Offset p)" and "l = unat (pr_Limit p)"
  define o' where "o' = min n (length ts)"
  have zero: "pr_Limit p = 0 \<longleftrightarrow> l = 0" by (rule u64_value(2)) (simp add: l_def)
  have fits': "n < 2 ^ 63" "l = 0 \<or> o' + l < 2 ^ 63"
    using fits Some zero by (auto simp: page_fits_def n_def [symmetric] l_def [symmetric] o'_def)
  have s: "page_start (int (length ts)) pag = int o'"
    using fits' Some page_start_eq [OF len, of pag] by (simp add: page_offset_def o'_def n_def [symmetric])
  have e: "page_end (int (length ts)) (int o') pag =
      (if l = 0 then int (length ts) else int (min (o' + l) (length ts)))"
    using fits' len Some page_end_eq [of o' "length ts" p l] by (auto simp: o'_def l_def [symmetric])
  have page: "page_of ts pag = take (if l = 0 then length ts else l) (drop o' ts)"
    using Some zero
    by (auto simp: page_of_def page_limit_def page_offset_def n_def [symmetric] l_def [symmetric] o'_def min_def)
  have "o' \<le> length ts" by (simp add: o'_def)
  with s e page show ?thesis
    by (cases "length ts \<le> o' + l") (auto simp: slice_between_def take_drop ac_simps nat_add_distrib)
qed

lemma page_of_none [simp]: "page_of ts None = ts"
  by (simp add: page_of_def page_limit_def page_offset_def)

section \<open>What the handlers answer\<close>

context keeper_env
begin

lemma Query_Task_eq:
  assumes "store_wf (cdc k) (kv_map s)"
  shows "Query_Task k s (Some req) = Some
    (case reg_tasks (registry_of (cdc k) (kv_map s)) (qtr_Id req) of
       None \<Rightarrow> Inl (TaskError (not_found (qtr_Id req)))
     | Some t \<Rightarrow> Inr \<lparr>qts_Task = t\<rparr>)"
  using get_task_law [OF assms] by (simp add: Query_Task_def split: option.split)

lemma all_tasks_ids:
  "store_wf (cdc k) (kv_map s) \<Longrightarrow> all_tasks k s = Some ts \<Longrightarrow>
   task_Id ` set ts = dom (reg_tasks (registry_of (cdc k) (kv_map s)))"
  by (rule list_tasks_ids)

lemma ListTasks_eq:
  assumes "all_tasks k s = Some ts" "go_len ts"
  shows "ListTasks k s (Some req) =
    (if page_fits (length ts) (qlr_Pagination req) then
       Some (Inr \<lparr>qls_Tasks = page_of ts (qlr_Pagination req),
         qls_Pagination = Some \<lparr>ps_NextKey = [], ps_Total = word_of_nat (length ts)\<rparr>\<rparr>)
     else None)"
  using assms by (simp add: ListTasks_def go_len_def page_bounds_slice page_bounds_panic)

end

end
