(* ===== verification/Task_Chain.thy ===== *)
theory Task_Chain
  imports Taskreg_Genesis Query_Server
begin

text \<open>
  The task registry as a state machine: any sequence of transactions over the module's store.
  A transaction whose message fails \<^verbatim>\<open>ValidateBasic\<close> is not executed, and one whose handler
  returns an error leaves no trace, because the SDK discards its branch of the store; every other
  one moves the store to what the handler left. The runs of the handlers are runs of the abstract
  registry, on which the invariants are proved: identifiers, the life cycle of a task, who may
  move it.
\<close>

section \<open>Messages\<close>

datatype TaskMsg = CreateMsg MsgCreateTask | AssignMsg MsgAssignTask | CompleteMsg MsgCompleteTask

datatype TaskResponse =
    CreateResponse MsgCreateTaskResponse
  | AssignResponse MsgAssignTaskResponse
  | CompleteResponse MsgCompleteTaskResponse

definition ValidateBasic :: "(string \<Rightarrow> string + bytes) \<Rightarrow> TaskMsg \<Rightarrow> basic_error option" where
  "ValidateBasic addr msg =
     (case msg of
        CreateMsg m \<Rightarrow> MsgCreateTask_ValidateBasic addr m
      | AssignMsg m \<Rightarrow> MsgAssignTask_ValidateBasic addr m
      | CompleteMsg m \<Rightarrow> MsgCompleteTask_ValidateBasic addr m)"

definition respond :: "('r \<Rightarrow> TaskResponse) \<Rightarrow> ('c \<times> (task_error + 'r)) option
    \<Rightarrow> ('c \<times> (task_error + TaskResponse)) option" where
  "respond f res = map_option (\<lambda>(ctx, r). (ctx, map_sum (\<lambda>e. e) f r)) res"

definition handle :: "'s Keeper \<Rightarrow> 's ctx \<Rightarrow> TaskMsg \<Rightarrow> ('s ctx \<times> (task_error + TaskResponse)) option" where
  "handle k ctx msg =
     (case msg of
        CreateMsg m \<Rightarrow> respond CreateResponse (CreateTask k ctx m)
      | AssignMsg m \<Rightarrow> respond AssignResponse (AssignTask k ctx m)
      | CompleteMsg m \<Rightarrow> respond CompleteResponse (CompleteTask k ctx m))"

definition go_msg :: "TaskMsg \<Rightarrow> bool" where
  "go_msg msg \<longleftrightarrow>
     (case msg of
        CreateMsg m \<Rightarrow> go_MsgCreateTask m
      | AssignMsg m \<Rightarrow> go_MsgAssignTask m
      | CompleteMsg m \<Rightarrow> go_MsgCompleteTask m)"

section \<open>Runs\<close>

inductive chain_run ::
  "'s Keeper \<Rightarrow> (string \<Rightarrow> string + bytes) \<Rightarrow> 's ctx \<Rightarrow> TaskMsg list \<Rightarrow> 's ctx \<Rightarrow> bool"
  for k addr ctx where
  run_start: "chain_run k addr ctx [] ctx"
| run_rejected: "chain_run k addr ctx msgs ctx1 \<Longrightarrow> ValidateBasic addr m = Some e \<Longrightarrow>
    chain_run k addr ctx (msgs @ [m]) ctx1"
| run_failed: "chain_run k addr ctx msgs ctx1 \<Longrightarrow> ValidateBasic addr m = None \<Longrightarrow>
    handle k ctx1 m = Some (ctx2, Inl err) \<Longrightarrow> chain_run k addr ctx (msgs @ [m]) ctx1"
| run_done: "chain_run k addr ctx msgs ctx1 \<Longrightarrow> ValidateBasic addr m = None \<Longrightarrow>
    handle k ctx1 m = Some (ctx2, Inr resp) \<Longrightarrow> chain_run k addr ctx (msgs @ [m]) ctx2"

inductive_cases chain_run_NilE: "chain_run k addr ctx [] ctx'"
inductive_cases chain_run_snocE: "chain_run k addr ctx (msgs @ [m]) ctx'"

section \<open>The abstract machine\<close>

definition reg_handle :: "registry \<Rightarrow> TaskMsg \<Rightarrow> task_error + registry" where
  "reg_handle r msg =
     (case msg of
        CreateMsg m \<Rightarrow> Inr (reg_create r m)
      | AssignMsg m \<Rightarrow> reg_assign r m
      | CompleteMsg m \<Rightarrow> reg_complete r m)"

definition reg_deliver :: "(string \<Rightarrow> string + bytes) \<Rightarrow> registry \<Rightarrow> TaskMsg \<Rightarrow> registry" where
  "reg_deliver addr r msg =
     (if ValidateBasic addr msg = None then
        (case reg_handle r msg of Inl e \<Rightarrow> r | Inr r' \<Rightarrow> r')
      else r)"

definition reg_run :: "(string \<Rightarrow> string + bytes) \<Rightarrow> registry \<Rightarrow> TaskMsg list \<Rightarrow> registry" where
  "reg_run addr r msgs = foldl (reg_deliver addr) r msgs"

lemma reg_run_Nil [simp]: "reg_run addr r [] = r"
  and reg_run_snoc [simp]: "reg_run addr r (msgs @ [m]) = reg_deliver addr (reg_run addr r msgs) m"
  and reg_run_append: "reg_run addr r (msgs @ msgs') = reg_run addr (reg_run addr r msgs) msgs'"
  by (simp_all add: reg_run_def)

context keeper_env
begin

lemma handle_refines:
  assumes "wf_at k kv_map ctx" "go_msg msg"
  shows "case reg_handle (reg_at k kv_map ctx) msg of
      Inl e \<Rightarrow> handle k ctx msg = Some (ctx, Inl e)
    | Inr r' \<Rightarrow> (\<exists>ctx' resp. handle k ctx msg = Some (ctx', Inr resp)
        \<and> wf_at k kv_map ctx' \<and> reg_at k kv_map ctx' = r')"
proof (cases msg)
  case (CreateMsg m)
  with CreateTask_refines [OF assms(1), of m] assms(2) show ?thesis
    by (auto simp: reg_handle_def handle_def respond_def go_msg_def)
next
  case (AssignMsg m)
  with AssignTask_refines [OF assms(1), of m] assms(2) show ?thesis
    by (auto simp: reg_handle_def handle_def respond_def go_msg_def split: sum.splits)
next
  case (CompleteMsg m)
  with CompleteTask_refines [OF assms(1), of m] show ?thesis
    by (auto simp: reg_handle_def handle_def respond_def split: sum.splits)
qed

lemma chain_run_refines:
  assumes "chain_run k addr ctx msgs ctx'" "wf_at k kv_map ctx" "\<forall>m \<in> set msgs. go_msg m"
  shows "wf_at k kv_map ctx' \<and> reg_at k kv_map ctx' = reg_run addr (reg_at k kv_map ctx) msgs"
  using assms
proof (induction rule: chain_run.induct)
  case (run_failed msgs ctx1 m ctx2 err)
  then show ?case
    using handle_refines [of ctx1 m] by (auto simp: reg_deliver_def split: sum.splits)
next
  case (run_done msgs ctx1 m ctx2 resp)
  then show ?case
    using handle_refines [of ctx1 m] by (auto simp: reg_deliver_def split: sum.splits)
qed (simp_all add: reg_deliver_def)

text \<open>No sequence of transactions gets stuck: no handler panics.\<close>

lemma chain_run_exists:
  assumes "wf_at k kv_map ctx" "\<forall>m \<in> set msgs. go_msg m"
  shows "\<exists>ctx'. chain_run k addr ctx msgs ctx'"
  using assms(2)
proof (induction msgs rule: rev_induct)
  case Nil
  then show ?case by (blast intro: run_start)
next
  case (snoc m msgs)
  then obtain ctx1 where run: "chain_run k addr ctx msgs ctx1" by auto
  with chain_run_refines assms(1) snoc.prems have "wf_at k kv_map ctx1" by simp
  from handle_refines [OF this, of m] snoc.prems show ?case
    by (cases "ValidateBasic addr m") (auto split: sum.splits intro: run chain_run.intros)
qed

end

section \<open>Identifiers\<close>

definition accepted_create :: "(string \<Rightarrow> string + bytes) \<Rightarrow> TaskMsg \<Rightarrow> bool" where
  "accepted_create addr msg \<longleftrightarrow> (case msg of CreateMsg _ \<Rightarrow> ValidateBasic addr msg = None | _ \<Rightarrow> False)"

definition creates :: "(string \<Rightarrow> string + bytes) \<Rightarrow> TaskMsg list \<Rightarrow> nat" where
  "creates addr msgs = length (filter (accepted_create addr) msgs)"

text \<open>The counter is beyond every stored identifier.\<close>

definition ids_below :: "registry \<Rightarrow> bool" where
  "ids_below r \<longleftrightarrow> (\<forall>i \<in> dom (reg_tasks r). i < reg_next r)"

lemma creates_snoc [simp]:
  "creates addr (msgs @ [m]) = creates addr msgs + (if accepted_create addr m then 1 else 0)"
  by (simp add: creates_def)

lemma reg_create_simps [simp]:
  "reg_next (reg_create r m) = reg_next r + 1"
  "reg_tasks (reg_create r m) = (reg_tasks r)(reg_next r \<mapsto> new_task r m)"
  by (simp_all add: reg_create_def put_task_def new_task_def)

text \<open>What a message that is delivered and not a creation does to the registry.\<close>

lemma reg_deliver_cases:
  obtains (create) m where "msg = CreateMsg m" "accepted_create addr msg"
      "reg_deliver addr r msg = reg_create r m"
  | (assign) m t where "msg = AssignMsg m" "ValidateBasic addr msg = None"
      "reg_tasks r (at_TaskId m) = Some t" "task_Creator t = at_Creator m" "task_Status t = TASK_STATUS_OPEN"
      "reg_deliver addr r msg =
        put_task r (t\<lparr>task_Assignee := at_Assignee m, task_Status := TASK_STATUS_ASSIGNED\<rparr>)"
  | (complete) m t where "msg = CompleteMsg m" "ValidateBasic addr msg = None"
      "reg_tasks r (cp_TaskId m) = Some t" "task_Assignee t = cp_Assignee m"
      "task_Status t = TASK_STATUS_ASSIGNED"
      "reg_deliver addr r msg = put_task r (t\<lparr>task_Status := TASK_STATUS_COMPLETED\<rparr>)"
  | (same) "\<not> accepted_create addr msg" "reg_deliver addr r msg = r"
proof (cases "ValidateBasic addr msg = None")
  case False
  then show ?thesis by (intro same) (auto simp: accepted_create_def reg_deliver_def split: TaskMsg.split)
next
  case True
  show ?thesis
  proof (cases msg)
    case (CreateMsg m)
    with True show ?thesis by (intro create) (auto simp: reg_deliver_def reg_handle_def accepted_create_def)
  next
    case (AssignMsg m)
    show ?thesis
    proof (cases "reg_assign r m")
      case (Inl e)
      with True AssignMsg show ?thesis
        by (intro same) (auto simp: reg_deliver_def reg_handle_def accepted_create_def)
    next
      case (Inr r')
      then obtain t where t: "reg_tasks r (at_TaskId m) = Some t" "task_Creator t = at_Creator m"
        "task_Status t = TASK_STATUS_OPEN"
        by (auto simp: reg_assign_def split: option.splits if_splits)
      with True AssignMsg show ?thesis
        by (intro assign [of m t]) (simp_all add: reg_deliver_def reg_handle_def reg_assign_def)
    qed
  next
    case (CompleteMsg m)
    show ?thesis
    proof (cases "reg_complete r m")
      case (Inl e)
      with True CompleteMsg show ?thesis
        by (intro same) (auto simp: reg_deliver_def reg_handle_def accepted_create_def)
    next
      case (Inr r')
      then obtain t where t: "reg_tasks r (cp_TaskId m) = Some t" "task_Assignee t = cp_Assignee m"
        "task_Status t = TASK_STATUS_ASSIGNED"
        by (auto simp: reg_complete_def split: option.splits if_splits)
      with True CompleteMsg show ?thesis
        by (intro complete [of m t]) (simp_all add: reg_deliver_def reg_handle_def reg_complete_def)
    qed
  qed
qed

lemma put_task_simps [simp]:
  "reg_next (put_task r t) = reg_next r"
  "reg_tasks (put_task r t) = (reg_tasks r)(task_Id t \<mapsto> t)"
  by (simp_all add: put_task_def)

text \<open>Every reachable registry keeps tasks under their ids; see \<open>reg_wf\<close>.\<close>

definition own_ids :: "registry \<Rightarrow> bool" where
  "own_ids r \<longleftrightarrow> (\<forall>i t. reg_tasks r i = Some t \<longrightarrow> task_Id t = i)"

lemma reg_wf_own_ids: "reg_wf r \<Longrightarrow> own_ids r"
  by (simp add: reg_wf_def own_ids_def)

lemma own_ids_deliver: "own_ids r \<Longrightarrow> own_ids (reg_deliver addr r msg)"
  by (rule reg_deliver_cases [of msg addr r]) (auto simp: own_ids_def new_task_def)

lemma dom_deliver:
  assumes "own_ids r"
  shows "dom (reg_tasks (reg_deliver addr r msg)) =
      (if accepted_create addr msg then insert (reg_next r) (dom (reg_tasks r)) else dom (reg_tasks r))"
    and "reg_next (reg_deliver addr r msg) = (if accepted_create addr msg then reg_next r + 1 else reg_next r)"
  by (rule reg_deliver_cases [of msg addr r];
      use assms in \<open>auto simp: own_ids_def accepted_create_def new_task_def split: if_splits\<close>)+

lemma own_ids_run: "own_ids r \<Longrightarrow> own_ids (reg_run addr r msgs)"
  by (induction msgs rule: rev_induct) (simp_all add: own_ids_deliver)

lemma own_ids_empty [simp]: "own_ids empty_registry"
  by (simp add: own_ids_def empty_registry_def)

text \<open>From the empty registry the identifiers are \<open>1, 2, \<dots>\<close> without a gap, as long as the counter has room.\<close>

lemma word_Suc_interval:
  assumes "Suc n < 2 ^ 64"
  shows "insert (word_of_nat (Suc n)) {i :: u64. 1 \<le> unat i \<and> unat i \<le> n} = {i. 1 \<le> unat i \<and> unat i \<le> Suc n}"
proof (rule set_eqI)
  fix i :: u64
  have n: "unat (word_of_nat (Suc n) :: u64) = Suc n" using assms by (simp add: unat_of_nat del: of_nat_Suc)
  have "word_of_nat (unat i) = i" by simp
  then have eq: "i = word_of_nat (Suc n) \<longleftrightarrow> unat i = Suc n" using n by metis
  have "unat i \<le> Suc n \<longleftrightarrow> unat i = Suc n \<or> unat i \<le> n" by linarith
  with eq show "i \<in> insert (word_of_nat (Suc n)) {i. 1 \<le> unat i \<and> unat i \<le> n}
      \<longleftrightarrow> i \<in> {i. 1 \<le> unat i \<and> unat i \<le> Suc n}"
    by (simp del: of_nat_Suc) linarith
qed

lemma run_ids:
  assumes "creates addr msgs < 2 ^ 64 - 1"
  shows "dom (reg_tasks (reg_run addr empty_registry msgs)) =
      {i. 1 \<le> unat i \<and> unat i \<le> creates addr msgs}
    \<and> reg_next (reg_run addr empty_registry msgs) = word_of_nat (Suc (creates addr msgs))"
  using assms
proof (induction msgs rule: rev_induct)
  case Nil
  then show ?case by (auto simp: empty_registry_def creates_def)
next
  case (snoc m msgs)
  have less: "creates addr msgs < 2 ^ 64 - 1" using snoc.prems by (simp split: if_splits)
  note IH = snoc.IH [OF less, THEN conjunct1] snoc.IH [OF less, THEN conjunct2]
  have "own_ids (reg_run addr empty_registry msgs)" by (simp add: own_ids_run)
  note d = dom_deliver [OF this, of addr m]
  show ?case
  proof (cases "accepted_create addr m")
    case True
    with snoc.prems have "Suc (creates addr msgs) < 2 ^ 64" by simp
    from word_Suc_interval [OF this] show ?thesis using True d IH by (simp add: ac_simps)
  next
    case False
    with d IH show ?thesis by simp
  qed
qed

lemma ids_below_run:
  assumes "ids_below r" "own_ids r" "unat (reg_next r) + creates addr msgs < 2 ^ 64"
  shows "ids_below (reg_run addr r msgs)
    \<and> unat (reg_next (reg_run addr r msgs)) = unat (reg_next r) + creates addr msgs"
  using assms(3)
proof (induction msgs rule: rev_induct)
  case Nil
  then show ?case using assms(1) by (simp add: creates_def)
next
  case (snoc m msgs)
  let ?r = "reg_run addr r msgs"
  have IH: "ids_below ?r" "unat (reg_next ?r) = unat (reg_next r) + creates addr msgs"
    using snoc by (simp_all split: if_splits)
  note d = dom_deliver [OF own_ids_run [OF assms(2), of addr msgs], of addr m]
  show ?case
  proof (cases "accepted_create addr m")
    case False
    with IH d show ?thesis by (simp add: ids_below_def)
  next
    case True
    with snoc.prems IH have "unat (reg_next ?r + 1) = Suc (unat (reg_next ?r))"
      by (simp add: unat_word_ariths)
    moreover have "i < reg_next ?r + 1" if "i = reg_next ?r \<or> i < reg_next ?r" for i
      using that calculation by (auto simp: word_less_nat_alt)
    ultimately show ?thesis using True IH d by (auto simp: ids_below_def)
  qed
qed

lemma counter_run:
  assumes "own_ids r" "unat (reg_next r) + creates addr msgs < 2 ^ 64"
  shows "unat (reg_next (reg_run addr r msgs)) = unat (reg_next r) + creates addr msgs"
  using assms(2)
proof (induction msgs rule: rev_induct)
  case Nil
  then show ?case by (simp add: creates_def)
next
  case (snoc m msgs)
  let ?r = "reg_run addr r msgs"
  have IH: "unat (reg_next ?r) = unat (reg_next r) + creates addr msgs" using snoc by (simp split: if_splits)
  note d = dom_deliver [OF own_ids_run [OF assms(1), of addr msgs], of addr m]
  show ?case
  proof (cases "accepted_create addr m")
    case False
    with IH d show ?thesis by simp
  next
    case True
    with snoc.prems IH have "unat (reg_next ?r + 1) = Suc (unat (reg_next ?r))"
      by (simp add: unat_word_ariths)
    with True IH d show ?thesis by simp
  qed
qed

section \<open>The life cycle of a task\<close>

text \<open>
  \<open>task_step actor t t'\<close>: one transaction signed by \<open>actor\<close> moves a stored task from \<open>t\<close> to
  \<open>t'\<close>. A task is assigned once, by its creator, and completed once, by its assignee.
\<close>

inductive task_step :: "string \<Rightarrow> Task \<Rightarrow> Task \<Rightarrow> bool" where
  step_assign: "task_Status t = TASK_STATUS_OPEN \<Longrightarrow>
    task_step (task_Creator t) t (t\<lparr>task_Assignee := a, task_Status := TASK_STATUS_ASSIGNED\<rparr>)"
| step_complete: "task_Status t = TASK_STATUS_ASSIGNED \<Longrightarrow>
    task_step (task_Assignee t) t (t\<lparr>task_Status := TASK_STATUS_COMPLETED\<rparr>)"

inductive_cases task_stepE: "task_step actor t t'"

lemma task_stepI:
  "task_Status t = TASK_STATUS_OPEN \<Longrightarrow> actor = task_Creator t \<Longrightarrow>
   task_step actor t (t\<lparr>task_Assignee := a, task_Status := TASK_STATUS_ASSIGNED\<rparr>)"
  "task_Status t = TASK_STATUS_ASSIGNED \<Longrightarrow> actor = task_Assignee t \<Longrightarrow>
   task_step actor t (t\<lparr>task_Status := TASK_STATUS_COMPLETED\<rparr>)"
  by (simp_all add: task_step.intros)

definition some_step :: "Task \<Rightarrow> Task \<Rightarrow> bool" where
  "some_step t t' \<longleftrightarrow> (\<exists>actor. task_step actor t t')"

definition msg_actor :: "TaskMsg \<Rightarrow> string" where
  "msg_actor msg =
     (case msg of
        CreateMsg m \<Rightarrow> ct_Creator m
      | AssignMsg m \<Rightarrow> at_Creator m
      | CompleteMsg m \<Rightarrow> cp_Assignee m)"

definition msg_target :: "TaskMsg \<Rightarrow> u64 option" where
  "msg_target msg =
     (case msg of CreateMsg m \<Rightarrow> None | AssignMsg m \<Rightarrow> Some (at_TaskId m) | CompleteMsg m \<Rightarrow> Some (cp_TaskId m))"

lemma task_step_static:
  "task_step actor t t' \<Longrightarrow> task_Id t' = task_Id t \<and> task_Title t' = task_Title t
    \<and> task_Description t' = task_Description t \<and> task_Creator t' = task_Creator t"
  by (erule task_stepE) simp_all

lemma task_step_status:
  "task_step actor t t' \<Longrightarrow> task_Status t' = task_Status t + 1
    \<and> task_Status t \<in> {TASK_STATUS_OPEN, TASK_STATUS_ASSIGNED}"
  by (erule task_stepE) (simp_all add: status_defs)

lemma task_step_assignee:
  "task_step actor t t' \<Longrightarrow> task_Status t \<noteq> TASK_STATUS_OPEN \<Longrightarrow> task_Assignee t' = task_Assignee t"
  by (erule task_stepE) simp_all

lemma completed_final: "task_Status t = TASK_STATUS_COMPLETED \<Longrightarrow> \<not> task_step actor t t'"
  by (auto elim!: task_stepE)

text \<open>A delivered message moves at most the task it names, and by one step of its sender.\<close>

lemma deliver_task_step:
  assumes "own_ids r" "reg_tasks r i = Some t" "i \<noteq> reg_next r \<or> \<not> accepted_create addr msg"
  shows "\<exists>t'. reg_tasks (reg_deliver addr r msg) i = Some t'
    \<and> (t' = t \<or> msg_target msg = Some i \<and> task_step (msg_actor msg) t t')"
proof (cases rule: reg_deliver_cases [of msg addr r])
  case (assign m u)
  with assms(1,2) step_assign [of u "at_Assignee m"] show ?thesis
    by (auto simp: own_ids_def msg_target_def msg_actor_def)
next
  case (complete m u)
  with assms(1,2) step_complete [of u] show ?thesis
    by (auto simp: own_ids_def msg_target_def msg_actor_def)
qed (use assms in auto)

text \<open>The same for a handler, which does not check \<^verbatim>\<open>ValidateBasic\<close>.\<close>

lemma task_step_of_handle:
  assumes "own_ids r" "reg_tasks r i = Some t" "reg_handle r msg = Inr r'"
    and "i \<noteq> reg_next r \<or> (\<forall>cm. msg \<noteq> CreateMsg cm)"
  shows "\<exists>t'. reg_tasks r' i = Some t'
    \<and> (t' = t \<or> msg_target msg = Some i \<and> task_step (msg_actor msg) t t')"
proof (cases msg)
  case (CreateMsg m)
  with assms show ?thesis by (auto simp: reg_handle_def)
next
  case (AssignMsg m)
  with assms show ?thesis
    by (auto simp: task_stepI reg_handle_def reg_assign_def own_ids_def msg_target_def msg_actor_def
        split: option.splits if_splits)
next
  case (CompleteMsg m)
  with assms show ?thesis
    by (auto simp: task_stepI reg_handle_def reg_complete_def own_ids_def msg_target_def msg_actor_def
        split: option.splits if_splits)
qed

lemma run_task_steps:
  assumes "own_ids r" "i < reg_next r" "reg_tasks r i = Some t"
    and room: "unat (reg_next r) + creates addr msgs < 2 ^ 64"
  shows "\<exists>t'. reg_tasks (reg_run addr r msgs) i = Some t' \<and> some_step\<^sup>*\<^sup>* t t'"
  using room
proof (induction msgs rule: rev_induct)
  case Nil
  then show ?case using assms(3) by simp
next
  case (snoc m msgs)
  let ?r = "reg_run addr r msgs"
  have room: "unat (reg_next r) + creates addr msgs < 2 ^ 64" using snoc.prems by (simp split: if_splits)
  then obtain u where u: "reg_tasks ?r i = Some u" "some_step\<^sup>*\<^sup>* t u" using snoc.IH by blast
  have "unat (reg_next r) \<le> unat (reg_next ?r)" using counter_run [OF assms(1) room] by simp
  with assms(2) have "i \<noteq> reg_next ?r" by (auto simp: word_less_nat_alt)
  from deliver_task_step [OF own_ids_run [OF assms(1)] u(1), of addr m] this
  obtain t' where "reg_tasks (reg_deliver addr ?r m) i = Some t'" "t' = u \<or> some_step u t'"
    by (auto simp: some_step_def)
  with u show ?case by (auto intro: rtranclp.rtrancl_into_rtrancl)
qed

lemma some_steps_static:
  "some_step\<^sup>*\<^sup>* t t' \<Longrightarrow> task_Id t' = task_Id t \<and> task_Title t' = task_Title t
    \<and> task_Description t' = task_Description t \<and> task_Creator t' = task_Creator t"
  by (induction rule: rtranclp_induct) (auto simp: some_step_def dest!: task_step_static)

lemma some_steps_completed:
  assumes "some_step\<^sup>*\<^sup>* t t'" "task_Status t = TASK_STATUS_COMPLETED"
  shows "t' = t"
  using assms by (induction rule: converse_rtranclp_induct) (auto simp: some_step_def completed_final)

section \<open>Well-formed tasks\<close>

text \<open>
  What the checks guarantee about every task that came in by transactions: a valid creator, a
  title, one of the three statuses, and an assignee exactly from the assignment on.
\<close>

definition valid_addr :: "(string \<Rightarrow> string + bytes) \<Rightarrow> string \<Rightarrow> bool" where
  "valid_addr addr s \<longleftrightarrow> (\<exists>a. addr s = Inr a)"

definition task_ok :: "(string \<Rightarrow> string + bytes) \<Rightarrow> Task \<Rightarrow> bool" where
  "task_ok addr t \<longleftrightarrow> valid_addr addr (task_Creator t) \<and> task_Title t \<noteq> []
     \<and> (task_Status t = TASK_STATUS_OPEN \<and> task_Assignee t = []
        \<or> task_Status t \<in> {TASK_STATUS_ASSIGNED, TASK_STATUS_COMPLETED} \<and> valid_addr addr (task_Assignee t))"

definition reg_ok :: "(string \<Rightarrow> string + bytes) \<Rightarrow> registry \<Rightarrow> bool" where
  "reg_ok addr r \<longleftrightarrow> (\<forall>i t. reg_tasks r i = Some t \<longrightarrow> task_Id t = i \<and> task_ok addr t)"

lemma ValidateBasic_simps [simp]:
  "ValidateBasic addr (CreateMsg m) = None \<longleftrightarrow> valid_addr addr (ct_Creator m) \<and> ct_Title m \<noteq> []"
  "ValidateBasic addr (AssignMsg a) = None \<longleftrightarrow> valid_addr addr (at_Creator a) \<and> valid_addr addr (at_Assignee a)"
  "ValidateBasic addr (CompleteMsg c) = None \<longleftrightarrow> valid_addr addr (cp_Assignee c)"
  by (auto simp: ValidateBasic_def MsgCreateTask_ValidateBasic_def MsgAssignTask_ValidateBasic_def
      MsgCompleteTask_ValidateBasic_def valid_addr_def split: sum.splits)

lemma reg_ok_empty [simp]: "reg_ok addr empty_registry"
  by (simp add: reg_ok_def empty_registry_def)

lemma reg_ok_deliver:
  assumes "reg_ok addr r"
  shows "reg_ok addr (reg_deliver addr r msg)"
  by (rule reg_deliver_cases [of msg addr r])
    (use assms in \<open>auto simp: reg_ok_def task_ok_def new_task_def accepted_create_def\<close>)

lemma reg_ok_run: "reg_ok addr r \<Longrightarrow> reg_ok addr (reg_run addr r msgs)"
  by (induction msgs rule: rev_induct) (simp_all add: reg_ok_deliver)

end
