(* ===== verification/Service.thy ===== *)
theory Service
  imports Task_Chain
begin

text \<open>
  The gRPC glue of \<^verbatim>\<open>tx.pb.go\<close> and \<^verbatim>\<open>query.pb.go\<close>: the server interfaces, their method handlers
  and service descriptors, and the query client. The gRPC runtime is a parameter: \<open>dec\<close> decodes the
  request into a fresh message, \<open>interceptor\<close> is the optional interceptor, which gets the request, the
  full method name and the handler to call, and \<open>invoke\<close> is \<^verbatim>\<open>ClientConn.Invoke\<close>.
\<close>

datatype service_error = DecodeError string | ServerError task_error | QueryError query_error | Unimplemented string

type_synonym ('c, 'o) reply = "('c \<times> (service_error + 'o)) option"
type_synonym ('c, 'i, 'o) interceptor =
  "('c \<Rightarrow> 'i \<Rightarrow> string \<Rightarrow> ('c \<Rightarrow> 'i \<Rightarrow> ('c, 'o) reply) \<Rightarrow> ('c, 'o) reply) option"
type_synonym 'i decoder = "'i \<Rightarrow> ('i \<times> service_error option) option"

section \<open>The transaction service\<close>

record 'c MsgServer =
  srv_CreateTask :: "'c \<Rightarrow> MsgCreateTask \<Rightarrow> ('c, MsgCreateTaskResponse) reply"
  srv_AssignTask :: "'c \<Rightarrow> MsgAssignTask \<Rightarrow> ('c, MsgAssignTaskResponse) reply"
  srv_CompleteTask :: "'c \<Rightarrow> MsgCompleteTask \<Rightarrow> ('c, MsgCompleteTaskResponse) reply"

definition UnimplementedMsgServer :: "'c MsgServer" where
  "UnimplementedMsgServer =
     \<lparr>srv_CreateTask = (\<lambda>ctx _. Some (ctx, Inl (Unimplemented ''method CreateTask not implemented''))),
      srv_AssignTask = (\<lambda>ctx _. Some (ctx, Inl (Unimplemented ''method AssignTask not implemented''))),
      srv_CompleteTask = (\<lambda>ctx _. Some (ctx, Inl (Unimplemented ''method CompleteTask not implemented'')))\<rparr>"

definition server_result :: "('c \<times> (task_error + 'o)) option \<Rightarrow> ('c, 'o) reply" where
  "server_result res = map_option (\<lambda>(ctx, r). (ctx, map_sum ServerError (\<lambda>x. x) r)) res"

text \<open>\<^verbatim>\<open>NewMsgServerImpl\<close>: the keeper's handlers as a server.\<close>

definition NewMsgServerImpl :: "'s Keeper \<Rightarrow> 's ctx MsgServer" where
  "NewMsgServerImpl k =
     \<lparr>srv_CreateTask = (\<lambda>ctx msg. server_result (CreateTask k ctx msg)),
      srv_AssignTask = (\<lambda>ctx msg. server_result (AssignTask k ctx msg)),
      srv_CompleteTask = (\<lambda>ctx msg. server_result (CompleteTask k ctx msg))\<rparr>"

definition Msg_CreateTask_Handler ::
  "'c MsgServer \<Rightarrow> 'c \<Rightarrow> MsgCreateTask decoder \<Rightarrow> ('c, MsgCreateTask, MsgCreateTaskResponse) interceptor
    \<Rightarrow> ('c, MsgCreateTaskResponse) reply" where
  "Msg_CreateTask_Handler srv ctx dec interceptor =
     Option.bind (dec zero_MsgCreateTask) (\<lambda>(inp, err).
       case err of
         Some e \<Rightarrow> Some (ctx, Inl e)
       | None \<Rightarrow>
           (case interceptor of
              None \<Rightarrow> srv_CreateTask srv ctx inp
            | Some call \<Rightarrow> call ctx inp ''/mychain.taskreg.v1.Msg/CreateTask''
                (\<lambda>ctx req. srv_CreateTask srv ctx req)))"

definition Msg_AssignTask_Handler ::
  "'c MsgServer \<Rightarrow> 'c \<Rightarrow> MsgAssignTask decoder \<Rightarrow> ('c, MsgAssignTask, MsgAssignTaskResponse) interceptor
    \<Rightarrow> ('c, MsgAssignTaskResponse) reply" where
  "Msg_AssignTask_Handler srv ctx dec interceptor =
     Option.bind (dec zero_MsgAssignTask) (\<lambda>(inp, err).
       case err of
         Some e \<Rightarrow> Some (ctx, Inl e)
       | None \<Rightarrow>
           (case interceptor of
              None \<Rightarrow> srv_AssignTask srv ctx inp
            | Some call \<Rightarrow> call ctx inp ''/mychain.taskreg.v1.Msg/AssignTask''
                (\<lambda>ctx req. srv_AssignTask srv ctx req)))"

definition Msg_CompleteTask_Handler ::
  "'c MsgServer \<Rightarrow> 'c \<Rightarrow> MsgCompleteTask decoder \<Rightarrow> ('c, MsgCompleteTask, MsgCompleteTaskResponse) interceptor
    \<Rightarrow> ('c, MsgCompleteTaskResponse) reply" where
  "Msg_CompleteTask_Handler srv ctx dec interceptor =
     Option.bind (dec zero_MsgCompleteTask) (\<lambda>(inp, err).
       case err of
         Some e \<Rightarrow> Some (ctx, Inl e)
       | None \<Rightarrow>
           (case interceptor of
              None \<Rightarrow> srv_CompleteTask srv ctx inp
            | Some call \<Rightarrow> call ctx inp ''/mychain.taskreg.v1.Msg/CompleteTask''
                (\<lambda>ctx req. srv_CompleteTask srv ctx req)))"

section \<open>The query service\<close>

record 'c QueryServer =
  srv_Task :: "'c \<Rightarrow> QueryTaskRequest \<Rightarrow> ('c, QueryTaskResponse) reply"
  srv_ListTasks :: "'c \<Rightarrow> QueryListTasksRequest \<Rightarrow> ('c, QueryListTasksResponse) reply"

definition UnimplementedQueryServer :: "'c QueryServer" where
  "UnimplementedQueryServer =
     \<lparr>srv_Task = (\<lambda>ctx _. Some (ctx, Inl (Unimplemented ''method Task not implemented''))),
      srv_ListTasks = (\<lambda>ctx _. Some (ctx, Inl (Unimplemented ''method ListTasks not implemented'')))\<rparr>"

text \<open>A query does not change the context; a decoded request is never nil.\<close>

definition query_result :: "'c \<Rightarrow> (query_error + 'o) option \<Rightarrow> ('c, 'o) reply" where
  "query_result ctx res = map_option (\<lambda>r. (ctx, map_sum QueryError (\<lambda>x. x) r)) res"

definition NewQueryServerImpl :: "'s Keeper \<Rightarrow> 's ctx QueryServer" where
  "NewQueryServerImpl k =
     \<lparr>srv_Task = (\<lambda>ctx req. query_result ctx (Query_Task k (ctx_store ctx) (Some req))),
      srv_ListTasks = (\<lambda>ctx req. query_result ctx (ListTasks k (ctx_store ctx) (Some req)))\<rparr>"

definition Query_Task_Handler ::
  "'c QueryServer \<Rightarrow> 'c \<Rightarrow> QueryTaskRequest decoder \<Rightarrow> ('c, QueryTaskRequest, QueryTaskResponse) interceptor
    \<Rightarrow> ('c, QueryTaskResponse) reply" where
  "Query_Task_Handler srv ctx dec interceptor =
     Option.bind (dec zero_QueryTaskRequest) (\<lambda>(inp, err).
       case err of
         Some e \<Rightarrow> Some (ctx, Inl e)
       | None \<Rightarrow>
           (case interceptor of
              None \<Rightarrow> srv_Task srv ctx inp
            | Some call \<Rightarrow> call ctx inp ''/mychain.taskreg.v1.Query/Task''
                (\<lambda>ctx req. srv_Task srv ctx req)))"

definition Query_ListTasks_Handler ::
  "'c QueryServer \<Rightarrow> 'c \<Rightarrow> QueryListTasksRequest decoder
    \<Rightarrow> ('c, QueryListTasksRequest, QueryListTasksResponse) interceptor \<Rightarrow> ('c, QueryListTasksResponse) reply" where
  "Query_ListTasks_Handler srv ctx dec interceptor =
     Option.bind (dec zero_QueryListTasksRequest) (\<lambda>(inp, err).
       case err of
         Some e \<Rightarrow> Some (ctx, Inl e)
       | None \<Rightarrow>
           (case interceptor of
              None \<Rightarrow> srv_ListTasks srv ctx inp
            | Some call \<Rightarrow> call ctx inp ''/mychain.taskreg.v1.Query/ListTasks''
                (\<lambda>ctx req. srv_ListTasks srv ctx req)))"

section \<open>The query client\<close>

text \<open>\<open>invoke method request out\<close> gives the message left in \<open>out\<close> and the error.\<close>

definition queryClient_Task ::
  "(string \<Rightarrow> QueryTaskRequest \<Rightarrow> QueryTaskResponse \<Rightarrow> (QueryTaskResponse \<times> 'e option) option)
    \<Rightarrow> QueryTaskRequest \<Rightarrow> ('e + QueryTaskResponse) option" where
  "queryClient_Task invoke req =
     Option.bind (invoke ''/mychain.taskreg.v1.Query/Task'' req zero_QueryTaskResponse) (\<lambda>(out, err).
       case err of Some e \<Rightarrow> Some (Inl e) | None \<Rightarrow> Some (Inr out))"

definition queryClient_ListTasks ::
  "(string \<Rightarrow> QueryListTasksRequest \<Rightarrow> QueryListTasksResponse \<Rightarrow> (QueryListTasksResponse \<times> 'e option) option)
    \<Rightarrow> QueryListTasksRequest \<Rightarrow> ('e + QueryListTasksResponse) option" where
  "queryClient_ListTasks invoke req =
     Option.bind (invoke ''/mychain.taskreg.v1.Query/ListTasks'' req zero_QueryListTasksResponse) (\<lambda>(out, err).
       case err of Some e \<Rightarrow> Some (Inl e) | None \<Rightarrow> Some (Inr out))"

section \<open>A request over the wire\<close>

text \<open>The decoder that the runtime passes to a handler for the bytes of a request.\<close>

definition proto_dec :: "('i \<Rightarrow> bytes \<Rightarrow> ('i \<times> string option) option) \<Rightarrow> bytes \<Rightarrow> 'i decoder" where
  "proto_dec unmarshal bz inp = map_option (\<lambda>(m, err). (m, map_option DecodeError err)) (unmarshal inp bz)"

text \<open>A creation and a query from encoded request to encoded response, as the runtime routes them.\<close>

definition wire_create :: "protowire \<Rightarrow> 's Keeper \<Rightarrow> 's ctx \<Rightarrow> bytes \<Rightarrow> ('s ctx \<times> (service_error + bytes)) option" where
  "wire_create pw k ctx bz =
     Option.bind (Msg_CreateTask_Handler (NewMsgServerImpl k) ctx (proto_dec (MsgCreateTask_Unmarshal pw) bz) None)
       (\<lambda>(ctx, res). case res of
          Inl e \<Rightarrow> Some (ctx, Inl e)
        | Inr resp \<Rightarrow> (case MsgCreateTaskResponse_Marshal pw resp of Inl e \<Rightarrow> None | Inr out \<Rightarrow> Some (ctx, Inr out)))"

definition wire_query :: "protowire \<Rightarrow> 's Keeper \<Rightarrow> 's ctx \<Rightarrow> bytes \<Rightarrow> (service_error + bytes) option" where
  "wire_query pw k ctx bz =
     Option.bind (Query_Task_Handler (NewQueryServerImpl k) ctx (proto_dec (QueryTaskRequest_Unmarshal pw) bz) None)
       (\<lambda>(ctx, res). case res of
          Inl e \<Rightarrow> Some (Inl e)
        | Inr resp \<Rightarrow> (case QueryTaskResponse_Marshal pw resp of Inl e \<Rightarrow> None | Inr out \<Rightarrow> Some (Inr out)))"

text \<open>The connection of a query client to this server.\<close>

definition wire_invoke :: "protowire \<Rightarrow> 's Keeper \<Rightarrow> 's ctx \<Rightarrow> string \<Rightarrow> QueryTaskRequest \<Rightarrow> QueryTaskResponse
    \<Rightarrow> (QueryTaskResponse \<times> service_error option) option" where
  "wire_invoke pw k ctx method req out =
     (if method \<noteq> ''/mychain.taskreg.v1.Query/Task'' then Some (out, Some (Unimplemented method))
      else case QueryTaskRequest_Marshal pw req of
        Inl e \<Rightarrow> None
      | Inr bz \<Rightarrow> Option.bind (wire_query pw k ctx bz) (\<lambda>res.
          case res of
            Inl e \<Rightarrow> Some (out, Some e)
          | Inr rbz \<Rightarrow> map_option (\<lambda>(m, err). (m, map_option DecodeError err)) (QueryTaskResponse_Unmarshal pw out rbz)))"

text \<open>Decoding an encoded request and running its handler is calling the server with the request.\<close>

lemma wire_create_eq:
  assumes "wire_format pw" "go_MsgCreateTask msg" "MsgCreateTask_Marshal pw msg = Inr bz"
    and "CreateTask k ctx msg = Some (ctx', Inr resp)"
  shows "\<exists>out. wire_create pw k ctx bz = Some (ctx', Inr out)
    \<and> MsgCreateTaskResponse_Unmarshal pw zero_MsgCreateTaskResponse out = Some (resp, None)"
  using wire_format.MsgCreateTask_Unmarshal_wire [OF assms(1-3)] assms(4)
    wire_format.MsgCreateTaskResponse_Marshal_eq [OF assms(1), of resp]
    wire_format.MsgCreateTaskResponse_Unmarshal_wire [OF assms(1), of resp]
  by (simp add: wire_create_def Msg_CreateTask_Handler_def proto_dec_def NewMsgServerImpl_def server_result_def)

lemma client_Task_eq:
  assumes "wire_format pw" "Query_Task k (ctx_store ctx) (Some req) = Some (Inr resp)"
    and "go_task (qts_Task resp)" "go_len (Task_wire pw (qts_Task resp))"
  shows "queryClient_Task (wire_invoke pw k ctx) req = Some (Inr resp)"
proof -
  note rq = wire_format.QueryTaskRequest_Marshal_eq [OF assms(1), of req]
  note rs = wire_format.QueryTaskResponse_Marshal_eq [OF assms(1), of resp]
  show ?thesis
    using rq wire_format.QueryTaskRequest_Unmarshal_wire [OF assms(1) rq] rs
      wire_format.QueryTaskResponse_Unmarshal_wire [OF assms(1,3,4) rs] assms(2)
    by (simp add: queryClient_Task_def wire_invoke_def wire_query_def Query_Task_Handler_def proto_dec_def
        NewQueryServerImpl_def query_result_def)
qed

end
