(* ===== verification/Task_Props.thy ===== *)
theory Task_Props
  imports Task_Chain
begin

text \<open>
  The properties of the task registry. The hypothesis \<open>keeper_env k m\<close> says what the keeper is
  given: a codec that decodes what it encodes and a key-value store with contents \<open>m\<close>; the
  witnesses evaluate on the generated protobuf code over the documented wire format and a sorted
  tree.
\<close>

section \<open>Instances for the witnesses\<close>

lemma registry_of_empty [simp]: "registry_of c Map.empty = empty_registry"
  by (simp add: registry_of_def empty_registry_def)

lemma store_wf_empty [simp]: "store_wf c Map.empty"
  by (simp add: store_wf_def)

lemma lookup_empty_map [simp]: "RBT.lookup RBT.empty = Map.empty"
  by (simp add: fun_eq_iff)

lemmas std_env = std_env.keeper_env_axioms

definition ctx0 :: "(bytes, bytes) RBT.rbt ctx" where
  "ctx0 = \<lparr>ctx_store = RBT.empty, ctx_events = []\<rparr>"

lemma ctx0_simps [simp]: "ctx_store ctx0 = RBT.empty" "ctx_events ctx0 = []"
  by (simp_all add: ctx0_def)

definition alice_creates :: MsgCreateTask where
  "alice_creates = \<lparr>ct_Creator = ''alice'', ct_Title = ''write docs'', ct_Description = ''''\<rparr>"

definition alice_assigns :: MsgAssignTask where
  "alice_assigns = \<lparr>at_Creator = ''alice'', at_TaskId = 1, at_Assignee = ''bob''\<rparr>"

definition bob_completes :: MsgCompleteTask where
  "bob_completes = \<lparr>cp_Assignee = ''bob'', cp_TaskId = 1\<rparr>"

definition some_addr :: "string \<Rightarrow> string + bytes" where
  "some_addr s = (if s = [] then Inl ''empty address string is not allowed'' else Inr (bytes_of s))"

lemmas instance_defs = alice_creates_def alice_assigns_def bob_completes_def some_addr_def
  go_MsgCreateTask_def go_MsgAssignTask_def go_MsgCompleteTask_def go_msg_def go_len_def

text \<open>A store with Alice's task, open.\<close>

lemma created_ctx:
  obtains ctx1 where "chain_run std_keeper some_addr ctx0 [CreateMsg alice_creates] ctx1"
    "wf_at std_keeper RBT.lookup ctx1" "reg_at std_keeper RBT.lookup ctx1 = reg_create empty_registry alice_creates"
    "ids_below (reg_at std_keeper RBT.lookup ctx1)"
proof -
  have go: "\<forall>msg \<in> set [CreateMsg alice_creates]. go_msg msg" by (simp add: instance_defs)
  obtain ctx1 where run: "chain_run std_keeper some_addr ctx0 [CreateMsg alice_creates] ctx1"
    using keeper_env.chain_run_exists [OF std_env _ go, of ctx0 some_addr] by auto
  from keeper_env.chain_run_refines [OF std_env run _ go]
  have "wf_at std_keeper RBT.lookup ctx1"
    "reg_at std_keeper RBT.lookup ctx1 = reg_create empty_registry alice_creates"
    by (simp_all add: reg_run_def reg_deliver_def reg_handle_def instance_defs valid_addr_def)
  with run show ?thesis by (intro that) (auto simp: ids_below_def empty_registry_def split: if_splits)
qed

lemma created_task:
  "reg_tasks (reg_create empty_registry alice_creates) 1 =
    Some \<lparr>task_Id = 1, task_Title = ''write docs'', task_Description = '''', task_Creator = ''alice'',
      task_Assignee = [], task_Status = TASK_STATUS_OPEN\<rparr>"
  "reg_next (reg_create empty_registry alice_creates) = 2"
  by (simp_all add: empty_registry_def new_task_def alice_creates_def)

section \<open>The handlers\<close>

text \<open>C1: \<open>CreateTask\<close> always succeeds on a well-formed store: it answers with the next identifier,
  stores under it an OPEN task without assignee with the fields of the message, increments the
  counter modulo \<open>2 ^ 64\<close>, emits exactly the creation event and changes nothing else.\<close>

theorem CreateTask_correct:
  assumes "keeper_env k m" "wf_at k m ctx" "go_MsgCreateTask msg"
  shows "\<exists>ctx'. CreateTask k ctx msg = Some (ctx', Inr \<lparr>ctr_Id = reg_next (reg_at k m ctx)\<rparr>)
    \<and> wf_at k m ctx'
    \<and> reg_tasks (reg_at k m ctx') = (reg_tasks (reg_at k m ctx))(reg_next (reg_at k m ctx) \<mapsto>
        \<lparr>task_Id = reg_next (reg_at k m ctx), task_Title = ct_Title msg, task_Description = ct_Description msg,
         task_Creator = ct_Creator msg, task_Assignee = [], task_Status = TASK_STATUS_OPEN\<rparr>)
    \<and> reg_next (reg_at k m ctx') = reg_next (reg_at k m ctx) + 1
    \<and> ctx_events ctx' = ctx_events ctx @ [create_event (reg_at k m ctx) msg]"
  using keeper_env.CreateTask_refines [OF assms] by (auto simp: new_task_def)

theorem CreateTask_correct_witness:
  "\<exists>ctx'. CreateTask std_keeper ctx0 alice_creates = Some (ctx', Inr \<lparr>ctr_Id = 1\<rparr>)
    \<and> reg_next (reg_at std_keeper RBT.lookup ctx') = 2"
  using CreateTask_correct [OF std_env, of ctx0 alice_creates]
  by (auto simp: instance_defs empty_registry_def)

text \<open>C2: \<open>AssignTask\<close> behaves as the specification \<open>reg_assign\<close> on every branch: an unknown
  identifier, a sender who is not the creator and a task that is not OPEN are answered with their
  errors, checked in this order, and leave store and events as they were; otherwise the task becomes
  ASSIGNED to the assignee, only it changes, and the assignment event is emitted.\<close>

theorem AssignTask_correct:
  assumes "keeper_env k m" "wf_at k m ctx" "go_MsgAssignTask msg"
  shows "case reg_assign (reg_at k m ctx) msg of
      Inl e \<Rightarrow> AssignTask k ctx msg = Some (ctx, Inl e)
    | Inr r' \<Rightarrow> \<exists>ctx'. AssignTask k ctx msg = Some (ctx', Inr MsgAssignTaskResponse)
        \<and> wf_at k m ctx' \<and> reg_at k m ctx' = r'
        \<and> ctx_events ctx' = ctx_events ctx @ [assign_event msg]"
  by (rule keeper_env.AssignTask_refines [OF assms])

theorem AssignTask_correct_witness:
  "AssignTask std_keeper ctx0 alice_assigns = Some (ctx0, Inl (not_found 1))"
  using AssignTask_correct [OF std_env, of ctx0 alice_assigns]
  by (simp add: instance_defs reg_assign_def empty_registry_def)

text \<open>C3: \<open>CompleteTask\<close> behaves as the specification \<open>reg_complete\<close> on every branch: only the
  assignee can complete, only an ASSIGNED task, and a failed call changes nothing.\<close>

theorem CompleteTask_correct:
  assumes "keeper_env k m" "wf_at k m ctx"
  shows "case reg_complete (reg_at k m ctx) msg of
      Inl e \<Rightarrow> CompleteTask k ctx msg = Some (ctx, Inl e)
    | Inr r' \<Rightarrow> \<exists>ctx'. CompleteTask k ctx msg = Some (ctx', Inr MsgCompleteTaskResponse)
        \<and> wf_at k m ctx' \<and> reg_at k m ctx' = r'
        \<and> ctx_events ctx' = ctx_events ctx @ [complete_event msg]"
  by (rule keeper_env.CompleteTask_refines [OF assms])

theorem CompleteTask_correct_witness:
  "CompleteTask std_keeper ctx0 bob_completes = Some (ctx0, Inl (not_found 1))"
  using CompleteTask_correct [OF std_env, of ctx0 bob_completes]
  by (simp add: instance_defs reg_complete_def empty_registry_def)

section \<open>Runs\<close>

text \<open>C21: Every run of transactions over the store is a run of the abstract registry: each message
  has the effect of \<open>reg_deliver\<close>, and the store stays well-formed.\<close>

theorem chain_refinement:
  assumes "keeper_env k m" "chain_run k addr ctx msgs ctx'" "wf_at k m ctx" "\<forall>msg \<in> set msgs. go_msg msg"
  shows "wf_at k m ctx' \<and> reg_at k m ctx' = reg_run addr (reg_at k m ctx) msgs"
  by (rule keeper_env.chain_run_refines [OF assms])

theorem chain_refinement_witness:
  "\<exists>ctx'. chain_run std_keeper some_addr ctx0 [AssignMsg alice_assigns] ctx'
    \<and> reg_at std_keeper RBT.lookup ctx' = empty_registry"
proof -
  have "handle std_keeper ctx0 (AssignMsg alice_assigns) = Some (ctx0, Inl (not_found 1))"
    using keeper_env.AssignTask_refines [OF std_env, of ctx0 alice_assigns]
    by (simp add: handle_def respond_def instance_defs reg_assign_def empty_registry_def)
  then have run: "chain_run std_keeper some_addr ctx0 ([] @ [AssignMsg alice_assigns]) ctx0"
    by (intro run_failed run_start) (auto simp: instance_defs valid_addr_def)
  show ?thesis
    using run chain_refinement [OF std_env run]
    by (auto simp: instance_defs reg_deliver_def reg_handle_def reg_assign_def empty_registry_def valid_addr_def)
qed

text \<open>C22: No sequence of transactions gets stuck: from a well-formed store every list of messages
  has a run, so no handler panics on any of them.\<close>

theorem chain_total:
  assumes "keeper_env k m" "wf_at k m ctx" "\<forall>msg \<in> set msgs. go_msg msg"
  shows "\<exists>ctx'. chain_run k addr ctx msgs ctx'"
  by (rule keeper_env.chain_run_exists [OF assms])

theorem chain_total_witness:
  "\<exists>ctx'. chain_run std_keeper some_addr ctx0
    [CreateMsg alice_creates, AssignMsg alice_assigns, CompleteMsg bob_completes] ctx'"
  by (rule chain_total [OF std_env]) (simp_all add: instance_defs)

text \<open>C5: From an empty store, after any run with fewer than \<open>2 ^ 64 - 1\<close> accepted creations, the
  stored identifiers are exactly \<open>1\<close> to the number of accepted creations: identifiers are never
  reused, never skipped, and no task disappears.\<close>

theorem chain_identifiers:
  assumes "keeper_env k m" "chain_run k addr ctx msgs ctx'" "m (ctx_store ctx) = Map.empty"
    and "\<forall>msg \<in> set msgs. go_msg msg" "creates addr msgs < 2 ^ 64 - 1"
  shows "dom (reg_tasks (reg_at k m ctx')) = {i. 1 \<le> unat i \<and> unat i \<le> creates addr msgs}
    \<and> GetNextTaskID k (ctx_store ctx') = Some (word_of_nat (Suc (creates addr msgs)))"
proof -
  have run: "wf_at k m ctx'" "reg_at k m ctx' = reg_run addr empty_registry msgs"
    using keeper_env.chain_run_refines [OF assms(1,2)] assms(3,4) by simp_all
  with run_ids [OF assms(5)] keeper_env.GetNextTaskID_eq [OF assms(1)] show ?thesis by simp
qed

theorem chain_identifiers_witness:
  "\<exists>ctx'. chain_run std_keeper some_addr ctx0 [CreateMsg alice_creates] ctx'
    \<and> GetNextTaskID std_keeper (ctx_store ctx') = Some 2"
proof -
  have go: "\<forall>msg \<in> set [CreateMsg alice_creates]. go_msg msg" by (simp add: instance_defs)
  obtain ctx' where run: "chain_run std_keeper some_addr ctx0 [CreateMsg alice_creates] ctx'"
    using keeper_env.chain_run_exists [OF std_env _ go, of ctx0 some_addr] by auto
  have n: "creates some_addr [CreateMsg alice_creates] = 1"
    by (simp add: creates_def accepted_create_def instance_defs valid_addr_def)
  from chain_identifiers [OF std_env run _ go] run n show ?thesis by auto
qed

text \<open>C4: A task that is stored under an identifier below the counter is never lost and only moves along
  its life cycle: after any run in which the counter has room, the task under this identifier is the
  old one or one reached from it by assignments of an OPEN task and completions of an ASSIGNED one;
  its identifier, title, description and creator never change, and a COMPLETED task never changes at
  all. Every task that a run from the empty store created is below the counter; a genesis state that
  validates may hold tasks at or above it, which later creations overwrite.\<close>

theorem task_life_cycle:
  assumes "keeper_env k m" "chain_run k addr ctx msgs ctx'" "wf_at k m ctx" "\<forall>msg \<in> set msgs. go_msg msg"
    and "i < reg_next (reg_at k m ctx)" "unat (reg_next (reg_at k m ctx)) + creates addr msgs < 2 ^ 64"
    and "reg_tasks (reg_at k m ctx) i = Some t"
  shows "\<exists>t'. reg_tasks (reg_at k m ctx') i = Some t' \<and> some_step\<^sup>*\<^sup>* t t'
    \<and> task_Id t' = task_Id t \<and> task_Title t' = task_Title t \<and> task_Description t' = task_Description t
    \<and> task_Creator t' = task_Creator t
    \<and> (task_Status t = TASK_STATUS_COMPLETED \<longrightarrow> t' = t)"
proof -
  have run: "reg_at k m ctx' = reg_run addr (reg_at k m ctx) msgs"
    using keeper_env.chain_run_refines [OF assms(1-4)] by simp
  have "own_ids (reg_at k m ctx)"
    by (rule reg_wf_own_ids, rule keeper_env.registry_of_wf [OF assms(1,3)])
  from run_task_steps [OF this assms(5,7,6)] run show ?thesis
    using some_steps_static some_steps_completed by metis
qed

theorem task_life_cycle_witness:
  "\<exists>ctx1 ctx2 t. chain_run std_keeper some_addr ctx1 [AssignMsg alice_assigns] ctx2
    \<and> reg_tasks (reg_at std_keeper RBT.lookup ctx2) 1 = Some t \<and> task_Creator t = ''alice''"
proof -
  obtain ctx1 where 1: "wf_at std_keeper RBT.lookup ctx1"
    "reg_at std_keeper RBT.lookup ctx1 = reg_create empty_registry alice_creates"
    "ids_below (reg_at std_keeper RBT.lookup ctx1)" by (rule created_ctx)
  have go: "\<forall>msg \<in> set [AssignMsg alice_assigns]. go_msg msg" by (simp add: instance_defs)
  obtain ctx2 where run: "chain_run std_keeper some_addr ctx1 [AssignMsg alice_assigns] ctx2"
    using keeper_env.chain_run_exists [OF std_env 1(1) go, of some_addr] by auto
  from task_life_cycle [OF std_env run 1(1) go, of 1] run show ?thesis
    by (fastforce simp del: reg_create_simps simp: 1(2) created_task creates_def accepted_create_def)
qed

text \<open>C6: Nobody else can move a task: if a message leaves a different task under an identifier, then it
  named this task, and its sender was the creator assigning an OPEN task or the assignee completing
  an ASSIGNED one. The one exception is a creation when a task is already stored under the value of
  the counter: whoever sent it, the new task replaces the stored one. It cannot occur while the
  counter lies above every stored identifier, as it does in every run from the empty store until the
  counter wraps, but need not after a genesis state that validates.\<close>

theorem task_authorization:
  assumes "keeper_env k m" "wf_at k m ctx" "go_msg msg" "handle k ctx msg = Some (ctx', res)"
    and "reg_tasks (reg_at k m ctx) i = Some t" "reg_tasks (reg_at k m ctx') i \<noteq> Some t"
  shows "(\<exists>t'. reg_tasks (reg_at k m ctx') i = Some t' \<and> msg_target msg = Some i
      \<and> task_step (msg_actor msg) t t'
      \<and> (task_Status t = TASK_STATUS_OPEN \<and> msg_actor msg = task_Creator t
         \<or> task_Status t = TASK_STATUS_ASSIGNED \<and> msg_actor msg = task_Assignee t))
    \<or> (\<exists>cm. msg = CreateMsg cm \<and> i = reg_next (reg_at k m ctx) \<and> \<not> ids_below (reg_at k m ctx)
      \<and> reg_tasks (reg_at k m ctx') i = Some (new_task (reg_at k m ctx) cm))"
proof -
  let ?r = "reg_at k m ctx" and ?addr = "\<lambda>_ :: string. Inr [] :: string + bytes"
  have own: "own_ids ?r" by (rule reg_wf_own_ids, rule keeper_env.registry_of_wf [OF assms(1,2)])
  have "case reg_handle ?r msg of Inl e \<Rightarrow> ctx' = ctx | Inr r' \<Rightarrow> reg_at k m ctx' = r'"
    using keeper_env.handle_refines [OF assms(1-3)] assms(4) by (auto split: sum.splits)
  then obtain r' where r': "reg_handle ?r msg = Inr r'" "reg_at k m ctx' = r'"
    using assms(5,6) by (auto split: sum.splits)
  show ?thesis
  proof (cases "i \<noteq> reg_next ?r \<or> (\<forall>cm. msg \<noteq> CreateMsg cm)")
    case True
    from task_step_of_handle [OF own assms(5) r'(1) True] r'(2) assms(6) show ?thesis
      by (auto elim!: task_stepE intro: task_stepI)
  next
    case False
    then obtain cm where cm: "msg = CreateMsg cm" "i = reg_next ?r" by blast
    have "\<not> ids_below ?r" using cm(2) assms(5) by (auto simp: ids_below_def)
    moreover have "reg_tasks (reg_at k m ctx') i = Some (new_task ?r cm)"
      using r' cm by (auto simp: reg_handle_def)
    ultimately show ?thesis using cm by blast
  qed
qed

theorem task_authorization_witness:
  "\<exists>ctx1 ctx2 t t'. handle std_keeper ctx1 (AssignMsg alice_assigns) = Some (ctx2, Inr (AssignResponse MsgAssignTaskResponse))
    \<and> reg_tasks (reg_at std_keeper RBT.lookup ctx1) 1 = Some t
    \<and> reg_tasks (reg_at std_keeper RBT.lookup ctx2) 1 = Some t' \<and> task_step ''alice'' t t'"
proof -
  obtain ctx1 where 1: "wf_at std_keeper RBT.lookup ctx1"
    "reg_at std_keeper RBT.lookup ctx1 = reg_create empty_registry alice_creates"
    "ids_below (reg_at std_keeper RBT.lookup ctx1)" by (rule created_ctx)
  have go: "go_MsgAssignTask alice_assigns" "go_msg (AssignMsg alice_assigns)" by (simp_all add: instance_defs)
  obtain ctx2 where h: "AssignTask std_keeper ctx1 alice_assigns = Some (ctx2, Inr MsgAssignTaskResponse)"
    and r: "Inr (reg_at std_keeper RBT.lookup ctx2) = reg_assign (reg_create empty_registry alice_creates) alice_assigns"
    using keeper_env.AssignTask_refines [OF std_env 1(1) go(1)]
    by (auto simp del: reg_create_simps simp: 1(2) reg_assign_def created_task alice_assigns_def)
  have h': "handle std_keeper ctx1 (AssignMsg alice_assigns) = Some (ctx2, Inr (AssignResponse MsgAssignTaskResponse))"
    by (simp add: handle_def respond_def h)
  have "reg_tasks (reg_at std_keeper RBT.lookup ctx2) 1 \<noteq> reg_tasks (reg_create empty_registry alice_creates) 1"
    using r by (simp del: reg_create_simps add: reg_assign_def created_task alice_assigns_def)
  with task_authorization [OF std_env 1(1) go(2) h', of 1] 1(3)
  obtain t' where "reg_tasks (reg_at std_keeper RBT.lookup ctx2) 1 = Some t'"
    "task_step ''alice'' (the (reg_tasks (reg_create empty_registry alice_creates) 1)) t'"
    by (auto simp del: reg_create_simps simp: 1(2) created_task msg_actor_def alice_assigns_def)
  with h' 1(2) created_task(1) show ?thesis by (metis option.sel)
qed

text \<open>C33: Every task that came in by transactions is well-formed: it is stored under its own
  identifier, its creator is a valid address and its title is not empty, its status is OPEN, ASSIGNED
  or COMPLETED, and it has a valid assignee exactly when it is not OPEN.\<close>

theorem task_well_formed:
  assumes "keeper_env k m" "chain_run k addr ctx msgs ctx'" "wf_at k m ctx" "\<forall>msg \<in> set msgs. go_msg msg"
    and "reg_ok addr (reg_at k m ctx)"
  shows "reg_ok addr (reg_at k m ctx')"
  using keeper_env.chain_run_refines [OF assms(1-4)] reg_ok_run [OF assms(5)] by simp

theorem task_well_formed_witness:
  "\<exists>ctx1. chain_run std_keeper some_addr ctx0 [CreateMsg alice_creates] ctx1
    \<and> reg_ok some_addr (reg_at std_keeper RBT.lookup ctx1)"
proof -
  obtain ctx1 where run: "chain_run std_keeper some_addr ctx0 [CreateMsg alice_creates] ctx1" by (rule created_ctx)
  from task_well_formed [OF std_env run] run show ?thesis by (auto simp: instance_defs)
qed

text \<open>C34: A task can always be carried through: from any well-formed store, creating a task, assigning
  it under the identifier that was returned and completing it as the assignee all succeed, and the
  stored task is then the created one, COMPLETED by the assignee.\<close>

theorem task_can_complete:
  assumes "keeper_env k m" "wf_at k m ctx" "go_MsgCreateTask msg" "go_len a"
    and "valid_addr addr (ct_Creator msg)" "ct_Title msg \<noteq> []" "valid_addr addr a"
    and "tid = reg_next (reg_at k m ctx)"
  shows "\<exists>ctx'. chain_run k addr ctx
      [CreateMsg msg, AssignMsg \<lparr>at_Creator = ct_Creator msg, at_TaskId = tid, at_Assignee = a\<rparr>,
       CompleteMsg \<lparr>cp_Assignee = a, cp_TaskId = tid\<rparr>] ctx'
    \<and> GetTask k (ctx_store ctx') tid = Some
        (\<lparr>task_Id = tid, task_Title = ct_Title msg, task_Description = ct_Description msg,
          task_Creator = ct_Creator msg, task_Assignee = a, task_Status = TASK_STATUS_COMPLETED\<rparr>, True)"
proof -
  let ?msgs = "[CreateMsg msg, AssignMsg \<lparr>at_Creator = ct_Creator msg, at_TaskId = tid, at_Assignee = a\<rparr>,
      CompleteMsg \<lparr>cp_Assignee = a, cp_TaskId = tid\<rparr>]"
  have go: "\<forall>msg \<in> set ?msgs. go_msg msg"
    using assms(3,4) by (simp add: go_msg_def go_MsgCreateTask_def go_MsgAssignTask_def go_MsgCompleteTask_def)
  obtain ctx' where run: "chain_run k addr ctx ?msgs ctx'"
    using keeper_env.chain_run_exists [OF assms(1,2) go] by blast
  note end_state = keeper_env.chain_run_refines [OF assms(1) run assms(2) go]
  have "reg_tasks (reg_at k m ctx') tid = Some
      \<lparr>task_Id = tid, task_Title = ct_Title msg, task_Description = ct_Description msg,
       task_Creator = ct_Creator msg, task_Assignee = a, task_Status = TASK_STATUS_COMPLETED\<rparr>"
    using end_state assms(5-8)
    by (simp add: reg_run_def reg_deliver_def reg_handle_def reg_assign_def reg_complete_def new_task_def)
  with keeper_env.GetTask_eq [OF assms(1), of "ctx_store ctx'" tid] end_state run show ?thesis by auto
qed

theorem task_can_complete_witness:
  "\<exists>ctx'. chain_run std_keeper some_addr ctx0
      [CreateMsg alice_creates, AssignMsg \<lparr>at_Creator = ''alice'', at_TaskId = 1, at_Assignee = ''bob''\<rparr>,
       CompleteMsg \<lparr>cp_Assignee = ''bob'', cp_TaskId = 1\<rparr>] ctx'
    \<and> GetTask std_keeper (ctx_store ctx') 1 = Some
        (\<lparr>task_Id = 1, task_Title = ''write docs'', task_Description = '''', task_Creator = ''alice'',
          task_Assignee = ''bob'', task_Status = TASK_STATUS_COMPLETED\<rparr>, True)"
  using task_can_complete [OF std_env, of ctx0 alice_creates "''bob''" some_addr 1]
  by (simp add: instance_defs valid_addr_def empty_registry_def)

section \<open>Limits of the identifiers\<close>

text \<open>The counter wraps: when it stands at the largest identifier, the two creations after the
  next give the tasks the identifiers 0 and 1, and the second one replaces the task stored as 1.\<close>

theorem identifiers_wrap:
  assumes "keeper_env k m" "wf_at k m ctx" "reg_next (reg_at k m ctx) = - 1"
    and "go_MsgCreateTask m1" "go_MsgCreateTask m2" "go_MsgCreateTask m3"
  shows "\<exists>c1 c2 c3. CreateTask k ctx m1 = Some (c1, Inr \<lparr>ctr_Id = - 1\<rparr>)
    \<and> CreateTask k c1 m2 = Some (c2, Inr \<lparr>ctr_Id = 0\<rparr>)
    \<and> CreateTask k c2 m3 = Some (c3, Inr \<lparr>ctr_Id = 1\<rparr>)
    \<and> (\<exists>t. reg_tasks (reg_at k m c3) 1 = Some t \<and> task_Title t = ct_Title m3
         \<and> task_Status t = TASK_STATUS_OPEN)"
proof -
  note create = keeper_env.CreateTask_refines [OF assms(1)]
  obtain c1 where c1: "CreateTask k ctx m1 = Some (c1, Inr \<lparr>ctr_Id = - 1\<rparr>)" "wf_at k m c1"
    "reg_at k m c1 = reg_create (reg_at k m ctx) m1"
    using create [OF assms(2,4)] assms(3) by auto
  obtain c2 where c2: "CreateTask k c1 m2 = Some (c2, Inr \<lparr>ctr_Id = 0\<rparr>)" "wf_at k m c2"
    "reg_at k m c2 = reg_create (reg_at k m c1) m2"
    using create [OF c1(2) assms(5)] c1(3) assms(3) by auto
  obtain c3 where c3: "CreateTask k c2 m3 = Some (c3, Inr \<lparr>ctr_Id = 1\<rparr>)"
    "reg_at k m c3 = reg_create (reg_at k m c2) m3"
    using create [OF c2(2) assms(6)] c2(3) c1(3) assms(3) by auto
  with c1 c2 show ?thesis using assms(3) by (auto simp: new_task_def)
qed

theorem identifiers_wrap_witness:
  "\<exists>s c1. SetNextTaskID std_keeper RBT.empty (- 1) = s
    \<and> CreateTask std_keeper \<lparr>ctx_store = s, ctx_events = []\<rparr> alice_creates = Some (c1, Inr \<lparr>ctr_Id = - 1\<rparr>)"
proof -
  let ?s = "SetNextTaskID std_keeper RBT.empty (- 1)"
  have "store_wf (cdc std_keeper) (RBT.lookup ?s)"
    "reg_next (registry_of (cdc std_keeper) (RBT.lookup ?s)) = - 1"
    using keeper_env.SetNextTaskID_eq [OF std_env, of RBT.empty "- 1"] by simp_all
  with identifiers_wrap [OF std_env, of "\<lparr>ctx_store = ?s, ctx_events = []\<rparr>" alice_creates alice_creates alice_creates]
  show ?thesis by (auto simp: instance_defs)
qed

end
