(* ===== verification/Query_Props.thy ===== *)
theory Query_Props
  imports Task_Props
begin

text \<open>The properties of the query server and of genesis, on the store that the transactions leave.\<close>

section \<open>Queries\<close>

text \<open>\<open>Task\<close> answers every request without a panic: a nil request with InvalidArgument, an
  identifier of the registry with the stored task, and any other with "not found".\<close>

theorem Query_Task_correct:
  assumes "keeper_env k m" "store_wf (cdc k) (m s)"
  shows "Query_Task k s req = Some
    (case req of
       None \<Rightarrow> Inl (InvalidArgument ''empty request'')
     | Some q \<Rightarrow>
         (case reg_tasks (registry_of (cdc k) (m s)) (qtr_Id q) of
            None \<Rightarrow> Inl (TaskError (not_found (qtr_Id q)))
          | Some t \<Rightarrow> Inr \<lparr>qts_Task = t\<rparr>))"
  using keeper_env.Query_Task_eq [OF assms] by (cases req) (simp_all add: Query_Task_def)

theorem Query_Task_correct_witness:
  "Query_Task std_keeper RBT.empty (Some \<lparr>qtr_Id = 7\<rparr>) = Some (Inl (TaskError (not_found 7)))"
  using Query_Task_correct [OF std_env, of RBT.empty "Some \<lparr>qtr_Id = 7\<rparr>"] by (simp add: empty_registry_def)

text \<open>C19: \<open>ListTasks\<close> answers a request exactly if its bounds fit Go's 64-bit \<^verbatim>\<open>int\<close>; then it returns
  the page of the full listing from the offset on, at most limit tasks (all of them without a
  limit), with the total number of tasks. An offset or a limit of \<open>2 ^ 63\<close> or more, or a limit that
  overflows when added to the offset, makes the slice expression panic.\<close>

theorem ListTasks_correct:
  assumes "keeper_env k m" "all_tasks k s = Some ts" "go_len ts"
  shows "ListTasks k s (Some req) =
    (if page_fits (length ts) (qlr_Pagination req) then
       Some (Inr \<lparr>qls_Tasks = page_of ts (qlr_Pagination req),
         qls_Pagination = Some \<lparr>ps_NextKey = [], ps_Total = word_of_nat (length ts)\<rparr>\<rparr>)
     else None)"
  by (rule keeper_env.ListTasks_eq [OF assms])

lemma std_all_tasks_empty: "all_tasks std_keeper RBT.empty = Some []"
  using keeper_env.all_tasks_eq [OF std_env, of RBT.empty] by (auto simp: empty_registry_def)

theorem ListTasks_correct_witness:
  "ListTasks std_keeper RBT.empty (Some \<lparr>qlr_Pagination = Some (zero_PageRequest\<lparr>pr_Limit := 2 ^ 63\<rparr>)\<rparr>) = None"
  using ListTasks_correct [OF std_env std_all_tasks_empty,
      of "\<lparr>qlr_Pagination = Some (zero_PageRequest\<lparr>pr_Limit := 2 ^ 63\<rparr>)\<rparr>"]
  by (simp add: zero_PageRequest_def page_fits_def)

lemma concat_pages: "concat (map (\<lambda>i. take l (drop (i * l) xs)) [0..<n]) = take (n * l) xs"
proof (induction n)
  case (Suc n)
  have "Suc n * l = n * l + l" by simp
  with Suc show ?case by (simp only: upt_Suc_append le0 map_append concat_append take_add) simp
qed simp

definition page_request :: "nat \<Rightarrow> nat \<Rightarrow> PageRequest" where
  "page_request offset limit = zero_PageRequest\<lparr>pr_Offset := word_of_nat offset, pr_Limit := word_of_nat limit\<rparr>"

definition page_tasks :: "(query_error + QueryListTasksResponse) option \<Rightarrow> Task list" where
  "page_tasks res = (case res of Some (Inr resp) \<Rightarrow> qls_Tasks resp | _ \<Rightarrow> [])"

text \<open>Paging is complete: asking for the pages of a fixed size one after the other, up to any
  number of pages that covers the total, and joining the answers gives every task once, in the order
  of the identifiers.\<close>

theorem ListTasks_pages:
  assumes "keeper_env k m" "store_wf (cdc k) (m s)" "all_tasks k s = Some ts"
    and "0 < l" "length ts + l < 2 ^ 63" "n * l < 2 ^ 63" "length ts \<le> n * l"
  shows "concat (map (\<lambda>i. page_tasks (ListTasks k s (Some \<lparr>qlr_Pagination = Some (page_request (i * l) l)\<rparr>))) [0..<n]) = ts
    \<and> sorted_wrt (<) (map task_Id ts)
    \<and> (\<forall>t. t \<in> set ts \<longleftrightarrow> reg_tasks (registry_of (cdc k) (m s)) (task_Id t) = Some t)"
proof -
  have page: "page_tasks (ListTasks k s (Some \<lparr>qlr_Pagination = Some (page_request (i * l) l)\<rparr>)) = take l (drop (i * l) ts)"
    if "i < n" for i
  proof -
    have "i * l < 2 ^ 63" using that assms(6) by (meson less_imp_le mult_le_mono1 order_le_less_trans)
    then have u: "unat (word_of_nat (i * l) :: u64) = i * l" "unat (word_of_nat l :: u64) = l"
      using assms(5) by (simp_all add: unat_of_nat del: of_nat_mult)
    have "(word_of_nat l :: u64) \<noteq> 0" using u(2) assms(4) by (metis less_irrefl unat_0)
    then show ?thesis
      using keeper_env.ListTasks_eq [OF assms(1,3)] u assms(5) \<open>i * l < 2 ^ 63\<close>
      by (simp del: of_nat_mult add: page_tasks_def page_fits_def page_of_def page_limit_def page_offset_def page_request_def
          go_len_def zero_PageRequest_def)
  qed
  then have "concat (map (\<lambda>i. page_tasks (ListTasks k s (Some \<lparr>qlr_Pagination = Some (page_request (i * l) l)\<rparr>))) [0..<n])
      = concat (map (\<lambda>i. take l (drop (i * l) ts)) [0..<n])"
    by (intro arg_cong [where f = concat] map_cong) auto
  then show ?thesis
    using keeper_env.all_tasks_eq [OF assms(1,2)] assms(3,7) by (auto simp: concat_pages)
qed

theorem ListTasks_pages_witness:
  "concat (map (\<lambda>i. page_tasks (ListTasks std_keeper RBT.empty
     (Some \<lparr>qlr_Pagination = Some (page_request (i * 10) 10)\<rparr>))) [0..<2]) = []"
  using ListTasks_pages [OF std_env _ std_all_tasks_empty, of 10 2] by simp

lemma unat_range:
  assumes "n < 2 ^ 64"
  shows "unat ` {i :: u64. 1 \<le> unat i \<and> unat i \<le> n} = {1..<Suc n}"
proof -
  have "j \<in> unat ` {i :: u64. 1 \<le> unat i \<and> unat i \<le> n}" if "1 \<le> j" "j \<le> n" for j
    using that assms by (intro image_eqI [of _ _ "word_of_nat j"]) (simp_all add: unat_of_nat)
  then show ?thesis by auto
qed

text \<open>After any run of transactions from an empty store, a listing without pagination is the
  tasks 1, 2 and so on up to the number of accepted creations, in this order, and nothing else.\<close>

theorem ListTasks_after_run:
  assumes "keeper_env k m" "chain_run k addr ctx msgs ctx'" "m (ctx_store ctx) = Map.empty"
    and "\<forall>msg \<in> set msgs. go_msg msg" "creates addr msgs < 2 ^ 63"
  shows "\<exists>resp. ListTasks k (ctx_store ctx') (Some \<lparr>qlr_Pagination = None\<rparr>) = Some (Inr resp)
    \<and> map (\<lambda>t. unat (task_Id t)) (qls_Tasks resp) = [1..<Suc (creates addr msgs)]
    \<and> qls_Pagination resp = Some \<lparr>ps_NextKey = [], ps_Total = word_of_nat (creates addr msgs)\<rparr>"
proof -
  let ?n = "creates addr msgs"
  have run: "wf_at k m ctx'" "reg_at k m ctx' = reg_run addr empty_registry msgs"
    using keeper_env.chain_run_refines [OF assms(1,2)] assms(3,4) by simp_all
  obtain ts where ts: "all_tasks k (ctx_store ctx') = Some ts" "sorted_wrt (<) (map task_Id ts)"
    using keeper_env.all_tasks_eq [OF assms(1) run(1)] by blast
  have "task_Id ` set ts = {i. 1 \<le> unat i \<and> unat i \<le> ?n}"
    using keeper_env.all_tasks_ids [OF assms(1) run(1) ts(1)] run(2) run_ids [of addr msgs] assms(5) by simp
  then have "set (map (\<lambda>t. unat (task_Id t)) ts) = {1..<Suc ?n}"
    using unat_range [of ?n] assms(5) image_image [of unat task_Id "set ts"] by simp
  moreover have "sorted_wrt (<) (map (\<lambda>t. unat (task_Id t)) ts)"
    using ts(2) by (simp add: sorted_wrt_map word_less_nat_alt)
  ultimately have ids: "map (\<lambda>t. unat (task_Id t)) ts = [1..<Suc ?n]"
    by (intro sorted_distinct_set_unique) (auto simp: strict_sorted_iff simp del: upt_Suc)
  then have len: "length ts = ?n" by (metis length_map length_upt diff_Suc_1)
  then have "go_len ts" using assms(5) by (simp add: go_len_def)
  from keeper_env.ListTasks_eq [OF assms(1) ts(1) this] ids len show ?thesis by (simp add: page_fits_def)
qed

theorem ListTasks_after_run_witness:
  "\<exists>ctx' resp. chain_run std_keeper some_addr ctx0 [CreateMsg alice_creates] ctx'
    \<and> ListTasks std_keeper (ctx_store ctx') (Some \<lparr>qlr_Pagination = None\<rparr>) = Some (Inr resp)
    \<and> map (\<lambda>t. unat (task_Id t)) (qls_Tasks resp) = [1]"
proof -
  obtain ctx' where run: "chain_run std_keeper some_addr ctx0 [CreateMsg alice_creates] ctx'" by (rule created_ctx)
  have n: "creates some_addr [CreateMsg alice_creates] = 1"
    by (simp add: creates_def accepted_create_def instance_defs valid_addr_def)
  from ListTasks_after_run [OF std_env run] run n show ?thesis by (auto simp: instance_defs)
qed

section \<open>Genesis\<close>

text \<open>\<open>Validate\<close> accepts a genesis state exactly if its task identifiers are distinct, and
  otherwise names the first identifier that repeats an earlier one.\<close>

theorem Validate_correct:
  "(Validate gs = None \<longleftrightarrow> distinct (map task_Id (gs_Tasks gs)))
   \<and> (\<forall>e. Validate gs = Some e \<longrightarrow>
        (\<exists>us t vs. gs_Tasks gs = us @ t # vs \<and> distinct (map task_Id us) \<and> task_Id t \<in> task_Id ` set us
          \<and> e = ErrInvalidStatus (''duplicate task id: '' @ fmt_d (unat (task_Id t)))))"
proof (intro conjI allI impI)
  show "Validate gs = None \<longleftrightarrow> distinct (map task_Id (gs_Tasks gs))"
    by (simp add: Validate_def validate_loop_None)
next
  fix e
  assume "Validate gs = Some e"
  then show "\<exists>us t vs. gs_Tasks gs = us @ t # vs \<and> distinct (map task_Id us) \<and> task_Id t \<in> task_Id ` set us
      \<and> e = ErrInvalidStatus (''duplicate task id: '' @ fmt_d (unat (task_Id t)))"
    unfolding Validate_def by (rule validate_loop_Some) auto
qed

theorem Validate_correct_witness:
  "Validate \<lparr>gs_Tasks = [zero_task, zero_task], gs_NextTaskId = 1\<rparr> \<noteq> None"
  using Validate_correct [of "\<lparr>gs_Tasks = [zero_task, zero_task], gs_NextTaskId = 1\<rparr>"] by simp

lemma list_tasks_of_put:
  assumes "own_ids r" "reg_tasks r = reg_tasks (put_tasks r0 ts)" "reg_tasks r0 = (\<lambda>_. None)"
    and "distinct (map task_Id ts)"
  shows "reg_tasks r (task_Id t) = Some t \<longleftrightarrow> t \<in> set ts"
proof
  assume l: "reg_tasks r (task_Id t) = Some t"
  have "task_Id t \<in> task_Id ` set ts"
  proof (rule ccontr)
    assume "task_Id t \<notin> task_Id ` set ts"
    then have "reg_tasks r (task_Id t) = None" using assms(2,3) by (simp add: reg_tasks_put_other)
    with l show False by simp
  qed
  then obtain u where u: "u \<in> set ts" "task_Id u = task_Id t" by auto
  with reg_tasks_put_distinct [OF assms(4) u(1), of r0] assms(2) l show "t \<in> set ts" by simp
next
  assume "t \<in> set ts"
  with reg_tasks_put_distinct [OF assms(4), of t r0] assms(2) show "reg_tasks r (task_Id t) = Some t" by simp
qed

lemma sorted_key_unique:
  fixes f :: "'a \<Rightarrow> 'b :: linorder"
  assumes "sorted_wrt (<) (map f xs)" "distinct (map f ys)" "set xs = set ys"
  shows "xs = sort_key f ys"
proof -
  have "inj_on f (set ys)" "distinct ys" using assms(2) by (simp_all add: distinct_map)
  moreover from this have "map f xs = map f (sort_key f ys)"
    using assms(1,3) by (intro sorted_distinct_set_unique) (auto simp: strict_sorted_iff distinct_map)
  ultimately show ?thesis using assms(3) by (auto intro: map_inj_on)
qed

text \<open>C36: Importing a valid genesis state into an empty store and exporting it gives the state back,
  with the tasks sorted by identifier: the same tasks, each once, and the same counter.\<close>

theorem genesis_import_export:
  assumes "keeper_env k m" "m s = Map.empty" "Validate gs = None" "go_tasks gs"
  shows "\<exists>s'. InitGenesis k s gs = Some s'
    \<and> ExportGenesis k s' = Some \<lparr>gs_Tasks = sort_key task_Id (gs_Tasks gs), gs_NextTaskId = gs_NextTaskId gs\<rparr>"
proof -
  let ?r0 = "registry_of (cdc k) (m s)"
  have wf: "store_wf (cdc k) (m s)" and r0: "reg_tasks ?r0 = (\<lambda>_. None)"
    using assms(2) by (simp_all add: empty_registry_def)
  have dist: "distinct (map task_Id (gs_Tasks gs))"
    using assms(3) by (simp add: Validate_def validate_loop_None)
  obtain s' where s': "InitGenesis k s gs = Some s'" "store_wf (cdc k) (m s')"
    "registry_of (cdc k) (m s') = reg_init ?r0 gs"
    using keeper_env.InitGenesis_refines [OF assms(1) wf assms(4)] by blast
  obtain ts where ts: "ExportGenesis k s' = Some \<lparr>gs_Tasks = ts, gs_NextTaskId = reg_next (registry_of (cdc k) (m s'))\<rparr>"
    "sorted_wrt (<) (map task_Id ts)"
    "\<And>t. t \<in> set ts \<longleftrightarrow> reg_tasks (registry_of (cdc k) (m s')) (task_Id t) = Some t"
    using keeper_env.ExportGenesis_eq [OF assms(1) s'(2)] by blast
  have "own_ids (registry_of (cdc k) (m s'))"
    by (rule reg_wf_own_ids, rule keeper_env.registry_of_wf [OF assms(1) s'(2)])
  from list_tasks_of_put [OF this _ r0 dist] s'(3) ts(3) have "set ts = set (gs_Tasks gs)"
    by (auto simp: reg_init_def)
  then have "ts = sort_key task_Id (gs_Tasks gs)"
    using ts(2) dist by (intro sorted_key_unique) (auto simp: strict_sorted_iff)
  with s' ts(1) show ?thesis by (simp add: reg_init_def)
qed

theorem genesis_import_export_witness:
  "\<exists>s'. InitGenesis std_keeper RBT.empty DefaultGenesis = Some s'
    \<and> ExportGenesis std_keeper s' = Some DefaultGenesis"
  using genesis_import_export [OF std_env, of RBT.empty DefaultGenesis]
  by (simp add: DefaultGenesis_def Validate_def go_tasks_def)

text \<open>Exporting a well-formed store and importing the result into an empty store restores the
  registry, through the module's JSON methods: the export passes \<open>ValidateGenesis\<close>, and the imported
  store has the same tasks and the same counter, whatever else the old store contained.\<close>

theorem genesis_export_import:
  assumes "keeper_env k m" "store_wf (cdc k) (m s)" "m s0 = Map.empty"
    and "Module_ExportGenesis k s js = Some bz"
    and "\<And>gs. MustMarshalJSON js gs = Some bz \<Longrightarrow> UnmarshalJSON js bz = Inr gs \<and> MustUnmarshalJSON js bz = Some gs"
  shows "Module_ValidateGenesis js bz = None
    \<and> (\<exists>s'. Module_InitGenesis k s0 js bz = Some s' \<and> store_wf (cdc k) (m s')
        \<and> registry_of (cdc k) (m s') = registry_of (cdc k) (m s))"
proof -
  obtain gs where gs: "ExportGenesis k s = Some gs" "MustMarshalJSON js gs = Some bz"
    using assms(4) by (auto simp: Module_ExportGenesis_def bind_eq_Some_conv)
  have "distinct (map task_Id (gs_Tasks gs))" by (rule keeper_env.export_go_tasks(2) [OF assms(1,2) gs(1)])
  then have "Validate gs = None" by (simp add: Validate_def validate_loop_None)
  with assms(5) [OF gs(2)] keeper_env.init_of_export [OF assms(1,2) gs(1) assms(3)] show ?thesis
    by (simp add: Module_ValidateGenesis_def Module_InitGenesis_def)
qed

definition one_json :: json_codec where
  "one_json = \<lparr>MustMarshalJSON = (\<lambda>gs. if gs = DefaultGenesis then Some (bytes_of ''{}'') else None),
     UnmarshalJSON = (\<lambda>bz. if bz = bytes_of ''{}'' then Inr DefaultGenesis else Inl ''bad json''),
     MustUnmarshalJSON = (\<lambda>bz. if bz = bytes_of ''{}'' then Some DefaultGenesis else None)\<rparr>"

theorem genesis_export_import_witness:
  "Module_ExportGenesis std_keeper RBT.empty one_json = Some (bytes_of ''{}'')
    \<and> Module_ValidateGenesis one_json (bytes_of ''{}'') = None
    \<and> (\<exists>s'. Module_InitGenesis std_keeper RBT.empty one_json (bytes_of ''{}'') = Some s'
        \<and> registry_of (cdc std_keeper) (RBT.lookup s') = empty_registry)"
proof -
  have "ExportGenesis std_keeper RBT.empty = Some DefaultGenesis"
    using keeper_env.ExportGenesis_eq [OF std_env, of RBT.empty] std_all_tasks_empty
    by (auto simp: DefaultGenesis_def empty_registry_def)
  then have e: "Module_ExportGenesis std_keeper RBT.empty one_json = Some (bytes_of ''{}'')"
    by (simp add: Module_ExportGenesis_def one_json_def)
  from genesis_export_import [OF std_env _ _ e, of RBT.empty] e show ?thesis
    by (fastforce simp: one_json_def split: if_splits)
qed



end
