(* ===== verification/Wire_Props.thy ===== *)
theory Wire_Props
  imports Query_Std
begin

text \<open>
  The properties of the generated messages, over any \<open>protowire\<close> package that keeps the documented
  wire format (the hypothesis \<open>wire_format pw\<close>); the witnesses evaluate on the one of theory
  \<open>Wire_Std\<close>.
\<close>

lemmas std_wf = std.wire_format_axioms
lemmas std_qw = std_query.query_wire_axioms

definition sample_task :: Task where
  "sample_task = \<lparr>task_Id = 300, task_Title = ''t'', task_Description = [], task_Creator = ''c'',
     task_Assignee = [], task_Status = TASK_STATUS_OPEN\<rparr>"

lemma go_sample [simp]: "go_task sample_task"
  by (simp add: go_task_def sample_task_def go_len_def)

text \<open>C35: Encoding a task never fails, decoding the encoding into a fresh task gives it back, and
  \<open>Size\<close> is the length of the encoding.\<close>

theorem Task_roundtrip:
  assumes "wire_format pw" "go_task t"
  shows "\<exists>bz. Task_Marshal pw t = Inr bz \<and> Task_Unmarshal pw zero_task bz = Some (t, None)
    \<and> Task_Size pw t = int (length bz)"
  using wire_format.Task_Marshal_eq [OF assms(1), of t] wire_format.Task_Unmarshal_wire [OF assms]
    wire_format.length_Task_wire [OF assms] by simp

theorem Task_roundtrip_witness:
  "\<exists>bz. Task_Marshal std_wire sample_task = Inr bz \<and> Task_Unmarshal std_wire zero_task bz = Some (sample_task, None)"
  using Task_roundtrip [OF std_wf go_sample] by blast

text \<open>\<open>MarshalToSizedBuffer\<close> writes the encoding at the end of the buffer and leaves the bytes before it
  alone; a buffer shorter than the encoding makes it panic.\<close>

lemma Task_MarshalToSizedBuffer_eq:
  assumes "Task_Marshal pw t = Inr bz"
  shows "Task_MarshalToSizedBuffer pw t buf =
    (if length bz \<le> length buf
     then Some (take (length buf - length bz) buf @ bz, Inr (int (length bz)))
     else None)"
  using marshal_to_sized_Inr [of bz buf] marshal_to_sized_panics [of buf bz] assms
  by (simp add: Task_MarshalToSizedBuffer_def)

text \<open>Queries survive the wire, up to one value: a pagination message whose fields are all zero
  is not written, so it comes back as nil; every other request and response is decoded from its
  encoding unchanged, and \<open>Size\<close> is the length of the encoding.\<close>

theorem queries_roundtrip:
  assumes "query_wire pw pg" "go_ListRequest pg ql" "go_ListResponse pw pg qs"
    and "go_task (qts_Task qr)" "go_len (Task_wire pw (qts_Task qr))"
  shows "(\<exists>bz. QueryTaskRequest_Marshal pw qt = Inr bz \<and> QueryTaskRequest_Size pw qt = int (length bz)
      \<and> QueryTaskRequest_Unmarshal pw zero_QueryTaskRequest bz = Some (qt, None))
    \<and> (\<exists>bz. QueryTaskResponse_Marshal pw qr = Inr bz \<and> QueryTaskResponse_Size pw qr = int (length bz)
      \<and> QueryTaskResponse_Unmarshal pw zero_QueryTaskResponse bz = Some (qr, None))
    \<and> (\<exists>bz. QueryListTasksRequest_Marshal pw pg ql = Inr bz \<and> QueryListTasksRequest_Size pw pg ql = int (length bz)
      \<and> QueryListTasksRequest_Unmarshal pw pg zero_QueryListTasksRequest bz = Some
          (ql\<lparr>qlr_Pagination := (if qlr_Pagination ql = Some zero_PageRequest then None else qlr_Pagination ql)\<rparr>, None))
    \<and> (\<exists>bz. QueryListTasksResponse_Marshal pw pg qs = Inr bz \<and> QueryListTasksResponse_Size pw pg qs = int (length bz)
      \<and> QueryListTasksResponse_Unmarshal pw pg zero_QueryListTasksResponse bz = Some
          (qs\<lparr>qls_Pagination := (if qls_Pagination qs = Some zero_PageResponse then None else qls_Pagination qs)\<rparr>, None))"
proof -
  have w: "wire_format pw" using assms(1) by (simp add: query_wire_def)
  note qt = wire_format.QueryTaskRequest_Marshal_eq [OF w, of qt]
  note qr = wire_format.QueryTaskResponse_Marshal_eq [OF w, of qr]
  show ?thesis
    using qt wire_format.QueryTaskRequest_Size_eq [OF w qt] wire_format.QueryTaskRequest_Unmarshal_wire [OF w qt]
      qr wire_format.QueryTaskResponse_Size_eq [OF w assms(4,5) qr]
      wire_format.QueryTaskResponse_Unmarshal_wire [OF w assms(4,5) qr]
      query_wire.ListRequest_wire [OF assms(1,2)] query_wire.ListResponse_wire [OF assms(1,3)]
    unfolding drop_zero_def by blast
qed

theorem queries_roundtrip_witness:
  "\<exists>bz. QueryListTasksRequest_Marshal std_wire (std_pages std_wire) \<lparr>qlr_Pagination = Some zero_PageRequest\<rparr> = Inr bz
    \<and> QueryListTasksRequest_Unmarshal std_wire (std_pages std_wire) zero_QueryListTasksRequest bz = Some (\<lparr>qlr_Pagination = None\<rparr>, None)"
proof -
  have req: "go_ListRequest (std_pages std_wire) \<lparr>qlr_Pagination = Some zero_PageRequest\<rparr>"
    by (simp add: go_ListRequest_def go_PageRequest_def zero_PageRequest_def opt_wire_def std_pages_def
        PageRequest_wire_def appendString_def appendUint64_def string_of_def)
  have resp: "go_ListResponse std_wire (std_pages std_wire) zero_QueryListTasksResponse"
    by (simp add: go_ListResponse_def zero_QueryListTasksResponse_def opt_wire_def)
  have t: "go_task (qts_Task zero_QueryTaskResponse)" "go_len (Task_wire std_wire (qts_Task zero_QueryTaskResponse))"
    by (simp_all add: zero_QueryTaskResponse_def go_task_def zero_task_def Task_wire_def appendUint64_def appendString_def)
  from queries_roundtrip [OF std_qw req resp t] show ?thesis by auto
qed

text \<open>Decoding merges: an encoding that is followed by a field with an unknown number and by a
  second encoding is decoded to the fields of the second one where they are not zero, else those of
  the first, else those of the receiver, and the unknown field is skipped.\<close>

theorem Task_Unmarshal_merges:
  assumes "wire_format pw" "go_task t" "go_task t'" "6 < num" "num < 2 ^ 29"
  shows "Task_Unmarshal pw m (Task_wire pw t @ AppendTag pw [] num VarintType @ AppendVarint pw [] v @ Task_wire pw t') =
    Some (Task_merge (Task_merge m t) t', None)"
proof -
  have "Task_field pw num wt b m' = default_case pw wt m' b" for wt b m'
    using assms(4) by (simp add: Task_field_def)
  with assms show ?thesis
    using wire_format.loop_Task_wire [OF assms(1,2), of m] wire_format.Task_Unmarshal_wire [OF assms(1,3)]
      wire_format.loop_unknown(1) [OF assms(1) _ assms(5), of "Task_field pw"]
    by (simp add: Task_Unmarshal_def)
qed

theorem Task_Unmarshal_merges_witness:
  "Task_Unmarshal std_wire zero_task (Task_wire std_wire sample_task @ AppendTag std_wire [] 7 VarintType
      @ AppendVarint std_wire [] 1 @ Task_wire std_wire (zero_task\<lparr>task_Status := TASK_STATUS_ASSIGNED\<rparr>)) =
    Some (sample_task\<lparr>task_Status := TASK_STATUS_ASSIGNED\<rparr>, None)"
  using Task_Unmarshal_merges [OF std_wf go_sample, of "zero_task\<lparr>task_Status := TASK_STATUS_ASSIGNED\<rparr>" 7 zero_task 1]
  by (simp add: go_task_def zero_task_def sample_task_def Task_merge_def status_defs)

text \<open>C37: No input makes a decoder panic or loop: for every byte string, however malformed, and every
  receiver, the decoders of the stored task, the genesis state, the transactions and the queries return.\<close>

theorem decoders_total:
  assumes "query_wire pw pg"
  shows "Task_Unmarshal pw t b \<noteq> None \<and> GenesisState_Unmarshal pw gs b \<noteq> None
    \<and> MsgCreateTask_Unmarshal pw mc b \<noteq> None \<and> MsgAssignTask_Unmarshal pw ma b \<noteq> None
    \<and> MsgCompleteTask_Unmarshal pw mp b \<noteq> None \<and> MsgCreateTaskResponse_Unmarshal pw mr b \<noteq> None
    \<and> QueryTaskRequest_Unmarshal pw qt b \<noteq> None \<and> QueryTaskResponse_Unmarshal pw qr b \<noteq> None
    \<and> QueryListTasksRequest_Unmarshal pw pg ql b \<noteq> None \<and> QueryListTasksResponse_Unmarshal pw pg qs b \<noteq> None"
proof -
  have w: "wire_format pw" using assms by (simp add: query_wire_def)
  note total = wire_format.unmarshal_loop_total [OF w]
  show ?thesis
    unfolding Task_Unmarshal_def GenesisState_Unmarshal_def MsgCreateTask_Unmarshal_def MsgAssignTask_Unmarshal_def
      MsgCompleteTask_Unmarshal_def MsgCreateTaskResponse_Unmarshal_def QueryTaskRequest_Unmarshal_def
      QueryTaskResponse_Unmarshal_def QueryListTasksRequest_Unmarshal_def QueryListTasksResponse_Unmarshal_def
    by (intro conjI total wire_format.field_total_Task [OF w] wire_format.field_total_GenesisState [OF w]
        wire_format.field_total_MsgCreateTask [OF w] wire_format.field_total_MsgAssignTask [OF w]
        wire_format.field_total_MsgCompleteTask [OF w] wire_format.field_total_MsgCreateTaskResponse [OF w]
        wire_format.field_total_QueryTaskRequest [OF w] wire_format.field_total_QueryTaskResponse [OF w]
        query_wire.field_total_ListRequest [OF assms] query_wire.field_total_ListResponse [OF assms])
qed

theorem decoders_total_witness:
  "Task_Unmarshal std_wire zero_task [0xff, 0xff, 0xff] \<noteq> None"
  using decoders_total [OF std_qw] by blast

text \<open>The transaction messages, their response and the genesis state survive the wire: each is
  decoded from its encoding, and its \<open>Size\<close> is the length of the encoding.\<close>

theorem messages_roundtrip:
  assumes "wire_format pw" "go_MsgCreateTask mc" "go_MsgAssignTask ma" "go_MsgCompleteTask mp" "go_genesis pw gs"
  shows "(\<exists>bz. MsgCreateTask_Marshal pw mc = Inr bz \<and> MsgCreateTask_Size pw mc = int (length bz)
      \<and> MsgCreateTask_Unmarshal pw zero_MsgCreateTask bz = Some (mc, None))
    \<and> (\<exists>bz. MsgAssignTask_Marshal pw ma = Inr bz \<and> MsgAssignTask_Size pw ma = int (length bz)
      \<and> MsgAssignTask_Unmarshal pw zero_MsgAssignTask bz = Some (ma, None))
    \<and> (\<exists>bz. MsgCompleteTask_Marshal pw mp = Inr bz \<and> MsgCompleteTask_Size pw mp = int (length bz)
      \<and> MsgCompleteTask_Unmarshal pw zero_MsgCompleteTask bz = Some (mp, None))
    \<and> (\<exists>bz. MsgCreateTaskResponse_Marshal pw mr = Inr bz \<and> MsgCreateTaskResponse_Size pw mr = int (length bz)
      \<and> MsgCreateTaskResponse_Unmarshal pw zero_MsgCreateTaskResponse bz = Some (mr, None))
    \<and> (\<exists>bz. GenesisState_Marshal pw gs = Inr bz \<and> GenesisState_Size pw gs = int (length bz)
      \<and> GenesisState_Unmarshal pw zero_genesis bz = Some (gs, None))"
proof -
  note mc = wire_format.MsgCreateTask_Marshal_eq [OF assms(1), of mc]
  note ma = wire_format.MsgAssignTask_Marshal_eq [OF assms(1), of ma]
  note mp = wire_format.MsgCompleteTask_Marshal_eq [OF assms(1), of mp]
  note mr = wire_format.MsgCreateTaskResponse_Marshal_eq [OF assms(1), of mr]
  note gs = wire_format.GenesisState_Marshal_eq [OF assms(1), of gs]
  show ?thesis
    using mc wire_format.MsgCreateTask_Size_eq [OF assms(1,2) mc] wire_format.MsgCreateTask_Unmarshal_wire [OF assms(1,2) mc]
      ma wire_format.MsgAssignTask_Size_eq [OF assms(1,3) ma] wire_format.MsgAssignTask_Unmarshal_wire [OF assms(1,3) ma]
      mp wire_format.MsgCompleteTask_Size_eq [OF assms(1,4) mp] wire_format.MsgCompleteTask_Unmarshal_wire [OF assms(1,4) mp]
      mr wire_format.MsgCreateTaskResponse_Size_eq [OF assms(1) mr] wire_format.MsgCreateTaskResponse_Unmarshal_wire [OF assms(1) mr]
      gs wire_format.GenesisState_Size_eq [OF assms(1,5) gs] wire_format.GenesisState_Unmarshal_wire [OF assms(1,5) gs]
    by blast
qed

theorem messages_roundtrip_witness:
  "\<exists>bz. MsgCreateTask_Marshal std_wire \<lparr>ct_Creator = ''c'', ct_Title = ''t'', ct_Description = []\<rparr> = Inr bz
    \<and> MsgCreateTask_Unmarshal std_wire zero_MsgCreateTask bz =
        Some (\<lparr>ct_Creator = ''c'', ct_Title = ''t'', ct_Description = []\<rparr>, None)"
proof -
  have go: "go_MsgCreateTask \<lparr>ct_Creator = ''c'', ct_Title = ''t'', ct_Description = []\<rparr>"
    "go_MsgAssignTask zero_MsgAssignTask" "go_MsgCompleteTask zero_MsgCompleteTask" "go_genesis std_wire zero_genesis"
    by (simp_all add: go_MsgCreateTask_def go_MsgAssignTask_def go_MsgCompleteTask_def go_genesis_def go_len_def
        zero_MsgAssignTask_def zero_MsgCompleteTask_def zero_genesis_def)
  from messages_roundtrip [OF std_wf go] show ?thesis by blast
qed

end
