(* ===== verification/Badger.thy ===== *)
theory Badger
  imports Prelude "HOL-Library.RBT"
begin

text \<open>
  The interface of \<^verbatim>\<open>github.com/dgraph-io/badger/v4\<close>, the embedded database of the key-value
  application. It is not part of the repository: its functions are the parameter \<open>bd\<close>, and the
  locale \<open>badger_db\<close> states the documented behaviour the application relies on, for a database
  that is open. Transactions may fail at a write (an empty or a reserved key, a transaction that
  grew too big) or at the commit; a failed transaction leaves the database as it was.
\<close>

datatype badger_error = ErrKeyNotFound | ErrBadger string

text \<open>
  \<open>dbUpdate db fn\<close> runs \<open>fn\<close> in a read-write transaction and commits it unless \<open>fn\<close> fails; a
  function on a transaction gives the transaction after it and its error. \<^verbatim>\<open>db.View(fn)\<close> calls \<open>fn\<close>
  on the read-only transaction \<open>dbViewTxn db\<close> and returns its error. \<open>txnIterate\<close> lists the items
  that \<^verbatim>\<open>Rewind\<close>, \<^verbatim>\<open>Valid\<close> and \<^verbatim>\<open>Next\<close> of an iterator with the default options visit.
\<close>

record ('d, 't, 'i) badger =
  dbUpdate :: "'d \<Rightarrow> ('t \<Rightarrow> 't \<times> badger_error option) \<Rightarrow> 'd \<times> badger_error option"
  dbViewTxn :: "'d \<Rightarrow> badger_error + 't"
  txnSet :: "'t \<Rightarrow> bytes \<Rightarrow> bytes \<Rightarrow> 't \<times> badger_error option"
  txnGet :: "'t \<Rightarrow> bytes \<Rightarrow> badger_error + 'i"
  txnIterate :: "'t \<Rightarrow> 'i list"
  itemKey :: "'i \<Rightarrow> bytes"
  itemValueCopy :: "'i \<Rightarrow> badger_error + bytes"
  itemValue :: "'i \<Rightarrow> badger_error + bytes"

text \<open>The keys badger keeps for itself.\<close>

definition reserved_prefix :: bytes where
  "reserved_prefix = bytes_of ''!badger!''"

definition reserved_key :: "bytes \<Rightarrow> bool" where
  "reserved_key key \<longleftrightarrow> take (length reserved_prefix) key = reserved_prefix"

locale badger_db =
  fixes bd :: "('d, 't, 'i) badger"
    and db_map :: "'d \<Rightarrow> bytes \<Rightarrow> bytes option"
    and txn_map :: "'t \<Rightarrow> bytes \<Rightarrow> bytes option"
    and new_txn :: "'d \<Rightarrow> 't"
  assumes new_txn: "txn_map (new_txn d) = db_map d"
    and update_failed: "fn (new_txn d) = (t, Some e) \<Longrightarrow>
      \<exists>d'. dbUpdate bd d fn = (d', Some e) \<and> db_map d' = db_map d"
    and update_done: "fn (new_txn d) = (t, None) \<Longrightarrow>
      \<exists>d' err. dbUpdate bd d fn = (d', err) \<and> db_map d' = (if err = None then txn_map t else db_map d)"
    and view: "\<exists>t. dbViewTxn bd d = Inr t \<and> txn_map t = db_map d"
    and set_done: "txnSet bd t key v = (t', None) \<Longrightarrow> txn_map t' = (txn_map t)(key \<mapsto> v)"
    and set_empty: "snd (txnSet bd t [] v) \<noteq> None"
    and set_reserved: "reserved_key key \<Longrightarrow> snd (txnSet bd t key v) \<noteq> None"
    and get_empty: "\<exists>e. txnGet bd t [] = Inl e"
    and get_missing: "key \<noteq> [] \<Longrightarrow> txn_map t key = None \<Longrightarrow> txnGet bd t key = Inl ErrKeyNotFound"
    and get_found: "key \<noteq> [] \<Longrightarrow> txn_map t key = Some v \<Longrightarrow>
      \<exists>it. txnGet bd t key = Inr it \<and> itemValueCopy bd it = Inr v"
    and iterate: "\<exists>xs. map (\<lambda>it. (itemKey bd it, itemValue bd it)) (txnIterate bd t) =
        map (\<lambda>(key, v). (key, Inr v)) xs
      \<and> sorted_wrt (<) (map fst xs) \<and> (\<forall>key v. (key, v) \<in> set xs \<longleftrightarrow> txn_map t key = Some v)"

text \<open>
  A database that works: its commits succeed, and so do its writes of ordinary entries, those with
  a key that is neither empty, reserved nor longer than badger's limit.
\<close>

definition ordinary_key :: "bytes \<Rightarrow> bool" where
  "ordinary_key key \<longleftrightarrow> key \<noteq> [] \<and> \<not> reserved_key key \<and> length key \<le> 65000"

locale working_badger = badger_db +
  assumes set_ordinary: "ordinary_key key \<Longrightarrow> snd (txnSet bd t key v) = None"
    and commit_done: "snd (fn (new_txn d)) = None \<Longrightarrow> snd (dbUpdate bd d fn) = None"

section \<open>A database\<close>

text \<open>
  A database kept in a sorted tree, with badger's rules for keys; a transaction is a copy of the
  tree. The properties are evaluated on it.
\<close>

type_synonym tree = "(bytes, bytes) RBT.rbt"

definition rbt_badger :: "(tree, tree, bytes \<times> bytes) badger" where
  "rbt_badger =
     \<lparr>dbUpdate = (\<lambda>d fn. case fn d of (t, None) \<Rightarrow> (t, None) | (t, Some e) \<Rightarrow> (d, Some e)),
      dbViewTxn = Inr,
      txnSet = (\<lambda>t key v.
        if key = [] then (t, Some (ErrBadger ''Key cannot be empty''))
        else if reserved_key key then (t, Some (ErrBadger ''Key is using a reserved !badger! prefix''))
        else if length key > 65000 then (t, Some (ErrBadger ''Key exceeded limit''))
        else (RBT.insert key v t, None)),
      txnGet = (\<lambda>t key.
        if key = [] then Inl (ErrBadger ''Key cannot be empty'')
        else case RBT.lookup t key of None \<Rightarrow> Inl ErrKeyNotFound | Some v \<Rightarrow> Inr (key, v)),
      txnIterate = RBT.entries,
      itemKey = fst,
      itemValueCopy = (\<lambda>(key, v). Inr v),
      itemValue = (\<lambda>(key, v). Inr v)\<rparr>"

interpretation rbt_db: working_badger rbt_badger RBT.lookup RBT.lookup "\<lambda>d. d"
proof
  fix t :: tree
  have "sorted_wrt (<) (map fst (RBT.entries t))"
    by (simp add: strict_sorted_iff RBT.sorted_entries RBT.distinct_entries)
  then show "\<exists>xs. map (\<lambda>it. (itemKey rbt_badger it, itemValue rbt_badger it)) (txnIterate rbt_badger t) =
        map (\<lambda>(key, v). (key, Inr v)) xs
      \<and> sorted_wrt (<) (map fst xs) \<and> (\<forall>key v. (key, v) \<in> set xs \<longleftrightarrow> RBT.lookup t key = Some v)"
    by (intro exI [of _ "RBT.entries t"]) (simp add: rbt_badger_def RBT.lookup_in_tree case_prod_beta)
qed (auto simp: rbt_badger_def ordinary_key_def fun_eq_iff split: if_splits option.splits prod.splits)

end
