(* ===== verification/Sha256.thy ===== *)
theory Sha256
  imports Prelude
begin

text \<open>
  \<^verbatim>\<open>crypto/sha256\<close>, the standard-library hash that \<^verbatim>\<open>abci-kvstore/state.go\<close> computes the
  application hash with (FIPS 180-4). \<open>sha256.New()\<close> is the empty digest input, \<^verbatim>\<open>h.Write(p)\<close>
  appends to it, and \<^verbatim>\<open>h.Sum(nil)\<close> is \<open>sha256\<close> of what was written.
\<close>

type_synonym w32 = "32 word"

text \<open>The constants of the standard, in decimal.\<close>

definition sha_K :: "w32 list" where
  "sha_K = [
     1116352408, 1899447441, 3049323471, 3921009573, 961987163, 1508970993, 2453635748, 2870763221,
     3624381080, 310598401, 607225278, 1426881987, 1925078388, 2162078206, 2614888103, 3248222580,
     3835390401, 4022224774, 264347078, 604807628, 770255983, 1249150122, 1555081692, 1996064986,
     2554220882, 2821834349, 2952996808, 3210313671, 3336571891, 3584528711, 113926993, 338241895,
     666307205, 773529912, 1294757372, 1396182291, 1695183700, 1986661051, 2177026350, 2456956037,
     2730485921, 2820302411, 3259730800, 3345764771, 3516065817, 3600352804, 4094571909, 275423344,
     430227734, 506948616, 659060556, 883997877, 958139571, 1322822218, 1537002063, 1747873779,
     1955562222, 2024104815, 2227730452, 2361852424, 2428436474, 2756734187, 3204031479, 3329325298]"

type_synonym sha_state = "w32 \<times> w32 \<times> w32 \<times> w32 \<times> w32 \<times> w32 \<times> w32 \<times> w32"

definition sha_init :: sha_state where
  "sha_init = (1779033703, 3144134277, 1013904242, 2773480762, 1359893119, 2600822924, 528734635, 1541459225)"

definition rotr :: "nat \<Rightarrow> w32 \<Rightarrow> w32" where
  "rotr n w = drop_bit n w OR push_bit (32 - n) w"

definition Ch :: "w32 \<Rightarrow> w32 \<Rightarrow> w32 \<Rightarrow> w32" where
  "Ch x y z = (x AND y) XOR (NOT x AND z)"

definition Maj :: "w32 \<Rightarrow> w32 \<Rightarrow> w32 \<Rightarrow> w32" where
  "Maj x y z = (x AND y) XOR (x AND z) XOR (y AND z)"

text \<open>The message schedule: \<open>n\<close> more words after the reversed list of those computed so far.\<close>

fun schedule :: "nat \<Rightarrow> w32 list \<Rightarrow> w32 list" where
  "schedule 0 rev_ws = rev rev_ws"
| "schedule (Suc n) rev_ws =
     (let w2 = rev_ws ! 1; w7 = rev_ws ! 6; w15 = rev_ws ! 14; w16 = rev_ws ! 15;
          s1 = rotr 17 w2 XOR rotr 19 w2 XOR drop_bit 10 w2;
          s0 = rotr 7 w15 XOR rotr 18 w15 XOR drop_bit 3 w15
      in schedule n ((s1 + w7 + s0 + w16) # rev_ws))"

fun sha_rounds :: "(w32 \<times> w32) list \<Rightarrow> sha_state \<Rightarrow> sha_state" where
  "sha_rounds [] st = st"
| "sha_rounds ((k, w) # kws) (a, b, c, d, e, f, g, h) =
     (let t1 = h + (rotr 6 e XOR rotr 11 e XOR rotr 25 e) + Ch e f g + k + w;
          t2 = (rotr 2 a XOR rotr 13 a XOR rotr 22 a) + Maj a b c
      in sha_rounds kws (t1 + t2, a, b, c, d + t1, e, f, g))"

fun be_words :: "bytes \<Rightarrow> w32 list" where
  "be_words (b0 # b1 # b2 # b3 # bs) =
     (push_bit 24 (ucast b0) OR push_bit 16 (ucast b1) OR push_bit 8 (ucast b2) OR ucast b3) # be_words bs"
| "be_words _ = []"

fun sha_add :: "sha_state \<Rightarrow> sha_state \<Rightarrow> sha_state" where
  "sha_add (a, b, c, d, e, f, g, h) (a', b', c', d', e', f', g', h') =
     (a + a', b + b', c + c', d + d', e + e', f + f', g + g', h + h')"

definition sha_block :: "sha_state \<Rightarrow> bytes \<Rightarrow> sha_state" where
  "sha_block st blk = sha_add st (sha_rounds (zip sha_K (schedule 48 (rev (be_words blk)))) st)"

fun sha_blocks :: "nat \<Rightarrow> sha_state \<Rightarrow> bytes \<Rightarrow> sha_state" where
  "sha_blocks 0 st bs = st"
| "sha_blocks (Suc n) st bs = sha_blocks n (sha_block st (take 64 bs)) (drop 64 bs)"

definition sha_pad :: "bytes \<Rightarrow> bytes" where
  "sha_pad msg = msg @ [0x80] @ replicate ((119 - length msg mod 64) mod 64) 0
     @ PutUint64 (word_of_nat (8 * length msg))"

definition word_bytes :: "w32 \<Rightarrow> bytes" where
  "word_bytes w = [ucast (drop_bit 24 w), ucast (drop_bit 16 w), ucast (drop_bit 8 w), ucast w]"

definition sha256 :: "bytes \<Rightarrow> bytes" where
  "sha256 msg =
     (let p = sha_pad msg
      in case sha_blocks (length p div 64) sha_init p of (a, b, c, d, e, f, g, h) \<Rightarrow>
        concat (map word_bytes [a, b, c, d, e, f, g, h]))"

lemma length_sha_pad: "length (sha_pad msg) mod 64 = 0"
proof -
  define m where "m = length msg mod 64"
  have "m < 64" by (simp add: m_def)
  then have "(m + 1 + (119 - m) mod 64 + 8) mod 64 = 0"
    by (cases "m \<le> 55") (auto simp: mod_if)
  then show ?thesis
    by (simp add: sha_pad_def m_def [symmetric] mod_simps ac_simps)
      (metis (no_types, opaque_lifting) add.assoc add.commute m_def mod_add_left_eq)
qed

lemma length_sha256 [simp]: "length (sha256 msg) = 32"
  by (simp add: sha256_def Let_def word_bytes_def split: prod.split)

end
