(* ===== verification/Kv_State.thy ===== *)
theory Kv_State
  imports Badger Sha256
begin

text \<open>
  The persistent state of the key-value application, \<^verbatim>\<open>abci-kvstore/state.go\<close>: reads and
  writes of badger transactions, the two meta keys that survive a restart, and the application
  hash over the user's entries. Its contract towards the application is the locale
  \<open>state_store\<close>; the methods of \<open>State\<close> satisfy it over any \<open>badger_db\<close>.
\<close>

definition metaHeight :: string where "metaHeight = ''__meta_height''"
definition metaAppHash :: string where "metaAppHash = ''__meta_apphash''"

abbreviation height_key :: bytes where "height_key \<equiv> bytes_of metaHeight"
abbreviation hash_key :: bytes where "hash_key \<equiv> bytes_of metaAppHash"

lemma meta_names [simp]:
  "metaHeight \<noteq> []" "metaAppHash \<noteq> []" "metaHeight \<noteq> metaAppHash" "metaAppHash \<noteq> metaHeight"
  by (simp_all add: metaHeight_def metaAppHash_def)

record 'd State =
  db :: 'd

section \<open>The methods\<close>

definition State_Set ::
  "('d, 't, 'i) badger \<Rightarrow> 'd State \<Rightarrow> bytes \<Rightarrow> bytes \<Rightarrow> 'd State \<times> badger_error option" where
  "State_Set bd s key value =
     (let (d, err) = dbUpdate bd (db s) (\<lambda>txn. txnSet bd txn key value)
      in (s\<lparr>db := d\<rparr>, err))"

definition State_Get :: "('d, 't, 'i) badger \<Rightarrow> 'd State \<Rightarrow> bytes \<Rightarrow> badger_error + bytes" where
  "State_Get bd s key =
     (case dbViewTxn bd (db s) of
        Inl err \<Rightarrow> Inl err
      | Inr txn \<Rightarrow>
          (case txnGet bd txn key of
             Inl err \<Rightarrow> Inl err
           | Inr item \<Rightarrow> itemValueCopy bd item))"

fun batch_loop ::
  "('d, 't, 'i) badger \<Rightarrow> 't \<Rightarrow> (bytes \<times> bytes) list \<Rightarrow> 't \<times> badger_error option" where
  "batch_loop bd txn [] = (txn, None)"
| "batch_loop bd txn ((key, value) # pairs) =
     (case txnSet bd txn key value of
        (txn, Some err) \<Rightarrow> (txn, Some err)
      | (txn, None) \<Rightarrow> batch_loop bd txn pairs)"

definition State_BatchSet ::
  "('d, 't, 'i) badger \<Rightarrow> 'd State \<Rightarrow> (bytes \<times> bytes) list \<Rightarrow> 'd State \<times> badger_error option" where
  "State_BatchSet bd s pairs =
     (let (d, err) = dbUpdate bd (db s) (\<lambda>txn. batch_loop bd txn pairs)
      in (s\<lparr>db := d\<rparr>, err))"

definition State_SaveMeta ::
  "('d, 't, 'i) badger \<Rightarrow> 'd State \<Rightarrow> i64 \<Rightarrow> bytes \<Rightarrow> 'd State \<times> badger_error option" where
  "State_SaveMeta bd s height appHash =
     (let (d, err) = dbUpdate bd (db s) (\<lambda>txn.
            let hb = PutUint64 height
            in case txnSet bd txn height_key hb of
                 (txn, Some err) \<Rightarrow> (txn, Some err)
               | (txn, None) \<Rightarrow> txnSet bd txn hash_key appHash)
      in (s\<lparr>db := d\<rparr>, err))"

text \<open>A missing height is a new database; a stored height shorter than eight bytes panics.\<close>

definition State_LoadMeta ::
  "('d, 't, 'i) badger \<Rightarrow> 'd State \<Rightarrow> (i64 \<times> bytes \<times> badger_error option) option" where
  "State_LoadMeta bd s =
     (case dbViewTxn bd (db s) of
        Inl err \<Rightarrow> Some (0, [], Some err)
      | Inr txn \<Rightarrow>
          (case txnGet bd txn height_key of
             Inl ErrKeyNotFound \<Rightarrow> Some (0, [], None)
           | Inl err \<Rightarrow> Some (0, [], Some err)
           | Inr item \<Rightarrow>
               (case itemValueCopy bd item of
                  Inl err \<Rightarrow> Some (0, [], Some err)
                | Inr hb \<Rightarrow>
                    Option.bind (Uint64 hb) (\<lambda>height.
                      case txnGet bd txn hash_key of
                        Inl err \<Rightarrow> Some (height, [], Some err)
                      | Inr item \<Rightarrow>
                          (case itemValueCopy bd item of
                             Inl err \<Rightarrow> Some (height, [], Some err)
                           | Inr appHash \<Rightarrow> Some (height, appHash, None))))))"

text \<open>The loop of \<open>Hash\<close>: what has been written to the digest. An error of \<^verbatim>\<open>item.Value\<close> is dropped.\<close>

fun hash_loop :: "('d, 't, 'i) badger \<Rightarrow> bytes \<Rightarrow> 'i list \<Rightarrow> bytes" where
  "hash_loop bd h [] = h"
| "hash_loop bd h (item # it) =
     (let key = itemKey bd item
      in if string_of key = metaHeight \<or> string_of key = metaAppHash then hash_loop bd h it
         else
           let h = h @ key;
               h = (case itemValue bd item of Inl err \<Rightarrow> h | Inr val \<Rightarrow> h @ val)
           in hash_loop bd h it)"

definition State_Hash :: "('d, 't, 'i) badger \<Rightarrow> 'd State \<Rightarrow> bytes" where
  "State_Hash bd s =
     (case dbViewTxn bd (db s) of
        Inl err \<Rightarrow> sha256 []
      | Inr txn \<Rightarrow> sha256 (hash_loop bd [] (txnIterate bd txn)))"

section \<open>The contents of the database\<close>

type_synonym contents = "bytes \<Rightarrow> bytes option"

definition put_all :: "contents \<Rightarrow> (bytes \<times> bytes) list \<Rightarrow> contents" where
  "put_all m pairs = foldl (\<lambda>m (key, v). m(key \<mapsto> v)) m pairs"

definition put_meta :: "contents \<Rightarrow> i64 \<Rightarrow> bytes \<Rightarrow> contents" where
  "put_meta m height appHash = m(height_key \<mapsto> PutUint64 height, hash_key \<mapsto> appHash)"

text \<open>The user's entries, and what the hash is computed of: keys and values in key order.\<close>

definition user_part :: "contents \<Rightarrow> contents" where
  "user_part m = m |` (- {height_key, hash_key})"

definition digest_input :: "contents \<Rightarrow> bytes" where
  "digest_input m = concat (map (\<lambda>key. key @ the (m key)) (sorted_list_of_set (dom m)))"

lemma put_all_simps [simp]:
  "put_all m [] = m" "put_all m ((key, v) # ps) = put_all (m(key \<mapsto> v)) ps"
  by (simp_all add: put_all_def)

lemma put_all_append: "put_all m (ps @ qs) = put_all (put_all m ps) qs"
  by (simp add: put_all_def)

text \<open>The last write of a key wins.\<close>

lemma put_all_lookup: "put_all m ps key = (case map_of (rev ps) key of None \<Rightarrow> m key | Some v \<Rightarrow> Some v)"
  by (induction ps arbitrary: m) (auto simp: map_add_def split: option.split)

lemma put_all_map_add: "put_all m ps = m ++ map_of (rev ps)"
  by (rule ext) (simp add: put_all_lookup map_add_def)

lemma user_part_put_meta [simp]: "user_part (put_meta m h a) = user_part m"
  by (auto simp: user_part_def put_meta_def restrict_map_def fun_eq_iff)

lemma put_meta_lookup [simp]:
  "put_meta m h a height_key = Some (PutUint64 h)" "put_meta m h a hash_key = Some a"
  "key \<noteq> height_key \<Longrightarrow> key \<noteq> hash_key \<Longrightarrow> put_meta m h a key = m key"
  by (simp_all add: put_meta_def)

lemma put_meta_put_meta [simp]: "put_meta (put_meta m h a) h' a' = put_meta m h' a'"
  by (auto simp: put_meta_def fun_eq_iff)

lemma put_meta_idem: "m height_key = Some (PutUint64 h) \<Longrightarrow> m hash_key = Some a \<Longrightarrow> put_meta m h a = m"
  by (auto simp: put_meta_def fun_eq_iff)

text \<open>Two databases with the same user's entries and meta keys have the same contents.\<close>

lemma user_part_put_all_cong:
  "user_part m = user_part m' \<Longrightarrow> user_part (put_all m ps) = user_part (put_all m' ps)"
proof
  fix key
  assume "user_part m = user_part m'"
  then have "user_part m key = user_part m' key" by simp
  then show "user_part (put_all m ps) key = user_part (put_all m' ps) key"
    by (auto simp: user_part_def put_all_lookup restrict_map_def split: option.split if_splits)
qed

section \<open>The contract\<close>

text \<open>
  A write either reports no error and is done as a whole, or changes nothing. A saved meta record
  is what is loaded.
\<close>

locale state_store =
  fixes get :: "'s \<Rightarrow> bytes \<Rightarrow> badger_error + bytes"
    and batch_set :: "'s \<Rightarrow> (bytes \<times> bytes) list \<Rightarrow> 's \<times> badger_error option"
    and save_meta :: "'s \<Rightarrow> i64 \<Rightarrow> bytes \<Rightarrow> 's \<times> badger_error option"
    and load_meta :: "'s \<Rightarrow> (i64 \<times> bytes \<times> badger_error option) option"
    and hash_of :: "'s \<Rightarrow> bytes"
    and contents :: "'s \<Rightarrow> contents"
  assumes get_law: "key \<noteq> [] \<Longrightarrow>
      get s key = (case contents s key of None \<Rightarrow> Inl ErrKeyNotFound | Some v \<Rightarrow> Inr v)"
    and get_empty_law: "\<exists>e. get s [] = Inl e"
    and batch_law: "batch_set s ps = (s', err) \<Longrightarrow>
      contents s' = (if err = None then put_all (contents s) ps else contents s)"
    and save_law: "save_meta s h a = (s', err) \<Longrightarrow>
      contents s' = (if err = None then put_meta (contents s) h a else contents s)"
    and load_new_law: "contents s height_key = None \<Longrightarrow> load_meta s = Some (0, [], None)"
    and load_law: "contents s height_key = Some (PutUint64 h) \<Longrightarrow> contents s hash_key = Some a \<Longrightarrow>
      load_meta s = Some (h, a, None)"
    and hash_law: "hash_of s = sha256 (digest_input (user_part (contents s)))"
begin

lemma load_after_save:
  assumes "save_meta s h a = (s', None)"
  shows "load_meta s' = Some (h, a, None)"
  using load_law [of s' h a] save_law [OF assms] by simp

lemma hash_cong: "user_part (contents s) = user_part (contents s') \<Longrightarrow> hash_of s = hash_of s'"
  by (simp add: hash_law)

lemma hash_after_save: "save_meta s h a = (s', err) \<Longrightarrow> hash_of s' = hash_of s"
  using save_law [of s h a s' err] by (intro hash_cong) (simp split: if_splits)

end

section \<open>The methods satisfy it\<close>

context badger_db
begin

lemma batch_loop_done:
  "batch_loop bd t ps = (t', None) \<Longrightarrow> txn_map t' = put_all (txn_map t) ps"
proof (induction ps arbitrary: t)
  case (Cons p ps)
  obtain key v t1 e where "p = (key, v)" "txnSet bd t key v = (t1, e)" by (cases p) force
  moreover from this Cons.prems have "e = None" by (cases e) auto
  ultimately show ?case using Cons set_done [of t key v t1] by (simp del: fun_upd_apply)
qed simp

lemma update_law:
  assumes "dbUpdate bd d fn = (d', err)"
  shows "err = None \<Longrightarrow> \<exists>t. fn (new_txn d) = (t, None) \<and> db_map d' = txn_map t"
    and "err \<noteq> None \<Longrightarrow> db_map d' = db_map d"
proof -
  obtain t e where f: "fn (new_txn d) = (t, e)" by force
  show "err = None \<Longrightarrow> \<exists>t. fn (new_txn d) = (t, None) \<and> db_map d' = txn_map t"
    using update_failed [of fn d t] update_done [of fn d t] f assms by (cases e) auto
  show "err \<noteq> None \<Longrightarrow> db_map d' = db_map d"
    using update_failed [of fn d t] update_done [of fn d t] f assms by (cases e) auto
qed

lemma BatchSet_law:
  assumes "State_BatchSet bd s ps = (s', err)"
  shows "db_map (db s') = (if err = None then put_all (db_map (db s)) ps else db_map (db s))"
proof -
  obtain d' where u: "dbUpdate bd (db s) (\<lambda>txn. batch_loop bd txn ps) = (d', err)" "db s' = d'"
    using assms by (auto simp: State_BatchSet_def split: prod.splits)
  show ?thesis
    using update_law [OF u(1)] u(2) batch_loop_done new_txn by (cases err) force+
qed

lemma SaveMeta_law:
  assumes "State_SaveMeta bd s h a = (s', err)"
  shows "db_map (db s') = (if err = None then put_meta (db_map (db s)) h a else db_map (db s))"
proof -
  let ?fn = "\<lambda>txn. case txnSet bd txn height_key (PutUint64 h) of
      (txn, Some err) \<Rightarrow> (txn, Some err) | (txn, None) \<Rightarrow> txnSet bd txn hash_key a"
  obtain d' where u: "dbUpdate bd (db s) ?fn = (d', err)" "db s' = d'"
    using assms by (auto simp: State_SaveMeta_def Let_def split: prod.splits)
  have "?fn t = (t', None) \<Longrightarrow> txn_map t' = put_meta (txn_map t) h a" for t t'
    by (auto simp: put_meta_def split: prod.splits option.splits dest!: set_done)
  with update_law [OF u(1)] u(2) new_txn show ?thesis by (cases err) force+
qed

lemma get_txn:
  "key \<noteq> [] \<Longrightarrow> (case txnGet bd t key of Inl err \<Rightarrow> Inl err | Inr item \<Rightarrow> itemValueCopy bd item) =
    (case txn_map t key of None \<Rightarrow> Inl ErrKeyNotFound | Some v \<Rightarrow> Inr v)"
  using get_missing [of key t] get_found [of key t] by (cases "txn_map t key") auto

lemma Get_law:
  "key \<noteq> [] \<Longrightarrow> State_Get bd s key = (case db_map (db s) key of None \<Rightarrow> Inl ErrKeyNotFound | Some v \<Rightarrow> Inr v)"
  using view [of "db s"] get_txn [of key] by (auto simp: State_Get_def)

lemma Get_empty: "\<exists>e. State_Get bd s [] = Inl e"
proof -
  obtain t e where "dbViewTxn bd (db s) = Inr t" "txnGet bd t [] = Inl e" using view get_empty by blast
  then show ?thesis by (simp add: State_Get_def)
qed

lemma LoadMeta_new: "db_map (db s) height_key = None \<Longrightarrow> State_LoadMeta bd s = Some (0, [], None)"
  using view [of "db s"] get_missing [of height_key] by (fastforce simp: State_LoadMeta_def)

lemma LoadMeta_saved:
  assumes "db_map (db s) height_key = Some (PutUint64 h)" "db_map (db s) hash_key = Some a"
  shows "State_LoadMeta bd s = Some (h, a, None)"
proof -
  obtain t where t: "dbViewTxn bd (db s) = Inr t" "txn_map t = db_map (db s)" using view by blast
  obtain it1 it2 where "txnGet bd t height_key = Inr it1" "itemValueCopy bd it1 = Inr (PutUint64 h)"
    "txnGet bd t hash_key = Inr it2" "itemValueCopy bd it2 = Inr a"
    using get_found [of height_key t] get_found [of hash_key t] assms t(2) by auto
  with t show ?thesis by (simp add: State_LoadMeta_def)
qed

lemma hash_loop_eq:
  assumes "map (\<lambda>it. (itemKey bd it, itemValue bd it)) its = map (\<lambda>(key, v). (key, Inr v)) xs"
  shows "hash_loop bd h its =
    h @ concat (map (\<lambda>(key, v). key @ v) (filter (\<lambda>(key, v). key \<noteq> height_key \<and> key \<noteq> hash_key) xs))"
  using assms
proof (induction its arbitrary: h xs)
  case (Cons it its)
  then obtain key v ys where xs: "xs = (key, v) # ys" "itemKey bd it = key" "itemValue bd it = Inr v"
    "map (\<lambda>it. (itemKey bd it, itemValue bd it)) its = map (\<lambda>(key, v). (key, Inr v)) ys"
    by (cases xs) auto
  have "string_of key = metaHeight \<longleftrightarrow> key = height_key" "string_of key = metaAppHash \<longleftrightarrow> key = hash_key"
    by (metis bytes_of_string_of string_of_bytes_of)+
  with xs Cons.IH [OF xs(4)] show ?case by (simp add: Let_def)
qed simp

lemma digest_input_listing:
  assumes "sorted_wrt (<) (map fst xs)" "\<And>key v. (key, v) \<in> set xs \<longleftrightarrow> m key = Some v"
  shows "digest_input m = concat (map (\<lambda>(key, v). key @ v) xs)"
proof -
  have "dom m = set (map fst xs)" using assms(2) by (auto simp: image_iff) force
  moreover have "sorted_list_of_set (set (map fst xs)) = map fst xs"
    using assms(1) by (simp only: sorted_list_of_set_sort_remdups strict_sorted_iff distinct_remdups_id sorted_sort_id)
  ultimately have "sorted_list_of_set (dom m) = map fst xs" by simp
  moreover have "map (\<lambda>key. key @ the (m key)) (map fst xs) = map (\<lambda>(key, v). key @ v) xs"
    using assms(2) by auto
  ultimately show ?thesis by (simp only: digest_input_def)
qed

lemma finite_contents: "finite (dom (db_map d))"
proof -
  obtain t where t: "txn_map t = db_map d" using view by blast
  obtain xs where "\<And>key v. (key, v) \<in> set xs \<longleftrightarrow> txn_map t key = Some v" using iterate [of t] by auto
  then have "dom (db_map d) \<subseteq> fst ` set xs" using t by (force simp: image_iff)
  then show ?thesis by (rule finite_subset) simp
qed

lemma Hash_law: "State_Hash bd s = sha256 (digest_input (user_part (db_map (db s))))"
proof -
  obtain t where t: "dbViewTxn bd (db s) = Inr t" "txn_map t = db_map (db s)" using view by blast
  obtain xs where xs: "map (\<lambda>it. (itemKey bd it, itemValue bd it)) (txnIterate bd t) = map (\<lambda>(key, v). (key, Inr v)) xs"
    "sorted_wrt (<) (map fst xs)" "\<And>key v. (key, v) \<in> set xs \<longleftrightarrow> txn_map t key = Some v"
    using iterate [of t] by auto
  let ?ys = "filter (\<lambda>(key, v). key \<noteq> height_key \<and> key \<noteq> hash_key) xs"
  have "digest_input (user_part (db_map (db s))) = concat (map (\<lambda>(key, v). key @ v) ?ys)"
  proof (rule digest_input_listing)
    show "sorted_wrt (<) (map fst ?ys)" using xs(2) by (simp add: sorted_wrt_map sorted_wrt_filter)
    show "\<And>key v. (key, v) \<in> set ?ys \<longleftrightarrow> user_part (db_map (db s)) key = Some v"
      using xs(3) t(2) by (auto simp: user_part_def restrict_map_def)
  qed
  with t(1) hash_loop_eq [OF xs(1), of "[]"] show ?thesis by (simp add: State_Hash_def)
qed

sublocale state_store "State_Get bd" "State_BatchSet bd" "State_SaveMeta bd" "State_LoadMeta bd"
  "State_Hash bd" "\<lambda>s. db_map (db s)"
  by unfold_locales (simp_all add: Get_law Get_empty BatchSet_law SaveMeta_law LoadMeta_new LoadMeta_saved Hash_law)

text \<open>A batch with a reserved or an empty key is refused as a whole.\<close>

lemma batch_loop_bad:
  "\<exists>(key, v) \<in> set ps. key = [] \<or> reserved_key key \<Longrightarrow> snd (batch_loop bd t ps) \<noteq> None"
proof (induction ps arbitrary: t)
  case (Cons p ps)
  obtain key v t1 e where p: "p = (key, v)" "txnSet bd t key v = (t1, e)" by (cases p) force
  show ?case
  proof (cases e)
    case None
    then have "\<not> (key = [] \<or> reserved_key key)"
      using p set_empty [of t v] set_reserved [of key t v] by auto
    with Cons p None show ?thesis by auto
  qed (simp add: p)
qed simp

lemma BatchSet_bad:
  assumes "\<exists>(key, v) \<in> set ps. key = [] \<or> reserved_key key"
  shows "snd (State_BatchSet bd s ps) \<noteq> None"
proof -
  obtain d' err where u: "dbUpdate bd (db s) (\<lambda>txn. batch_loop bd txn ps) = (d', err)" by force
  have "err \<noteq> None"
  proof
    assume "err = None"
    then obtain t where "batch_loop bd (new_txn (db s)) ps = (t, None)" using update_law(1) [OF u] by blast
    with batch_loop_bad [OF assms, of "new_txn (db s)"] show False by simp
  qed
  with u show ?thesis by (simp add: State_BatchSet_def)
qed

end

context working_badger
begin

lemma batch_loop_ordinary:
  "\<forall>(key, v) \<in> set ps. ordinary_key key \<Longrightarrow> snd (batch_loop bd t ps) = None"
proof (induction ps arbitrary: t)
  case (Cons p ps)
  obtain key v t1 e where p: "p = (key, v)" "txnSet bd t key v = (t1, e)" by (cases p) force
  with Cons.prems set_ordinary [of key t v] have "e = None" by simp
  with Cons p show ?case by simp
qed simp

lemma BatchSet_ordinary:
  "\<forall>(key, v) \<in> set ps. ordinary_key key \<Longrightarrow> snd (State_BatchSet bd s ps) = None"
  using commit_done [of "\<lambda>txn. batch_loop bd txn ps" "db s"] batch_loop_ordinary [of ps]
  by (auto simp: State_BatchSet_def split: prod.splits)

lemma ordinary_meta [simp]: "ordinary_key height_key" "ordinary_key hash_key"
  by (simp_all add: ordinary_key_def reserved_key_def reserved_prefix_def metaHeight_def metaAppHash_def
      bytes_of_def byte_of_char_def)

lemma SaveMeta_done: "snd (State_SaveMeta bd s h a) = None"
proof -
  let ?fn = "\<lambda>txn. case txnSet bd txn height_key (PutUint64 h) of
      (txn, Some err) \<Rightarrow> (txn, Some err) | (txn, None) \<Rightarrow> txnSet bd txn hash_key a"
  obtain t1 where "txnSet bd (new_txn (db s)) height_key (PutUint64 h) = (t1, None)"
    using set_ordinary [of height_key "new_txn (db s)" "PutUint64 h"]
    by (cases "txnSet bd (new_txn (db s)) height_key (PutUint64 h)") auto
  then have "snd (?fn (new_txn (db s))) = None" using set_ordinary [of hash_key t1 a] by simp
  with commit_done [of ?fn "db s"] show ?thesis
    by (auto simp: State_SaveMeta_def Let_def case_prod_beta)
qed

end

end
