(* ===== verification/Kv_App.thy ===== *)
theory Kv_App
  imports Kv_State
begin

text \<open>
  The ABCI application, \<^verbatim>\<open>abci-kvstore/app.go\<close>: a block is parsed and staged by
  \<open>FinalizeBlock\<close> and written by \<open>Commit\<close>; height and application hash survive a restart in the
  meta keys. Every method is a function of the application's state that returns the state after it
  and the response. The lemmas rest on the contract \<open>state_store\<close> of theory \<open>Kv_State\<close>.
\<close>

section \<open>bytes.SplitN\<close>

text \<open>\<^verbatim>\<open>bytes.Index\<close>: the first position of \<open>sep\<close>, if any.\<close>

fun Index :: "bytes \<Rightarrow> bytes \<Rightarrow> nat option" where
  "Index s sep =
     (if take (length sep) s = sep then Some 0
      else case s of [] \<Rightarrow> None | _ # s' \<Rightarrow> map_option Suc (Index s' sep))"

declare Index.simps [simp del]

text \<open>\<^verbatim>\<open>bytes.SplitN(s, sep, n)\<close> for a non-empty \<open>sep\<close> and \<open>n \<ge> 0\<close>: at most \<open>n\<close> parts.\<close>

fun SplitN :: "bytes \<Rightarrow> bytes \<Rightarrow> nat \<Rightarrow> bytes list" where
  "SplitN s sep 0 = []"
| "SplitN s sep (Suc n) =
     (if n = 0 then [s]
      else case Index s sep of
        None \<Rightarrow> [s]
      | Some m \<Rightarrow> take m s # SplitN (drop (m + length sep) s) sep n)"

definition eq_sign :: bytes where "eq_sign = bytes_of ''=''"

lemma eq_sign_eq: "eq_sign = [0x3d]"
  by (simp add: eq_sign_def bytes_of_def byte_of_char_def)

lemma Index_single: "Index s [x] = (if x \<in> set s then Some (length (takeWhile ((\<noteq>) x) s)) else None)"
proof (induction s)
  case Nil
  show ?case by (simp add: Index.simps)
next
  case (Cons y s)
  then show ?case by (auto simp: Index.simps [of "y # s"])
qed

section \<open>Transactions\<close>

definition isValidTx :: "bytes \<Rightarrow> bool" where
  "isValidTx tx = (let parts = SplitN tx eq_sign 2 in length parts = 2 \<and> length (parts ! 0) > 0)"

text \<open>The two parts of a transaction at its first \<open>=\<close>.\<close>

definition tx_key :: "bytes \<Rightarrow> bytes" where
  "tx_key tx = takeWhile ((\<noteq>) 0x3d) tx"

definition tx_value :: "bytes \<Rightarrow> bytes" where
  "tx_value tx = drop (Suc (length (tx_key tx))) tx"

lemma SplitN_eq_sign:
  "SplitN tx eq_sign 2 = (if 0x3d \<in> set tx then [tx_key tx, tx_value tx] else [tx])"
  by (simp add: eq_sign_eq Index_single numeral_2_eq_2 tx_key_def tx_value_def flip: takeWhile_eq_take)

lemma isValidTx_iff: "isValidTx tx \<longleftrightarrow> 0x3d \<in> set tx \<and> tx_key tx \<noteq> []"
  by (simp add: isValidTx_def SplitN_eq_sign)

lemma tx_split: "0x3d \<in> set tx \<Longrightarrow> tx = tx_key tx @ [0x3d] @ tx_value tx"
  by (induction tx) (auto simp: tx_key_def tx_value_def)

lemma tx_key_no_eq: "0x3d \<notin> set (tx_key tx)"
  by (auto simp: tx_key_def dest: set_takeWhileD)

lemma tx_parts_of_pair:
  assumes "0x3d \<notin> set key"
  shows "tx_key (key @ [0x3d] @ v) = key" "tx_value (key @ [0x3d] @ v) = v"
proof -
  show k: "tx_key (key @ [0x3d] @ v) = key"
    using assms by (induction key) (auto simp: tx_key_def)
  then show "tx_value (key @ [0x3d] @ v) = v" by (simp add: tx_value_def)
qed

section \<open>The application\<close>

record 'd KVStoreApp =
  app_state :: "'d State"
  app_height :: i64
  app_appHash :: bytes
  app_staged :: "(bytes \<times> bytes) list"

record ResponseInfo =
  info_Data :: string
  info_Version :: string
  info_AppVersion :: nat
  info_LastBlockHeight :: i64
  info_LastBlockAppHash :: bytes

record ResponseQuery =
  query_Code :: nat
  query_Log :: string
  query_Key :: bytes
  query_Value :: bytes

text \<open>\<^verbatim>\<open>ResponseCheckTx\<close> and \<^verbatim>\<open>ExecTxResult\<close>, with the fields the application sets.\<close>

record tx_result =
  result_Code :: nat
  result_Log :: string

record RequestFinalizeBlock =
  block_Txs :: "bytes list"
  block_Height :: i64

text \<open>The application does not set \<^verbatim>\<open>AppHash\<close>: it keeps its zero value.\<close>

record ResponseFinalizeBlock =
  final_TxResults :: "tx_result list"
  final_AppHash :: bytes

datatype proposal_status = UNKNOWN | ACCEPT | REJECT

text \<open>\<open>None\<close>: \<^verbatim>\<open>log.Fatalf\<close>, or the panic of a short height.\<close>

definition NewKVStoreApp :: "('d, 't, 'i) badger \<Rightarrow> 'd State \<Rightarrow> 'd KVStoreApp option" where
  "NewKVStoreApp bd s =
     (case State_LoadMeta bd s of
        Some (height, appHash, None) \<Rightarrow>
          Some \<lparr>app_state = s, app_height = height, app_appHash = appHash, app_staged = []\<rparr>
      | _ \<Rightarrow> None)"

definition Info :: "'d KVStoreApp \<Rightarrow> ResponseInfo" where
  "Info app =
     \<lparr>info_Data = ''kvstore'', info_Version = ''1.0.0'', info_AppVersion = 1,
      info_LastBlockHeight = app_height app, info_LastBlockAppHash = app_appHash app\<rparr>"

definition Query :: "('d, 't, 'i) badger \<Rightarrow> 'd KVStoreApp \<Rightarrow> bytes \<Rightarrow> ResponseQuery" where
  "Query bd app data =
     (case State_Get bd (app_state app) data of
        Inl err \<Rightarrow> \<lparr>query_Code = 1, query_Log = ''key not found: '' @ string_of data,
          query_Key = [], query_Value = []\<rparr>
      | Inr val \<Rightarrow> \<lparr>query_Code = 0, query_Log = [], query_Key = data, query_Value = val\<rparr>)"

definition CheckTx :: "bytes \<Rightarrow> tx_result" where
  "CheckTx tx =
     (let valid = isValidTx tx
      in if \<not> valid then \<lparr>result_Code = 1, result_Log = ''invalid tx format, expected key=value''\<rparr>
         else \<lparr>result_Code = 0, result_Log = []\<rparr>)"

text \<open>The loop over the transactions of a block: the staged pairs and the results so far.\<close>

fun finalize_loop :: "bytes list \<Rightarrow> (bytes \<times> bytes) list \<Rightarrow> tx_result list
    \<Rightarrow> (bytes \<times> bytes) list \<times> tx_result list" where
  "finalize_loop [] staged results = (staged, results)"
| "finalize_loop (tx # txs) staged results =
     (if \<not> isValidTx tx then
        finalize_loop txs staged (results @ [\<lparr>result_Code = 1, result_Log = ''invalid tx''\<rparr>])
      else
        let parts = SplitN tx eq_sign 2
        in finalize_loop txs (staged @ [(parts ! 0, parts ! 1)])
             (results @ [\<lparr>result_Code = 0, result_Log = []\<rparr>]))"

definition FinalizeBlock :: "'d KVStoreApp \<Rightarrow> RequestFinalizeBlock \<Rightarrow> 'd KVStoreApp \<times> ResponseFinalizeBlock" where
  "FinalizeBlock app req =
     (let (staged, txResults) = finalize_loop (block_Txs req) [] []
      in (app\<lparr>app_staged := staged, app_height := block_Height req\<rparr>,
          \<lparr>final_TxResults = txResults, final_AppHash = []\<rparr>))"

text \<open>The errors of \<open>BatchSet\<close> and \<open>SaveMeta\<close> are logged and dropped.\<close>

definition Commit :: "('d, 't, 'i) badger \<Rightarrow> 'd KVStoreApp \<Rightarrow> 'd KVStoreApp" where
  "Commit bd app =
     (let s = (if length (app_staged app) > 0 then fst (State_BatchSet bd (app_state app) (app_staged app))
               else app_state app);
          appHash = State_Hash bd s;
          (s, err) = State_SaveMeta bd s (app_height app) appHash
      in app\<lparr>app_state := s, app_appHash := appHash, app_staged := []\<rparr>)"

definition PrepareProposal :: "bytes list \<Rightarrow> int \<Rightarrow> bytes list" where
  "PrepareProposal txs maxTxBytes = txs"

definition ProcessProposal :: "bytes list \<Rightarrow> proposal_status" where
  "ProcessProposal txs = ACCEPT"

section \<open>Blocks\<close>

definition staged_of :: "bytes list \<Rightarrow> (bytes \<times> bytes) list" where
  "staged_of txs = map (\<lambda>tx. (tx_key tx, tx_value tx)) (filter isValidTx txs)"

definition deliver_result :: "bytes \<Rightarrow> tx_result" where
  "deliver_result tx =
     (if isValidTx tx then \<lparr>result_Code = 0, result_Log = []\<rparr>
      else \<lparr>result_Code = 1, result_Log = ''invalid tx''\<rparr>)"

lemma finalize_loop_eq:
  "finalize_loop txs st rs = (st @ staged_of txs, rs @ map deliver_result txs)"
proof (induction txs arbitrary: st rs)
  case (Cons tx txs)
  then show ?case
    by (cases "isValidTx tx") (simp_all add: staged_of_def deliver_result_def SplitN_eq_sign isValidTx_iff)
qed (simp add: staged_of_def)

lemma FinalizeBlock_eq:
  "FinalizeBlock app req =
    (app\<lparr>app_staged := staged_of (block_Txs req), app_height := block_Height req\<rparr>,
     \<lparr>final_TxResults = map deliver_result (block_Txs req), final_AppHash = []\<rparr>)"
  by (simp add: FinalizeBlock_def finalize_loop_eq)

text \<open>One block, and a chain of blocks: \<open>FinalizeBlock\<close> followed by \<open>Commit\<close>.\<close>

definition run_block :: "('d, 't, 'i) badger \<Rightarrow> 'd KVStoreApp \<Rightarrow> RequestFinalizeBlock \<Rightarrow> 'd KVStoreApp" where
  "run_block bd app req = Commit bd (fst (FinalizeBlock app req))"

definition run_blocks :: "('d, 't, 'i) badger \<Rightarrow> 'd KVStoreApp \<Rightarrow> RequestFinalizeBlock list \<Rightarrow> 'd KVStoreApp" where
  "run_blocks bd app reqs = foldl (run_block bd) app reqs"

lemma run_blocks_simps [simp]:
  "run_blocks bd app [] = app"
  "run_blocks bd app (reqs @ [req]) = run_block bd (run_blocks bd app reqs) req"
  by (simp_all add: run_blocks_def)

text \<open>No error is dropped while a block is committed.\<close>

definition clean_commit :: "('d, 't, 'i) badger \<Rightarrow> 'd KVStoreApp \<Rightarrow> bool" where
  "clean_commit bd app \<longleftrightarrow>
     (let s = fst (State_BatchSet bd (app_state app) (app_staged app))
      in (app_staged app \<noteq> [] \<longrightarrow> snd (State_BatchSet bd (app_state app) (app_staged app)) = None)
         \<and> snd (State_SaveMeta bd (if app_staged app = [] then app_state app else s)
              (app_height app) (State_Hash bd (if app_staged app = [] then app_state app else s))) = None)"

fun clean_run :: "('d, 't, 'i) badger \<Rightarrow> 'd KVStoreApp \<Rightarrow> RequestFinalizeBlock list \<Rightarrow> bool" where
  "clean_run bd app [] = True"
| "clean_run bd app (req # reqs) =
     (clean_commit bd (fst (FinalizeBlock app req)) \<and> clean_run bd (run_block bd app req) reqs)"

lemma run_blocks_Cons [simp]: "run_blocks bd app (req # reqs) = run_blocks bd (run_block bd app req) reqs"
  by (simp add: run_blocks_def)

lemma clean_run_append:
  "clean_run bd app (reqs @ reqs') \<longleftrightarrow> clean_run bd app reqs \<and> clean_run bd (run_blocks bd app reqs) reqs'"
  by (induction reqs arbitrary: app) simp_all

section \<open>What Commit does\<close>

text \<open>The application's memory agrees with the meta keys on disk.\<close>

definition app_synced :: "('d \<Rightarrow> contents) \<Rightarrow> 'd KVStoreApp \<Rightarrow> bool" where
  "app_synced m app \<longleftrightarrow>
     (let c = m (db (app_state app))
      in c height_key = Some (PutUint64 (app_height app)) \<and> c hash_key = Some (app_appHash app)
         \<and> app_appHash app = sha256 (digest_input (user_part c)) \<and> app_staged app = [])"

text \<open>The specification of a block on the contents.\<close>

definition block_spec :: "contents \<Rightarrow> (bytes \<times> bytes) list \<Rightarrow> i64 \<Rightarrow> contents" where
  "block_spec m pairs height =
     put_meta (put_all m pairs) height (sha256 (digest_input (user_part (put_all m pairs))))"

lemma user_part_block_spec [simp]: "user_part (block_spec m ps h) = user_part (put_all m ps)"
  by (simp add: block_spec_def)

abbreviation app_contents :: "('d \<Rightarrow> contents) \<Rightarrow> 'd KVStoreApp \<Rightarrow> contents" where
  "app_contents m app \<equiv> m (db (app_state app))"

context badger_db
begin

lemma Commit_fields [simp]:
  "app_staged (Commit bd app) = []" "app_height (Commit bd app) = app_height app"
  by (simp_all add: Commit_def Let_def case_prod_beta)

lemma Commit_clean:
  assumes "clean_commit bd app"
  shows "app_contents db_map (Commit bd app) = block_spec (app_contents db_map app) (app_staged app) (app_height app)"
    and "app_appHash (Commit bd app) = sha256 (digest_input (user_part (put_all (app_contents db_map app) (app_staged app))))"
proof -
  let ?b = "State_BatchSet bd (app_state app) (app_staged app)"
  define s where "s = (if app_staged app = [] then app_state app else fst ?b)"
  have s: "db_map (db s) = put_all (app_contents db_map app) (app_staged app)"
    using assms batch_law [of "app_state app" "app_staged app" "fst ?b" "snd ?b"]
    by (auto simp: s_def clean_commit_def)
  have c: "Commit bd app = app\<lparr>app_state := fst (State_SaveMeta bd s (app_height app) (State_Hash bd s)),
      app_appHash := State_Hash bd s, app_staged := []\<rparr>"
    by (simp add: Commit_def s_def Let_def case_prod_beta)
  have "snd (State_SaveMeta bd s (app_height app) (State_Hash bd s)) = None"
    using assms by (simp add: clean_commit_def s_def Let_def split: if_splits)
  with c s save_law [of s "app_height app" "State_Hash bd s"]
  show "app_contents db_map (Commit bd app) = block_spec (app_contents db_map app) (app_staged app) (app_height app)"
    by (cases "State_SaveMeta bd s (app_height app) (State_Hash bd s)") (simp add: block_spec_def hash_law)
  show "app_appHash (Commit bd app) = sha256 (digest_input (user_part (put_all (app_contents db_map app) (app_staged app))))"
    using c s by (simp add: hash_law)
qed

lemma Commit_synced: "clean_commit bd app \<Longrightarrow> app_synced db_map (Commit bd app)"
  using Commit_clean [of app] by (simp add: app_synced_def block_spec_def Let_def)

text \<open>The user's entries after any number of clean blocks.\<close>

lemma run_blocks_user_part:
  "clean_run bd app reqs \<Longrightarrow> user_part (app_contents db_map (run_blocks bd app reqs)) =
    user_part (put_all (app_contents db_map app) (concat (map (\<lambda>req. staged_of (block_Txs req)) reqs)))"
proof (induction reqs arbitrary: app)
  case (Cons req reqs)
  let ?ps = "concat (map (\<lambda>req. staged_of (block_Txs req)) reqs)"
  have c: "user_part (app_contents db_map (run_block bd app req)) =
      user_part (put_all (app_contents db_map app) (staged_of (block_Txs req)))"
    using Cons.prems Commit_clean(1) [of "fst (FinalizeBlock app req)"]
    by (simp add: run_block_def FinalizeBlock_eq)
  from Cons user_part_put_all_cong [OF c, of ?ps] show ?case by (simp add: put_all_append)
qed simp

text \<open>If the batch fails, the block is lost, and the height moves on all the same.\<close>

lemma Commit_batch_failed:
  assumes "snd (State_BatchSet bd (app_state app) (app_staged app)) \<noteq> None" "app_staged app \<noteq> []"
  shows "user_part (app_contents db_map (Commit bd app)) = user_part (app_contents db_map app)"
proof -
  define s where "s = fst (State_BatchSet bd (app_state app) (app_staged app))"
  have s: "db_map (db s) = app_contents db_map app"
    using assms batch_law [of "app_state app" "app_staged app" s] by (auto simp: s_def prod_eq_iff)
  have "app_state (Commit bd app) = fst (State_SaveMeta bd s (app_height app) (State_Hash bd s))"
    using assms(2) by (simp add: Commit_def s_def Let_def case_prod_beta)
  then show ?thesis
    using s save_law [of s "app_height app" "State_Hash bd s"]
    by (cases "State_SaveMeta bd s (app_height app) (State_Hash bd s)") (simp split: if_splits)
qed

text \<open>A restart on the same database.\<close>

lemma restart_synced:
  assumes "app_synced db_map app"
  shows "NewKVStoreApp bd (app_state app) = Some app"
  using assms load_law [of "app_state app" "app_height app" "app_appHash app"]
  by (simp add: app_synced_def NewKVStoreApp_def Let_def)

lemma Query_eq:
  "data \<noteq> [] \<Longrightarrow> Query bd app data =
    (case app_contents db_map app data of
       None \<Rightarrow> \<lparr>query_Code = 1, query_Log = ''key not found: '' @ string_of data, query_Key = [], query_Value = []\<rparr>
     | Some v \<Rightarrow> \<lparr>query_Code = 0, query_Log = [], query_Key = data, query_Value = v\<rparr>)"
  by (simp add: Query_def get_law split: option.split)

text \<open>After a clean block a query gives the last value that the block staged for an ordinary key.\<close>

lemma Query_after_block:
  assumes "clean_commit bd (fst (FinalizeBlock app req))"
    and "map_of (rev (staged_of (block_Txs req))) key = Some v"
    and "key \<noteq> []" "key \<noteq> height_key" "key \<noteq> hash_key"
  shows "Query bd (run_block bd app req) key =
    \<lparr>query_Code = 0, query_Log = [], query_Key = key, query_Value = v\<rparr>"
proof -
  have "app_contents db_map (run_block bd app req) key = Some v"
    using Commit_clean(1) [OF assms(1)] assms(2,4,5)
    by (simp add: run_block_def FinalizeBlock_eq block_spec_def put_all_lookup)
  then show ?thesis using Query_eq [OF assms(3)] by simp
qed

end

context working_badger
begin

text \<open>On a working database a block of ordinary keys commits without an error.\<close>

lemma clean_commit_ordinary:
  "\<forall>(key, v) \<in> set (app_staged app). ordinary_key key \<Longrightarrow> clean_commit bd app"
  by (simp add: clean_commit_def Let_def BatchSet_ordinary SaveMeta_done)

text \<open>A block whose batch is refused is gone, and yet the meta keys are those of its height: a restart
  finds the application as it is.\<close>

lemma Commit_batch_failed_synced:
  assumes "snd (State_BatchSet bd (app_state app) (app_staged app)) \<noteq> None" "app_staged app \<noteq> []"
  shows "app_synced db_map (Commit bd app)"
proof -
  define s where "s = fst (State_BatchSet bd (app_state app) (app_staged app))"
  obtain s1 where s1: "State_SaveMeta bd s (app_height app) (State_Hash bd s) = (s1, None)"
    using SaveMeta_done by (metis prod.collapse)
  then have "Commit bd app = app\<lparr>app_state := s1, app_appHash := State_Hash bd s, app_staged := []\<rparr>"
    using assms(2) by (simp add: Commit_def s_def Let_def case_prod_beta)
  with save_law [OF s1] show ?thesis by (simp add: app_synced_def Let_def hash_law)
qed

end

end
