(* ===== verification/Kv_Props.thy ===== *)
theory Kv_Props
  imports Kv_App
begin

text \<open>
  The properties of the key-value application. The hypothesis \<open>badger_db bd m tm nt\<close> says that
  the database keeps its documented promises, with contents \<open>m\<close>; the witnesses evaluate on the
  tree database of theory \<open>Badger\<close>.
\<close>

section \<open>Instances for the witnesses\<close>

lemmas tree_db = rbt_db.badger_db_axioms
lemmas tree_working = rbt_db.working_badger_axioms

definition app0 :: "tree KVStoreApp" where
  "app0 = \<lparr>app_state = \<lparr>db = RBT.empty\<rparr>, app_height = 0, app_appHash = [], app_staged = []\<rparr>"

definition block1 :: RequestFinalizeBlock where
  "block1 = \<lparr>block_Txs = [bytes_of ''a=b'', bytes_of ''junk''], block_Height = 1\<rparr>"

lemma lookup_empty [simp]: "RBT.lookup RBT.empty = (Map.empty :: contents)"
  by (simp add: fun_eq_iff)

lemma bytes_of_Cons: "bytes_of (c # s) = byte_of_char c # bytes_of s"
  by (simp add: bytes_of_def)

lemma key_rules:
  "ordinary_key key \<longleftrightarrow> key \<noteq> [] \<and> take 8 key \<noteq> bytes_of ''!badger!'' \<and> length key \<le> 65000"
proof -
  have "length reserved_prefix = 8" by (simp add: reserved_prefix_def)
  then show ?thesis by (simp only: ordinary_key_def reserved_key_def) (simp only: reserved_prefix_def)
qed

lemma block1_staged [simp]: "staged_of (block_Txs block1) = [(bytes_of ''a'', bytes_of ''b'')]"
  by (simp add: block1_def staged_of_def isValidTx_iff tx_key_def tx_value_def bytes_of_def byte_of_char_def)

lemma block1_clean: "clean_commit rbt_badger (fst (FinalizeBlock app0 block1))"
  by (rule working_badger.clean_commit_ordinary [OF tree_working])
    (simp add: FinalizeBlock_eq key_rules bytes_of_def byte_of_char_def)

lemma app0_simps [simp]:
  "app_state app0 = \<lparr>db = RBT.empty\<rparr>" "app_height app0 = 0" "app_staged app0 = []"
  by (simp_all add: app0_def)

section \<open>Transactions and blocks\<close>

text \<open>A transaction is valid exactly if it is a non-empty key without \<^verbatim>\<open>=\<close>, a \<^verbatim>\<open>=\<close> and any
  value; splitting it gives back this key and value, so the value may contain \<^verbatim>\<open>=\<close> but the key
  cannot.\<close>

theorem tx_format:
  "isValidTx tx \<longleftrightarrow> (\<exists>key v. tx = key @ eq_sign @ v \<and> key \<noteq> [] \<and> 0x3d \<notin> set key
     \<and> SplitN tx eq_sign 2 = [key, v])"
proof
  assume v: "isValidTx tx"
  then have "0x3d \<in> set tx" "tx_key tx \<noteq> []" by (simp_all add: isValidTx_iff)
  then have "tx = tx_key tx @ eq_sign @ tx_value tx \<and> tx_key tx \<noteq> [] \<and> 0x3d \<notin> set (tx_key tx)
      \<and> SplitN tx eq_sign 2 = [tx_key tx, tx_value tx]"
    using tx_split [of tx] tx_key_no_eq [of tx] SplitN_eq_sign [of tx] by (simp add: eq_sign_eq)
  then show "\<exists>key v. tx = key @ eq_sign @ v \<and> key \<noteq> [] \<and> 0x3d \<notin> set key \<and> SplitN tx eq_sign 2 = [key, v]"
    by blast
next
  assume "\<exists>key v. tx = key @ eq_sign @ v \<and> key \<noteq> [] \<and> 0x3d \<notin> set key \<and> SplitN tx eq_sign 2 = [key, v]"
  then show "isValidTx tx" by (auto simp: isValidTx_def Let_def)
qed

text \<open>C18: \<open>FinalizeBlock\<close> gives each transaction, in order, the code that \<open>CheckTx\<close> gives it, stages
  the keys and values of the valid ones in order, forgets what was staged before, takes over the
  height, and touches neither the database nor the application hash.\<close>

theorem FinalizeBlock_correct:
  "let (app', resp) = FinalizeBlock app req in
     map result_Code (final_TxResults resp) = map (\<lambda>tx. result_Code (CheckTx tx)) (block_Txs req)
     \<and> app_staged app' = map (\<lambda>tx. (tx_key tx, tx_value tx)) (filter isValidTx (block_Txs req))
     \<and> app_height app' = block_Height req
     \<and> app_state app' = app_state app \<and> app_appHash app' = app_appHash app"
  by (simp add: FinalizeBlock_eq staged_of_def deliver_result_def CheckTx_def Let_def)

text \<open>A block is invisible until it is committed: between \<open>FinalizeBlock\<close> and \<open>Commit\<close> every
  query is answered as before the block, and finalising another proposal instead has the effect it
  would have had on its own.\<close>

theorem finalize_isolated:
  "Query bd (fst (FinalizeBlock app req)) data = Query bd app data
   \<and> fst (FinalizeBlock (fst (FinalizeBlock app req)) req') = fst (FinalizeBlock app req')"
  by (simp add: FinalizeBlock_eq Query_def)

text \<open>C10: A commit without storage errors writes exactly the staged pairs, the last one for a key
  winning, and the meta keys: height and application hash, which is the SHA-256 of the user's
  entries after the block. The application's memory then agrees with the database.\<close>

theorem Commit_correct:
  assumes "badger_db bd m tm nt" "clean_commit bd app"
  shows "app_contents m (Commit bd app) key =
      (if key = height_key then Some (PutUint64 (app_height app))
       else if key = hash_key then Some (app_appHash (Commit bd app))
       else case map_of (rev (app_staged app)) key of Some v \<Rightarrow> Some v | None \<Rightarrow> app_contents m app key)
    \<and> app_synced m (Commit bd app)
    \<and> app_height (Commit bd app) = app_height app"
  using badger_db.Commit_clean [OF assms] badger_db.Commit_synced [OF assms]
    badger_db.Commit_fields [OF assms(1), of app]
  by (auto simp: block_spec_def put_all_lookup put_meta_def split: option.split)

theorem Commit_correct_witness:
  "app_contents RBT.lookup (run_block rbt_badger app0 block1) (bytes_of ''a'') = Some (bytes_of ''b'')"
  using Commit_correct [OF tree_db block1_clean, of "bytes_of ''a''"]
  by (simp add: run_block_def FinalizeBlock_eq metaHeight_def metaAppHash_def)

text \<open>Restarting after a clean commit loses nothing: the application built from the database is
  the one that was running, so \<open>Info\<close> reports the same height and hash, and nothing is staged.\<close>

theorem restart_after_commit:
  assumes "badger_db bd m tm nt" "clean_commit bd app"
  shows "NewKVStoreApp bd (app_state (Commit bd app)) = Some (Commit bd app)
    \<and> app_staged (Commit bd app) = []"
  using badger_db.restart_synced [OF assms(1) badger_db.Commit_synced [OF assms]]
    badger_db.Commit_fields [OF assms(1), of app] by simp

theorem restart_after_commit_witness:
  "NewKVStoreApp rbt_badger (app_state (run_block rbt_badger app0 block1)) = Some (run_block rbt_badger app0 block1)"
  using restart_after_commit [OF tree_db block1_clean] by (simp add: run_block_def)

text \<open>Set and get: if a block commits without storage errors and \<open>v\<close> is the value of the last
  valid transaction for \<open>key\<close> in it, then a query for \<open>key\<close> returns \<open>v\<close> with code 0, unless the key is
  one of the two meta keys.\<close>

theorem set_then_get:
  assumes "badger_db bd m tm nt" "clean_commit bd (fst (FinalizeBlock app req))"
    and "block_Txs req = txs1 @ [key @ eq_sign @ v] @ txs2"
    and "key \<noteq> []" "0x3d \<notin> set key" "key \<noteq> height_key" "key \<noteq> hash_key"
    and "\<And>tx. tx \<in> set txs2 \<Longrightarrow> tx_key tx \<noteq> key"
  shows "Query bd (run_block bd app req) key =
    \<lparr>query_Code = 0, query_Log = [], query_Key = key, query_Value = v\<rparr>"
proof -
  have tx: "tx_key (key @ eq_sign @ v) = key" "tx_value (key @ eq_sign @ v) = v"
    "isValidTx (key @ eq_sign @ v)"
    using tx_parts_of_pair [OF assms(5), of v] assms(4) by (simp_all add: eq_sign_eq isValidTx_iff)
  have "map_of (rev (staged_of txs2)) key = None"
    using assms(8) by (fastforce simp: map_of_eq_None_iff staged_of_def)
  then have "map_of (rev (staged_of (block_Txs req))) key = Some v"
    using assms(3) tx by (simp add: staged_of_def map_add_def)
  then show ?thesis by (rule badger_db.Query_after_block [OF assms(1,2) _ assms(4,6,7)])
qed

theorem set_then_get_witness:
  "Query rbt_badger (run_block rbt_badger app0 block1) (bytes_of ''a'') =
    \<lparr>query_Code = 0, query_Log = [], query_Key = bytes_of ''a'', query_Value = bytes_of ''b''\<rparr>"
  using set_then_get [OF tree_db block1_clean, of "[]" "bytes_of ''a''" "bytes_of ''b''" "[bytes_of ''junk'']"]
  by (simp add: block1_def eq_sign_def metaHeight_def metaAppHash_def tx_key_def bytes_of_def byte_of_char_def)

section \<open>Crashes\<close>

text \<open>A crash after \<open>FinalizeBlock\<close> and before \<open>Commit\<close> is harmless: the application restarts as
  it was before the block, and replaying the block leads to the same state as without the crash.\<close>

theorem crash_before_commit:
  assumes "badger_db bd m tm nt" "app_synced m app"
  shows "\<exists>app'. NewKVStoreApp bd (app_state (fst (FinalizeBlock app req))) = Some app'
    \<and> Info app' = Info app \<and> run_block bd app' req = run_block bd app req"
  using badger_db.restart_synced [OF assms] by (simp add: FinalizeBlock_eq)

lemma app1_synced: "app_synced RBT.lookup (run_block rbt_badger app0 block1)"
  unfolding run_block_def by (rule badger_db.Commit_synced [OF tree_db block1_clean])

theorem crash_before_commit_witness:
  "\<exists>app'. NewKVStoreApp rbt_badger
      (app_state (fst (FinalizeBlock (run_block rbt_badger app0 block1) block1))) = Some app'
    \<and> Info app' = Info (run_block rbt_badger app0 block1)"
  using crash_before_commit [OF tree_db app1_synced, of block1] by blast

lemma put_all_twice: "put_all (put_all m ps) ps = put_all m ps"
  by (rule ext) (simp add: put_all_lookup split: option.split)

text \<open>C20: A crash inside \<open>Commit\<close>, between the batch and the meta keys, is repaired by replaying the
  block. The application before the block is one whose height and hash the database holds, or the
  new one of a database without a height, at height 0, so the crash may hit the first block. The
  provisos: the block writes neither meta key, its batch was stored, and neither its commit without
  the crash nor that of the replay meets a storage error. Then the application restarts at the
  height before the block, and the replay gives the same contents, height and hash as without the
  crash.\<close>

theorem crash_inside_commit:
  assumes "badger_db bd m tm nt"
    and "app_synced m app \<or> app_contents m app height_key = None \<and> app_height app = 0"
    and "State_BatchSet bd (app_state app) (staged_of (block_Txs req)) = (s, None)"
    and "height_key \<notin> fst ` set (staged_of (block_Txs req))" "hash_key \<notin> fst ` set (staged_of (block_Txs req))"
    and "clean_commit bd (fst (FinalizeBlock app req))"
    and "\<And>app'. app_state app' = s \<Longrightarrow> clean_commit bd (fst (FinalizeBlock app' req))"
  shows "\<exists>app'. NewKVStoreApp bd s = Some app' \<and> app_height app' = app_height app
    \<and> app_contents m (run_block bd app' req) = app_contents m (run_block bd app req)
    \<and> Info (run_block bd app' req) = Info (run_block bd app req)"
proof -
  let ?ps = "staged_of (block_Txs req)"
  let ?app' = "\<lparr>app_state = s, app_height = app_height app,
    app_appHash = (if app_contents m app height_key = None then [] else app_appHash app), app_staged = []\<rparr>"
  have s: "m (db s) = put_all (app_contents m app) ?ps"
    using badger_db.BatchSet_law [OF assms(1,3)] by simp
  have none: "map_of (rev ?ps) height_key = None" "map_of (rev ?ps) hash_key = None"
    using assms(4,5) by (simp_all add: map_of_eq_None_iff)
  then have meta: "m (db s) height_key = app_contents m app height_key" "m (db s) hash_key = app_contents m app hash_key"
    using s by (simp_all add: put_all_lookup)
  have new: "NewKVStoreApp bd s = Some ?app'"
    using assms(2)
  proof
    assume "app_synced m app"
    with meta badger_db.LoadMeta_saved [OF assms(1), of s "app_height app" "app_appHash app"] show ?thesis
      by (simp add: NewKVStoreApp_def app_synced_def Let_def)
  next
    assume "app_contents m app height_key = None \<and> app_height app = 0"
    with meta badger_db.LoadMeta_new [OF assms(1), of s] show ?thesis by (simp add: NewKVStoreApp_def)
  qed
  have "put_all (m (db s)) ?ps = put_all (app_contents m app) ?ps" by (simp add: s put_all_twice)
  then have "app_contents m (run_block bd ?app' req) = app_contents m (run_block bd app req)"
    "app_appHash (run_block bd ?app' req) = app_appHash (run_block bd app req)"
    using badger_db.Commit_clean [OF assms(1,6)] badger_db.Commit_clean [OF assms(1) assms(7) [of ?app']]
    by (simp_all add: run_block_def FinalizeBlock_eq block_spec_def)
  moreover have "app_height (run_block bd ?app' req) = app_height (run_block bd app req)"
    using badger_db.Commit_fields [OF assms(1)] by (simp add: run_block_def FinalizeBlock_eq)
  ultimately show ?thesis using new by (intro exI [of _ ?app']) (simp add: Info_def)
qed

lemma clean_block1: "clean_commit rbt_badger (fst (FinalizeBlock app block1))"
  by (rule working_badger.clean_commit_ordinary [OF tree_working])
    (simp add: FinalizeBlock_eq key_rules bytes_of_def byte_of_char_def)

theorem crash_inside_commit_witness:
  "\<exists>s app'. State_BatchSet rbt_badger (app_state (run_block rbt_badger app0 block1)) (staged_of (block_Txs block1)) = (s, None)
    \<and> NewKVStoreApp rbt_badger s = Some app' \<and> app_height app' = 1"
proof -
  let ?app = "run_block rbt_badger app0 block1"
  obtain s where s: "State_BatchSet rbt_badger (app_state ?app) (staged_of (block_Txs block1)) = (s, None)"
    using working_badger.BatchSet_ordinary [OF tree_working, of "staged_of (block_Txs block1)" "app_state ?app"]
    by (cases "State_BatchSet rbt_badger (app_state ?app) (staged_of (block_Txs block1))")
      (simp add: key_rules bytes_of_def byte_of_char_def)
  have "app_height ?app = 1"
    using badger_db.Commit_fields [OF tree_db] by (simp add: run_block_def FinalizeBlock_eq block1_def)
  with crash_inside_commit [OF tree_db disjI1 [OF app1_synced] s _ _ clean_block1 clean_block1] s show ?thesis
    by (auto simp: metaHeight_def metaAppHash_def)
qed

text \<open>A user can make this crash fatal: after a crash inside the commit of a block with the
  transaction \<^verbatim>\<open>__meta_height=x\<close> as its last one, the application does not start again, because the
  stored height has fewer than eight bytes.\<close>

theorem crash_with_meta_key:
  assumes "badger_db bd m tm nt" "length v < 8"
    and "State_BatchSet bd s0 (ps @ [(height_key, v)]) = (s, None)"
  shows "isValidTx (height_key @ eq_sign @ v) \<and> NewKVStoreApp bd s = None"
proof -
  have h: "m (db s) height_key = Some v"
    using badger_db.BatchSet_law [OF assms(1,3)] by (simp add: put_all_lookup)
  obtain t where t: "dbViewTxn bd (db s) = Inr t" "tm t = m (db s)"
    using badger_db.view [OF assms(1)] by blast
  obtain it where it: "txnGet bd t height_key = Inr it" "itemValueCopy bd it = Inr v"
    using badger_db.get_found [OF assms(1), of height_key t v] h t(2) by auto
  have "Uint64 v = None" using assms(2) by (simp add: Uint64_eq_None)
  with t(1) it have "State_LoadMeta bd s = None" by (simp add: State_LoadMeta_def)
  moreover have "0x3d \<notin> set height_key"
    by (simp add: metaHeight_def bytes_of_def byte_of_char_def)
  then have "isValidTx (height_key @ eq_sign @ v)"
    using tx_parts_of_pair [of height_key v] by (simp add: isValidTx_iff eq_sign_eq)
  ultimately show ?thesis by (simp add: NewKVStoreApp_def)
qed

theorem crash_with_meta_key_witness:
  "\<exists>s. State_BatchSet rbt_badger (app_state app0) [(height_key, bytes_of ''x'')] = (s, None)
    \<and> NewKVStoreApp rbt_badger s = None"
proof -
  obtain s where s: "State_BatchSet rbt_badger (app_state app0) ([] @ [(height_key, bytes_of ''x'')]) = (s, None)"
    using working_badger.BatchSet_ordinary [OF tree_working, of "[(height_key, bytes_of ''x'')]" "app_state app0"]
      working_badger.ordinary_meta [OF tree_working]
    by (cases "State_BatchSet rbt_badger (app_state app0) [(height_key, bytes_of ''x'')]") simp
  from crash_with_meta_key [OF tree_db _ s] s show ?thesis by simp
qed

section \<open>The application hash\<close>

text \<open>The application hash is a function of the user's entries alone: it is the SHA-256 of the
  keys and values, in key order, of everything but the meta keys, so it depends neither on the order
  in which the entries were written nor on how the database stores them.\<close>

theorem Hash_correct:
  assumes "badger_db bd m tm nt"
  shows "State_Hash bd s = sha256 (concat (map (\<lambda>key. key @ the (m (db s) key))
    (sorted_list_of_set (dom (m (db s)) - {height_key, hash_key}))))"
proof -
  have d: "dom (user_part (m (db s))) = dom (m (db s)) - {height_key, hash_key}"
    by (auto simp: user_part_def restrict_map_def split: if_splits)
  have fin: "finite (dom (m (db s)))" by (rule badger_db.finite_contents [OF assms])
  have "map (\<lambda>key. key @ the (user_part (m (db s)) key)) (sorted_list_of_set (dom (user_part (m (db s))))) =
      map (\<lambda>key. key @ the (m (db s) key)) (sorted_list_of_set (dom (user_part (m (db s)))))"
    using d fin by (intro map_cong) (auto simp: user_part_def)
  then show ?thesis by (simp only: badger_db.Hash_law [OF assms] digest_input_def d)
qed

theorem Hash_correct_witness:
  "State_Hash rbt_badger \<lparr>db = RBT.insert height_key [0] RBT.empty\<rparr> = sha256 []"
  using Hash_correct [OF tree_db, of "\<lparr>db = RBT.insert height_key [0] RBT.empty\<rparr>"]
  by (simp add: RBT.lookup_insert)

text \<open>C11: Replicas agree: two applications, on whatever databases, that start with the same user's
  entries and execute the same blocks without storage errors have the same entries and, after each
  block, the same height and the same application hash.\<close>

theorem replicas_agree:
  assumes "badger_db bd m tm nt" "badger_db bd' m' tm' nt'"
    and "user_part (app_contents m app) = user_part (app_contents m' app')"
    and "clean_run bd app (reqs @ [req])" "clean_run bd' app' (reqs @ [req])"
  shows "user_part (app_contents m (run_blocks bd app (reqs @ [req]))) =
      user_part (app_contents m' (run_blocks bd' app' (reqs @ [req])))
    \<and> Info (run_blocks bd app (reqs @ [req])) = Info (run_blocks bd' app' (reqs @ [req]))"
proof -
  let ?a = "run_blocks bd app reqs" and ?a' = "run_blocks bd' app' reqs"
  have c: "clean_run bd app reqs" "clean_commit bd (fst (FinalizeBlock ?a req))"
    "clean_run bd' app' reqs" "clean_commit bd' (fst (FinalizeBlock ?a' req))"
    using assms(4,5) by (simp_all add: clean_run_append)
  have u: "user_part (app_contents m ?a) = user_part (app_contents m' ?a')"
    by (simp add: badger_db.run_blocks_user_part [OF assms(1) c(1)] badger_db.run_blocks_user_part [OF assms(2) c(3)]
        user_part_put_all_cong [OF assms(3)])
  note h = badger_db.Commit_clean [OF assms(1) c(2)] badger_db.Commit_clean [OF assms(2) c(4)]
    badger_db.Commit_fields [OF assms(1)] badger_db.Commit_fields [OF assms(2)]
  from h user_part_put_all_cong [OF u] show ?thesis
    by (simp add: run_block_def FinalizeBlock_eq Info_def)
qed

theorem replicas_agree_witness:
  "Info (run_blocks rbt_badger app0 ([] @ [block1])) =
   Info (run_blocks rbt_badger (app0\<lparr>app_state := \<lparr>db = RBT.insert height_key [0] RBT.empty\<rparr>\<rparr>) ([] @ [block1]))"
proof -
  let ?app' = "app0\<lparr>app_state := \<lparr>db = RBT.insert height_key [0] RBT.empty\<rparr>\<rparr>"
  have u: "user_part (app_contents RBT.lookup app0) = user_part (app_contents RBT.lookup ?app')"
    by (simp add: user_part_def RBT.lookup_insert)
  from replicas_agree [OF tree_db tree_db u, of "[]" block1] show ?thesis by (simp add: clean_block1)
qed

text \<open>The hash is not injective: the entries are hashed without separators, so a block that sets
  \<^verbatim>\<open>ab\<close> to \<^verbatim>\<open>c\<close> and one that sets \<^verbatim>\<open>a\<close> to \<^verbatim>\<open>bc\<close> lead to the same application hash
  although every query for \<^verbatim>\<open>a\<close> tells the states apart. Different states cannot be told apart by it.\<close>

theorem Hash_collision:
  assumes "badger_db bd m tm nt" "badger_db bd' m' tm' nt'"
    and "m (db s) = [key @ x \<mapsto> v]" "m' (db s') = [key \<mapsto> x @ v]"
    and "key \<notin> {height_key, hash_key}" "key @ x \<notin> {height_key, hash_key}" "x \<noteq> []"
  shows "State_Hash bd s = State_Hash bd' s' \<and> user_part (m (db s)) \<noteq> user_part (m' (db s'))"
proof -
  have u: "user_part (m (db s)) = [key @ x \<mapsto> v]" "user_part (m' (db s')) = [key \<mapsto> x @ v]"
    using assms(3-6) by (auto simp: user_part_def restrict_map_def fun_eq_iff)
  then have "State_Hash bd s = State_Hash bd' s'"
    by (simp add: badger_db.Hash_law [OF assms(1)] badger_db.Hash_law [OF assms(2)] digest_input_def)
  moreover have "[key @ x \<mapsto> v] \<noteq> [key \<mapsto> x @ v]"
    using assms(7) by (auto dest: fun_cong [where x = key])
  ultimately show ?thesis using u by simp
qed

theorem Hash_collision_witness:
  "State_Hash rbt_badger \<lparr>db = RBT.insert (bytes_of ''ab'') (bytes_of ''c'') RBT.empty\<rparr> =
   State_Hash rbt_badger \<lparr>db = RBT.insert (bytes_of ''a'') (bytes_of ''bc'') RBT.empty\<rparr>"
  using Hash_collision [OF tree_db tree_db,
      of "\<lparr>db = RBT.insert (bytes_of ''ab'') (bytes_of ''c'') RBT.empty\<rparr>" "bytes_of ''a''" "bytes_of ''b''" "bytes_of ''c''"
        "\<lparr>db = RBT.insert (bytes_of ''a'') (bytes_of ''bc'') RBT.empty\<rparr>"]
  by (simp add: RBT.lookup_insert metaHeight_def metaAppHash_def bytes_of_Cons)

text \<open>The hash never reaches the chain: \<open>FinalizeBlock\<close> always answers with an empty
  \<^verbatim>\<open>AppHash\<close>, whereas after the commit of the same block \<open>Info\<close> reports a hash of 32 bytes.\<close>

theorem app_hash_not_reported:
  "final_AppHash (snd (FinalizeBlock app req)) = []
   \<and> length (info_LastBlockAppHash (Info (Commit bd app'))) = 32"
proof -
  have "length (State_Hash bd s) = 32" for s by (simp add: State_Hash_def split: sum.split)
  then show ?thesis by (simp add: FinalizeBlock_eq Info_def Commit_def Let_def case_prod_beta)
qed

section \<open>Errors that are dropped\<close>

text \<open>C40: One bad transaction silently discards a block. Take a database on which ordinary writes and
  commits succeed, and a block with a valid transaction whose key badger reserves. Every transaction
  gets the result it has in an accepted block, code 0 for each valid one; none of them is stored, the
  user's entries stay as they were; and the height of the block is committed: it is stored under the
  height key together with the hash, and the application restarts at that height, so the block is
  never replayed.\<close>

theorem block_lost:
  assumes "working_badger bd m tm nt" "tx \<in> set (block_Txs req)" "isValidTx tx" "reserved_key (tx_key tx)"
  shows "final_TxResults (snd (FinalizeBlock app req)) =
      map (\<lambda>tx. if isValidTx tx then \<lparr>result_Code = 0, result_Log = []\<rparr>
        else \<lparr>result_Code = 1, result_Log = ''invalid tx''\<rparr>) (block_Txs req)
    \<and> user_part (app_contents m (run_block bd app req)) = user_part (app_contents m app)
    \<and> app_contents m (run_block bd app req) height_key = Some (PutUint64 (block_Height req))
    \<and> app_contents m (run_block bd app req) hash_key = Some (app_appHash (run_block bd app req))
    \<and> NewKVStoreApp bd (app_state (run_block bd app req)) = Some (run_block bd app req)
    \<and> info_LastBlockHeight (Info (run_block bd app req)) = block_Height req"
proof -
  have db: "badger_db bd m tm nt" using assms(1) by (simp add: working_badger_def)
  have st: "(tx_key tx, tx_value tx) \<in> set (staged_of (block_Txs req))"
    using assms(2,3) by (auto simp: staged_of_def)
  with assms(4) have bad: "\<exists>(key, v) \<in> set (staged_of (block_Txs req)). key = [] \<or> reserved_key key" by blast
  let ?app = "fst (FinalizeBlock app req)"
  have s: "app_staged ?app = staged_of (block_Txs req)" "app_contents m ?app = app_contents m app"
    by (simp_all add: FinalizeBlock_eq)
  have "staged_of (block_Txs req) \<noteq> []" using st by auto
  then have failed: "app_staged ?app \<noteq> []" "snd (State_BatchSet bd (app_state ?app) (app_staged ?app)) \<noteq> None"
    using s(1) badger_db.BatchSet_bad [OF db bad] by simp_all
  have lost: "user_part (app_contents m (run_block bd app req)) = user_part (app_contents m app)"
    using badger_db.Commit_batch_failed [OF db failed(2,1)] by (simp add: run_block_def s(2))
  have synced: "app_synced m (run_block bd app req)"
    using working_badger.Commit_batch_failed_synced [OF assms(1) failed(2,1)] by (simp add: run_block_def)
  have height: "app_height (run_block bd app req) = block_Height req"
    using badger_db.Commit_fields [OF db] by (simp add: run_block_def FinalizeBlock_eq)
  have "deliver_result = (\<lambda>tx. if isValidTx tx then \<lparr>result_Code = 0, result_Log = []\<rparr>
      else \<lparr>result_Code = 1, result_Log = ''invalid tx''\<rparr>)"
    by (rule ext) (simp add: deliver_result_def)
  then show ?thesis
    using lost synced height badger_db.restart_synced [OF db synced]
    by (simp add: app_synced_def Let_def Info_def) (simp add: FinalizeBlock_eq)
qed

theorem block_lost_witness:
  "user_part (app_contents RBT.lookup (run_block rbt_badger app0
      \<lparr>block_Txs = [bytes_of ''a=b'', bytes_of ''!badger!x=y''], block_Height = 1\<rparr>)) = Map.empty
    \<and> app_contents RBT.lookup (run_block rbt_badger app0
      \<lparr>block_Txs = [bytes_of ''a=b'', bytes_of ''!badger!x=y''], block_Height = 1\<rparr>) height_key = Some (PutUint64 1)"
proof -
  let ?tx = "bytes_of ''!badger!x=y''"
  have "tx_key ?tx = bytes_of ''!badger!x''"
    by (simp add: tx_key_def bytes_of_def byte_of_char_def)
  then have "reserved_key (tx_key ?tx)" "isValidTx ?tx"
    by (simp_all add: reserved_key_def reserved_prefix_def isValidTx_iff bytes_of_def byte_of_char_def)
  with block_lost [OF tree_working, of ?tx "\<lparr>block_Txs = [bytes_of ''a=b'', ?tx], block_Height = 1\<rparr>" app0]
  show ?thesis by (simp add: user_part_def)
qed

text \<open>A transaction for a meta key is accepted but has no lasting effect: after a clean commit
  the meta keys hold the height and the hash of the block whatever its transactions wrote to them, and
  a query shows the application's value.\<close>

theorem meta_keys_protected:
  assumes "badger_db bd m tm nt" "clean_commit bd (fst (FinalizeBlock app req))"
  shows "query_Value (Query bd (run_block bd app req) height_key) = PutUint64 (block_Height req)
    \<and> query_Value (Query bd (run_block bd app req) hash_key) = app_appHash (run_block bd app req)"
  using badger_db.Commit_clean [OF assms] badger_db.Query_eq [OF assms(1), of height_key]
    badger_db.Query_eq [OF assms(1), of hash_key]
  by (simp add: run_block_def block_spec_def) (simp add: FinalizeBlock_eq)

theorem meta_keys_protected_witness:
  "query_Value (Query rbt_badger (run_block rbt_badger app0 block1) height_key) = PutUint64 1"
  using meta_keys_protected [OF tree_db block1_clean] by (simp add: block1_def)

end
