(* ===== verification/Kv_Main.thy ===== *)
theory Kv_Main
  imports Kv_Props
begin

text \<open>
  The process of the key-value application, \<^verbatim>\<open>abci-kvstore/main.go\<close>, and the opening and closing of its
  database in \<^verbatim>\<open>state.go\<close>. The command line, badger's files, the socket server and the signals are the
  fields of a record; the process is the list of its actions up to its exit code. \<^verbatim>\<open>log.Fatalf\<close> exits at
  once, a panic runs the deferred \<^verbatim>\<open>Close\<close> first. Log output is left out.
\<close>

section \<open>The process\<close>

record 'd process_env =
  flag_value :: "string \<Rightarrow> string option"
  badger_Open :: "string \<Rightarrow> string + 'd"
  badger_Close :: "'d \<Rightarrow> string option"
  server_Start :: "string \<Rightarrow> 'd KVStoreApp \<Rightarrow> string option"
  served_until_signal :: "'d KVStoreApp \<Rightarrow> 'd KVStoreApp"
  server_Stop :: "'d KVStoreApp \<Rightarrow> string option"

datatype 'd action =
    OpenDB string
  | StartServer string "'d KVStoreApp"
  | Print string
  | ReceiveSignal
  | StopServer "'d KVStoreApp"
  | CloseDB 'd
  | Exit nat

definition flag_String :: "'d process_env \<Rightarrow> string \<Rightarrow> string \<Rightarrow> string" where
  "flag_String E name value = (case flag_value E name of None \<Rightarrow> value | Some v \<Rightarrow> v)"

definition NewState :: "'d process_env \<Rightarrow> string \<Rightarrow> string + 'd State" where
  "NewState E path =
     (case badger_Open E path of
        Inl err \<Rightarrow> Inl (''open badger: '' @ err)
      | Inr d \<Rightarrow> Inr \<lparr>db = d\<rparr>)"

definition State_Close :: "'d process_env \<Rightarrow> 'd State \<Rightarrow> string option" where
  "State_Close E s = badger_Close E (db s)"

definition kv_main :: "('d, 't, 'i) badger \<Rightarrow> 'd process_env \<Rightarrow> 'd action list" where
  "kv_main bd E =
     (let addr = flag_String E ''addr'' ''tcp://0.0.0.0:36658'';
          dbPath = flag_String E ''db'' ''/data/kvstore-db''
      in case NewState E dbPath of
           Inl err \<Rightarrow> [OpenDB dbPath, Exit 1]
         | Inr state \<Rightarrow>
             OpenDB dbPath #
             (case NewKVStoreApp bd state of
                None \<Rightarrow> if State_LoadMeta bd state = None then [CloseDB (db state), Exit 2] else [Exit 1]
              | Some app \<Rightarrow>
                  StartServer addr app #
                  (case server_Start E addr app of
                     Some err \<Rightarrow> [Exit 1]
                   | None \<Rightarrow>
                       (let app = served_until_signal E app
                        in [Print (''ABCI kvstore server listening on '' @ addr @ [CHR 0x0A]), ReceiveSignal,
                            StopServer app, CloseDB (db (app_state app)), Exit 0]))))"

section \<open>Properties\<close>

text \<open>C30: The next process goes on where the last one stopped: if a process served a run of blocks that
  committed without storage errors and then stopped, a process that opens the database it closed starts
  its server with exactly the application that was stopped, with its height, hash and contents.\<close>

theorem process_restart:
  assumes "badger_db bd m tm nt"
    and "StartServer addr app0 \<in> set (kv_main bd E)" "served_until_signal E app0 = run_blocks bd app0 (reqs @ [req])"
    and "clean_run bd app0 (reqs @ [req])" "CloseDB d \<in> set (kv_main bd E)"
    and "badger_Open E' (flag_String E' ''db'' ''/data/kvstore-db'') = Inr d"
  shows "StartServer (flag_String E' ''addr'' ''tcp://0.0.0.0:36658'') (run_blocks bd app0 (reqs @ [req])) \<in> set (kv_main bd E')"
proof -
  let ?app = "run_blocks bd app0 (reqs @ [req])"
  from assms(2,5) have d: "d = db (app_state (served_until_signal E app0))"
    by (auto simp: kv_main_def Let_def split: sum.splits option.splits if_splits)
  have "clean_commit bd (fst (FinalizeBlock (run_blocks bd app0 reqs) req))" using assms(4) by (simp add: clean_run_append)
  then have "app_synced m ?app" using badger_db.Commit_synced [OF assms(1)] by (simp add: run_block_def)
  then have new: "NewKVStoreApp bd (app_state ?app) = Some ?app" using badger_db.restart_synced [OF assms(1)] by blast
  have "NewState E' (flag_String E' ''db'' ''/data/kvstore-db'') = Inr (app_state ?app)"
    using assms(6) d unfolding assms(3) by (simp add: NewState_def del: run_blocks_simps)
  with new show ?thesis by (simp add: kv_main_def Let_def del: run_blocks_simps)
qed

text \<open>A process on an empty tree that serves one block, and the next one on its tree.\<close>

definition tree_env :: "tree \<Rightarrow> tree process_env" where
  "tree_env d = \<lparr>flag_value = (\<lambda>_. None), badger_Open = (\<lambda>path. Inr d), badger_Close = (\<lambda>d. None),
     server_Start = (\<lambda>addr app. None), served_until_signal = (\<lambda>app. run_block rbt_badger app block1),
     server_Stop = (\<lambda>app. None)\<rparr>"

theorem process_restart_witness:
  "\<exists>d. CloseDB d \<in> set (kv_main rbt_badger (tree_env RBT.empty))
    \<and> StartServer ''tcp://0.0.0.0:36658'' (run_block rbt_badger app0 block1) \<in> set (kv_main rbt_badger (tree_env d))"
proof -
  let ?d = "db (app_state (run_block rbt_badger app0 block1))"
  have "NewKVStoreApp rbt_badger \<lparr>db = RBT.empty\<rparr> = Some app0"
    by (simp add: NewKVStoreApp_def State_LoadMeta_def rbt_badger_def app0_def)
  then have m: "StartServer ''tcp://0.0.0.0:36658'' app0 \<in> set (kv_main rbt_badger (tree_env RBT.empty))"
    "CloseDB ?d \<in> set (kv_main rbt_badger (tree_env RBT.empty))"
    by (simp_all add: kv_main_def NewState_def tree_env_def flag_String_def Let_def)
  have "clean_run rbt_badger app0 ([] @ [block1])" using block1_clean by simp
  from process_restart [OF tree_db m(1) _ this m(2), of "tree_env ?d"] m(2) show ?thesis
    by (intro exI [of _ ?d]) (simp add: tree_env_def flag_String_def)
qed

text \<open>Exit codes: a process that exits with 0 has stopped its server and then closed the database, as its
  last actions; one that exits with 1 has opened the database, or tried to, and never closes it, because
  \<^verbatim>\<open>log.Fatalf\<close> does not run the deferred call; and no process closes it twice.\<close>

theorem process_exits:
  "\<exists>code acts. kv_main bd E = OpenDB (flag_String E ''db'' ''/data/kvstore-db'') # acts @ [Exit code]
    \<and> length (filter (\<lambda>a. case a of CloseDB d \<Rightarrow> True | _ \<Rightarrow> False) acts) = (if code = 1 then 0 else 1)
    \<and> (code = 0) = (\<exists>app as. acts = as @ [StopServer app, CloseDB (db (app_state app))])"
proof (cases "\<exists>s. NewState E (flag_String E ''db'' ''/data/kvstore-db'') = Inr s \<and> NewKVStoreApp bd s \<noteq> None")
  case True
  then obtain s app where s: "NewState E (flag_String E ''db'' ''/data/kvstore-db'') = Inr s" "NewKVStoreApp bd s = Some app" by blast
  let ?addr = "flag_String E ''addr'' ''tcp://0.0.0.0:36658''" and ?app = "served_until_signal E app"
  show ?thesis
  proof (cases "server_Start E ?addr app")
    case None
    with s show ?thesis
      by (intro exI [of _ 0] exI [of _ "[StartServer ?addr app, Print (''ABCI kvstore server listening on '' @ ?addr @ [CHR 0x0A]),
          ReceiveSignal, StopServer ?app, CloseDB (db (app_state ?app))]"])
        (auto simp: kv_main_def Let_def intro: exI [of _ ?app])
  next
    case (Some err)
    with s show ?thesis
      by (intro exI [of _ 1] exI [of _ "[StartServer ?addr app]"]) (auto simp: kv_main_def Let_def Cons_eq_append_conv)
  qed
next
  case False
  then have "kv_main bd E \<in> {[OpenDB (flag_String E ''db'' ''/data/kvstore-db''), Exit 1]}
      \<or> (\<exists>d. kv_main bd E = [OpenDB (flag_String E ''db'' ''/data/kvstore-db''), CloseDB d, Exit 2])"
    by (auto simp: kv_main_def Let_def split: sum.splits option.splits)
  then show ?thesis
  proof
    assume "kv_main bd E \<in> {[OpenDB (flag_String E ''db'' ''/data/kvstore-db''), Exit 1]}"
    then show ?thesis by (intro exI [of _ 1] exI [of _ "[]"]) simp
  next
    assume "\<exists>d. kv_main bd E = [OpenDB (flag_String E ''db'' ''/data/kvstore-db''), CloseDB d, Exit 2]"
    then obtain d where "kv_main bd E = [OpenDB (flag_String E ''db'' ''/data/kvstore-db''), CloseDB d, Exit 2]" ..
    then show ?thesis by (intro exI [of _ 2] exI [of _ "[CloseDB d]"]) (auto simp: Cons_eq_append_conv)
  qed
qed

end
