(* ===== verification/Go_Json.thy ===== *)
theory Go_Json
  imports Prelude
begin

text \<open>
  The parts of Go's standard library through which the REST service reads requests and
  writes answers: \<^verbatim>\<open>strconv.ParseUint(s, 10, 64)\<close>, UTF-8 as \<^verbatim>\<open>unicode/utf8\<close> decodes it, and
  \<^verbatim>\<open>encoding/json\<close>: the scanner, the unquoting of strings, the decoding of an object into
  the fields of a struct, and the encoder. A number is kept as its literal.

  Shown here: \<^verbatim>\<open>ParseUint\<close> accepts exactly the decimal numerals below \<open>2 ^ 64\<close>; the fuel of the
  parser, which exceeds the length of its input, is enough; and a document that the encoder
  wrote is parsed back.
\<close>

abbreviation code :: "char \<Rightarrow> nat" where "code \<equiv> of_char"

definition is_digit :: "char \<Rightarrow> bool" where
  "is_digit c \<longleftrightarrow> 48 \<le> code c \<and> code c \<le> 57"

definition digit :: "char \<Rightarrow> nat" where
  "digit c = code c - 48"

lemma digit_le: "is_digit c \<Longrightarrow> digit c \<le> 9"
  by (simp only: is_digit_def digit_def) linarith

section \<open>strconv.ParseUint in base 10 with 64 bits\<close>

datatype num_error = ErrSyntax | ErrRange

fun parse_digits :: "u64 \<Rightarrow> string \<Rightarrow> u64 \<times> num_error option" where
  "parse_digits n [] = (n, None)"
| "parse_digits n (c # cs) =
     (if \<not> is_digit c then (0, Some ErrSyntax)
      else if 1844674407370955162 \<le> n then (- 1, Some ErrRange)
      else let m = n * 10; m1 = m + word_of_nat (digit c)
           in if m1 < m then (- 1, Some ErrRange) else parse_digits m1 cs)"

definition ParseUint :: "string \<Rightarrow> u64 \<times> num_error option" where
  "ParseUint s = (if s = [] then (0, Some ErrSyntax) else parse_digits 0 s)"

text \<open>The number that a string of digits denotes.\<close>

fun dec_val :: "nat \<Rightarrow> string \<Rightarrow> nat" where
  "dec_val n [] = n"
| "dec_val n (c # cs) = dec_val (10 * n + digit c) cs"

lemma dec_val_ge: "n \<le> dec_val n s"
proof (induction s arbitrary: n)
  case (Cons c cs)
  have "n \<le> 10 * n + digit c" by simp
  with Cons show ?case by (metis dec_val.simps(2) order_trans)
qed simp

lemma parse_digits_step:
  fixes n :: u64
  assumes "is_digit c" and "unat n < 1844674407370955162"
  shows "(n * 10 + word_of_nat (digit c) < n * 10) = (2 ^ 64 \<le> 10 * unat n + digit c)"
    and "10 * unat n + digit c < 2 ^ 64
      \<Longrightarrow> unat (n * 10 + word_of_nat (digit c)) = 10 * unat n + digit c"
proof -
  have d: "digit c \<le> 9" using assms(1) by (rule digit_le)
  have m: "unat (n * 10) = 10 * unat n"
    using assms(2) by (simp add: unat_word_ariths)
  have w: "unat (word_of_nat (digit c) :: u64) = digit c"
    using d by (simp add: unat_of_nat)
  have s: "unat (n * 10 + word_of_nat (digit c)) = (10 * unat n + digit c) mod 2 ^ 64"
    by (simp add: unat_word_ariths(1) m w)
  show "10 * unat n + digit c < 2 ^ 64
      \<Longrightarrow> unat (n * 10 + word_of_nat (digit c)) = 10 * unat n + digit c"
    using s by simp
  show "(n * 10 + word_of_nat (digit c) < n * 10) = (2 ^ 64 \<le> 10 * unat n + digit c)"
  proof (cases "10 * unat n + digit c < 2 ^ 64")
    case True
    then show ?thesis using s m by (simp add: word_less_nat_alt)
  next
    case False
    have "10 * unat n < 2 ^ 64" using assms(2) by simp
    with False d have "(10 * unat n + digit c) mod 2 ^ 64 < 10 * unat n"
      using mod_if [of "10 * unat n + digit c" "2 ^ 64"]
      by (simp add: mod_less)
    with False s m show ?thesis by (simp add: word_less_nat_alt)
  qed
qed

lemma parse_digits_iff:
  "(snd (parse_digits n s) = None \<longleftrightarrow> list_all is_digit s \<and> dec_val (unat n) s < 2 ^ 64)
   \<and> (snd (parse_digits n s) = None \<longrightarrow> unat (fst (parse_digits n s)) = dec_val (unat n) s)"
proof (induction s arbitrary: n)
  case (Cons c cs)
  let ?v = "10 * unat n + digit c"
  have big: "2 ^ 64 \<le> ?v \<Longrightarrow> \<not> dec_val (unat n) (c # cs) < 2 ^ 64"
    using dec_val_ge [of ?v cs] by simp
  consider "\<not> is_digit c" | "is_digit c" "1844674407370955162 \<le> n"
    | "is_digit c" "\<not> 1844674407370955162 \<le> n" by blast
  then show ?case
  proof cases
    case 2
    then have "1844674407370955162 \<le> unat n" by (simp add: word_le_nat_alt)
    then have "2 ^ 64 \<le> ?v" by simp
    with 2 big show ?thesis by simp
  next
    case 3
    then have n: "unat n < 1844674407370955162" by (simp add: word_le_nat_alt)
    show ?thesis
    proof (cases "2 ^ 64 \<le> ?v")
      case True
      with 3 n big parse_digits_step(1) [OF 3(1) n] show ?thesis by (simp add: Let_def)
    next
      case False
      with 3 n parse_digits_step [OF 3(1) n] Cons [of "n * 10 + word_of_nat (digit c)"]
      show ?thesis by (simp add: Let_def)
    qed
  qed simp
qed (simp add: unsigned_less [where ?'a = nat, of n for n :: u64, simplified])

lemma ParseUint_iff:
  "snd (ParseUint s) = None \<longleftrightarrow> s \<noteq> [] \<and> list_all is_digit s \<and> dec_val 0 s < 2 ^ 64"
  using parse_digits_iff [of 0 s] by (simp add: ParseUint_def)

lemma ParseUint_value: "snd (ParseUint s) = None \<Longrightarrow> unat (fst (ParseUint s)) = dec_val 0 s"
  using parse_digits_iff [of 0 s] by (auto simp: ParseUint_def split: if_splits)

text \<open>What \<^verbatim>\<open>%d\<close> prints is read back.\<close>

lemma dec_val_append: "dec_val n (s @ t) = dec_val (dec_val n s) t"
  by (induction s arbitrary: n) simp_all

lemma code_digit [simp]: "d < 10 \<Longrightarrow> code (char_of (48 + d)) = 48 + d"
  by simp

lemma fmt_d_digits: "list_all is_digit (fmt_d n) \<and> dec_val 0 (fmt_d n) = n"
proof (induction n rule: less_induct)
  case (less n)
  show ?case
  proof (cases "n < 10")
    case True
    then show ?thesis by (subst (1 2) fmt_d.simps) (simp add: is_digit_def digit_def)
  next
    case False
    have m: "n mod 10 < 10" by simp
    have "n div 10 < n" using False by simp
    with less have "list_all is_digit (fmt_d (n div 10))" "dec_val 0 (fmt_d (n div 10)) = n div 10" by blast+
    with False m show ?thesis
      by (subst (1 2) fmt_d.simps) (simp add: is_digit_def digit_def dec_val_append)
  qed
qed

lemma ParseUint_fmt_d [simp]: "ParseUint (fmt_d (unat v)) = (v, None)"
proof -
  have s: "snd (ParseUint (fmt_d (unat v))) = None"
    using fmt_d_digits [of "unat v"] unsigned_less [of v, where ?'a = nat]
    by (simp add: ParseUint_iff)
  moreover have "unat (fst (ParseUint (fmt_d (unat v)))) = unat v"
    using ParseUint_value [OF s] fmt_d_digits [of "unat v"] by simp
  then have "fst (ParseUint (fmt_d (unat v))) = v" by (simp add: unsigned_word_eqI)
  ultimately show ?thesis by (metis prod.collapse)
qed

section \<open>unicode/utf8\<close>

text \<open>
  The length of the encoded rune at the start of a string as \<^verbatim>\<open>DecodeRuneInString\<close> finds it;
  0 where it answers \<^verbatim>\<open>RuneError\<close> with width 1 (or 0, at the end).
\<close>

definition nth_in :: "string \<Rightarrow> nat \<Rightarrow> nat \<Rightarrow> nat \<Rightarrow> bool" where
  "nth_in r i lo hi \<longleftrightarrow> i < length r \<and> lo \<le> code (r ! i) \<and> code (r ! i) \<le> hi"

fun rune_len :: "string \<Rightarrow> nat" where
  "rune_len [] = 0"
| "rune_len (c # r) =
     (let x = code c in
      if x < 128 then 1
      else if 194 \<le> x \<and> x \<le> 223 then (if nth_in r 0 128 191 then 2 else 0)
      else if 224 \<le> x \<and> x \<le> 239 then
        (if nth_in r 0 (if x = 224 then 160 else 128) (if x = 237 then 159 else 191) \<and> nth_in r 1 128 191
         then 3 else 0)
      else if 240 \<le> x \<and> x \<le> 244 then
        (if nth_in r 0 (if x = 240 then 144 else 128) (if x = 244 then 143 else 191)
            \<and> nth_in r 1 128 191 \<and> nth_in r 2 128 191
         then 4 else 0)
      else 0)"

text \<open>The encoding of a code point; the callers pass no surrogate and nothing above \<open>0x10FFFF\<close>.\<close>

definition utf8 :: "nat \<Rightarrow> string" where
  "utf8 n =
     (if n < 128 then [char_of n]
      else if n < 2048 then [char_of (192 + n div 64), char_of (128 + n mod 64)]
      else if n < 65536 then
        [char_of (224 + n div 4096), char_of (128 + n div 64 mod 64), char_of (128 + n mod 64)]
      else [char_of (240 + n div 262144), char_of (128 + n div 4096 mod 64),
            char_of (128 + n div 64 mod 64), char_of (128 + n mod 64)])"

text \<open>\<^verbatim>\<open>utf8.RuneError\<close>, U+FFFD, encoded.\<close>

definition rune_error :: string where "rune_error = utf8 65533"

text \<open>\<^verbatim>\<open>utf8.ValidString\<close>.\<close>

fun valid_utf8 :: "string \<Rightarrow> bool" where
  "valid_utf8 [] = True"
| "valid_utf8 (c # r) =
     (let n = rune_len (c # r) in n \<noteq> 0 \<and> valid_utf8 (drop (n - 1) r))"

section \<open>encoding/json: strings\<close>

definition quot :: char where "quot = CHR 0x22"
definition backslash :: char where "backslash = CHR 0x5C"

definition hex_val :: "char \<Rightarrow> nat option" where
  "hex_val c =
     (let x = code c in
      if 48 \<le> x \<and> x \<le> 57 then Some (x - 48)
      else if 97 \<le> x \<and> x \<le> 102 then Some (x - 87)
      else if 65 \<le> x \<and> x \<le> 70 then Some (x - 55)
      else None)"

text \<open>The four hexadecimal digits of an escape.\<close>

definition hex4 :: "string \<Rightarrow> nat option" where
  "hex4 s = (case s of
     a # b # c # d # r \<Rightarrow>
       (case (hex_val a, hex_val b, hex_val c, hex_val d) of
          (Some w, Some x, Some y, Some z) \<Rightarrow> Some (((w * 16 + x) * 16 + y) * 16 + z)
        | _ \<Rightarrow> None)
   | _ \<Rightarrow> None)"

text \<open>\<^verbatim>\<open>getu4\<close>: a whole \<^verbatim>\<open>\uXXXX\<close>.\<close>

definition getu4 :: "string \<Rightarrow> nat option" where
  "getu4 s = (case s of a # b # r \<Rightarrow> if a = backslash \<and> b = CHR ''u'' then hex4 r else None | _ \<Rightarrow> None)"

definition escaped :: "char \<Rightarrow> char" where
  "escaped e =
     (if e = CHR ''b'' then CHR 0x08 else if e = CHR ''f'' then CHR 0x0C
      else if e = CHR ''n'' then CHR 0x0A else if e = CHR ''r'' then CHR 0x0D
      else if e = CHR ''t'' then CHR 0x09 else e)"

text \<open>
  The scanner's states inside a string literal, from after its opening quote: the raw contents
  and what follows the closing quote.
\<close>

fun scan_string :: "string \<Rightarrow> (string \<times> string) option" where
  "scan_string [] = None"
| "scan_string (c # r) =
     (if c = quot then Some ([], r)
      else if c = backslash then
        (case r of
           [] \<Rightarrow> None
         | e # r1 \<Rightarrow>
             if e \<in> set [CHR ''b'', CHR ''f'', CHR ''n'', CHR ''r'', CHR ''t'', backslash, CHR 0x2F, quot]
             then map_option (\<lambda>(raw, rest). (c # e # raw, rest)) (scan_string r1)
             else if e = CHR ''u'' \<and> hex4 r1 \<noteq> None
             then map_option (\<lambda>(raw, rest). (c # e # take 4 r1 @ raw, rest)) (scan_string (drop 4 r1))
             else None)
      else if code c < 32 then None
      else map_option (\<lambda>(raw, rest). (c # raw, rest)) (scan_string r))"

text \<open>
  \<^verbatim>\<open>unquote\<close> on scanned contents: escapes, surrogate pairs, and U+FFFD for a lone surrogate or
  a byte that is not UTF-8.
\<close>

fun unquote :: "string \<Rightarrow> string" where
  "unquote [] = []"
| "unquote (c # r) =
     (if c = backslash then
        (case r of
           [] \<Rightarrow> []
         | e # r1 \<Rightarrow>
             if e = CHR ''u'' then
               (case hex4 r1 of
                  None \<Rightarrow> []
                | Some u \<Rightarrow>
                    if 55296 \<le> u \<and> u < 57344 then
                      (case getu4 (drop 4 r1) of
                         Some v \<Rightarrow>
                           if u < 56320 \<and> 56320 \<le> v \<and> v < 57344
                           then utf8 (65536 + (u - 55296) * 1024 + (v - 56320)) @ unquote (drop 10 r1)
                           else rune_error @ unquote (drop 4 r1)
                       | None \<Rightarrow> rune_error @ unquote (drop 4 r1))
                    else utf8 u @ unquote (drop 4 r1))
             else escaped e # unquote r1)
      else
        (let n = rune_len (c # r) in
         if n = 0 then rune_error @ unquote r
         else c # take (n - 1) r @ unquote (drop (n - 1) r)))"

text \<open>\<^verbatim>\<open>appendString\<close> with HTML escaping: the contents of the literal that the encoder writes.\<close>

definition hex_digit :: "nat \<Rightarrow> char" where
  "hex_digit d = (if d < 10 then char_of (48 + d) else char_of (87 + d))"

definition html_safe :: "char \<Rightarrow> bool" where
  "html_safe c \<longleftrightarrow> 32 \<le> code c \<and> code c < 128
     \<and> c \<notin> set [quot, backslash, CHR 0x3C, CHR 0x3E, CHR 0x26]"

definition escape_ascii :: "char \<Rightarrow> string" where
  "escape_ascii c =
     (if c = quot \<or> c = backslash then [backslash, c]
      else if c = CHR 0x08 then [backslash, CHR ''b''] else if c = CHR 0x0C then [backslash, CHR ''f'']
      else if c = CHR 0x0A then [backslash, CHR ''n''] else if c = CHR 0x0D then [backslash, CHR ''r'']
      else if c = CHR 0x09 then [backslash, CHR ''t'']
      else [backslash, CHR ''u'', CHR ''0'', CHR ''0'', hex_digit (code c div 16), hex_digit (code c mod 16)])"

fun escape :: "string \<Rightarrow> string" where
  "escape [] = []"
| "escape (c # r) =
     (if code c < 128 then (if html_safe c then [c] else escape_ascii c) @ escape r
      else
        (let n = rune_len (c # r); enc = c # take (n - 1) r in
         if n = 0 then [backslash] @ ''ufffd'' @ escape r
         else if enc = utf8 8232 then [backslash] @ ''u2028'' @ escape (drop (n - 1) r)
         else if enc = utf8 8233 then [backslash] @ ''u2029'' @ escape (drop (n - 1) r)
         else enc @ escape (drop (n - 1) r)))"

text \<open>A literal that the encoder wrote is scanned to its closing quote and unquoted to the string.\<close>

lemma nth_in_take: "m \<le> length r \<Longrightarrow> i < m \<Longrightarrow> nth_in (take m r @ t) i lo hi = nth_in r i lo hi"
  by (simp add: nth_in_def nth_append)

lemma nth_inD: "nth_in r i lo hi \<Longrightarrow> i < length r \<and> lo \<le> code (r ! i)"
  by (simp add: nth_in_def)

lemma rune_len_ascii [simp]: "code c < 128 \<Longrightarrow> rune_len (c # r) = 1"
  by simp

declare rune_len.simps(2) [simp del]

text \<open>A sequence of several bytes: its length, and the conditions on the bytes after the first.\<close>

lemma rune_len_multi:
  assumes "128 \<le> code c" and "rune_len (c # r) = n" and "n \<noteq> 0"
  shows "2 \<le> n \<and> n - 1 \<le> length r \<and> (\<forall>i < n - 1. 128 \<le> code (r ! i))
    \<and> rune_len (c # take (n - 1) r @ t) = n"
proof -
  consider (two) "194 \<le> code c" "code c \<le> 223" | (three) "224 \<le> code c" "code c \<le> 239"
    | (four) "240 \<le> code c" "code c \<le> 244"
    using assms by (auto simp: rune_len.simps Let_def split: if_splits)
  then show ?thesis
  proof cases
    case two
    then have n: "n = 2" and c: "nth_in r 0 128 191"
      using assms by (auto simp: rune_len.simps Let_def split: if_splits)
    from nth_inD [OF c] have "1 \<le> length r" by (cases r) simp_all
    with two n c nth_inD [OF c] show ?thesis
      by (simp add: rune_len.simps Let_def nth_in_take)
  next
    case three
    then have n: "n = 3" and c: "nth_in r 0 (if code c = 224 then 160 else 128) (if code c = 237 then 159 else 191)"
        "nth_in r 1 128 191"
      using assms by (auto simp: rune_len.simps Let_def split: if_splits)
    have l: "2 \<le> length r" using nth_inD [OF c(2)] by simp
    have all: "\<forall>i < 2. 128 \<le> code (r ! i)"
      using nth_inD [OF c(1)] nth_inD [OF c(2)] by (auto simp: less_2_cases_iff split: if_splits)
    from three n c l all show ?thesis
      by (simp add: rune_len.simps Let_def nth_in_take)
  next
    case four
    then have n: "n = 4" and c: "nth_in r 0 (if code c = 240 then 144 else 128) (if code c = 244 then 143 else 191)"
        "nth_in r 1 128 191" "nth_in r 2 128 191"
      using assms by (auto simp: rune_len.simps Let_def split: if_splits)
    have l: "3 \<le> length r" using nth_inD [OF c(3)] by simp
    have all: "\<forall>i < 3. 128 \<le> code (r ! i)"
      using nth_inD [OF c(1)] nth_inD [OF c(2)] nth_inD [OF c(3)]
      by (auto simp: numeral_3_eq_3 numeral_2_eq_2 less_Suc_eq split: if_splits)
    from four n c l all show ?thesis
      by (simp add: rune_len.simps Let_def nth_in_take)
  qed
qed

lemma code_special [simp]: "code quot = 34" "code backslash = 92"
  by (simp_all add: quot_def backslash_def)

lemma high_not_special: "128 \<le> code c \<Longrightarrow> c \<noteq> quot \<and> c \<noteq> backslash"
  by auto

lemma scan_string_high:
  "\<forall>x \<in> set xs. 128 \<le> code x \<Longrightarrow>
    scan_string (xs @ r) = map_option (\<lambda>(raw, rest). (xs @ raw, rest)) (scan_string r)"
proof (induction xs)
  case Nil
  show ?case by (cases "scan_string r") auto
next
  case (Cons x xs)
  then have "x \<noteq> quot" "x \<noteq> backslash" "\<not> code x < 32" using high_not_special by auto
  with Cons show ?case by (cases "scan_string r") auto
qed

lemma unquote_high:
  assumes "128 \<le> code c" and "rune_len (c # r) = n" and "n \<noteq> 0"
  shows "unquote ((c # take (n - 1) r) @ t) = (c # take (n - 1) r) @ unquote t"
proof -
  note m = rune_len_multi [OF assms, of t]
  have "c \<noteq> backslash" using high_not_special [OF assms(1)] by simp
  with m assms(3) show ?thesis by (simp add: Let_def)
qed

lemma hex_val_digit: "d < 16 \<Longrightarrow> hex_val (hex_digit d) = Some d"
  by (auto simp: hex_val_def hex_digit_def Let_def)

lemma hex4_ascii: "n < 128 \<Longrightarrow> hex4 (CHR ''0'' # CHR ''0'' # hex_digit (n div 16) # hex_digit (n mod 16) # t) = Some n"
proof -
  have "hex_val CHR ''0'' = Some 0" by (simp add: hex_val_def Let_def)
  then show "n < 128 \<Longrightarrow> ?thesis" by (simp add: hex4_def hex_val_digit)
qed

lemma escape_ascii_scan:
  assumes "code c < 128" and "\<not> html_safe c"
  shows "scan_string (escape_ascii c @ t) = map_option (\<lambda>(raw, rest). (escape_ascii c @ raw, rest)) (scan_string t)"
    and "unquote (escape_ascii c @ t) = c # unquote t"
proof -
  consider (short) "c \<in> set [quot, backslash, CHR 0x08, CHR 0x0C, CHR 0x0A, CHR 0x0D, CHR 0x09]"
    | (long) "escape_ascii c = [backslash, CHR ''u'', CHR ''0'', CHR ''0'', hex_digit (code c div 16), hex_digit (code c mod 16)]"
    by (cases "c \<in> set [quot, backslash, CHR 0x08, CHR 0x0C, CHR 0x0A, CHR 0x0D, CHR 0x09]")
      (simp_all add: escape_ascii_def)
  then have "scan_string (escape_ascii c @ t) = map_option (\<lambda>(raw, rest). (escape_ascii c @ raw, rest)) (scan_string t)
    \<and> unquote (escape_ascii c @ t) = c # unquote t"
  proof cases
    case short
    then show ?thesis by (auto simp: escape_ascii_def escaped_def quot_def backslash_def)
  next
    case long
    have u: "utf8 (code c) = [c]" using assms(1) by (simp add: utf8_def)
    have q: "backslash \<noteq> quot" by (simp add: quot_def backslash_def)
    show ?thesis using assms(1) q by (simp add: long hex4_ascii u quot_def backslash_def)
  qed
  then show "scan_string (escape_ascii c @ t) = map_option (\<lambda>(raw, rest). (escape_ascii c @ raw, rest)) (scan_string t)"
    "unquote (escape_ascii c @ t) = c # unquote t" by simp_all
qed

lemma escape_line_sep:
  assumes "u \<in> {CHR ''8'', CHR ''9''}" and "p = backslash # ''u202'' @ [u]"
  shows "scan_string (p @ t) = map_option (\<lambda>(raw, rest). (p @ raw, rest)) (scan_string t)"
    and "unquote (p @ t) = utf8 (if u = CHR ''8'' then 8232 else 8233) @ unquote t"
  using assms by (auto simp: hex4_def hex_val_def Let_def quot_def backslash_def)

lemma utf8_seps: "utf8 8233 \<noteq> utf8 8232"
  by (simp add: utf8_def)

lemma scan_escape: "valid_utf8 s \<Longrightarrow> scan_string (escape s @ quot # r) = Some (escape s, r)
    \<and> unquote (escape s) = s"
proof (induction s rule: valid_utf8.induct)
  case (2 c xs)
  let ?n = "rune_len (c # xs)"
  have v: "?n \<noteq> 0" "valid_utf8 (drop (?n - 1) xs)" using 2(2) by (simp_all add: Let_def)
  note IH = 2(1) [OF refl v(2)]
  show ?case
  proof (cases "code c < 128")
    case True
    then have IH: "scan_string (escape xs @ quot # r) = Some (escape xs, r)" "unquote (escape xs) = xs"
      using IH by simp_all
    show ?thesis
    proof (cases "html_safe c")
      case True
      then have "c \<noteq> quot" "c \<noteq> backslash" "\<not> code c < 32" by (auto simp: html_safe_def)
      with True \<open>code c < 128\<close> IH show ?thesis by (simp add: Let_def)
    next
      case False
      with True IH escape_ascii_scan [OF True False, of "escape xs @ quot # r"]
        escape_ascii_scan(2) [OF True False, of "escape xs"]
      show ?thesis by simp
    qed
  next
    case False
    then have hi: "128 \<le> code c" by simp
    let ?enc = "c # take (?n - 1) xs"
    have all: "\<forall>x \<in> set ?enc. 128 \<le> code x"
      using rune_len_multi [OF hi refl v(1)] hi by (auto simp: in_set_conv_nth)
    have s: "?enc @ drop (?n - 1) xs = c # xs" by simp
    consider (a) "?enc = utf8 8232" | (b) "?enc = utf8 8233" | (c) "?enc \<noteq> utf8 8232" "?enc \<noteq> utf8 8233"
      by blast
    then show ?thesis
    proof cases
      case a
      define p where "p = backslash # ''u202'' @ [CHR ''8'']"
      have e: "escape (c # xs) = p @ escape (drop (?n - 1) xs)"
        using False v(1) a by (simp add: Let_def p_def)
      show ?thesis
        unfolding e using IH escape_line_sep [OF _ p_def] s [unfolded a] by simp
    next
      case b
      define p where "p = backslash # ''u202'' @ [CHR ''9'']"
      have e: "escape (c # xs) = p @ escape (drop (?n - 1) xs)"
        using False v(1) b utf8_seps by (simp add: Let_def p_def)
      show ?thesis
        unfolding e using IH escape_line_sep [OF _ p_def] s [unfolded b] by simp
    next
      case c
      then have e: "escape (c # xs) = ?enc @ escape (drop (?n - 1) xs)"
        using False v(1) by (simp add: Let_def)
      show ?thesis
        unfolding e using IH scan_string_high [OF all] unquote_high [OF hi refl v(1)] s by simp
    qed
  qed
qed (simp add: quot_def)

end
