(* ===== verification/Json_Doc.thy ===== *)
theory Json_Doc
  imports Go_Json
begin

text \<open>
  The documents of \<^verbatim>\<open>encoding/json\<close>: the scanner of a \<^verbatim>\<open>Decoder\<close>, the encoder, and the decoding
  of an object into the fields of a struct. A number is kept as its literal.

  Shown here: the fuel of the parser is enough from twice the length of the text on, and a
  document that the encoder wrote is parsed back, whatever follows it.
\<close>

section \<open>encoding/json: documents\<close>

datatype json =
    JNull
  | JBool bool
  | JNumber string
  | JString string
  | JArray "json list"
  | JObject "(string \<times> json) list"

definition skip_space :: "string \<Rightarrow> string" where
  "skip_space s = dropWhile (\<lambda>c. c \<in> {CHR 0x20, CHR 0x09, CHR 0x0D, CHR 0x0A}) s"

text \<open>The number states of the scanner: a literal at the start of the text and what follows it.\<close>

definition scan_frac :: "string \<Rightarrow> (string \<times> string) option" where
  "scan_frac s = (case s of
     c # r \<Rightarrow>
       if c = CHR ''.'' then
         (if takeWhile is_digit r = [] then None
          else Some (c # takeWhile is_digit r, dropWhile is_digit r))
       else Some ([], s)
   | [] \<Rightarrow> Some ([], s))"

definition scan_exp :: "string \<Rightarrow> (string \<times> string) option" where
  "scan_exp s = (case s of
     c # r \<Rightarrow>
       if c = CHR ''e'' \<or> c = CHR ''E'' then
         (let (sgn, ds) = (case r of g # r1 \<Rightarrow> if g = CHR ''+'' \<or> g = CHR ''-'' then ([g], r1) else ([], r)
                                   | [] \<Rightarrow> ([], r))
          in if takeWhile is_digit ds = [] then None
             else Some (c # sgn @ takeWhile is_digit ds, dropWhile is_digit ds))
       else Some ([], s)
   | [] \<Rightarrow> Some ([], s))"

definition scan_int :: "string \<Rightarrow> (string \<times> string) option" where
  "scan_int s = (case s of
     c # r \<Rightarrow>
       if c = CHR ''0'' then Some ([c], r)
       else if is_digit c then Some (c # takeWhile is_digit r, dropWhile is_digit r)
       else None
   | [] \<Rightarrow> None)"

definition scan_number :: "string \<Rightarrow> (string \<times> string) option" where
  "scan_number s =
     (let (neg, r) = (case s of c # r \<Rightarrow> if c = CHR ''-'' then ([c], r) else ([], s) | [] \<Rightarrow> ([], s))
      in Option.bind (scan_int r) (\<lambda>(i, r1).
         Option.bind (scan_frac r1) (\<lambda>(f, r2).
         Option.bind (scan_exp r2) (\<lambda>(e, r3).
           Some (neg @ i @ f @ e, r3)))))"

definition literal :: "string \<Rightarrow> json \<Rightarrow> string \<Rightarrow> (json \<times> string) option" where
  "literal lit v s = (if take (length lit) s = lit then Some (v, drop (length lit) s) else None)"

text \<open>
  The first value of a text and what follows it; \<open>k\<close> is fuel and \<open>d\<close> the number of arrays and
  objects that are open, of which the scanner allows 10000.
\<close>

definition max_depth :: nat where "max_depth = 10000"

fun parse_value :: "nat \<Rightarrow> nat \<Rightarrow> string \<Rightarrow> (json \<times> string) option"
and parse_members :: "nat \<Rightarrow> nat \<Rightarrow> string \<Rightarrow> ((string \<times> json) list \<times> string) option"
and parse_elements :: "nat \<Rightarrow> nat \<Rightarrow> string \<Rightarrow> (json list \<times> string) option" where
  "parse_value 0 d s = None"
| "parse_value (Suc k) d s =
     (case skip_space s of
        [] \<Rightarrow> None
      | c # r \<Rightarrow>
          if c = CHR 0x7B then
            (if max_depth \<le> d then None
             else if take 1 (skip_space r) = [CHR 0x7D] then Some (JObject [], drop 1 (skip_space r))
             else map_option (\<lambda>(ms, t). (JObject ms, t)) (parse_members k (Suc d) r))
          else if c = CHR 0x5B then
            (if max_depth \<le> d then None
             else if take 1 (skip_space r) = [CHR 0x5D] then Some (JArray [], drop 1 (skip_space r))
             else map_option (\<lambda>(vs, t). (JArray vs, t)) (parse_elements k (Suc d) r))
          else if c = quot then map_option (\<lambda>(raw, t). (JString (unquote raw), t)) (scan_string r)
          else if c = CHR ''t'' then literal ''true'' (JBool True) (c # r)
          else if c = CHR ''f'' then literal ''false'' (JBool False) (c # r)
          else if c = CHR ''n'' then literal ''null'' JNull (c # r)
          else map_option (\<lambda>(n, t). (JNumber n, t)) (scan_number (c # r)))"
| "parse_members 0 d s = None"
| "parse_members (Suc k) d s =
     (case skip_space s of
        [] \<Rightarrow> None
      | c # r \<Rightarrow>
          if c \<noteq> quot then None
          else Option.bind (scan_string r) (\<lambda>(raw, r1).
            if take 1 (skip_space r1) \<noteq> [CHR 0x3A] then None
            else Option.bind (parse_value k d (drop 1 (skip_space r1))) (\<lambda>(v, r2).
              if take 1 (skip_space r2) = [CHR 0x7D] then Some ([(unquote raw, v)], drop 1 (skip_space r2))
              else if take 1 (skip_space r2) = [CHR 0x2C] then
                map_option (\<lambda>(ms, t). ((unquote raw, v) # ms, t))
                  (parse_members k d (drop 1 (skip_space r2)))
              else None)))"
| "parse_elements 0 d s = None"
| "parse_elements (Suc k) d s =
     Option.bind (parse_value k d s) (\<lambda>(v, r).
       if take 1 (skip_space r) = [CHR 0x5D] then Some ([v], drop 1 (skip_space r))
       else if take 1 (skip_space r) = [CHR 0x2C] then
         map_option (\<lambda>(vs, t). (v # vs, t)) (parse_elements k d (drop 1 (skip_space r)))
       else None)"

text \<open>The value that \<^verbatim>\<open>Decoder.Decode\<close> reads first from a stream; what follows it is not looked at.\<close>

definition first_value :: "string \<Rightarrow> json option" where
  "first_value s = map_option fst (parse_value (2 * length s + 2) 0 s)"

lemma skip_space_length: "length (skip_space s) \<le> length s"
  by (simp add: skip_space_def length_dropWhile_le)

lemma scan_string_length: "scan_string s = Some (raw, t) \<Longrightarrow> length t < length s"
proof (induction s arbitrary: raw rule: scan_string.induct)
  case (2 c r)
  consider (close) "c = quot" | (plain) "c \<noteq> quot" "c \<noteq> backslash" | (esc) "c = backslash" by blast
  then show ?case
  proof cases
    case close
    with 2(4) show ?thesis by simp
  next
    case plain
    with 2(4) obtain raw' where "scan_string r = Some (raw', t)"
      by (auto simp: map_option_eq_Some split: if_splits)
    with 2(3) plain 2(4) show ?thesis by (force split: if_splits)
  next
    case esc
    then have q: "c \<noteq> quot" by (simp add: quot_def backslash_def)
    with esc 2(4) obtain e r1 where r: "r = e # r1" by (auto split: list.splits)
    let ?simple = "e \<in> set [CHR ''b'', CHR ''f'', CHR ''n'', CHR ''r'', CHR ''t'', backslash, CHR 0x2F, quot]"
    show ?thesis
    proof (cases ?simple)
      case True
      with 2(4) esc q r obtain raw' where "scan_string r1 = Some (raw', t)"
        by (auto simp: map_option_eq_Some simp del: list.set)
      with 2(1) [OF q esc r True] show ?thesis by (simp add: r)
    next
      case False
      with 2(4) esc q r obtain raw' where u: "e = CHR ''u'' \<and> hex4 r1 \<noteq> None" "scan_string (drop 4 r1) = Some (raw', t)"
        by (auto simp: map_option_eq_Some simp del: list.set split: if_splits)
      with 2(2) [OF q esc r False u(1)] show ?thesis by (simp add: r)
    qed
  qed
qed simp

lemma literal_length: "literal lit v s = Some (w, t) \<Longrightarrow> lit \<noteq> [] \<Longrightarrow> s \<noteq> [] \<Longrightarrow> length t < length s"
  by (auto simp: literal_def split: if_splits)

lemma scan_int_length: "scan_int s = Some (n, t) \<Longrightarrow> length t < length s"
  by (auto simp: scan_int_def less_Suc_eq_le length_dropWhile_le split: list.splits if_splits)

lemma scan_frac_length: "scan_frac s = Some (n, t) \<Longrightarrow> length t \<le> length s"
  by (auto simp: scan_frac_def le_SucI length_dropWhile_le split: list.splits if_splits)

lemma scan_exp_length: "scan_exp s = Some (n, t) \<Longrightarrow> length t \<le> length s"
  by (auto simp: scan_exp_def Let_def le_SucI length_dropWhile_le split: list.splits if_splits)

lemma scan_number_length: 
  assumes "scan_number s = Some (n, t)" shows "length t < length s"
proof -
  obtain neg r where nr: "(case s of c # r \<Rightarrow> if c = CHR ''-'' then ([c], r) else ([], s) | [] \<Rightarrow> ([], s)) = (neg, r)"
    by (meson surj_pair)
  then have "length r \<le> length s" by (auto split: list.splits if_splits)
  moreover from assms nr obtain i r1 f r2 e r3 where
    "scan_int r = Some (i, r1)" "scan_frac r1 = Some (f, r2)" "scan_exp r2 = Some (e, r3)" "t = r3"
    by (auto simp: scan_number_def Option.bind_eq_Some_conv)
  ultimately show ?thesis
    using scan_int_length scan_frac_length scan_exp_length by fastforce
qed

lemma parse_length:
  "parse_value k d s = Some (v, t) \<Longrightarrow> length t < length s"
  "parse_members k d s = Some (ms, t) \<Longrightarrow> length t < length s"
  "parse_elements k d s = Some (vs, t) \<Longrightarrow> length t < length s"
proof (induction k d s and k d s and k d s arbitrary: v t and ms t and vs t
    rule: parse_value_parse_members_parse_elements.induct)
  case (2 k d s)
  obtain c r where sp: "skip_space s = c # r" using 2(3) by (auto split: list.splits)
  have le: "Suc (length r) \<le> length s" using skip_space_length [of s] sp by simp
  have le2: "length (skip_space r) \<le> length r" by (rule skip_space_length)
  show ?case
    using 2(3) sp le le2 2(1) [OF sp] 2(2) [OF sp]
    by (auto simp: map_option_eq_Some split: if_splits dest!: literal_length scan_string_length scan_number_length)
next
  case (4 k d s)
  obtain r where sp: "skip_space s = quot # r" using 4(3) by (auto split: list.splits if_splits)
  then obtain raw r1 where r1: "scan_string r = Some (raw, r1)"
    using 4(3) by (auto simp: Option.bind_eq_Some_conv)
  then obtain v r2 where c: "take 1 (skip_space r1) = [CHR 0x3A]"
    and v: "parse_value k d (drop 1 (skip_space r1)) = Some (v, r2)"
    using 4(3) sp by (auto simp: Option.bind_eq_Some_conv split: if_splits)
  have le: "length r2 < length s"
    using skip_space_length [of s] scan_string_length [OF r1] skip_space_length [of r1] 
      4(1) [OF sp _ r1 refl _ v] c sp by simp
  show ?case
    using 4(2) [OF sp _ r1 refl _ v refl] 4(3) le skip_space_length [of r2] sp r1 c v
    by (auto simp: map_option_eq_Some split: if_splits)
next
  case (6 k d s)
  obtain v r where v: "parse_value k d s = Some (v, r)"
    using 6(3) by (auto simp: Option.bind_eq_Some_conv)
  show ?case
    using 6(1) [OF v] 6(2) [OF v refl] 6(3) v skip_space_length [of r]
    by (auto simp: map_option_eq_Some split: if_splits)
qed simp_all

text \<open>One more unit of fuel, from what it is used for.\<close>

lemma parse_members_cong:
  assumes "\<And>r raw r1. skip_space s = quot # r \<Longrightarrow> scan_string r = Some (raw, r1) \<Longrightarrow> take 1 (skip_space r1) = [CHR 0x3A] \<Longrightarrow>
      parse_value k d (drop 1 (skip_space r1)) = parse_value j d (drop 1 (skip_space r1))"
    and "\<And>r raw r1 v r2. skip_space s = quot # r \<Longrightarrow> scan_string r = Some (raw, r1) \<Longrightarrow> take 1 (skip_space r1) = [CHR 0x3A] \<Longrightarrow>
      parse_value k d (drop 1 (skip_space r1)) = Some (v, r2) \<Longrightarrow> take 1 (skip_space r2) = [CHR 0x2C] \<Longrightarrow>
      parse_members k d (drop 1 (skip_space r2)) = parse_members j d (drop 1 (skip_space r2))"
  shows "parse_members (Suc k) d s = parse_members (Suc j) d s"
proof (cases "\<exists>r raw r1. skip_space s = quot # r \<and> scan_string r = Some (raw, r1) \<and> take 1 (skip_space r1) = [CHR 0x3A]")
  case True
  then obtain r raw r1 where r: "skip_space s = quot # r" "scan_string r = Some (raw, r1)" "take 1 (skip_space r1) = [CHR 0x3A]" by blast
  show ?thesis
  proof (cases "parse_value k d (drop 1 (skip_space r1))")
    case None
    with assms(1) [OF r] r show ?thesis by simp
  next
    case (Some p)
    then obtain v r2 where p: "parse_value k d (drop 1 (skip_space r1)) = Some (v, r2)" by (cases p) simp
    moreover have "parse_value j d (drop 1 (skip_space r1)) = Some (v, r2)" using assms(1) [OF r] p by simp
    ultimately show ?thesis using assms(2) [OF r p] r
      by (cases "take 1 (skip_space r2) = [CHR 0x7D]"; cases "take 1 (skip_space r2) = [CHR 0x2C]") simp_all
  qed
next
  case False
  show ?thesis
  proof (cases "\<exists>r raw r1. skip_space s = quot # r \<and> scan_string r = Some (raw, r1)")
    case True
    with False show ?thesis by auto
  next
    case none: False
    then show ?thesis by (cases "skip_space s"; cases "scan_string (tl (skip_space s))") auto
  qed
qed

lemma parse_elements_cong:
  assumes "parse_value k d s = parse_value j d s"
    and "\<And>v r. parse_value k d s = Some (v, r) \<Longrightarrow> take 1 (skip_space r) = [CHR 0x2C] \<Longrightarrow>
      parse_elements k d (drop 1 (skip_space r)) = parse_elements j d (drop 1 (skip_space r))"
  shows "parse_elements (Suc k) d s = parse_elements (Suc j) d s"
proof (cases "parse_value k d s")
  case None
  with assms(1) show ?thesis by simp
next
  case (Some p)
  then obtain v r where p: "parse_value k d s = Some (v, r)" by (cases p) simp
  moreover have "parse_value j d s = Some (v, r)" using assms(1) p by simp
  ultimately show ?thesis using assms(2) [OF p]
    by (cases "take 1 (skip_space r) = [CHR 0x5D]"; cases "take 1 (skip_space r) = [CHR 0x2C]") simp_all
qed

lemma parse_fuel:
  "2 * length s + 1 \<le> k \<Longrightarrow> 2 * length s + 1 \<le> k' \<Longrightarrow> parse_value k d s = parse_value k' d s"
  "2 * length s + 1 \<le> k \<Longrightarrow> 2 * length s + 1 \<le> k' \<Longrightarrow> parse_members k d s = parse_members k' d s"
  "2 * length s + 2 \<le> k \<Longrightarrow> 2 * length s + 2 \<le> k' \<Longrightarrow> parse_elements k d s = parse_elements k' d s"
proof (induction k d s and k d s and k d s arbitrary: k' and k' and k'
    rule: parse_value_parse_members_parse_elements.induct)
  case (2 k d s)
  obtain j where k': "k' = Suc j" using 2(4) by (cases k') auto
  show ?case
  proof (cases "skip_space s")
    case Nil
    then show ?thesis by (simp add: k')
  next
    case (Cons c r)
    have "Suc (length r) \<le> length s" using skip_space_length [of s] Cons by simp
    with 2(3,4) k' have le: "2 * length r + 2 \<le> k" "2 * length r + 2 \<le> j" by simp_all
    consider (obj) "c = CHR 0x7B" | (arr) "c \<noteq> CHR 0x7B" "c = CHR 0x5B" | (other) "c \<noteq> CHR 0x7B" "c \<noteq> CHR 0x5B"
      by blast
    then show ?thesis
    proof cases
      case obj
      with 2(1) [OF Cons obj, of j] le Cons show ?thesis
        by (cases "max_depth \<le> d"; cases "take 1 (skip_space r) = [CHR 0x7D]") (simp_all add: k')
    next
      case arr
      with 2(2) [OF Cons arr, of j] le Cons show ?thesis
        by (cases "max_depth \<le> d"; cases "take 1 (skip_space r) = [CHR 0x5D]") (simp_all add: k')
    next
      case other
      then show ?thesis by (simp only: k' parse_value.simps Cons list.case if_False)
    qed
  qed
next
  case (4 k d s)
  obtain j where k': "k' = Suc j" using 4(4) by (cases k') auto
  have len: "length (drop 1 (skip_space r1)) < length s" if "skip_space s = quot # r" "scan_string r = Some (raw, r1)" for r raw r1
    using skip_space_length [of s] scan_string_length [OF that(2)] skip_space_length [of r1] that(1) by simp
  show ?case unfolding k'
  proof (rule parse_members_cong)
    fix r raw r1
    assume r: "skip_space s = quot # r" "scan_string r = Some (raw, r1)" "take 1 (skip_space r1) = [CHR 0x3A]"
    show "parse_value k d (drop 1 (skip_space r1)) = parse_value j d (drop 1 (skip_space r1))"
      using 4(1) [OF r(1) _ r(2) refl] 4(3,4) len [OF r(1,2)] k' r(3) by simp
  next
    fix r raw r1 v r2
    assume r: "skip_space s = quot # r" "scan_string r = Some (raw, r1)" "take 1 (skip_space r1) = [CHR 0x3A]"
      and v: "parse_value k d (drop 1 (skip_space r1)) = Some (v, r2)" and comma: "take 1 (skip_space r2) = [CHR 0x2C]"
    show "parse_members k d (drop 1 (skip_space r2)) = parse_members j d (drop 1 (skip_space r2))"
      using 4(2) [OF r(1) _ r(2) refl _ v refl _ comma] 4(3,4) len [OF r(1,2)] k' r(3) comma
        parse_length(1) [OF v] skip_space_length [of r2] by simp
  qed
next
  case (6 k d s)
  obtain j where k': "k' = Suc j" using 6(4) by (cases k') auto
  show ?case unfolding k'
  proof (rule parse_elements_cong)
    show "parse_value k d s = parse_value j d s" using 6(1) [of j] 6(3,4) k' by simp
    fix v r
    assume v: "parse_value k d s = Some (v, r)" and comma: "take 1 (skip_space r) = [CHR 0x2C]"
    show "parse_elements k d (drop 1 (skip_space r)) = parse_elements j d (drop 1 (skip_space r))"
      using 6(2) [OF v refl _ comma] 6(3,4) k' parse_length(1) [OF v] skip_space_length [of r] comma by simp
  qed
qed simp_all

section \<open>encoding/json: the encoder\<close>

text \<open>
  The text that \<^verbatim>\<open>Marshal\<close> and \<^verbatim>\<open>Encoder.Encode\<close> write, without the line feed that \<^verbatim>\<open>Encode\<close>
  adds. The members of a map are written in the order of its keys, those of a struct in the
  order of its fields: the order in which \<open>JObject\<close> holds them.
\<close>

fun join :: "string list \<Rightarrow> string" where
  "join [] = []"
| "join [x] = x"
| "join (x # y # zs) = x @ CHR 0x2C # join (y # zs)"

definition quoted :: "string \<Rightarrow> string" where
  "quoted s = quot # escape s @ [quot]"

fun json_text :: "json \<Rightarrow> string" where
  "json_text JNull = ''null''"
| "json_text (JBool b) = (if b then ''true'' else ''false'')"
| "json_text (JNumber n) = n"
| "json_text (JString s) = quoted s"
| "json_text (JArray vs) = CHR 0x5B # join (map json_text vs) @ [CHR 0x5D]"
| "json_text (JObject ms) =
     CHR 0x7B # join (map (\<lambda>(name, v). quoted name @ CHR 0x3A # json_text v) ms) @ [CHR 0x7D]"

definition number_ok :: "string \<Rightarrow> bool" where
  "number_ok n \<longleftrightarrow> n \<noteq> [] \<and> list_all is_digit n \<and> (hd n = CHR ''0'' \<longrightarrow> n = ''0'')"

text \<open>What a program can hold: UTF-8 strings, natural numbers, and no more nesting than is read.\<close>

fun json_ok :: "nat \<Rightarrow> json \<Rightarrow> bool" where
  "json_ok d (JString s) = valid_utf8 s"
| "json_ok d (JNumber n) = number_ok n"
| "json_ok d (JArray vs) = (d < max_depth \<and> (\<forall>v \<in> set vs. json_ok (Suc d) v))"
| "json_ok d (JObject ms) = (d < max_depth \<and> (\<forall>(name, v) \<in> set ms. valid_utf8 name \<and> json_ok (Suc d) v))"
| "json_ok d v = True"

text \<open>What may follow a value.\<close>

definition value_end :: "string \<Rightarrow> bool" where
  "value_end s \<longleftrightarrow> (case s of [] \<Rightarrow> True | c # r \<Rightarrow> c \<in> {CHR 0x2C, CHR 0x5D, CHR 0x7D, CHR 0x0A})"

lemma number_scan:
  assumes "number_ok n" and "value_end r"
  shows "scan_number (n @ r) = Some (n, r)"
proof -
  have stop: "takeWhile is_digit r = []" "dropWhile is_digit r = r"
    "scan_frac r = Some ([], r)" "scan_exp r = Some ([], r)"
    using assms(2) by (auto simp: value_end_def is_digit_def scan_frac_def scan_exp_def split: list.splits)
  obtain c m where n: "n = c # m" and d: "is_digit c" "list_all is_digit m" and z: "c = CHR ''0'' \<Longrightarrow> m = []"
    using assms(1) by (cases n) (auto simp: number_ok_def)
  have "c \<noteq> CHR ''-''" using d(1) by (auto simp: is_digit_def)
  moreover have "takeWhile is_digit (m @ r) = m" "dropWhile is_digit (m @ r) = r"
    using d(2) stop by (simp_all add: list_all_iff takeWhile_append2 dropWhile_append2 takeWhile_append1)
  then have "scan_int (n @ r) = Some (n, r)"
    using d(1) z by (auto simp: scan_int_def n)
  ultimately show ?thesis using stop by (simp add: scan_number_def n)
qed

lemma skip_space_Cons [simp]: "c \<notin> {CHR 0x20, CHR 0x09, CHR 0x0D, CHR 0x0A} \<Longrightarrow> skip_space (c # r) = c # r"
  by (simp add: skip_space_def)

text \<open>The text of a value starts with neither a space nor a closing bracket.\<close>

lemma json_text_hd:
  "json_ok d v \<Longrightarrow> \<exists>c t. json_text v = c # t \<and> c \<notin> {CHR 0x20, CHR 0x09, CHR 0x0D, CHR 0x0A, CHR 0x5D}"
proof (cases v)
  case (JNumber n)
  assume "json_ok d v"
  then obtain c m where "n = c # m" "is_digit c" by (cases n) (auto simp: JNumber number_ok_def)
  then show ?thesis by (auto simp: JNumber is_digit_def)
qed (auto simp: quoted_def quot_def)

lemma quoted_scan: "valid_utf8 s \<Longrightarrow> quoted s @ r = quot # escape s @ quot # r
    \<and> scan_string (escape s @ quot # r) = Some (escape s, r) \<and> unquote (escape s) = s"
  by (simp add: quoted_def scan_escape)

abbreviation member :: "string \<times> json \<Rightarrow> string" where
  "member \<equiv> (\<lambda>(name, v). quoted name @ CHR 0x3A # json_text v)"

definition parses :: "nat \<Rightarrow> json \<Rightarrow> bool" where
  "parses d v \<longleftrightarrow> (\<forall>k r. value_end r \<longrightarrow> 2 * length (json_text v @ r) + 1 \<le> k
     \<longrightarrow> parse_value k d (json_text v @ r) = Some (v, r))"

lemma join_Cons: "join (x # xs) = x @ (if xs = [] then [] else CHR 0x2C # join xs)"
  by (cases xs) simp_all

lemma member_step:
  assumes "valid_utf8 name" and "parses d v" and "value_end rest" and "2 * length (json_text v @ rest) + 1 \<le> j"
  shows "parse_members (Suc j) d (quoted name @ CHR 0x3A # json_text v @ rest) =
     (if take 1 (skip_space rest) = [CHR 0x7D] then Some ([(name, v)], drop 1 (skip_space rest))
      else if take 1 (skip_space rest) = [CHR 0x2C] then
        map_option (\<lambda>(ms, t). ((name, v) # ms, t)) (parse_members j d (drop 1 (skip_space rest)))
      else None)"
proof -
  have v: "parse_value j d (json_text v @ rest) = Some (v, rest)"
    using assms(2-4) by (simp add: parses_def)
  have q: "quot \<notin> {CHR 0x20, CHR 0x09, CHR 0x0D, CHR 0x0A}" by (simp add: quot_def)
  note n = quoted_scan [OF assms(1), of "CHR 0x3A # json_text v @ rest"]
  show ?thesis by (simp add: n v skip_space_Cons [OF q])
qed

lemma parses_members:
  "ms \<noteq> [] \<Longrightarrow> \<forall>(name, v) \<in> set ms. valid_utf8 name \<and> parses d v
    \<Longrightarrow> 2 * length (join (map member ms) @ CHR 0x7D # r) + 1 \<le> k
    \<Longrightarrow> parse_members k d (join (map member ms) @ CHR 0x7D # r) = Some (ms, r)"
proof (induction ms arbitrary: k)
  case (Cons m ms)
  obtain name v where m: "m = (name, v)" by (cases m)
  obtain j where k: "k = Suc j" using Cons.prems(3) by (cases k) simp_all
  let ?rest = "if ms = [] then CHR 0x7D # r else CHR 0x2C # join (map member ms) @ CHR 0x7D # r"
  have t: "join (map member (m # ms)) @ CHR 0x7D # r = quoted name @ CHR 0x3A # json_text v @ ?rest"
    by (simp add: m join_Cons del: join.simps)
  have fuel: "2 * length (json_text v @ ?rest) + 1 \<le> j"
    using Cons.prems(3) unfolding t k by simp
  have "valid_utf8 name" "parses d v" using Cons.prems(2) m by auto
  moreover have "value_end ?rest" by (simp add: value_end_def)
  ultimately have step: "parse_members k d (join (map member (m # ms)) @ CHR 0x7D # r) =
     (if take 1 (skip_space ?rest) = [CHR 0x7D] then Some ([(name, v)], drop 1 (skip_space ?rest))
      else if take 1 (skip_space ?rest) = [CHR 0x2C] then
        map_option (\<lambda>(ms, t). ((name, v) # ms, t)) (parse_members j d (drop 1 (skip_space ?rest)))
      else None)"
    unfolding t k using fuel by (rule member_step)
  show ?case
  proof (cases "ms = []")
    case True
    then show ?thesis unfolding step by (simp add: m)
  next
    case False
    then have "parse_members j d (join (map member ms) @ CHR 0x7D # r) = Some (ms, r)"
      using Cons.IH [of j] Cons.prems(2) fuel by simp
    with False show ?thesis unfolding step by (simp add: m)
  qed
qed simp

lemma parses_elements:
  "vs \<noteq> [] \<Longrightarrow> \<forall>v \<in> set vs. parses d v
    \<Longrightarrow> 2 * length (join (map json_text vs) @ CHR 0x5D # r) + 2 \<le> k
    \<Longrightarrow> parse_elements k d (join (map json_text vs) @ CHR 0x5D # r) = Some (vs, r)"
proof (induction vs arbitrary: k)
  case (Cons v vs)
  obtain j where k: "k = Suc j" using Cons.prems(3) by (cases k) simp_all
  let ?rest = "if vs = [] then CHR 0x5D # r else CHR 0x2C # join (map json_text vs) @ CHR 0x5D # r"
  have t: "join (map json_text (v # vs)) @ CHR 0x5D # r = json_text v @ ?rest"
    by (simp add: join_Cons del: join.simps)
  have fuel: "2 * length (json_text v @ ?rest) + 1 \<le> j"
    using Cons.prems(3) unfolding t k by simp
  have "value_end ?rest" by (simp add: value_end_def)
  with Cons.prems(2) fuel have pv: "parse_value j d (json_text v @ ?rest) = Some (v, ?rest)"
    by (simp add: parses_def del: append_assoc)
  show ?case
  proof (cases "vs = []")
    case True
    with pv show ?thesis unfolding t k by simp
  next
    case False
    then have "parse_elements j d (join (map json_text vs) @ CHR 0x5D # r) = Some (vs, r)"
      using Cons.IH [of j] Cons.prems(2) fuel by simp
    with False pv show ?thesis unfolding t k by simp
  qed
qed simp

lemma parsesI:
  assumes "\<And>k r. value_end r \<Longrightarrow> 2 * length (json_text v @ r) \<le> k \<Longrightarrow> parse_value (Suc k) d (json_text v @ r) = Some (v, r)"
  shows "parses d v"
  unfolding parses_def
proof (intro allI impI)
  fix k r
  assume "value_end r" "2 * length (json_text v @ r) + 1 \<le> k"
  then show "parse_value k d (json_text v @ r) = Some (v, r)" using assms [of r "k - 1"] by (cases k) simp_all
qed

lemma parses_string: "valid_utf8 s \<Longrightarrow> parses d (JString s)"
proof (rule parsesI)
  fix k r
  assume s: "valid_utf8 s"
  have q: "quot \<notin> {CHR 0x20, CHR 0x09, CHR 0x0D, CHR 0x0A}" "quot \<noteq> CHR 0x7B" "quot \<noteq> CHR 0x5B"
    by (simp_all add: quot_def)
  show "parse_value (Suc k) d (json_text (JString s) @ r) = Some (JString s, r)"
    by (simp add: quoted_scan [OF s, of r] skip_space_Cons [OF q(1)] q)
qed

lemma parses_number: "number_ok n \<Longrightarrow> parses d (JNumber n)"
proof (rule parsesI)
  fix k r
  assume num: "number_ok n" and r: "value_end r"
  then obtain c m where n: "n = c # m" and c: "is_digit c" by (cases n) (auto simp: number_ok_def)
  have q: "c \<notin> {CHR 0x20, CHR 0x09, CHR 0x0D, CHR 0x0A}"
    "c \<notin> {CHR 0x7B, CHR 0x5B, quot, CHR ''t'', CHR ''f'', CHR ''n''}"
    using c by (auto simp: is_digit_def quot_def)
  have "scan_number (c # m @ r) = Some (n, r)" using number_scan [OF num r] by (simp add: n)
  then show "parse_value (Suc k) d (json_text (JNumber n) @ r) = Some (JNumber n, r)"
    using q by (simp add: n skip_space_Cons [OF q(1)])
qed

lemma parses_array:
  assumes "d < max_depth" "\<forall>v \<in> set vs. json_ok (Suc d) v \<and> parses (Suc d) v"
  shows "parses d (JArray vs)"
proof (rule parsesI)
  fix k r
  assume l: "2 * length (json_text (JArray vs) @ r) \<le> k"
  show "parse_value (Suc k) d (json_text (JArray vs) @ r) = Some (JArray vs, r)"
  proof (cases "vs = []")
    case True
    with assms(1) show ?thesis by simp
  next
    case False
    then obtain v ws where w: "vs = v # ws" by (cases vs) auto
    with assms(2) obtain c t where c: "json_text v = c # t" "c \<notin> {CHR 0x20, CHR 0x09, CHR 0x0D, CHR 0x0A, CHR 0x5D}"
      using json_text_hd [of "Suc d" v] by auto
    have "take 1 (skip_space (join (map json_text vs) @ CHR 0x5D # r)) \<noteq> [CHR 0x5D]"
      using c by (simp add: w join_Cons del: join.simps)
    moreover have "parse_elements k (Suc d) (join (map json_text vs) @ CHR 0x5D # r) = Some (vs, r)"
      using l assms(2) by (intro parses_elements [OF False]) simp_all
    ultimately show ?thesis using assms(1) by simp
  qed
qed

lemma parses_object:
  assumes "d < max_depth" "\<forall>(name, v) \<in> set ms. valid_utf8 name \<and> parses (Suc d) v"
  shows "parses d (JObject ms)"
proof (rule parsesI)
  fix k r
  assume l: "2 * length (json_text (JObject ms) @ r) \<le> k"
  show "parse_value (Suc k) d (json_text (JObject ms) @ r) = Some (JObject ms, r)"
  proof (cases "ms = []")
    case True
    with assms(1) show ?thesis by simp
  next
    case False
    then obtain name v ns where w: "ms = (name, v) # ns" by (cases ms) auto
    have q: "quot \<notin> {CHR 0x20, CHR 0x09, CHR 0x0D, CHR 0x0A}" "quot \<noteq> CHR 0x7D" by (simp_all add: quot_def)
    have "take 1 (skip_space (join (map member ms) @ CHR 0x7D # r)) \<noteq> [CHR 0x7D]"
      by (simp add: w join_Cons quoted_def skip_space_Cons [OF q(1)] q(2) del: join.simps)
    moreover have "parse_members k (Suc d) (join (map member ms) @ CHR 0x7D # r) = Some (ms, r)"
      using l by (intro parses_members [OF False assms(2)]) simp
    ultimately show ?thesis using assms(1) by simp
  qed
qed

lemma json_parses: "json_ok d v \<Longrightarrow> parses d v"
proof (induction d v rule: json_ok.induct [case_names str num arr obj nul bool])
  case (str d s)
  then show ?case by (simp add: parses_string)
next
  case (num d n)
  then show ?case by (simp add: parses_number)
next
  case (arr d vs)
  then show ?case by (intro parses_array) simp_all
next
  case (obj d ms)
  then show ?case by (intro parses_object) auto
next
  case (nul d)
  show ?case by (rule parsesI) (simp add: quot_def literal_def)
next
  case (bool d b)
  show ?case by (rule parsesI) (cases b; simp add: quot_def literal_def)
qed

lemma parsesD:
  "parses d v \<Longrightarrow> value_end r \<Longrightarrow> 2 * length (json_text v @ r) + 1 \<le> k
    \<Longrightarrow> parse_value k d (json_text v @ r) = Some (v, r)"
  unfolding parses_def by blast

text \<open>What the encoder wrote is the first value that a decoder reads from a stream that goes on.\<close>

lemma first_value_text:
  assumes "json_ok 0 v" and "value_end r"
  shows "first_value (json_text v @ r) = Some v"
proof -
  have "parse_value (2 * length (json_text v @ r) + 2) 0 (json_text v @ r) = Some (v, r)"
    by (rule parsesD [OF json_parses [OF assms(1)] assms(2)]) simp
  then show ?thesis by (simp only: first_value_def option.map fst_conv)
qed

section \<open>encoding/json: decoding into a struct\<close>

text \<open>
  The key of a member selects the field of that name, or else one whose name is equal under
  simple case folding; among the runes that are not ASCII only U+017F and U+212A fold to one.
\<close>

fun fold_name :: "string \<Rightarrow> string" where
  "fold_name [] = []"
| "fold_name (c # r) =
     (if 97 \<le> code c \<and> code c \<le> 122 then char_of (code c - 32) # fold_name r
      else if take 2 (c # r) = utf8 383 then CHR ''S'' # fold_name (drop 1 r)
      else if take 3 (c # r) = utf8 8490 then CHR ''K'' # fold_name (drop 2 r)
      else c # fold_name r)"

definition find_field :: "string list \<Rightarrow> string \<Rightarrow> string option" where
  "find_field fields name =
     (if name \<in> set fields then Some name
      else find (\<lambda>f. fold_name f = fold_name name) fields)"

text \<open>
  The members are stored in their order; \<^verbatim>\<open>null\<close> leaves a field as it is, a member without a
  field is skipped, and a value of a wrong type is an error.
\<close>

fun decode_members ::
  "string list \<Rightarrow> (string \<Rightarrow> json \<Rightarrow> 'r \<Rightarrow> 'r option) \<Rightarrow> (string \<times> json) list \<Rightarrow> 'r \<Rightarrow> 'r option" where
  "decode_members fields store [] x = Some x"
| "decode_members fields store ((name, v) # ms) x =
     (case find_field fields name of
        None \<Rightarrow> decode_members fields store ms x
      | Some f \<Rightarrow> Option.bind (if v = JNull then Some x else store f v x) (decode_members fields store ms))"

text \<open>\<^verbatim>\<open>json.NewDecoder(body).Decode(&x)\<close>: \<open>None\<close> is an error.\<close>

definition Decode :: "string list \<Rightarrow> (string \<Rightarrow> json \<Rightarrow> 'r \<Rightarrow> 'r option) \<Rightarrow> 'r \<Rightarrow> string \<Rightarrow> 'r option" where
  "Decode fields store x body =
     (case first_value body of
        Some (JObject ms) \<Rightarrow> decode_members fields store ms x
      | Some JNull \<Rightarrow> Some x
      | _ \<Rightarrow> None)"

text \<open>The values that a \<^verbatim>\<open>string\<close> and a \<^verbatim>\<open>uint64\<close> field take.\<close>

definition json_string :: "json \<Rightarrow> string option" where
  "json_string v = (case v of JString s \<Rightarrow> Some s | _ \<Rightarrow> None)"

definition json_uint64 :: "json \<Rightarrow> u64 option" where
  "json_uint64 v = (case v of
     JNumber n \<Rightarrow> (case ParseUint n of (x, None) \<Rightarrow> Some x | (x, Some e) \<Rightarrow> None)
   | _ \<Rightarrow> None)"

lemma Decode_text:
  assumes "json_ok 0 (JObject ms)" and "value_end r"
  shows "Decode fields store x (json_text (JObject ms) @ r) = decode_members fields store ms x"
  using first_value_text [OF assms] by (simp add: Decode_def del: json_text.simps)

lemma json_values [simp]:
  "json_string (JString s) = Some s" "json_uint64 (JNumber (fmt_d (unat v))) = Some v"
  by (simp_all add: json_string_def json_uint64_def)

text \<open>The numerals of \<^verbatim>\<open>%d\<close> are JSON numbers.\<close>

lemma fmt_d_hd: "0 < n \<Longrightarrow> hd (fmt_d n) \<noteq> CHR ''0''"
proof (induction n rule: less_induct)
  case (less n)
  show ?case
  proof (cases "n < 10")
    case True
    then have "fmt_d n = [char_of (48 + n)]" by (subst fmt_d.simps) simp
    with True have "code (hd (fmt_d n)) = 48 + n" by simp
    with less.prems show ?thesis by auto
  next
    case False
    then have "hd (fmt_d (n div 10)) \<noteq> CHR ''0''" by (intro less.IH) simp_all
    with False show ?thesis by (subst fmt_d.simps) simp
  qed
qed

lemma number_ok_fmt_d [simp]: "number_ok (fmt_d n)"
proof (cases "n = 0")
  case True
  have "char_of (code (CHR ''0'')) = CHR ''0''" by (rule char_of_char)
  then have "fmt_d 0 = ''0''" by (subst fmt_d.simps) simp
  then show ?thesis using True by (simp add: number_ok_def is_digit_def)
next
  case False
  then show ?thesis using fmt_d_digits [of n] fmt_d_hd [of n] by (simp add: number_ok_def)
qed

end
