(* ===== verification/Go_Float.thy ===== *)
theory Go_Float
  imports Json_Doc
begin

text \<open>
  The numbers of \<^verbatim>\<open>encoding/json\<close> in an untyped value: \<^verbatim>\<open>strconv.ParseFloat\<close> with 64 bits on the text of a
  JSON number, and the text that the encoder writes for the result. A finite float is a sign and
  \<open>m * 2 ^ k\<close>; the arithmetic is that of fractions of natural numbers.
\<close>

section \<open>strconv.ParseFloat\<close>

record float64 =
  f64_neg :: bool
  f64_mant :: nat
  f64_exp :: int

text \<open>The value of a float without its sign, as a numerator and a denominator.\<close>

definition f64_num :: "float64 \<Rightarrow> nat" where "f64_num f = f64_mant f * 2 ^ nat (f64_exp f)"
definition f64_den :: "float64 \<Rightarrow> nat" where "f64_den f = 2 ^ nat (- f64_exp f)"

definition div_even :: "nat \<Rightarrow> nat \<Rightarrow> nat" where
  "div_even a b =
     (let q = a div b; r = a mod b
      in if b < 2 * r \<or> b = 2 * r \<and> odd q then Suc q else q)"

fun bit_size :: "nat \<Rightarrow> nat" where
  "bit_size n = (if n = 0 then 0 else Suc (bit_size (n div 2)))"

declare bit_size.simps [simp del]

text \<open>
  The exponent of the float next to \<open>a / b\<close>: the quotient has 53 bits above it, fewer only below the
  smallest normal number.
\<close>

definition f64_scale :: "nat \<Rightarrow> nat \<Rightarrow> int" where
  "f64_scale a b =
     (let k = int (bit_size a) - int (bit_size b) - 53
      in max (-1074) (if b * 2 ^ nat (k + 53) \<le> a * 2 ^ nat (- (k + 53)) then k + 1 else k))"

text \<open>Rounding to the nearest float, ties to even; \<open>None\<close> is out of range.\<close>

definition f64_round :: "nat \<Rightarrow> nat \<Rightarrow> (nat \<times> int) option" where
  "f64_round a b =
     (if a = 0 then Some (0, 0)
      else let k = f64_scale a b; m = div_even (a * 2 ^ nat (- k)) (b * 2 ^ nat k);
          (m, k) = (if m = 2 ^ 53 then (2 ^ 52, k + 1) else (m, k))
        in if 971 < k then None else Some (m, k))"

definition decimal_round :: "nat \<Rightarrow> int \<Rightarrow> (nat \<times> int) option" where
  "decimal_round d e = f64_round (d * 10 ^ nat e) (10 ^ nat (- e))"

text \<open>The digits of an exponent; from 10000 on further digits are dropped.\<close>

definition read_exp :: "string \<Rightarrow> nat" where
  "read_exp s = foldl (\<lambda>e c. if e < 10000 then e * 10 + digit c else e) 0 s"

text \<open>\<^verbatim>\<open>ParseFloat(s, 64)\<close> for a JSON number; \<open>None\<close> is \<^verbatim>\<open>ErrRange\<close>.\<close>

definition ParseFloat :: "string \<Rightarrow> float64 option" where
  "ParseFloat s =
     (let neg = take 1 s = ''-'';
          s = (if neg then drop 1 s else s);
          i = takeWhile is_digit s; s = dropWhile is_digit s;
          (f, s) = (if take 1 s = ''.'' then (takeWhile is_digit (drop 1 s), dropWhile is_digit (drop 1 s)) else ([], s));
          s = drop 1 s;
          e = (if take 1 s = ''-'' then - int (read_exp (drop 1 s))
               else if take 1 s = ''+'' then int (read_exp (drop 1 s)) else int (read_exp s))
      in map_option (\<lambda>(m, k). \<lparr>f64_neg = neg, f64_mant = m, f64_exp = k\<rparr>)
           (decimal_round (dec_val 0 (i @ f)) (e - int (length f))))"

section \<open>The encoder of floats\<close>

text \<open>
  The decimal exponent \<open>p\<close> with \<open>10 ^ (p - 1) \<le> a / b < 10 ^ p\<close>; the smallest positive float has
  \<open>p = -323\<close>.
\<close>

definition dec_exp :: "nat \<Rightarrow> nat \<Rightarrow> int" where
  "dec_exp a b =
     (if b \<le> a then int (length (fmt_d (a div b)))
      else (case find (\<lambda>z. b \<le> a * 10 ^ Suc z) [0..<330] of Some z \<Rightarrow> - int z | None \<Rightarrow> 0))"

text \<open>
  The decimals with \<open>n\<close> digits next to \<open>a / b\<close> that are read back as the float: the nearest, with ties
  to even, if both are, and at the end of a range of floats the other one.
\<close>

definition near_decimal :: "nat \<times> int \<Rightarrow> nat \<Rightarrow> nat \<Rightarrow> nat \<Rightarrow> (nat \<times> int) option" where
  "near_decimal f a b n =
     (let e = dec_exp a b - int n;
          a' = a * 10 ^ nat (- e); b' = b * 10 ^ nat e;
          lo = a' div b'; hi = (if a' mod b' = 0 then lo else Suc lo);
          down = decimal_round lo e = Some f; up = decimal_round hi e = Some f
      in if down \<and> up then Some (div_even a' b', e)
         else if down then Some (lo, e)
         else if up then Some (hi, e)
         else None)"

text \<open>The shortest decimal of a float that is not zero; 17 digits always suffice.\<close>

definition shortest :: "nat \<times> int \<Rightarrow> nat \<Rightarrow> nat \<Rightarrow> nat \<times> int" where
  "shortest f a b =
     (case find (\<lambda>n. near_decimal f a b n \<noteq> None) [1..<18] of
        Some n \<Rightarrow> the (near_decimal f a b n)
      | None \<Rightarrow> (0, 0))"

fun strip_zeros :: "nat \<Rightarrow> int \<Rightarrow> nat \<times> int" where
  "strip_zeros d e = (if d = 0 \<or> d mod 10 \<noteq> 0 then (d, e) else strip_zeros (d div 10) (e + 1))"

declare strip_zeros.simps [simp del]

text \<open>The formats \<^verbatim>\<open>f\<close> and \<^verbatim>\<open>e\<close>, the latter with the exponent's leading zero removed.\<close>

definition fmt_f :: "nat \<times> int \<Rightarrow> string" where
  "fmt_f = (\<lambda>(d, e).
     if 0 \<le> e then fmt_d (d * 10 ^ nat e)
     else let (d, e) = strip_zeros d e; ds = fmt_d (d * 10 ^ nat e); z = nat (- e)
       in if z = 0 then ds
          else if z < length ds then take (length ds - z) ds @ ''.'' @ drop (length ds - z) ds
          else ''0.'' @ replicate (z - length ds) (CHR ''0'') @ ds)"

definition fmt_e :: "nat \<times> int \<Rightarrow> string" where
  "fmt_e = (\<lambda>(d, e).
     let (d, e) = strip_zeros d e; ds = fmt_d d; x = e + int (length ds) - 1
     in take 1 ds @ (if length ds = 1 then '''' else ''.'' @ drop 1 ds)
        @ ''e'' @ (if x < 0 then ''-'' @ fmt_d (nat (- x)) else ''+'' @ (if x < 10 then ''0'' else '''') @ fmt_d (nat x)))"

text \<open>The format is \<^verbatim>\<open>e\<close> below the float \<^verbatim>\<open>1e-6\<close> and from \<^verbatim>\<open>1e21\<close> on.\<close>

definition float_text :: "float64 \<Rightarrow> string" where
  "float_text f =
     (if f64_neg f then ''-'' else '''')
     @ (if f64_mant f = 0 then ''0''
        else let a = f64_num f; b = f64_den f; d = shortest (f64_mant f, f64_exp f) a b
          in if a * 2 ^ 72 < b * 4722366482869645 \<or> b * 10 ^ 21 \<le> a then fmt_e d else fmt_f d)"

section \<open>Whole numbers below \<open>2 ^ 53\<close> are kept\<close>

lemma bit_size_small [simp]: "bit_size 0 = 0" "bit_size (Suc 0) = 1"
  by (simp_all add: bit_size.simps)

lemma bit_size_bounds: "n < 2 ^ bit_size n" "0 < n \<Longrightarrow> 0 < bit_size n \<and> 2 ^ (bit_size n - 1) \<le> n"
proof -
  have "n < 2 ^ bit_size n \<and> (0 < n \<longrightarrow> 0 < bit_size n \<and> 2 ^ (bit_size n - 1) \<le> n)"
  proof (induction n rule: bit_size.induct)
    case (1 n)
    show ?case
    proof (cases "n < 2")
      case True
      then have "n = 0 \<or> n = 1" by linarith
      then show ?thesis by auto
    next
      case False
      with 1 have i: "n div 2 < 2 ^ bit_size (n div 2)" "0 < bit_size (n div 2)" "2 ^ (bit_size (n div 2) - 1) \<le> n div 2"
        by auto
      from i(2) have "(2::nat) ^ bit_size (n div 2) = 2 * 2 ^ (bit_size (n div 2) - 1)"
        by (metis Suc_diff_1 power_Suc)
      then have "n < 2 * 2 ^ bit_size (n div 2)" "2 ^ bit_size (n div 2) \<le> n" using i(1,3) by linarith+
      then show ?thesis using False by (subst (1 2 3) bit_size.simps) simp
    qed
  qed
  then show "n < 2 ^ bit_size n" "0 < n \<Longrightarrow> 0 < bit_size n \<and> 2 ^ (bit_size n - 1) \<le> n" by blast+
qed

lemma bit_size_le: "n < 2 ^ k \<Longrightarrow> bit_size n \<le> k"
proof (cases "n = 0")
  case True
  then show ?thesis by simp
next
  case False
  assume "n < 2 ^ k"
  with bit_size_bounds(2) [of n] False have "0 < bit_size n" "(2::nat) ^ (bit_size n - 1) < 2 ^ k" by linarith+
  moreover from this(2) have "bit_size n - 1 < k" by (rule power_less_imp_less_exp [rotated]) simp
  ultimately show ?thesis by linarith
qed

lemma f64_scale_nat: "0 < n \<Longrightarrow> f64_scale n (Suc 0) = int (bit_size n) - 53"
  using bit_size_bounds(2) [of n] by (simp add: f64_scale_def Let_def nat_diff_distrib)

lemma f64_round_nat:
  assumes "0 < n" "n < 2 ^ 53"
  shows "f64_round n (Suc 0) = Some (n * 2 ^ (53 - bit_size n), int (bit_size n) - 53)"
proof -
  have le: "bit_size n \<le> 53" using assms(2) by (rule bit_size_le)
  then have "(2::nat) ^ 53 = 2 ^ bit_size n * 2 ^ (53 - bit_size n)" by (simp flip: power_add)
  moreover have "n * 2 ^ (53 - bit_size n) < 2 ^ bit_size n * 2 ^ (53 - bit_size n)" using bit_size_bounds(1) [of n] by simp
  ultimately have "n * 2 ^ (53 - bit_size n) < 2 ^ 53" by metis
  with le show ?thesis using assms(1)
    by (simp add: f64_round_def f64_scale_nat div_even_def Let_def nat_diff_distrib del: power_Suc)
qed

lemma f64_round_large: "2 ^ 53 \<le> c \<Longrightarrow> f64_round c (Suc 0) = Some (m, k) \<Longrightarrow> 0 < k"
proof -
  assume c: "2 ^ 53 \<le> c" "f64_round c (Suc 0) = Some (m, k)"
  then have "(2::nat) ^ 53 < 2 ^ bit_size c" using bit_size_bounds(1) [of c] by linarith
  then have "53 < bit_size c" by (rule power_less_imp_less_exp [rotated]) simp
  moreover have "0 < c" using c(1) by (cases c) simp_all
  ultimately show ?thesis using c(2) by (auto simp: f64_round_def f64_scale_nat Let_def split: if_splits)
qed

text \<open>A whole number below \<open>2 ^ 53\<close> is the only one that is read as its float.\<close>

lemma f64_round_inj:
  assumes "0 < n" "n < 2 ^ 53" "f64_round c (Suc 0) = f64_round n (Suc 0)"
  shows "c = n"
proof (cases "c = 0 \<or> 2 ^ 53 \<le> c")
  case True
  have "bit_size n \<le> 53" using assms(2) by (rule bit_size_le)
  with True assms show ?thesis using f64_round_large [of c] by (auto simp: f64_round_nat f64_round_def [of 0] dest!: sym [of "Some (0, 0)"])
next
  case False
  with assms show ?thesis by (auto simp: f64_round_nat)
qed

text \<open>The multiples of ten that are read as the float \<open>f\<close> of a whole number are the number itself: then
  a shorter candidate that is read back is the number itself, and with all its digits there is one.\<close>

definition exact_ten :: "nat \<times> int \<Rightarrow> nat \<Rightarrow> bool" where
  "exact_ten f n \<longleftrightarrow> 0 < n \<and> n < 10 ^ 17 \<and> f64_round n (Suc 0) = Some f
     \<and> (\<forall>c. f64_round c (Suc 0) = Some f \<longrightarrow> 10 dvd c \<longrightarrow> c = n)"

lemma exact_tenD:
  assumes "exact_ten f n"
  shows "0 < n" "n < 10 ^ 17" "f64_round n (Suc 0) = Some f"
    and "f64_round c (Suc 0) = Some f \<Longrightarrow> 10 dvd c \<Longrightarrow> c = n"
  using assms unfolding exact_ten_def by blast+

lemma near_decimal_nat:
  assumes "exact_ten f n" "p \<le> length (fmt_d n)"
  shows "near_decimal f (n * 2 ^ j) (2 ^ j) p =
    (if n mod 10 ^ (length (fmt_d n) - p) = 0
     then Some (n div 10 ^ (length (fmt_d n) - p), int (length (fmt_d n) - p)) else None)"
proof -
  let ?q = "length (fmt_d n) - p"
  have e: "dec_exp (n * 2 ^ j) (2 ^ j) - int p = int ?q" using exact_tenD(1) [OF assms(1)] assms(2) by (simp add: dec_exp_def)
  have lo: "(n * 2 ^ j) div (2 ^ j * 10 ^ ?q) = n div 10 ^ ?q" "(n * 2 ^ j) mod (2 ^ j * 10 ^ ?q) = 2 ^ j * (n mod 10 ^ ?q)"
    by (simp_all add: mult.commute [of n "2 ^ j"])
  show ?thesis
  proof (cases "?q = 0")
    case True
    have "decimal_round n 0 = Some f" using exact_tenD(3) [OF assms(1)] by (simp add: decimal_round_def)
    then show ?thesis
      unfolding near_decimal_def e Let_def True by (simp add: div_even_def)
  next
    case False
    then have ten: "10 dvd d * 10 ^ ?q" for d :: nat by (cases ?q) simp_all
    have "decimal_round d (int ?q) = f64_round (d * 10 ^ ?q) (Suc 0)" for d by (simp add: decimal_round_def)
    then have round: "decimal_round d (int ?q) = Some f \<longleftrightarrow> d * 10 ^ ?q = n" for d
      using exact_tenD(3,4) [OF assms(1)] ten [of d] by metis
    have floor: "n div 10 ^ ?q * 10 ^ ?q = n \<longleftrightarrow> n mod 10 ^ ?q = 0"
      using div_mult_mod_eq [of n "10 ^ ?q"] by linarith
    have ceil: "Suc (n div 10 ^ ?q) * 10 ^ ?q \<noteq> n"
      using dividend_less_div_times [of "10 ^ ?q" n] by simp
    show ?thesis
      unfolding near_decimal_def e Let_def
      using floor ceil by (simp add: round lo div_even_def Let_def)
  qed
qed

lemma fmt_d_length: "n < 10 ^ k \<Longrightarrow> 0 < k \<Longrightarrow> length (fmt_d n) \<le> k"
proof (induction k arbitrary: n)
  case (Suc k)
  show ?case
  proof (cases "n < 10")
    case True
    then show ?thesis by (subst fmt_d.simps) simp
  next
    case False
    with Suc.prems have "n div 10 < 10 ^ k" "0 < k" by (simp_all add: less_mult_imp_div_less mult.commute, cases k, simp_all)
    then have "length (fmt_d (n div 10)) \<le> k" by (rule Suc.IH)
    then show ?thesis using False by (subst fmt_d.simps) simp
  qed
qed simp

lemma shortest_nat:
  assumes "exact_ten f n"
  obtains d e where "shortest f (n * 2 ^ j) (2 ^ j) = (d, int e)" "d * 10 ^ e = n"
proof -
  let ?near = "near_decimal f (n * 2 ^ j) (2 ^ j)" and ?l = "length (fmt_d n)"
  have "n < 10 ^ 17" by (rule exact_tenD(2) [OF assms])
  then have l: "?l \<le> 17" by (rule fmt_d_length) simp
  have some: "?near ?l \<noteq> None" by (simp add: near_decimal_nat [OF assms])
  have pos: "0 < ?l" by simp
  then have "?l \<in> set [1..<18]" using l by (simp add: Suc_le_eq)
  with some have "find (\<lambda>p. ?near p \<noteq> None) [1..<18] \<noteq> None" unfolding find_None_iff by blast
  then obtain p where p: "find (\<lambda>p. ?near p \<noteq> None) [1..<18] = Some p" by blast
  then obtain i where i: "i < 17" "p = Suc i" "?near p \<noteq> None" "\<forall>k < i. \<not> ?near (Suc k) \<noteq> None"
    by (auto simp: find_Some_iff)
  have "p \<le> ?l"
  proof (rule ccontr)
    assume "\<not> p \<le> ?l"
    then have "?l - 1 < i" using i(2) pos by linarith
    with i(4) have "?near (Suc (?l - 1)) = None" by blast
    with some pos show False by (simp del: length_greater_0_conv)
  qed
  with i(3) near_decimal_nat [OF assms, of p j] have "n mod 10 ^ (?l - p) = 0"
    "?near p = Some (n div 10 ^ (?l - p), int (?l - p))" by (auto split: if_splits)
  then show thesis using p that [of "n div 10 ^ (?l - p)" "?l - p"] by (auto simp: shortest_def)
qed

text \<open>Such a float is written as the whole number.\<close>

lemma float_text_exact:
  assumes "exact_ten (m, k) n" "0 < m"
    and "f64_num \<lparr>f64_neg = False, f64_mant = m, f64_exp = k\<rparr> = n * 2 ^ j"
    and "f64_den \<lparr>f64_neg = False, f64_mant = m, f64_exp = k\<rparr> = 2 ^ j"
  shows "float_text \<lparr>f64_neg = False, f64_mant = m, f64_exp = k\<rparr> = fmt_d n"
proof -
  obtain d e where d: "shortest (m, k) (n * 2 ^ j) (2 ^ j) = (d, int e)" "d * 10 ^ e = n"
    using shortest_nat [OF assms(1)] .
  note n = exact_tenD(1,2) [OF assms(1)]
  then have "\<not> n * 2 ^ 72 < 4722366482869645" "\<not> 10 ^ 21 \<le> n" by simp_all
  then have "\<not> n * 2 ^ j * 2 ^ 72 < 2 ^ j * 4722366482869645" "\<not> 2 ^ j * 10 ^ 21 \<le> n * 2 ^ j"
    by (simp_all add: mult.commute [of n] mult.assoc del: power_numeral)
  then show ?thesis using assms(2-4) d by (simp add: float_text_def Let_def fmt_f_def)
qed

lemma float_text_nat:
  assumes "0 < n" "n < 2 ^ 53"
  shows "float_text \<lparr>f64_neg = False, f64_mant = n * 2 ^ (53 - bit_size n), f64_exp = int (bit_size n) - 53\<rparr> = fmt_d n"
proof (rule float_text_exact)
  have le: "bit_size n \<le> 53" using assms(2) by (rule bit_size_le)
  show "exact_ten (n * 2 ^ (53 - bit_size n), int (bit_size n) - 53) n"
    using assms f64_round_inj [OF assms] by (auto simp: exact_ten_def f64_round_nat)
  show "0 < n * 2 ^ (53 - bit_size n)" using assms(1) by simp
  show "f64_num \<lparr>f64_neg = False, f64_mant = n * 2 ^ (53 - bit_size n), f64_exp = int (bit_size n) - 53\<rparr>
      = n * 2 ^ (53 - bit_size n)"
    "f64_den \<lparr>f64_neg = False, f64_mant = n * 2 ^ (53 - bit_size n), f64_exp = int (bit_size n) - 53\<rparr> = 2 ^ (53 - bit_size n)"
    using le by (simp_all add: f64_num_def f64_den_def nat_diff_distrib)
qed

lemma ParseFloat_fmt_d:
  "ParseFloat (fmt_d n) = map_option (\<lambda>(m, k). \<lparr>f64_neg = False, f64_mant = m, f64_exp = k\<rparr>) (f64_round n (Suc 0))"
proof -
  have ds: "list_all is_digit (fmt_d n)" "dec_val 0 (fmt_d n) = n" using fmt_d_digits by blast+
  then have "hd (fmt_d n) \<noteq> CHR ''-''" by (cases "fmt_d n") (auto simp: is_digit_def)
  then have "take 1 (fmt_d n) \<noteq> ''-''" by (cases "fmt_d n") simp_all
  moreover have digits: "takeWhile is_digit (fmt_d n) = fmt_d n" "dropWhile is_digit (fmt_d n) = []"
    using ds(1) by (simp_all add: list_all_iff)
  ultimately show ?thesis by (simp add: ParseFloat_def Let_def ds(2) digits read_exp_def decimal_round_def)
qed

text \<open>A whole number below \<open>2 ^ 53\<close> is written as it was read.\<close>

lemma float_exact:
  assumes "n < 2 ^ 53"
  shows "map_option float_text (ParseFloat (fmt_d n)) = Some (fmt_d n)"
proof (cases "n = 0")
  case True
  have "char_of (code (CHR ''0'')) = CHR ''0''" by (rule char_of_char)
  then have "fmt_d 0 = ''0''" by (subst fmt_d.simps) simp
  moreover have "ParseFloat (fmt_d n) = Some \<lparr>f64_neg = False, f64_mant = 0, f64_exp = 0\<rparr>"
    unfolding ParseFloat_fmt_d using True by (simp add: f64_round_def)
  ultimately show ?thesis using True by (simp add: float_text_def)
next
  case False
  with assms float_text_nat [of n] show ?thesis by (simp add: ParseFloat_fmt_d f64_round_nat)
qed

section \<open>From \<open>2 ^ 53\<close> on only even numbers are kept\<close>

lemma bit_size_eq: "2 ^ k \<le> n \<Longrightarrow> n < 2 ^ Suc k \<Longrightarrow> bit_size n = Suc k"
proof -
  assume n: "2 ^ k \<le> n" "n < 2 ^ Suc k"
  have "(2::nat) ^ k < 2 ^ bit_size n" using n(1) bit_size_bounds(1) [of n] by linarith
  then have "k < bit_size n" by (rule power_less_imp_less_exp [rotated]) simp
  moreover have "bit_size n \<le> Suc k" using n(2) by (rule bit_size_le)
  ultimately show ?thesis by linarith
qed

lemma f64_round_54:
  assumes "2 ^ 53 \<le> n" "n < 2 ^ 54"
  shows "f64_round n (Suc 0) = Some (if div_even n 2 = 2 ^ 53 then (2 ^ 52, 2) else (div_even n 2, 1))"
proof -
  have "0 < n" using assms(1) by (cases n) simp_all
  moreover have "bit_size n = 54" using bit_size_eq [of 53 n] assms by simp
  ultimately show ?thesis by (simp add: f64_round_def f64_scale_nat Let_def)
qed

lemma f64_round_55:
  assumes "2 ^ 54 \<le> n" "n < 2 ^ 55"
  shows "f64_round n (Suc 0) = Some (if div_even n 4 = 2 ^ 53 then (2 ^ 52, 3) else (div_even n 4, 2))"
proof -
  have "0 < n" using assms(1) by (cases n) simp_all
  moreover have "bit_size n = 55" using bit_size_eq [of 54 n] assms by simp
  ultimately show ?thesis by (simp add: f64_round_def f64_scale_nat Let_def)
qed

lemma f64_round_huge:
  assumes "2 ^ 55 \<le> c" "f64_round c (Suc 0) = Some (m, k)" shows "2 < k"
proof -
  have "(2::nat) ^ 55 < 2 ^ bit_size c" using assms(1) bit_size_bounds(1) [of c] by linarith
  then have "55 < bit_size c" by (rule power_less_imp_less_exp [rotated]) simp
  moreover have "0 < c" using assms(1) by (cases c) simp_all
  ultimately show ?thesis using assms(2) by (auto simp: f64_round_def f64_scale_nat Let_def split: if_splits)
qed

text \<open>The float of an even number of this range, the upper end included.\<close>

definition even_float :: "nat \<Rightarrow> nat \<times> int" where
  "even_float n = (if n = 2 ^ 54 then (2 ^ 52, 2) else (n div 2, 1))"

lemma f64_round_even:
  assumes "even n" "2 ^ 53 \<le> n" "n \<le> 2 ^ 54"
  shows "f64_round n (Suc 0) = Some (even_float n)"
proof (cases "n = 2 ^ 54")
  case True
  then show ?thesis using f64_round_55 [of n] by (simp add: even_float_def div_even_def Let_def)
next
  case False
  with assms have "n < 2 ^ 54" "div_even n 2 = n div 2" "n div 2 < 2 ^ 53" by (auto simp: div_even_def Let_def)
  with assms False show ?thesis using f64_round_54 [of n] by (simp add: even_float_def)
qed

lemma exact_ten_even:
  assumes "even n" "2 ^ 53 \<le> n" "n \<le> 2 ^ 54"
  shows "exact_ten (even_float n) n"
proof -
  have "c = n" if c: "f64_round c (Suc 0) = Some (even_float n)" "10 dvd c" for c
  proof -
    have "even c" using c(2) by auto
    have pos: "0 < snd (even_float n)" "snd (even_float n) \<le> 2" by (simp_all add: even_float_def)
    have lower: "2 ^ 53 \<le> c"
    proof (rule ccontr)
      assume "\<not> 2 ^ 53 \<le> c"
      then have small: "c < 2 ^ 53" by simp
      have "snd (even_float n) \<le> 0"
      proof (cases "c = 0")
        case True
        with c(1) have "even_float n = (0, 0)" by (simp add: f64_round_def)
        then show ?thesis by simp
      next
        case False
        with c(1) small have "even_float n = (c * 2 ^ (53 - bit_size c), int (bit_size c) - 53)"
          using f64_round_nat [of c] by simp
        with bit_size_le [OF small] show ?thesis by (simp only: snd_conv)
      qed
      with pos show False by simp
    qed
    have upper: "c < 2 ^ 55"
      using f64_round_huge [of c "fst (even_float n)" "snd (even_float n)"] c(1) pos(2) by (cases "2 ^ 55 \<le> c") auto
    show ?thesis
    proof (cases "c \<le> 2 ^ 54")
      case True
      then have "even_float c = even_float n" using f64_round_even [OF \<open>even c\<close> lower] c(1) by simp
      then show ?thesis using \<open>even c\<close> assms(1) by (auto simp: even_float_def split: if_splits)
    next
      case False
      then have "2 ^ 54 \<le> c" by simp
      from f64_round_55 [OF this upper] c(1) have "even_float n = (div_even c 4, 2)"
        using pos(2) by (auto split: if_splits)
      then have "div_even c 4 = 2 ^ 52" by (simp add: even_float_def split: if_splits)
      then have "c div 4 = 2 ^ 52 \<and> c mod 4 \<le> 2 \<or> Suc (c div 4) = 2 ^ 52"
        by (simp add: div_even_def Let_def split: if_splits)
      moreover have "(2::nat) ^ 52 = 4503599627370496" "(2::nat) ^ 54 = 18014398509481984" by simp_all
      ultimately have "c \<le> 2 ^ 54 + 2" using div_mult_mod_eq [of c 4] by linarith
      with False \<open>even c\<close> have "c = 2 ^ 54 + 2" by (auto elim!: evenE)
      with c(2) show ?thesis by simp
    qed
  qed
  moreover have "0 < n" "n < 10 ^ 17" using assms(2,3) by simp_all
  ultimately show ?thesis using f64_round_even [OF assms] by (simp add: exact_ten_def)
qed

text \<open>It is written as the number itself.\<close>

lemma float_text_even:
  assumes "even n" "2 ^ 53 \<le> n" "n \<le> 2 ^ 54"
  shows "float_text \<lparr>f64_neg = False, f64_mant = fst (even_float n), f64_exp = snd (even_float n)\<rparr> = fmt_d n"
proof (rule float_text_exact [where j = 0])
  show "exact_ten (fst (even_float n), snd (even_float n)) n" using exact_ten_even [OF assms] by simp
  show "0 < fst (even_float n)" using assms(1,2) by (auto simp: even_float_def elim!: evenE)
  show "f64_num \<lparr>f64_neg = False, f64_mant = fst (even_float n), f64_exp = snd (even_float n)\<rparr> = n * 2 ^ 0"
    "f64_den \<lparr>f64_neg = False, f64_mant = fst (even_float n), f64_exp = snd (even_float n)\<rparr> = 2 ^ 0"
    using assms(1) by (simp_all add: even_float_def f64_num_def f64_den_def)
qed

text \<open>An odd number is read as the float of one of its neighbours.\<close>

lemma f64_round_odd:
  assumes "odd n" "2 ^ 53 < n" "n < 2 ^ 54"
  shows "f64_round n (Suc 0) = Some (even_float (if n mod 4 = 1 then n - 1 else n + 1))"
proof -
  let ?m = "if n mod 4 = 1 then n - 1 else n + 1"
  obtain q where q: "n = 2 * q + 1" using assms(1) by (auto elim: oddE)
  then have "n mod 4 = 1 \<longleftrightarrow> even q" by presburger
  then have "div_even n 2 = ?m div 2" using q by (auto simp: div_even_def Let_def)
  moreover have "?m div 2 = 2 ^ 53 \<longleftrightarrow> ?m = 2 ^ 54" using q assms(3) by (auto elim!: oddE)
  ultimately show ?thesis using f64_round_54 [of n] assms(2,3) by (auto simp: even_float_def split: if_splits)
qed

end
