(* ===== verification/Go_Any.thy ===== *)
theory Go_Any
  imports Go_Float "HOL-Library.AList" "HOL-Library.Char_ord"
begin

text \<open>
  \<^verbatim>\<open>encoding/json\<close> with an untyped value: \<^verbatim>\<open>json.Unmarshal\<close> into an \<^verbatim>\<open>interface{}\<close>, which makes maps,
  slices, strings, booleans and 64-bit floats of a text, and the encoding of such a value, which writes
  the keys of a map in their order. Whole numbers below \<open>2 ^ 53\<close> pass unchanged.
\<close>

section \<open>Decoding\<close>

datatype any =
    ANil
  | ABool bool
  | AFloat float64
  | AString string
  | ASlice "any list"
  | AMap "(string \<times> any) list"

text \<open>
  The only error of a value that was scanned is a number out of range; the first one is returned. Of two
  members with the same key the later one counts.
\<close>

fun any_of_json :: "json \<Rightarrow> string + any" where
  "any_of_json JNull = Inr ANil"
| "any_of_json (JBool b) = Inr (ABool b)"
| "any_of_json (JNumber s) =
     (case ParseFloat s of
        None \<Rightarrow> Inl (''json: cannot unmarshal number '' @ s @ '' into Go value of type float64'')
      | Some f \<Rightarrow> Inr (AFloat f))"
| "any_of_json (JString s) = Inr (AString s)"
| "any_of_json (JArray vs) = map_sum id ASlice (collect_results (map any_of_json vs))"
| "any_of_json (JObject ms) =
     map_sum id (\<lambda>ms. AMap (fold (\<lambda>(name, v). AList.update name v) ms []))
       (collect_results (map (\<lambda>(name, v). map_sum id (Pair name) (any_of_json v)) ms))"

text \<open>\<^verbatim>\<open>Unmarshal\<close> wants one value and nothing after it. The text of a syntax error is a parameter.\<close>

definition whole_value :: "string \<Rightarrow> json option" where
  "whole_value s =
     (case parse_value (2 * length s + 2) 0 s of
        Some (v, t) \<Rightarrow> if skip_space t = [] then Some v else None
      | None \<Rightarrow> None)"

definition Unmarshal_any :: "(bytes \<Rightarrow> string) \<Rightarrow> bytes \<Rightarrow> string + any" where
  "Unmarshal_any syntax_error data =
     (case whole_value (string_of data) of
        None \<Rightarrow> Inl (syntax_error data)
      | Some v \<Rightarrow> any_of_json v)"

section \<open>Encoding\<close>

fun any_json :: "any \<Rightarrow> json" where
  "any_json ANil = JNull"
| "any_json (ABool b) = JBool b"
| "any_json (AFloat f) = JNumber (float_text f)"
| "any_json (AString s) = JString s"
| "any_json (ASlice vs) = JArray (map any_json vs)"
| "any_json (AMap ms) = JObject (sort_key fst (map (\<lambda>(name, v). (name, any_json v)) ms))"

text \<open>As the content of another interface, in which only nil counts as empty.\<close>

definition any_data :: "any \<Rightarrow> json option" where
  "any_data v = (if v = ANil then None else Some (any_json v))"

section \<open>What passes unchanged\<close>

text \<open>Whole numbers below \<open>2 ^ 53\<close>, and no key twice.\<close>

fun exact :: "json \<Rightarrow> bool" where
  "exact (JNumber s) = (\<exists>n < 2 ^ 53. s = fmt_d n)"
| "exact (JArray vs) = (\<forall>v \<in> set vs. exact v)"
| "exact (JObject ms) = (distinct (map fst ms) \<and> (\<forall>(name, v) \<in> set ms. exact v))"
| "exact v = True"

text \<open>The members of all objects in the order of their keys.\<close>

fun sorted_json :: "json \<Rightarrow> json" where
  "sorted_json (JArray vs) = JArray (map sorted_json vs)"
| "sorted_json (JObject ms) = JObject (sort_key fst (map (\<lambda>(name, v). (name, sorted_json v)) ms))"
| "sorted_json v = v"

lemma update_new: "k \<notin> fst ` set al \<Longrightarrow> AList.update k v al = al @ [(k, v)]"
  by (induction al) auto

lemma fold_update: "distinct (map fst (al @ ms)) \<Longrightarrow> fold (\<lambda>(name, v). AList.update name v) ms al = al @ ms"
  by (induction ms arbitrary: al) (auto simp: update_new)

lemma collect_all:
  assumes "\<And>x. x \<in> set xs \<Longrightarrow> \<exists>y. f x = Inr y \<and> P x y"
  obtains ys where "collect_results (map f xs) = Inr ys" "list_all2 P xs ys"
proof -
  have "\<exists>ys. collect_results (map f xs) = Inr ys \<and> list_all2 P xs ys"
    using assms
  proof (induction xs)
    case (Cons x xs)
    then obtain y ys where "f x = Inr y" "P x y" "collect_results (map f xs) = Inr ys" "list_all2 P xs ys"
      by (metis list.set_intros)
    then show ?case by auto
  qed simp
  with that show thesis by blast
qed

lemma any_exact: "exact j \<Longrightarrow> \<exists>a. any_of_json j = Inr a \<and> any_json a = sorted_json j"
proof (induction j rule: exact.induct)
  case (1 s)
  then obtain n where n: "n < 2 ^ 53" "s = fmt_d n" by auto
  with float_exact [OF n(1)] show ?case by auto
next
  case (2 vs)
  then have "\<exists>a. any_of_json v = Inr a \<and> any_json a = sorted_json v" if "v \<in> set vs" for v using that by simp
  then obtain as where as: "collect_results (map any_of_json vs) = Inr as" "list_all2 (\<lambda>v a. any_json a = sorted_json v) vs as"
    by (rule collect_all)
  from as(2) have "map any_json as = map sorted_json vs" by (induction rule: list_all2_induct) simp_all
  with as(1) show ?case by simp
next
  case (3 ms)
  let ?P = "\<lambda>m a. fst a = fst m \<and> any_json (snd a) = sorted_json (snd m)"
  have "\<exists>a. map_sum id (Pair (fst m)) (any_of_json (snd m)) = Inr a \<and> ?P m a" if "m \<in> set ms" for m
    using 3 that by (cases m) fastforce
  then obtain as where as: "collect_results (map (\<lambda>m. map_sum id (Pair (fst m)) (any_of_json (snd m))) ms) = Inr as"
    "list_all2 ?P ms as" by (rule collect_all)
  from as(2) have names: "map fst as = map fst ms" by (induction rule: list_all2_induct) simp_all
  from as(2) have "map (\<lambda>(name, v). (name, any_json v)) as = map (\<lambda>(name, v). (name, sorted_json v)) ms"
    by (induction rule: list_all2_induct) (auto simp: case_prod_beta)
  moreover have "fold (\<lambda>(name, v). AList.update name v) as [] = as"
    using fold_update [of "[]" as] names 3 by simp
  moreover have "collect_results (map (\<lambda>(name, v). map_sum id (Pair name) (any_of_json v)) ms) = Inr as"
    using as(1) by (simp add: case_prod_beta')
  ultimately show ?case by simp
qed simp_all

lemma whole_value_text:
  assumes "json_ok 0 v"
  shows "whole_value (json_text v) = Some v"
proof -
  have "parse_value (2 * length (json_text v @ []) + 2) 0 (json_text v @ []) = Some (v, [])"
    by (rule parsesD [OF json_parses [OF assms]]) (simp_all add: value_end_def)
  then show ?thesis by (simp add: whole_value_def skip_space_def del: json_text.simps)
qed

end
