(* ===== verification/Api_Client.thy ===== *)
theory Api_Client
  imports Go_Any Task_Chain Service
begin

text \<open>
  \<^verbatim>\<open>api-backend/client/chain.go\<close>: the client through which the REST service reaches the chain.

  The libraries behind it (keyring, gRPC connections, transaction building and signing, RPC) are
  the functions of a record \<open>chain_sdk\<close>; a remote call takes the outside world \<open>'w\<close> and
  gives it back, because time passes during it. A call that may panic has an \<open>option\<close> result.
  The mutex makes the steps of \<open>broadcastMsg\<close> one after the other, which is how they are written
  here; \<^verbatim>\<open>context.Context\<close> and the log output are left out.
\<close>

section \<open>Calls with effects\<close>

type_synonym ('w, 'a) io = "'w \<Rightarrow> ('w \<times> (string + 'a)) option"

definition io_return :: "'a \<Rightarrow> ('w, 'a) io" where
  "io_return x w = Some (w, Inr x)"

definition io_fail :: "string \<Rightarrow> ('w, 'a) io" where
  "io_fail e w = Some (w, Inl e)"

text \<open>A call followed by \<^verbatim>\<open>if err != nil { return nil, err }\<close>.\<close>

definition io_bind :: "('w, 'a) io \<Rightarrow> ('a \<Rightarrow> ('w, 'b) io) \<Rightarrow> ('w, 'b) io" where
  "io_bind m f w =
     (case m w of
        None \<Rightarrow> None
      | Some (w1, Inl e) \<Rightarrow> Some (w1, Inl e)
      | Some (w1, Inr x) \<Rightarrow> f x w1)"

text \<open>A call without effects, and one that may panic.\<close>

definition io_lift :: "string + 'a \<Rightarrow> ('w, 'a) io" where
  "io_lift r w = Some (w, r)"

definition io_must :: "'a option \<Rightarrow> ('w, 'a) io" where
  "io_must r w = map_option (\<lambda>x. (w, Inr x)) r"

text \<open>\<^verbatim>\<open>fmt.Errorf("what: %w", err)\<close>.\<close>

definition errorf :: "string \<Rightarrow> ('w, 'a) io \<Rightarrow> ('w, 'a) io" where
  "errorf what m w = map_option (\<lambda>(w1, r). (w1, map_sum (\<lambda>e. what @ '': '' @ e) (\<lambda>x. x) r)) (m w)"

named_theorems io_simps \<open>unfolding rules of the calls with effects\<close>

lemmas [io_simps] = io_return_def io_fail_def io_bind_def io_lift_def io_must_def errorf_def

text \<open>When such a composition succeeds, and when it fails.\<close>

named_theorems io_results \<open>the results of the calls with effects\<close>

lemma result_cases [case_names panic error ok]:
  fixes x :: "('w \<times> (string + 'a)) option"
  obtains "x = None" | w e where "x = Some (w, Inl e)" | w v where "x = Some (w, Inr v)"
  by (metis option.exhaust prod.exhaust sum.exhaust)

lemma errorf_results [io_results]:
  "errorf what m w = Some (w1, Inr x) \<longleftrightarrow> m w = Some (w1, Inr x)"
  "errorf what m w = Some (w1, Inl e) \<longleftrightarrow> (\<exists>e0. m w = Some (w1, Inl e0) \<and> e = what @ '': '' @ e0)"
  "errorf what m w = None \<longleftrightarrow> m w = None"
  by (cases "m w" rule: result_cases; auto simp: errorf_def)+

lemma io_Inr [io_results]:
  "io_bind m f w = Some (w2, Inr y) \<longleftrightarrow> (\<exists>w1 x. m w = Some (w1, Inr x) \<and> f x w1 = Some (w2, Inr y))"
  "io_lift r w = Some (w1, Inr x) \<longleftrightarrow> w1 = w \<and> r = Inr x"
  "io_must v w = Some (w1, Inr x) \<longleftrightarrow> w1 = w \<and> v = Some x"
  "io_return u w = Some (w1, Inr x) \<longleftrightarrow> w1 = w \<and> u = x"
  "\<not> io_fail e w = Some (w1, Inr x)"
  by (auto simp: io_simps split: option.splits sum.splits)

lemma io_Inl [io_results]:
  "io_bind m f w = Some (w2, Inl e) \<longleftrightarrow> m w = Some (w2, Inl e) \<or> (\<exists>w1 x. m w = Some (w1, Inr x) \<and> f x w1 = Some (w2, Inl e))"
  "io_lift r w = Some (w1, Inl e) \<longleftrightarrow> w1 = w \<and> r = Inl e"
  "\<not> io_must v w = Some (w1, Inl e)"
  "\<not> io_return u w = Some (w1, Inl e)"
  "io_fail e0 w = Some (w1, Inl e) \<longleftrightarrow> w1 = w \<and> e0 = e"
  by (auto simp: io_simps split: option.splits sum.splits)

section \<open>The libraries\<close>

text \<open>The fields of SDK types that this code reads or sets.\<close>

record Any =
  any_TypeUrl :: string
  any_Value :: bytes

record Account =
  acc_Number :: u64
  acc_Sequence :: u64

record Coin =
  coin_Denom :: string
  coin_Amount :: nat

record MsgExecuteContract =
  exec_Sender :: string
  exec_Contract :: string
  exec_Msg :: bytes
  exec_Funds :: "Coin list"

text \<open>The messages that the service puts into transactions.\<close>

datatype sdk_msg = TaskregMsg TaskMsg | ExecuteMsg MsgExecuteContract

datatype sign_mode = SIGN_MODE_DIRECT

record Factory =
  fac_ChainID :: string
  fac_SignMode :: sign_mode
  fac_AccountNumber :: u64
  fac_Sequence :: u64
  fac_Gas :: u64
  fac_Fees :: string

record ResultBroadcastTx =
  broadcast_Code :: "32 word"
  broadcast_Log :: string
  broadcast_Hash :: bytes

record ('w, 'k, 'b) chain_sdk =
  kr_NewAccount :: "string \<Rightarrow> string \<Rightarrow> string \<Rightarrow> string \<Rightarrow> string option"
  kr_Key :: "string \<Rightarrow> string + 'k"
  rec_GetAddress :: "'k \<Rightarrow> string + bytes"
  hd_Path :: "nat \<Rightarrow> nat \<Rightarrow> nat \<Rightarrow> string"
  addr_String :: "bytes \<Rightarrow> string"
  grpc_Dial :: "string \<Rightarrow> string option"
  rpc_New :: "string \<Rightarrow> string option"
  auth_Account :: "string \<Rightarrow> ('w, Any option) io"
  UnpackAny :: "Any option \<Rightarrow> string + Account option"
  BuildUnsignedTx :: "Factory \<Rightarrow> sdk_msg list \<Rightarrow> string + 'b"
  tx_Sign :: "Factory \<Rightarrow> string \<Rightarrow> 'b \<Rightarrow> bool \<Rightarrow> string + 'b"
  TxEncoder :: "'b \<Rightarrow> string + bytes"
  BroadcastTxSync :: "bytes \<Rightarrow> ('w, ResultBroadcastTx) io"
  hash_String :: "bytes \<Rightarrow> string"
  rpc_Status :: "('w, unit) io"
  conn_Task :: "'w \<Rightarrow> string \<Rightarrow> QueryTaskRequest \<Rightarrow> QueryTaskResponse \<Rightarrow> (QueryTaskResponse \<times> string option) option"
  conn_ListTasks ::
    "'w \<Rightarrow> string \<Rightarrow> QueryListTasksRequest \<Rightarrow> QueryListTasksResponse \<Rightarrow> (QueryListTasksResponse \<times> string option) option"
  wasm_SmartContractState :: "string \<Rightarrow> bytes \<Rightarrow> ('w, bytes) io"
  wasm_ContractsByCode :: "u64 \<Rightarrow> ('w, string list) io"
  ParseCoinNormalized :: "string \<Rightarrow> string + Coin"
  NewCoins :: "Coin list \<Rightarrow> Coin list option"
  json_SyntaxError :: "bytes \<Rightarrow> string"

section \<open>ChainClient\<close>

text \<open>The connections, the codec and the keyring are in the library record.\<close>

record ChainClient =
  cc_chainID :: string
  cc_keyName :: string
  cc_contractAddr :: string

definition NewChainClient ::
  "('w, 'k, 'b) chain_sdk \<Rightarrow> string \<Rightarrow> string \<Rightarrow> string \<Rightarrow> string \<Rightarrow> string + ChainClient" where
  "NewChainClient S grpcAddr rpcAddr chainID mnemonic =
     (case grpc_Dial S grpcAddr of
        Some e \<Rightarrow> Inl (''grpc dial: '' @ e)
      | None \<Rightarrow>
          (case rpc_New S rpcAddr of
             Some e \<Rightarrow> Inl (''rpc client: '' @ e)
           | None \<Rightarrow>
               (let hdPath = hd_Path S 118 0 0
                in case kr_NewAccount S ''admin'' mnemonic '''' hdPath of
                     Some e \<Rightarrow> Inl (''import key: '' @ e)
                   | None \<Rightarrow> Inr \<lparr>cc_chainID = chainID, cc_keyName = ''admin'', cc_contractAddr = ''''\<rparr>)))"

definition SetContractAddr :: "ChainClient \<Rightarrow> string \<Rightarrow> ChainClient" where
  "SetContractAddr c addr = c\<lparr>cc_contractAddr := addr\<rparr>"

definition Client_CheckHealth :: "('w, 'k, 'b) chain_sdk \<Rightarrow> ChainClient \<Rightarrow> ('w, unit) io" where
  "Client_CheckHealth S c = rpc_Status S"

definition getSignerAddr :: "('w, 'k, 'b) chain_sdk \<Rightarrow> ChainClient \<Rightarrow> string + bytes" where
  "getSignerAddr S c =
     (case kr_Key S (cc_keyName c) of
        Inl err \<Rightarrow> Inl err
      | Inr rec \<Rightarrow> (case rec_GetAddress S rec of Inl err \<Rightarrow> Inl err | Inr addr \<Rightarrow> Inr addr))"

text \<open>The account is used right after it is unpacked, so a nil one panics.\<close>

definition getAccount :: "('w, 'k, 'b) chain_sdk \<Rightarrow> ChainClient \<Rightarrow> bytes \<Rightarrow> ('w, Account) io" where
  "getAccount S c addr =
     io_bind (auth_Account S (addr_String S addr)) (\<lambda>account.
     io_bind (io_lift (UnpackAny S account)) (\<lambda>acc. io_must acc))"

record TxResponse =
  resp_TxHash :: string
  resp_Code :: "32 word"

definition tx_factory :: "ChainClient \<Rightarrow> Account \<Rightarrow> Factory" where
  "tx_factory c acc =
     \<lparr>fac_ChainID = cc_chainID c, fac_SignMode = SIGN_MODE_DIRECT, fac_AccountNumber = acc_Number acc,
      fac_Sequence = acc_Sequence acc, fac_Gas = 500000, fac_Fees = ''0stake''\<rparr>"

definition broadcastMsg ::
  "('w, 'k, 'b) chain_sdk \<Rightarrow> ChainClient \<Rightarrow> sdk_msg list \<Rightarrow> ('w, TxResponse) io" where
  "broadcastMsg S c msgs =
     io_bind (errorf ''get signer'' (io_lift (getSignerAddr S c))) (\<lambda>addr.
     io_bind (errorf ''get account'' (getAccount S c addr)) (\<lambda>acc.
     let factory = tx_factory c acc in
     io_bind (errorf ''build tx'' (io_lift (BuildUnsignedTx S factory msgs))) (\<lambda>txBuilder.
     io_bind (errorf ''sign'' (io_lift (tx_Sign S factory (cc_keyName c) txBuilder True))) (\<lambda>txBuilder.
     io_bind (errorf ''encode tx'' (io_lift (TxEncoder S txBuilder))) (\<lambda>txBytes.
     io_bind (errorf ''broadcast'' (BroadcastTxSync S txBytes)) (\<lambda>result.
     if broadcast_Code result \<noteq> 0 then
       io_fail (''tx failed (code '' @ fmt_d (unat (broadcast_Code result)) @ ''): '' @ broadcast_Log result)
     else
       io_return \<lparr>resp_TxHash = hash_String S (broadcast_Hash result), resp_Code = broadcast_Code result\<rparr>))))))"

section \<open>Task operations\<close>

text \<open>The answer \<^verbatim>\<open>map[string]interface{}{"tx_hash": resp.TxHash}\<close> of every transaction.\<close>

definition tx_hash_map :: "TxResponse \<Rightarrow> json" where
  "tx_hash_map resp = JObject [(''tx_hash'', JString (resp_TxHash resp))]"

definition Client_CreateTask ::
  "('w, 'k, 'b) chain_sdk \<Rightarrow> ChainClient \<Rightarrow> string \<Rightarrow> string \<Rightarrow> ('w, json) io" where
  "Client_CreateTask S c title description =
     io_bind (io_lift (getSignerAddr S c)) (\<lambda>addr.
     io_bind (broadcastMsg S c [TaskregMsg (CreateMsg
         \<lparr>ct_Creator = addr_String S addr, ct_Title = title, ct_Description = description\<rparr>)]) (\<lambda>resp.
     io_return (tx_hash_map resp)))"

definition Client_GetTask :: "('w, 'k, 'b) chain_sdk \<Rightarrow> ChainClient \<Rightarrow> u64 \<Rightarrow> ('w, Task) io" where
  "Client_GetTask S c taskID w =
     io_bind (\<lambda>w. map_option (Pair w) (queryClient_Task (conn_Task S w) \<lparr>qtr_Id = taskID\<rparr>)) (\<lambda>resp.
     io_return (qts_Task resp)) w"

definition Client_ListTasks :: "('w, 'k, 'b) chain_sdk \<Rightarrow> ChainClient \<Rightarrow> ('w, Task list) io" where
  "Client_ListTasks S c w =
     io_bind (\<lambda>w. map_option (Pair w) (queryClient_ListTasks (conn_ListTasks S w) \<lparr>qlr_Pagination = None\<rparr>))
       (\<lambda>resp. io_return (qls_Tasks resp)) w"

definition Client_AssignTask ::
  "('w, 'k, 'b) chain_sdk \<Rightarrow> ChainClient \<Rightarrow> u64 \<Rightarrow> string \<Rightarrow> ('w, json) io" where
  "Client_AssignTask S c taskID assignee =
     io_bind (io_lift (getSignerAddr S c)) (\<lambda>addr.
     io_bind (broadcastMsg S c [TaskregMsg (AssignMsg
         \<lparr>at_Creator = addr_String S addr, at_TaskId = taskID, at_Assignee = assignee\<rparr>)]) (\<lambda>resp.
     io_return (tx_hash_map resp)))"

definition Client_CompleteTask :: "('w, 'k, 'b) chain_sdk \<Rightarrow> ChainClient \<Rightarrow> u64 \<Rightarrow> ('w, json) io" where
  "Client_CompleteTask S c taskID =
     io_bind (io_lift (getSignerAddr S c)) (\<lambda>addr.
     io_bind (broadcastMsg S c [TaskregMsg (CompleteMsg
         \<lparr>cp_Assignee = addr_String S addr, cp_TaskId = taskID\<rparr>)]) (\<lambda>resp.
     io_return (tx_hash_map resp)))"

section \<open>Bounty operations\<close>

text \<open>The argument of an operation of the contract that concerns one task.\<close>

definition task_call :: "string \<Rightarrow> u64 \<Rightarrow> json" where
  "task_call operation taskID = JObject [(operation, JObject [(''task_id'', JNumber (fmt_d (unat taskID)))])]"

definition FundBounty ::
  "('w, 'k, 'b) chain_sdk \<Rightarrow> ChainClient \<Rightarrow> u64 \<Rightarrow> string \<Rightarrow> string \<Rightarrow> ('w, json) io" where
  "FundBounty S c taskID amount denom =
     io_bind (io_lift (getSignerAddr S c)) (\<lambda>addr.
     let executeMsg = bytes_of (json_text (task_call ''fund_bounty'' taskID)) in
     io_bind (errorf ''parse coin'' (io_lift (ParseCoinNormalized S (amount @ denom)))) (\<lambda>coin.
     io_bind (io_must (NewCoins S [coin])) (\<lambda>funds.
     io_bind (broadcastMsg S c [ExecuteMsg
         \<lparr>exec_Sender = addr_String S addr, exec_Contract = cc_contractAddr c, exec_Msg = executeMsg,
          exec_Funds = funds\<rparr>]) (\<lambda>resp.
     io_return (tx_hash_map resp)))))"

definition ClaimBounty :: "('w, 'k, 'b) chain_sdk \<Rightarrow> ChainClient \<Rightarrow> u64 \<Rightarrow> ('w, json) io" where
  "ClaimBounty S c taskID =
     io_bind (io_lift (getSignerAddr S c)) (\<lambda>addr.
     let executeMsg = bytes_of (json_text (task_call ''claim_bounty'' taskID)) in
     io_bind (broadcastMsg S c [ExecuteMsg
         \<lparr>exec_Sender = addr_String S addr, exec_Contract = cc_contractAddr c, exec_Msg = executeMsg,
          exec_Funds = []\<rparr>]) (\<lambda>resp.
     io_return (tx_hash_map resp)))"

text \<open>The decoded answer of the contract.\<close>

definition queryContract :: "('w, 'k, 'b) chain_sdk \<Rightarrow> ChainClient \<Rightarrow> bytes \<Rightarrow> ('w, any) io" where
  "queryContract S c queryMsg =
     io_bind (wasm_SmartContractState S (cc_contractAddr c) queryMsg) (\<lambda>data.
     io_bind (io_lift (Unmarshal_any (json_SyntaxError S) data)) (\<lambda>result.
     io_return result))"

definition GetBounty :: "('w, 'k, 'b) chain_sdk \<Rightarrow> ChainClient \<Rightarrow> u64 \<Rightarrow> ('w, any) io" where
  "GetBounty S c taskID = queryContract S c (bytes_of (json_text (task_call ''bounty'' taskID)))"

definition ListBounties :: "('w, 'k, 'b) chain_sdk \<Rightarrow> ChainClient \<Rightarrow> ('w, any) io" where
  "ListBounties S c = queryContract S c (bytes_of (json_text (JObject [(''list_bounties'', JObject [])])))"

definition GetContractConfig :: "('w, 'k, 'b) chain_sdk \<Rightarrow> ChainClient \<Rightarrow> ('w, any) io" where
  "GetContractConfig S c = queryContract S c (bytes_of (json_text (JObject [(''config'', JObject [])])))"

definition ResolveContractByCodeID :: "('w, 'k, 'b) chain_sdk \<Rightarrow> ChainClient \<Rightarrow> u64 \<Rightarrow> ('w, string) io" where
  "ResolveContractByCodeID S c codeID =
     io_bind (errorf ''query contracts by code'' (wasm_ContractsByCode S codeID)) (\<lambda>contracts.
     if contracts = [] then io_fail (''no contracts found for code ID '' @ fmt_d (unat codeID))
     else io_return (contracts ! 0))"

end
