(* ===== verification/Api_Kv_Client.thy ===== *)
theory Api_Kv_Client
  imports Api_Client Kv_App
begin

text \<open>
  \<^verbatim>\<open>api-backend/client/kvstore.go\<close>: the client of the key-value chain. The RPC connection is a
  parameter. A locale states what CometBFT documents of its calls when the application behind
  them is the one of \<^theory_text>\<open>Kv_App\<close>: a transaction that \<open>CheckTx\<close> refuses is not executed and its
  result keeps its zero value; any other one is executed in a block. The facts about \<open>KV_Set\<close> and
  \<open>KV_Get\<close> are proved in it, and it is interpreted on a node that puts each transaction into a
  block of its own.
\<close>

section \<open>hex and Sprintf\<close>

text \<open>\<^verbatim>\<open>hex.EncodeToString\<close>.\<close>

definition hex_EncodeToString :: "bytes \<Rightarrow> string" where
  "hex_EncodeToString b = concat (map (\<lambda>x. [hex_digit (unat x div 16), hex_digit (unat x mod 16)]) b)"

section \<open>KVStoreClient\<close>

record ResultBroadcastTxCommit =
  commit_CheckTx :: tx_result
  commit_TxResult :: tx_result
  commit_Hash :: bytes

record 'w kv_rpc =
  kv_New :: "string \<Rightarrow> string option"
  BroadcastTxCommit :: "bytes \<Rightarrow> ('w, ResultBroadcastTxCommit) io"
  ABCIQuery :: "string \<Rightarrow> bytes \<Rightarrow> ('w, ResponseQuery) io"
  kv_Status :: "('w, unit) io"

definition NewKVStoreClient :: "'w kv_rpc \<Rightarrow> string \<Rightarrow> string + 'w kv_rpc" where
  "NewKVStoreClient K rpcAddr =
     (case kv_New K rpcAddr of
        Some e \<Rightarrow> Inl (''failed to create KV RPC client: '' @ e)
      | None \<Rightarrow> Inr K)"

text \<open>The transaction \<^verbatim>\<open>fmt.Sprintf("%s=%s", key, value)\<close>.\<close>

definition set_tx :: "string \<Rightarrow> string \<Rightarrow> bytes" where
  "set_tx key value = bytes_of (key @ ''='' @ value)"

text \<open>The answer is a map, whose keys the encoder sorts.\<close>

definition KV_Set :: "'w kv_rpc \<Rightarrow> string \<Rightarrow> string \<Rightarrow> ('w, json) io" where
  "KV_Set K key value =
     (let tx = set_tx key value
      in io_bind (errorf ''broadcast tx'' (BroadcastTxCommit K tx)) (\<lambda>result.
         if result_Code (commit_TxResult result) \<noteq> 0 then
           io_fail (''tx failed: '' @ result_Log (commit_TxResult result))
         else
           let txHash = hex_EncodeToString (commit_Hash result)
           in io_return (JObject [(''key'', JString key), (''tx_hash'', JString txHash), (''value'', JString value)])))"

definition KV_Get :: "'w kv_rpc \<Rightarrow> string \<Rightarrow> ('w, string) io" where
  "KV_Get K key =
     io_bind (errorf ''ABCI query'' (ABCIQuery K '''' (bytes_of key))) (\<lambda>response.
     if query_Code response \<noteq> 0 then io_fail (''key not found: '' @ query_Log response)
     else io_return (string_of (query_Value response)))"

definition KV_CheckHealth :: "'w kv_rpc \<Rightarrow> ('w, unit) io" where
  "KV_CheckHealth K = kv_Status K"

definition KV_Status :: "'w kv_rpc \<Rightarrow> ('w, unit) io" where
  "KV_Status K = kv_Status K"

section \<open>The node behind the connection\<close>

definition zero_tx_result :: tx_result where
  "zero_tx_result = \<lparr>result_Code = 0, result_Log = []\<rparr>"

locale kv_node =
  fixes K :: "'w kv_rpc"
    and bd :: "('d, 't, 'i) badger"
    and app_of :: "'w \<Rightarrow> 'd KVStoreApp"
    and block_of :: "'w \<Rightarrow> bytes \<Rightarrow> RequestFinalizeBlock"
  assumes refused_law: "result_Code (CheckTx tx) \<noteq> 0 \<Longrightarrow> BroadcastTxCommit K tx w = Some (w1, Inr r)
      \<Longrightarrow> app_of w1 = app_of w \<and> commit_TxResult r = zero_tx_result"
    and executed_law: "result_Code (CheckTx tx) = 0 \<Longrightarrow> BroadcastTxCommit K tx w = Some (w1, Inr r)
      \<Longrightarrow> app_of w1 = run_block bd (app_of w) (block_of w tx)
        \<and> (\<exists>i < length (block_Txs (block_of w tx)). block_Txs (block_of w tx) ! i = tx
            \<and> commit_TxResult r = final_TxResults (snd (FinalizeBlock (app_of w) (block_of w tx))) ! i)"
    and query_law: "ABCIQuery K path data w = Some (w1, Inr resp)
      \<Longrightarrow> app_of w1 = app_of w \<and> resp = Query bd (app_of w) data"

lemma valid_set_tx: "isValidTx (set_tx key value) \<longleftrightarrow> key \<noteq> [] \<and> hd key \<noteq> CHR ''=''"
proof (cases key)
  case (Cons c s)
  have "byte_of_char c = byte_of_char (CHR ''='') \<longleftrightarrow> c = CHR ''=''"
    by (metis char_of_byte_of_char)
  then have "byte_of_char c = 0x3d \<longleftrightarrow> c = CHR ''=''" by (simp add: byte_of_char_def [of "CHR ''=''"])
  then show ?thesis
    by (simp add: Cons isValidTx_iff set_tx_def tx_key_def bytes_of_def)
      (auto simp: byte_of_char_def)
qed (simp add: isValidTx_iff set_tx_def tx_key_def bytes_of_def byte_of_char_def)

lemma CheckTx_code: "result_Code (CheckTx tx) = 0 \<longleftrightarrow> isValidTx tx"
  by (simp add: CheckTx_def)

context kv_node
begin

text \<open>What the answer of \<open>KV_Set\<close> says of the application.\<close>

lemma KV_Set_refused:
  assumes "\<not> isValidTx (set_tx key value)" and "KV_Set K key value w = Some (w1, r)"
    and "BroadcastTxCommit K (set_tx key value) w = Some (w1, Inr res)"
  shows "r = Inr (JObject [(''key'', JString key), (''tx_hash'', JString (hex_EncodeToString (commit_Hash res))),
      (''value'', JString value)]) \<and> app_of w1 = app_of w"
  using assms refused_law [OF _ assms(3)]
  by (simp add: KV_Set_def io_simps CheckTx_code zero_tx_result_def)

lemma KV_Set_executed:
  assumes "isValidTx (set_tx key value)" and "BroadcastTxCommit K (set_tx key value) w = Some (w1, Inr res)"
  shows "KV_Set K key value w = Some (w1, Inr (JObject [(''key'', JString key),
      (''tx_hash'', JString (hex_EncodeToString (commit_Hash res))), (''value'', JString value)]))
    \<and> app_of w1 = run_block bd (app_of w) (block_of w (set_tx key value))
    \<and> set_tx key value \<in> set (block_Txs (block_of w (set_tx key value)))"
proof -
  from executed_law [OF _ assms(2)] assms(1) obtain i where
    i: "i < length (block_Txs (block_of w (set_tx key value)))"
      "block_Txs (block_of w (set_tx key value)) ! i = set_tx key value"
      "commit_TxResult res = final_TxResults (snd (FinalizeBlock (app_of w) (block_of w (set_tx key value)))) ! i"
      "app_of w1 = run_block bd (app_of w) (block_of w (set_tx key value))"
    by (auto simp: CheckTx_code)
  have "result_Code (commit_TxResult res) = 0"
    using i assms(1) by (simp add: FinalizeBlock_eq deliver_result_def)
  with i assms(2) show ?thesis by (auto simp: KV_Set_def io_simps in_set_conv_nth)
qed

lemma KV_Get_eq:
  assumes "ABCIQuery K '''' (bytes_of key) w = Some (w1, Inr resp)"
  shows "app_of w1 = app_of w"
    and "Query bd (app_of w) (bytes_of key) = \<lparr>query_Code = 0, query_Log = [], query_Key = kk, query_Value = v\<rparr>
      \<Longrightarrow> KV_Get K key w = Some (w1, Inr (string_of v))"
  using query_law [OF assms] assms by (simp_all add: KV_Get_def io_simps)

end

section \<open>A node with one client\<close>

text \<open>Each accepted transaction gets a block of its own at the next height.\<close>

definition solo_block :: "'d KVStoreApp \<Rightarrow> bytes \<Rightarrow> RequestFinalizeBlock" where
  "solo_block app tx = \<lparr>block_Txs = [tx], block_Height = app_height app + 1\<rparr>"

definition solo_rpc :: "('d, 't, 'i) badger \<Rightarrow> (bytes \<Rightarrow> bytes) \<Rightarrow> 'd KVStoreApp kv_rpc" where
  "solo_rpc bd hash =
     \<lparr>kv_New = (\<lambda>_. None),
      BroadcastTxCommit = (\<lambda>tx app.
        if result_Code (CheckTx tx) \<noteq> 0 then
          Some (app, Inr \<lparr>commit_CheckTx = CheckTx tx, commit_TxResult = zero_tx_result, commit_Hash = hash tx\<rparr>)
        else
          let res = final_TxResults (snd (FinalizeBlock app (solo_block app tx))) ! 0
          in Some (run_block bd app (solo_block app tx),
               Inr \<lparr>commit_CheckTx = CheckTx tx, commit_TxResult = res, commit_Hash = hash tx\<rparr>)),
      ABCIQuery = (\<lambda>path data app. Some (app, Inr (Query bd app data))),
      kv_Status = (\<lambda>app. Some (app, Inr ()))\<rparr>"

interpretation solo: kv_node "solo_rpc bd hash" bd "\<lambda>app. app" solo_block
  by unfold_locales (auto simp: solo_rpc_def solo_block_def Let_def split: if_splits)

end
