(* ===== verification/Api_Handlers.thy ===== *)
theory Api_Handlers
  imports Api_Kv_Client
begin

text \<open>
  \<^verbatim>\<open>api-backend/handlers\<close>: the HTTP handlers. A request is what the router hands to a handler (the
  URL parameters of the matched pattern and the body); a response is the status, the content type
  and the text of the body. A handler maps the outside world to the new world and its response;
  \<open>None\<close> is a panic, which the \<^verbatim>\<open>Recoverer\<close> middleware answers. Log output is left out.
\<close>

section \<open>util.go\<close>

record http_request =
  url_params :: "(string \<times> string) list"
  req_body :: string

record http_response =
  resp_Status :: nat
  resp_ContentType :: string
  resp_Body :: string

definition URLParam :: "http_request \<Rightarrow> string \<Rightarrow> string" where
  "URLParam r name = (case map_of (url_params r) name of None \<Rightarrow> '''' | Some v \<Rightarrow> v)"

text \<open>\<open>Data\<close> is an interface, which is nil or holds a value.\<close>

record APIResponse =
  api_Success :: bool
  api_Data :: "json option"
  api_Error :: string

text \<open>\<^verbatim>\<open>data\<close> and \<^verbatim>\<open>error\<close> are omitted when they are empty.\<close>

definition APIResponse_json :: "APIResponse \<Rightarrow> json" where
  "APIResponse_json resp =
     JObject ([(''success'', JBool (api_Success resp))]
       @ (case api_Data resp of None \<Rightarrow> [] | Some d \<Rightarrow> [(''data'', d)])
       @ (if api_Error resp = '''' then [] else [(''error'', JString (api_Error resp))]))"

definition Encode :: "json \<Rightarrow> string" where
  "Encode v = json_text v @ [CHR 0x0A]"

definition respondJSON :: "nat \<Rightarrow> json option \<Rightarrow> http_response" where
  "respondJSON status data =
     \<lparr>resp_Status = status, resp_ContentType = ''application/json'',
      resp_Body = Encode (APIResponse_json \<lparr>api_Success = (status < 400), api_Data = data, api_Error = ''''\<rparr>)\<rparr>"

definition respondError :: "nat \<Rightarrow> string \<Rightarrow> http_response" where
  "respondError status msg =
     \<lparr>resp_Status = status, resp_ContentType = ''application/json'',
      resp_Body = Encode (APIResponse_json \<lparr>api_Success = False, api_Data = None, api_Error = msg\<rparr>)\<rparr>"

definition StatusOK :: nat where "StatusOK = 200"
definition StatusCreated :: nat where "StatusCreated = 201"
definition StatusBadRequest :: nat where "StatusBadRequest = 400"
definition StatusInternalServerError :: nat where "StatusInternalServerError = 500"

lemmas http_status_defs = StatusOK_def StatusCreated_def StatusBadRequest_def StatusInternalServerError_def

type_synonym 'w handler = "http_request \<Rightarrow> 'w \<Rightarrow> ('w \<times> http_response) option"

text \<open>
  The end of every handler: call the client, answer 500 with the text of an error, and the given
  status with the result otherwise.
\<close>

definition answer :: "nat \<Rightarrow> ('a \<Rightarrow> json option) \<Rightarrow> ('w, 'a) io \<Rightarrow> 'w \<Rightarrow> ('w \<times> http_response) option" where
  "answer status data call w =
     (case call w of
        None \<Rightarrow> None
      | Some (w1, Inl err) \<Rightarrow> Some (w1, respondError StatusInternalServerError err)
      | Some (w1, Inr result) \<Rightarrow> Some (w1, respondJSON status (data result)))"

section \<open>tasks.go\<close>

record CreateTaskRequest =
  ctq_Title :: string
  ctq_Description :: string

record AssignTaskRequest =
  atq_Assignee :: string

definition store_CreateTaskRequest :: "string \<Rightarrow> json \<Rightarrow> CreateTaskRequest \<Rightarrow> CreateTaskRequest option" where
  "store_CreateTaskRequest f v x =
     (if f = ''title'' then map_option (\<lambda>s. x\<lparr>ctq_Title := s\<rparr>) (json_string v)
      else if f = ''description'' then map_option (\<lambda>s. x\<lparr>ctq_Description := s\<rparr>) (json_string v)
      else None)"

definition Decode_CreateTaskRequest :: "string \<Rightarrow> CreateTaskRequest option" where
  "Decode_CreateTaskRequest =
     Decode [''title'', ''description''] store_CreateTaskRequest \<lparr>ctq_Title = '''', ctq_Description = ''''\<rparr>"

definition store_AssignTaskRequest :: "string \<Rightarrow> json \<Rightarrow> AssignTaskRequest \<Rightarrow> AssignTaskRequest option" where
  "store_AssignTaskRequest f v x = map_option (\<lambda>s. x\<lparr>atq_Assignee := s\<rparr>) (json_string v)"

definition Decode_AssignTaskRequest :: "string \<Rightarrow> AssignTaskRequest option" where
  "Decode_AssignTaskRequest = Decode [''assignee''] store_AssignTaskRequest \<lparr>atq_Assignee = ''''\<rparr>"

text \<open>The struct tags of \<^verbatim>\<open>Task\<close>: every field is omitted when it is empty.\<close>

definition json_int :: "i32 \<Rightarrow> string" where
  "json_int n = (if sint n < 0 then CHR ''-'' # fmt_d (nat (- sint n)) else fmt_d (nat (sint n)))"

definition Task_json :: "Task \<Rightarrow> json" where
  "Task_json t =
     JObject ((if task_Id t = 0 then [] else [(''id'', JNumber (fmt_d (unat (task_Id t))))])
       @ (if task_Title t = '''' then [] else [(''title'', JString (task_Title t))])
       @ (if task_Description t = '''' then [] else [(''description'', JString (task_Description t))])
       @ (if task_Creator t = '''' then [] else [(''creator'', JString (task_Creator t))])
       @ (if task_Assignee t = '''' then [] else [(''assignee'', JString (task_Assignee t))])
       @ (if task_Status t = 0 then [] else [(''status'', JNumber (json_int (task_Status t)))]))"

text \<open>A nil slice is written as \<^verbatim>\<open>null\<close>; the decoder of the query leaves an empty list nil.\<close>

definition Tasks_json :: "Task list \<Rightarrow> json" where
  "Tasks_json ts = (if ts = [] then JNull else JArray (map Task_json ts))"

definition TaskHandler_CreateTask :: "('w, 'k, 'b) chain_sdk \<Rightarrow> ChainClient \<Rightarrow> 'w handler" where
  "TaskHandler_CreateTask S c r w =
     (case Decode_CreateTaskRequest (req_body r) of
        None \<Rightarrow> Some (w, respondError StatusBadRequest ''invalid request body'')
      | Some req \<Rightarrow>
          if ctq_Title req = '''' then Some (w, respondError StatusBadRequest ''title is required'')
          else answer StatusCreated Some (Client_CreateTask S c (ctq_Title req) (ctq_Description req)) w)"

definition TaskHandler_ListTasks :: "('w, 'k, 'b) chain_sdk \<Rightarrow> ChainClient \<Rightarrow> 'w handler" where
  "TaskHandler_ListTasks S c r w = answer StatusOK (\<lambda>ts. Some (Tasks_json ts)) (Client_ListTasks S c) w"

definition TaskHandler_GetTask :: "('w, 'k, 'b) chain_sdk \<Rightarrow> ChainClient \<Rightarrow> 'w handler" where
  "TaskHandler_GetTask S c r w =
     (case ParseUint (URLParam r ''id'') of
        (_, Some err) \<Rightarrow> Some (w, respondError StatusBadRequest ''invalid task id'')
      | (taskID, None) \<Rightarrow> answer StatusOK (\<lambda>t. Some (Task_json t)) (Client_GetTask S c taskID) w)"

definition TaskHandler_AssignTask :: "('w, 'k, 'b) chain_sdk \<Rightarrow> ChainClient \<Rightarrow> 'w handler" where
  "TaskHandler_AssignTask S c r w =
     (case ParseUint (URLParam r ''id'') of
        (_, Some err) \<Rightarrow> Some (w, respondError StatusBadRequest ''invalid task id'')
      | (taskID, None) \<Rightarrow>
          (case Decode_AssignTaskRequest (req_body r) of
             None \<Rightarrow> Some (w, respondError StatusBadRequest ''invalid request body'')
           | Some req \<Rightarrow> answer StatusOK Some (Client_AssignTask S c taskID (atq_Assignee req)) w))"

definition TaskHandler_CompleteTask :: "('w, 'k, 'b) chain_sdk \<Rightarrow> ChainClient \<Rightarrow> 'w handler" where
  "TaskHandler_CompleteTask S c r w =
     (case ParseUint (URLParam r ''id'') of
        (_, Some err) \<Rightarrow> Some (w, respondError StatusBadRequest ''invalid task id'')
      | (taskID, None) \<Rightarrow> answer StatusOK Some (Client_CompleteTask S c taskID) w)"

section \<open>bounties.go\<close>

record FundBountyRequest =
  fbq_TaskID :: u64
  fbq_Amount :: string
  fbq_Denom :: string

record ClaimBountyRequest =
  cbq_TaskID :: u64

definition store_FundBountyRequest :: "string \<Rightarrow> json \<Rightarrow> FundBountyRequest \<Rightarrow> FundBountyRequest option" where
  "store_FundBountyRequest f v x =
     (if f = ''task_id'' then map_option (\<lambda>n. x\<lparr>fbq_TaskID := n\<rparr>) (json_uint64 v)
      else if f = ''amount'' then map_option (\<lambda>s. x\<lparr>fbq_Amount := s\<rparr>) (json_string v)
      else if f = ''denom'' then map_option (\<lambda>s. x\<lparr>fbq_Denom := s\<rparr>) (json_string v)
      else None)"

definition Decode_FundBountyRequest :: "string \<Rightarrow> FundBountyRequest option" where
  "Decode_FundBountyRequest =
     Decode [''task_id'', ''amount'', ''denom''] store_FundBountyRequest
       \<lparr>fbq_TaskID = 0, fbq_Amount = '''', fbq_Denom = ''''\<rparr>"

definition store_ClaimBountyRequest :: "string \<Rightarrow> json \<Rightarrow> ClaimBountyRequest \<Rightarrow> ClaimBountyRequest option" where
  "store_ClaimBountyRequest f v x = map_option (\<lambda>n. x\<lparr>cbq_TaskID := n\<rparr>) (json_uint64 v)"

definition Decode_ClaimBountyRequest :: "string \<Rightarrow> ClaimBountyRequest option" where
  "Decode_ClaimBountyRequest = Decode [''task_id''] store_ClaimBountyRequest \<lparr>cbq_TaskID = 0\<rparr>"

definition BountyHandler_FundBounty :: "('w, 'k, 'b) chain_sdk \<Rightarrow> ChainClient \<Rightarrow> 'w handler" where
  "BountyHandler_FundBounty S c r w =
     (case Decode_FundBountyRequest (req_body r) of
        None \<Rightarrow> Some (w, respondError StatusBadRequest ''invalid request body'')
      | Some req \<Rightarrow>
          answer StatusCreated Some (FundBounty S c (fbq_TaskID req) (fbq_Amount req) (fbq_Denom req)) w)"

definition BountyHandler_ClaimBounty :: "('w, 'k, 'b) chain_sdk \<Rightarrow> ChainClient \<Rightarrow> 'w handler" where
  "BountyHandler_ClaimBounty S c r w =
     (case Decode_ClaimBountyRequest (req_body r) of
        None \<Rightarrow> Some (w, respondError StatusBadRequest ''invalid request body'')
      | Some req \<Rightarrow> answer StatusOK Some (ClaimBounty S c (cbq_TaskID req)) w)"

definition BountyHandler_GetBounty :: "('w, 'k, 'b) chain_sdk \<Rightarrow> ChainClient \<Rightarrow> 'w handler" where
  "BountyHandler_GetBounty S c r w =
     (case ParseUint (URLParam r ''id'') of
        (_, Some err) \<Rightarrow> Some (w, respondError StatusBadRequest ''invalid bounty id'')
      | (taskID, None) \<Rightarrow> answer StatusOK any_data (GetBounty S c taskID) w)"

definition BountyHandler_ListBounties :: "('w, 'k, 'b) chain_sdk \<Rightarrow> ChainClient \<Rightarrow> 'w handler" where
  "BountyHandler_ListBounties S c r w = answer StatusOK any_data (ListBounties S c) w"

definition BountyHandler_GetConfig :: "('w, 'k, 'b) chain_sdk \<Rightarrow> ChainClient \<Rightarrow> 'w handler" where
  "BountyHandler_GetConfig S c r w = answer StatusOK any_data (GetContractConfig S c) w"

section \<open>kvstore.go\<close>

record SetKVRequest =
  skq_Value :: string

definition store_SetKVRequest :: "string \<Rightarrow> json \<Rightarrow> SetKVRequest \<Rightarrow> SetKVRequest option" where
  "store_SetKVRequest f v x = map_option (\<lambda>s. x\<lparr>skq_Value := s\<rparr>) (json_string v)"

definition Decode_SetKVRequest :: "string \<Rightarrow> SetKVRequest option" where
  "Decode_SetKVRequest = Decode [''value''] store_SetKVRequest \<lparr>skq_Value = ''''\<rparr>"

definition KVStoreHandler_SetKey :: "'w kv_rpc \<Rightarrow> 'w handler" where
  "KVStoreHandler_SetKey K r w =
     (let key = URLParam r ''key''
      in if key = '''' then Some (w, respondError StatusBadRequest ''key is required'')
         else case Decode_SetKVRequest (req_body r) of
                None \<Rightarrow> Some (w, respondError StatusBadRequest ''invalid request body'')
              | Some req \<Rightarrow> answer StatusOK Some (KV_Set K key (skq_Value req)) w)"

definition KVStoreHandler_GetKey :: "'w kv_rpc \<Rightarrow> 'w handler" where
  "KVStoreHandler_GetKey K r w =
     (let key = URLParam r ''key''
      in if key = '''' then Some (w, respondError StatusBadRequest ''key is required'')
         else answer StatusOK (\<lambda>value. Some (JObject [(''key'', JString key), (''value'', JString value)]))
                (KV_Get K key) w)"

section \<open>health.go\<close>

text \<open>The two status calls run one after the other, whatever the first one says.\<close>

definition health_text :: "string + unit \<Rightarrow> string" where
  "health_text r = (case r of Inl err \<Rightarrow> ''error: '' @ err | Inr _ \<Rightarrow> ''ok'')"

definition HealthHandler_Health :: "('w, 'k, 'b) chain_sdk \<Rightarrow> ChainClient \<Rightarrow> 'w kv_rpc \<Rightarrow> 'w handler" where
  "HealthHandler_Health S c K r w =
     (case Client_CheckHealth S c w of
        None \<Rightarrow> None
      | Some (w1, chain) \<Rightarrow>
          (case KV_CheckHealth K w1 of
             None \<Rightarrow> None
           | Some (w2, kvstore) \<Rightarrow>
               Some (w2, respondJSON StatusOK (Some (JObject
                 [(''chain'', JString (health_text chain)), (''kvstore'', JString (health_text kvstore))])))))"

end
