(* ===== verification/Api_Main.thy ===== *)
theory Api_Main
  imports Api_Handlers
begin

text \<open>
  \<^verbatim>\<open>api-backend/main.go\<close>: the configuration from the environment, the wait for the two chains, the
  resolution of the contract's address with its retries, and the table of routes. The router
  itself is a library: it hands the request and its URL parameters to the handler of the matched
  pattern. \<^verbatim>\<open>log.Fatalf\<close> ends the process: \<open>None\<close>.
\<close>

section \<open>Configuration\<close>

text \<open>\<^verbatim>\<open>os.Getenv\<close> gives the empty string for a variable that is not set.\<close>

definition envOrDefault :: "(string \<Rightarrow> string) \<Rightarrow> string \<Rightarrow> string \<Rightarrow> string" where
  "envOrDefault getenv key def = (let v = getenv key in if v \<noteq> '''' then v else def)"

record config =
  cfg_chainGRPC :: string
  cfg_chainRPC :: string
  cfg_kvstoreRPC :: string
  cfg_chainID :: string
  cfg_mnemonic :: string
  cfg_wasmCodeID :: u64
  cfg_port :: string

text \<open>The error of \<^verbatim>\<open>ParseUint\<close> is dropped, its value is kept.\<close>

definition read_config :: "(string \<Rightarrow> string) \<Rightarrow> config" where
  "read_config getenv =
     \<lparr>cfg_chainGRPC = envOrDefault getenv ''CHAIN_GRPC_ADDR'' ''localhost:9090'',
      cfg_chainRPC = envOrDefault getenv ''CHAIN_RPC_ADDR'' ''http://localhost:26657'',
      cfg_kvstoreRPC = envOrDefault getenv ''KVSTORE_RPC_ADDR'' ''http://localhost:36657'',
      cfg_chainID = envOrDefault getenv ''CHAIN_ID'' ''mychain-1'',
      cfg_mnemonic = envOrDefault getenv ''TEST_MNEMONIC'' '''',
      cfg_wasmCodeID = fst (ParseUint (envOrDefault getenv ''WASM_CODE_ID'' ''1'')),
      cfg_port = envOrDefault getenv ''PORT'' ''8080''\<rparr>"

section \<open>Waiting\<close>

text \<open>\<^verbatim>\<open>http.Get\<close> gives a status code or an error, or never returns, \<open>None\<close>: it uses the default
  client, which has no timeout. \<^verbatim>\<open>time.Sleep\<close> lets seconds pass. The loop and its callers pass a
  request that never returns on.\<close>

record 'w net =
  http_Get :: "string \<Rightarrow> 'w \<Rightarrow> ('w \<times> (string + nat)) option"
  Sleep :: "nat \<Rightarrow> 'w \<Rightarrow> 'w"

fun wait_loop :: "'w net \<Rightarrow> string \<Rightarrow> nat \<Rightarrow> 'w \<Rightarrow> 'w option" where
  "wait_loop N url 0 w = Some w"
| "wait_loop N url (Suc n) w =
     (case http_Get N url w of
        None \<Rightarrow> None
      | Some (w1, Inr status) \<Rightarrow> if status = 200 then Some w1 else wait_loop N url n (Sleep N 2 w1)
      | Some (w1, Inl err) \<Rightarrow> wait_loop N url n (Sleep N 2 w1))"

definition waitForReady :: "'w net \<Rightarrow> string \<Rightarrow> nat \<Rightarrow> 'w \<Rightarrow> 'w option" where
  "waitForReady N url maxRetries = wait_loop N url maxRetries"

section \<open>The contract's address\<close>

text \<open>The loop of \<^verbatim>\<open>main\<close> from its \<open>i\<close>-th round on; the client is changed in place.\<close>

function resolve_loop ::
  "'w net \<Rightarrow> ('w, 'k, 'b) chain_sdk \<Rightarrow> u64 \<Rightarrow> nat \<Rightarrow> ChainClient \<Rightarrow> 'w \<Rightarrow> ('w \<times> ChainClient) option" where
  "resolve_loop N S wasmCodeID i chainClient w =
     (if \<not> i < 5 then Some (w, chainClient)
      else case ResolveContractByCodeID S chainClient wasmCodeID w of
             None \<Rightarrow> None
           | Some (w1, Inr addr) \<Rightarrow> Some (w1, SetContractAddr chainClient addr)
           | Some (w1, Inl err) \<Rightarrow>
               if i = 4 then resolve_loop N S wasmCodeID (i + 1) chainClient w1
               else resolve_loop N S wasmCodeID (i + 1) chainClient (Sleep N 3 w1))"
  by pat_completeness auto
termination
  by (relation "measure (\<lambda>(N, S, c, i, cc, w). 5 - i)") auto

declare resolve_loop.simps [simp del]

section \<open>Routes\<close>

datatype endpoint =
    HealthEP
  | CreateTaskEP
  | ListTasksEP
  | GetTaskEP
  | AssignTaskEP
  | CompleteTaskEP
  | FundBountyEP
  | ClaimBountyEP
  | GetBountyEP
  | ListBountiesEP
  | GetConfigEP
  | SetKeyEP
  | GetKeyEP

definition routes :: "(string \<times> string \<times> endpoint) list" where
  "routes =
     [(''GET'', ''/api/health'', HealthEP),
      (''POST'', ''/api/tasks'', CreateTaskEP),
      (''GET'', ''/api/tasks'', ListTasksEP),
      (''GET'', ''/api/tasks/{id}'', GetTaskEP),
      (''POST'', ''/api/tasks/{id}/assign'', AssignTaskEP),
      (''POST'', ''/api/tasks/{id}/complete'', CompleteTaskEP),
      (''POST'', ''/api/bounties/fund'', FundBountyEP),
      (''POST'', ''/api/bounties/claim'', ClaimBountyEP),
      (''GET'', ''/api/bounties/{id}'', GetBountyEP),
      (''GET'', ''/api/bounties'', ListBountiesEP),
      (''GET'', ''/api/config'', GetConfigEP),
      (''PUT'', ''/api/kv/{key}'', SetKeyEP),
      (''GET'', ''/api/kv/{key}'', GetKeyEP)]"

fun serve :: "('w, 'k, 'b) chain_sdk \<Rightarrow> ChainClient \<Rightarrow> 'w kv_rpc \<Rightarrow> endpoint \<Rightarrow> 'w handler" where
  "serve S c K HealthEP = HealthHandler_Health S c K"
| "serve S c K CreateTaskEP = TaskHandler_CreateTask S c"
| "serve S c K ListTasksEP = TaskHandler_ListTasks S c"
| "serve S c K GetTaskEP = TaskHandler_GetTask S c"
| "serve S c K AssignTaskEP = TaskHandler_AssignTask S c"
| "serve S c K CompleteTaskEP = TaskHandler_CompleteTask S c"
| "serve S c K FundBountyEP = BountyHandler_FundBounty S c"
| "serve S c K ClaimBountyEP = BountyHandler_ClaimBounty S c"
| "serve S c K GetBountyEP = BountyHandler_GetBounty S c"
| "serve S c K ListBountiesEP = BountyHandler_ListBounties S c"
| "serve S c K GetConfigEP = BountyHandler_GetConfig S c"
| "serve S c K SetKeyEP = KVStoreHandler_SetKey K"
| "serve S c K GetKeyEP = KVStoreHandler_GetKey K"

section \<open>main\<close>

record 'w service =
  svc_client :: ChainClient
  svc_kv :: "'w kv_rpc"
  svc_addr :: string

text \<open>Everything before \<^verbatim>\<open>ListenAndServe\<close>. \<open>None\<close> is a start that ends in \<^verbatim>\<open>log.Fatalf\<close> or in a panic,
  or that waits forever for a request. The encoding configuration is the parameter \<open>S\<close>.\<close>

definition startup ::
  "(string \<Rightarrow> string) \<Rightarrow> 'w net \<Rightarrow> ('w, 'k, 'b) chain_sdk \<Rightarrow> 'w kv_rpc \<Rightarrow> 'w \<Rightarrow> ('w \<times> 'w service) option" where
  "startup getenv N S K w =
     (let cfg = read_config getenv in
      case waitForReady N (cfg_chainRPC cfg @ ''/status'') 60 w of
        None \<Rightarrow> None
      | Some w \<Rightarrow>
     (case waitForReady N (cfg_kvstoreRPC cfg @ ''/status'') 60 w of
        None \<Rightarrow> None
      | Some w \<Rightarrow>
     (case NewChainClient S (cfg_chainGRPC cfg) (cfg_chainRPC cfg) (cfg_chainID cfg) (cfg_mnemonic cfg) of
        Inl err \<Rightarrow> None
      | Inr chainClient \<Rightarrow>
          (case (if 0 < cfg_wasmCodeID cfg then resolve_loop N S (cfg_wasmCodeID cfg) 0 chainClient w
                 else Some (w, chainClient)) of
             None \<Rightarrow> None
           | Some (w, chainClient) \<Rightarrow>
               (case NewKVStoreClient K (cfg_kvstoreRPC cfg) of
                  Inl err \<Rightarrow> None
                | Inr kvClient \<Rightarrow>
                    Some (w, \<lparr>svc_client = chainClient, svc_kv = kvClient, svc_addr = '':'' @ cfg_port cfg\<rparr>))))))"

section \<open>The loops\<close>

text \<open>One failed round of the wait, and \<open>n\<close> of them: the request returns, without a status 200.\<close>

definition failed_wait :: "'w net \<Rightarrow> string \<Rightarrow> 'w \<Rightarrow> 'w option" where
  "failed_wait N url w =
     (case http_Get N url w of
        Some (w1, r) \<Rightarrow> if r = Inr 200 then None else Some (Sleep N 2 w1)
      | None \<Rightarrow> None)"

fun failed_waits :: "'w net \<Rightarrow> string \<Rightarrow> nat \<Rightarrow> 'w \<Rightarrow> 'w option" where
  "failed_waits N url 0 w = Some w"
| "failed_waits N url (Suc n) w = Option.bind (failed_wait N url w) (failed_waits N url n)"

text \<open>What a wait of \<open>n\<close> rounds that returns has done: it stopped after the first answer with status
  200, or all its rounds failed. And one that never returns: a request of one of its rounds did not.\<close>

definition waited_for :: "'w net \<Rightarrow> string \<Rightarrow> nat \<Rightarrow> 'w \<Rightarrow> 'w \<Rightarrow> bool" where
  "waited_for N url n w w1 \<longleftrightarrow>
     (\<exists>i < n. \<exists>w0. failed_waits N url i w = Some w0 \<and> http_Get N url w0 = Some (w1, Inr 200))
     \<or> failed_waits N url n w = Some w1"

definition hangs :: "'w net \<Rightarrow> string \<Rightarrow> nat \<Rightarrow> 'w \<Rightarrow> bool" where
  "hangs N url n w \<longleftrightarrow> (\<exists>i < n. \<exists>w0. failed_waits N url i w = Some w0 \<and> http_Get N url w0 = None)"

lemma failed_wait_step:
  "failed_wait N url w = Some w2 \<Longrightarrow> wait_loop N url (Suc n) w = wait_loop N url n w2"
  by (auto simp: failed_wait_def split: option.splits sum.splits if_splits)

lemma waited_for_step:
  assumes "failed_wait N url w = Some w2"
  shows "waited_for N url (Suc n) w w1 \<longleftrightarrow> waited_for N url n w2 w1"
proof -
  have "http_Get N url w \<noteq> Some (w1, Inr 200)" using assms by (auto simp: failed_wait_def)
  with assms show ?thesis
    by (auto simp: waited_for_def Ex_less_Suc2)
qed

lemma hangs_step:
  assumes "failed_wait N url w = Some w2"
  shows "hangs N url (Suc n) w \<longleftrightarrow> hangs N url n w2"
proof -
  have "http_Get N url w \<noteq> None" using assms by (auto simp: failed_wait_def split: option.splits)
  with assms show ?thesis by (auto simp: hangs_def Ex_less_Suc2)
qed

lemma wait_loop_Some: "wait_loop N url n w = Some w1 \<longleftrightarrow> waited_for N url n w w1"
proof (induction n arbitrary: w)
  case (Suc n)
  show ?case
  proof (cases "failed_wait N url w")
    case (Some w2)
    then show ?thesis by (simp only: failed_wait_step waited_for_step Suc.IH)
  next
    case None
    then show ?thesis
      by (auto simp: failed_wait_def waited_for_def Ex_less_Suc2 split: option.splits sum.splits if_splits)
  qed
qed (simp add: waited_for_def)

lemma wait_loop_None: "wait_loop N url n w = None \<longleftrightarrow> hangs N url n w"
proof (induction n arbitrary: w)
  case (Suc n)
  show ?case
  proof (cases "failed_wait N url w")
    case (Some w2)
    then show ?thesis by (simp only: failed_wait_step hangs_step Suc.IH)
  next
    case None
    then show ?thesis
      by (auto simp: failed_wait_def hangs_def Ex_less_Suc2 split: option.splits sum.splits if_splits)
  qed
qed (simp add: hangs_def)

lemma waitForReady_returns:
  "\<not> hangs N url n w \<Longrightarrow> \<exists>w1. waitForReady N url n w = Some w1 \<and> waited_for N url n w w1"
  using wait_loop_None [of N url n w] wait_loop_Some [of N url n w] by (auto simp: waitForReady_def)

text \<open>The world after a round of the resolution that failed, and after \<open>n\<close> of them from round \<open>i\<close> on.\<close>

definition failed_round ::
  "'w net \<Rightarrow> ('w, 'k, 'b) chain_sdk \<Rightarrow> ChainClient \<Rightarrow> u64 \<Rightarrow> nat \<Rightarrow> 'w \<Rightarrow> 'w option" where
  "failed_round N S c codeID i w =
     (case ResolveContractByCodeID S c codeID w of
        Some (w1, Inl err) \<Rightarrow> Some (if i = 4 then w1 else Sleep N 3 w1)
      | _ \<Rightarrow> None)"

fun failed_rounds ::
  "'w net \<Rightarrow> ('w, 'k, 'b) chain_sdk \<Rightarrow> ChainClient \<Rightarrow> u64 \<Rightarrow> nat \<Rightarrow> nat \<Rightarrow> 'w \<Rightarrow> 'w option" where
  "failed_rounds N S c codeID i 0 w = Some w"
| "failed_rounds N S c codeID i (Suc n) w =
     Option.bind (failed_round N S c codeID i w) (failed_rounds N S c codeID (Suc i) n)"

lemma resolve_loop_cases:
  "i \<le> 5 \<Longrightarrow> resolve_loop N S codeID i c w = Some (w1, c1) \<Longrightarrow>
    (\<exists>n wn addr. i + n < 5 \<and> failed_rounds N S c codeID i n w = Some wn
      \<and> ResolveContractByCodeID S c codeID wn = Some (w1, Inr addr) \<and> c1 = SetContractAddr c addr)
    \<or> failed_rounds N S c codeID i (5 - i) w = Some w1 \<and> c1 = c"
proof (induction "5 - i" arbitrary: i w)
  case 0
  then show ?case by (simp add: resolve_loop.simps [of _ _ _ 5])
next
  case (Suc d)
  then have i: "i < 5" "5 - i = Suc d" "5 - Suc i = d" by simp_all
  show ?case
  proof (cases "ResolveContractByCodeID S c codeID w")
    case None
    with Suc.prems i show ?thesis by (simp add: resolve_loop.simps [of _ _ _ i])
  next
    case (Some p)
    obtain w' r where r: "ResolveContractByCodeID S c codeID w = Some (w', r)" using Some by (cases p) simp
    show ?thesis
    proof (cases r)
      case (Inr addr)
      with Suc.prems i r have "w1 = w'" "c1 = SetContractAddr c addr"
        by (simp_all add: resolve_loop.simps [of _ _ _ i])
      with r Inr i show ?thesis by (intro disjI1 exI [of _ 0] exI [of _ w] exI [of _ addr]) simp
    next
      case (Inl err)
      define w2 where "w2 = (if i = 4 then w' else Sleep N 3 w')"
      have f: "failed_round N S c codeID i w = Some w2"
        using r Inl by (simp add: failed_round_def w2_def)
      have "resolve_loop N S codeID (Suc i) c w2 = Some (w1, c1)"
        using Suc.prems i r Inl by (simp add: resolve_loop.simps [of _ _ _ i] w2_def split: if_splits)
      from Suc.hyps(1) [OF i(3) [symmetric] _ this] i consider
        (hit) n wn addr where "Suc i + n < 5" "failed_rounds N S c codeID (Suc i) n w2 = Some wn"
          "ResolveContractByCodeID S c codeID wn = Some (w1, Inr addr)" "c1 = SetContractAddr c addr"
      | (miss) "failed_rounds N S c codeID (Suc i) d w2 = Some w1" "c1 = c"
        by auto
      then show ?thesis
      proof cases
        case hit
        with f show ?thesis by (intro disjI1 exI [of _ "Suc n"] exI [of _ wn] exI [of _ addr]) simp
      next
        case miss
        with f i show ?thesis by simp
      qed
    qed
  qed
qed

text \<open>The contract's address is taken from the list of contracts; only the query can panic.\<close>

lemma ResolveContractByCodeID_Inr:
  "ResolveContractByCodeID S c codeID w = Some (w1, Inr addr) \<longleftrightarrow>
    (\<exists>contracts. wasm_ContractsByCode S codeID w = Some (w1, Inr contracts) \<and> contracts \<noteq> [] \<and> addr = contracts ! 0)"
  by (auto simp: ResolveContractByCodeID_def io_results split: if_splits)

lemma ResolveContractByCodeID_None:
  "ResolveContractByCodeID S c codeID w = None \<longleftrightarrow> wasm_ContractsByCode S codeID w = None"
  by (cases "wasm_ContractsByCode S codeID w" rule: result_cases)
    (auto simp: ResolveContractByCodeID_def io_simps)

lemma resolve_loop_total:
  assumes "\<And>w. wasm_ContractsByCode S codeID w \<noteq> None"
  shows "\<exists>w1 c1. resolve_loop N S codeID i c w = Some (w1, c1)"
proof (induction "5 - i" arbitrary: i w)
  case 0
  then show ?case by (simp add: resolve_loop.simps [of _ _ _ i])
next
  case (Suc d)
  then have i: "d = 5 - Suc i" "i < 5" by simp_all
  obtain w' r where r: "ResolveContractByCodeID S c codeID w = Some (w', r)"
    using assms [of w] ResolveContractByCodeID_None [of S c codeID w]
    by (cases "ResolveContractByCodeID S c codeID w") auto
  with i Suc.hyps(1) [OF i(1)] show ?case
    by (cases r) (auto simp: resolve_loop.simps [of _ _ _ i] resolve_loop.simps [of _ _ _ 5])
qed

end
