(* ===== verification/Api_Kv_Props.thy ===== *)
theory Api_Kv_Props
  imports Api_Main Kv_Props
begin

text \<open>
  The properties of the REST service's key-value operations, with the application of the
  key-value chain behind its RPC connection, and of the start of the service.
\<close>

section \<open>Keys and values\<close>

definition key_request :: "string \<Rightarrow> string \<Rightarrow> http_request" where
  "key_request key body = \<lparr>url_params = [(''key'', key)], req_body = body\<rparr>"

lemma URLParam_key [simp]: "URLParam (key_request key body) ''key'' = key" "req_body (key_request key body) = body"
  by (simp_all add: URLParam_def key_request_def)

definition value_body :: string where
  "value_body = json_text (JObject [(''value'', JString ''b'')])"

lemma value_body_decodes: "Decode_SetKVRequest value_body = Some \<lparr>skq_Value = ''b''\<rparr>"
proof -
  have e: "value_end []" by (simp add: value_end_def)
  note decode = Decode_text [OF _ e, unfolded append_Nil2]
  show ?thesis
    by (simp add: Decode_SetKVRequest_def value_body_def decode store_SetKVRequest_def find_field_def max_depth_def
        del: json_text.simps)
qed

text \<open>The answer to a successful \<^verbatim>\<open>PUT\<close>.\<close>

abbreviation set_answer :: "string \<Rightarrow> string \<Rightarrow> bytes \<Rightarrow> http_response" where
  "set_answer key value hash \<equiv> respondJSON 200 (Some (JObject [(''key'', JString key),
     (''tx_hash'', JString (hex_EncodeToString hash)), (''value'', JString value)]))"

abbreviation get_answer :: "string \<Rightarrow> string \<Rightarrow> http_response" where
  "get_answer key value \<equiv> respondJSON 200 (Some (JObject [(''key'', JString key), (''value'', JString value)]))"

lemma byte_eq_sign: "byte_of_char c = 0x3d \<longleftrightarrow> c = CHR ''=''"
proof -
  have "byte_of_char c = byte_of_char (CHR ''='') \<longleftrightarrow> c = CHR ''=''"
    by (metis char_of_byte_of_char)
  then show ?thesis by (simp add: byte_of_char_def [of "CHR ''=''"])
qed

lemma set_tx_parts:
  "tx_key (set_tx key value) = bytes_of (takeWhile (\<lambda>c. c \<noteq> CHR ''='') key)"
  "tx_value (set_tx key value) =
     bytes_of (drop (Suc (length (takeWhile (\<lambda>c. c \<noteq> CHR ''='') key))) (key @ ''='' @ value))"
proof -
  show k: "tx_key (set_tx key value) = bytes_of (takeWhile (\<lambda>c. c \<noteq> CHR ''='') key)"
    by (induction key) (auto simp: tx_key_def set_tx_def bytes_of_def byte_eq_sign)
  show "tx_value (set_tx key value) =
     bytes_of (drop (Suc (length (takeWhile (\<lambda>c. c \<noteq> CHR ''='') key))) (key @ ''='' @ value))"
    unfolding tx_value_def k by (simp only: set_tx_def bytes_of_def drop_map length_map)
qed

lemma staged_unique:
  assumes "tx \<in> set txs" "isValidTx tx"
    and "\<And>tx'. tx' \<in> set txs \<Longrightarrow> tx_key tx' = tx_key tx \<Longrightarrow> tx_value tx' = tx_value tx"
  shows "map_of (rev (staged_of txs)) (tx_key tx) = Some (tx_value tx)"
proof -
  have "(tx_key tx, tx_value tx) \<in> set (rev (staged_of txs))"
    using assms(1,2) by (auto simp: staged_of_def)
  then obtain v where v: "map_of (rev (staged_of txs)) (tx_key tx) = Some v"
    by (metis map_of_eq_None_iff image_eqI fst_conv option.exhaust)
  then have "(tx_key tx, v) \<in> set (staged_of txs)" using map_of_SomeD by fastforce
  with assms(3) v show ?thesis by (auto simp: staged_of_def)
qed

text \<open>C16: Set and get over HTTP: \<^verbatim>\<open>PUT /api/kv/{key}\<close> for a key without \<open>=\<close> answers 200 when the node
  executed the transaction, and a \<^verbatim>\<open>GET\<close> then answers 200 with the value, provided the key is not a
  meta key, no other transaction of the block writes it, and the block was stored without errors.\<close>

theorem kv_put_then_get:
  assumes "kv_node K bd app_of block_of" "badger_db bd m tm nt"
    and "key \<noteq> []" "CHR ''='' \<notin> set key" "bytes_of key \<noteq> height_key" "bytes_of key \<noteq> hash_key"
    and "Decode_SetKVRequest body = Some \<lparr>skq_Value = value\<rparr>"
    and "BroadcastTxCommit K (set_tx key value) w = Some (w1, Inr res)"
    and "clean_commit bd (fst (FinalizeBlock (app_of w) (block_of w (set_tx key value))))"
    and "\<And>tx. tx \<in> set (block_Txs (block_of w (set_tx key value))) \<Longrightarrow> tx_key tx = bytes_of key
      \<Longrightarrow> tx = set_tx key value"
    and "ABCIQuery K '''' (bytes_of key) w1 = Some (w2, Inr q)"
  shows "KVStoreHandler_SetKey K (key_request key body) w = Some (w1, set_answer key value (commit_Hash res))
    \<and> KVStoreHandler_GetKey K (key_request key b) w1 = Some (w2, get_answer key value)"
proof -
  let ?tx = "set_tx key value"
  have hd: "hd key \<noteq> CHR ''=''" using assms(3,4) by (cases key) auto
  then have valid: "isValidTx ?tx" using assms(3) by (simp add: valid_set_tx)
  have k: "takeWhile (\<lambda>c. c \<noteq> CHR ''='') key = key" using assms(4) by (auto simp: takeWhile_eq_all_conv)
  have parts: "tx_key ?tx = bytes_of key" "tx_value ?tx = bytes_of value"
    by (simp_all add: set_tx_parts k)
  note set = kv_node.KV_Set_executed [OF assms(1) valid assms(8)]
  have "map_of (rev (staged_of (block_Txs (block_of w ?tx)))) (tx_key ?tx) = Some (tx_value ?tx)"
    using set assms(10) valid parts by (intro staged_unique) auto
  then have "Query bd (app_of w1) (bytes_of key) =
      \<lparr>query_Code = 0, query_Log = [], query_Key = bytes_of key, query_Value = bytes_of value\<rparr>"
    using badger_db.Query_after_block [OF assms(2,9), of "bytes_of key" "bytes_of value"] parts set assms(3,5,6)
    by simp
  then have "KV_Get K key w1 = Some (w2, Inr value)"
    using kv_node.KV_Get_eq(2) [OF assms(1,11)] by fastforce
  with set assms(3,7) show ?thesis
    by (simp add: KVStoreHandler_SetKey_def KVStoreHandler_GetKey_def answer_def http_status_defs Let_def)
qed

theorem kv_put_then_get_witness:
  "\<exists>w1 w2 (res :: ResultBroadcastTxCommit). KVStoreHandler_SetKey (solo_rpc rbt_badger sha256) (key_request ''a'' value_body) app0
      = Some (w1, set_answer ''a'' ''b'' (commit_Hash res))
    \<and> KVStoreHandler_GetKey (solo_rpc rbt_badger sha256) (key_request ''a'' []) w1 = Some (w2, get_answer ''a'' ''b'')"

proof -
  let ?tx = "set_tx ''a'' ''b''" and ?K = "solo_rpc rbt_badger sha256"
  have "staged_of [?tx] = [(bytes_of ''a'', bytes_of ''b'')]"
    by (simp add: staged_of_def valid_set_tx set_tx_parts)
  then have block: "clean_commit rbt_badger (fst (FinalizeBlock app0 (solo_block app0 ?tx)))"
    using block1_clean by (simp add: FinalizeBlock_eq solo_block_def) (simp add: block1_def app0_def)
  have "isValidTx ?tx" by (simp add: valid_set_tx)
  then have c: "\<exists>w1 res. BroadcastTxCommit ?K ?tx app0 = Some (w1, Inr res)"
    using CheckTx_code [of ?tx] by (simp add: solo_rpc_def Let_def)
  have q: "ABCIQuery ?K '''' (bytes_of ''a'') w = Some (w, Inr (Query rbt_badger w (bytes_of ''a'')))" for w
    by (simp add: solo_rpc_def)
  have key: "bytes_of ''a'' \<noteq> height_key" "bytes_of ''a'' \<noteq> hash_key"
    by (simp_all add: metaHeight_def metaAppHash_def)
  from c obtain w1 res where c: "BroadcastTxCommit ?K ?tx app0 = Some (w1, Inr res)" by blast
  from kv_put_then_get [OF solo.kv_node_axioms tree_db _ _ key value_body_decodes c block _ q] show ?thesis
    by (simp add: solo_block_def) blast
qed

text \<open>A refused write is reported as done: for a key that starts with \<open>=\<close> the application's
  \<open>CheckTx\<close> refuses the transaction and nothing is stored, but the answer is 200 with the key, the
  value and a hash, because only the result of the execution is looked at.\<close>

theorem kv_put_refused:
  assumes "kv_node K bd app_of block_of" "key \<noteq> []" "hd key = CHR ''=''"
    and "Decode_SetKVRequest body = Some \<lparr>skq_Value = value\<rparr>"
    and "BroadcastTxCommit K (set_tx key value) w = Some (w1, Inr res)"
  shows "result_Code (CheckTx (set_tx key value)) = 1
    \<and> KVStoreHandler_SetKey K (key_request key body) w = Some (w1, set_answer key value (commit_Hash res))
    \<and> app_of w1 = app_of w"
proof -
  have invalid: "\<not> isValidTx (set_tx key value)" using assms(3) by (simp add: valid_set_tx)
  then have code: "result_Code (CheckTx (set_tx key value)) = 1" by (simp add: CheckTx_def)
  with kv_node.refused_law [OF assms(1) _ assms(5)]
  have "app_of w1 = app_of w" "commit_TxResult res = zero_tx_result" by simp_all
  with code assms(2,4,5) show ?thesis
    by (simp add: KVStoreHandler_SetKey_def KV_Set_def io_simps answer_def zero_tx_result_def http_status_defs)
qed

theorem kv_put_refused_witness:
  "\<exists>w1 res. BroadcastTxCommit (solo_rpc rbt_badger sha256) (set_tx ''=a'' ''b'') app0 = Some (w1, Inr res) \<and> w1 = app0
    \<and> KVStoreHandler_SetKey (solo_rpc rbt_badger sha256) (key_request ''=a'' value_body) app0
      = Some (w1, set_answer ''=a'' ''b'' (commit_Hash res))"
proof -
  let ?tx = "set_tx ''=a'' ''b''" and ?K = "solo_rpc rbt_badger sha256"
  have "\<not> isValidTx ?tx" by (simp add: valid_set_tx)
  then obtain w1 res where c: "BroadcastTxCommit ?K ?tx app0 = Some (w1, Inr res)"
    using CheckTx_code [of ?tx] by (simp add: solo_rpc_def)
  from kv_put_refused [OF solo.kv_node_axioms _ _ value_body_decodes c] c show ?thesis by auto
qed

text \<open>Reading a key over HTTP: \<^verbatim>\<open>GET /api/kv/{key}\<close> without a key is answered 400 and nothing is
  asked; a stored key 200 with the stored bytes; and a key that is not stored 500, with the error of
  the application inside the one of the client. Reading never changes the application.\<close>

theorem kv_get_correct:
  assumes "kv_node K bd app_of block_of" "badger_db bd m tm nt"
    and "ABCIQuery K [] (bytes_of key) w = Some (w1, Inr q)"
  shows "KVStoreHandler_GetKey K (key_request key b) w =
      (if key = [] then Some (w, respondError 400 ''key is required'')
       else Some (w1, case app_contents m (app_of w) (bytes_of key) of
           None \<Rightarrow> respondError 500 (''key not found: key not found: '' @ key)
         | Some v \<Rightarrow> get_answer key (string_of v)))
    \<and> app_of w1 = app_of w"
proof -
  note q = kv_node.query_law [OF assms(1,3)]
  have "bytes_of key = [] \<longleftrightarrow> key = []" by (simp add: bytes_of_def)
  with q assms(3) show ?thesis
    using badger_db.Query_eq [OF assms(2), of "bytes_of key" "app_of w"]
    by (auto simp: KVStoreHandler_GetKey_def answer_def KV_Get_def io_simps http_status_defs split: option.splits)
qed

theorem kv_get_correct_witness:
  "KVStoreHandler_GetKey (solo_rpc rbt_badger sha256) (key_request ''a'' []) app0 =
    Some (app0, respondError 500 ''key not found: key not found: a'')"
proof -
  have q: "ABCIQuery (solo_rpc rbt_badger sha256) [] (bytes_of ''a'') app0 =
      Some (app0, Inr (Query rbt_badger app0 (bytes_of ''a'')))"
    by (simp add: solo_rpc_def)
  from kv_get_correct [OF solo.kv_node_axioms tree_db q] show ?thesis by simp
qed

text \<open>Where a value goes: a key with an \<open>=\<close> inside is split by the application. After the \<^verbatim>\<open>PUT\<close>,
  answered 200, the part before the first \<open>=\<close> holds the rest of the key, an \<open>=\<close> and the value.\<close>

theorem kv_put_split_key:
  assumes "kv_node K bd app_of block_of" "badger_db bd m tm nt"
    and "key = k1 @ ''='' @ k2" "k1 \<noteq> []" "CHR ''='' \<notin> set k1" "bytes_of k1 \<noteq> height_key" "bytes_of k1 \<noteq> hash_key"
    and "Decode_SetKVRequest body = Some \<lparr>skq_Value = value\<rparr>"
    and "BroadcastTxCommit K (set_tx key value) w = Some (w1, Inr res)"
    and "clean_commit bd (fst (FinalizeBlock (app_of w) (block_of w (set_tx key value))))"
    and "\<And>tx. tx \<in> set (block_Txs (block_of w (set_tx key value))) \<Longrightarrow> tx_key tx = bytes_of k1
      \<Longrightarrow> tx = set_tx key value"
  shows "KVStoreHandler_SetKey K (key_request key body) w = Some (w1, set_answer key value (commit_Hash res))
    \<and> Query bd (app_of w1) (bytes_of k1) = \<lparr>query_Code = 0, query_Log = [], query_Key = bytes_of k1,
        query_Value = bytes_of (k2 @ ''='' @ value)\<rparr>"
proof -
  let ?tx = "set_tx key value"
  have hd: "hd key \<noteq> CHR ''=''" using assms(3-5) by (cases k1) auto
  then have valid: "isValidTx ?tx" using assms(3) by (simp add: valid_set_tx)
  have k: "takeWhile (\<lambda>c. c \<noteq> CHR ''='') (k1 @ CHR ''='' # k2) = k1"
    using assms(5) by (auto simp: takeWhile_append)
  have parts: "tx_key ?tx = bytes_of k1" "tx_value ?tx = bytes_of (k2 @ ''='' @ value)"
    using assms(3) by (simp_all add: set_tx_parts k)
  note set = kv_node.KV_Set_executed [OF assms(1) valid assms(9)]
  have "map_of (rev (staged_of (block_Txs (block_of w ?tx)))) (tx_key ?tx) = Some (tx_value ?tx)"
    using set assms(11) valid parts by (intro staged_unique) auto
  then have "Query bd (app_of w1) (bytes_of k1) = \<lparr>query_Code = 0, query_Log = [], query_Key = bytes_of k1,
        query_Value = bytes_of (k2 @ ''='' @ value)\<rparr>"
    using badger_db.Query_after_block [OF assms(2,10), of "bytes_of k1" "bytes_of (k2 @ ''='' @ value)"]
      parts set assms(4,6,7) by simp
  with set assms(3,8) show ?thesis
    by (simp add: KVStoreHandler_SetKey_def answer_def http_status_defs Let_def)
qed

theorem kv_put_split_key_witness:
  "\<exists>w1 h. Query rbt_badger w1 (bytes_of ''a'') = \<lparr>query_Code = 0, query_Log = [], query_Key = bytes_of ''a'',
      query_Value = bytes_of ''x=b''\<rparr>
    \<and> KVStoreHandler_SetKey (solo_rpc rbt_badger sha256) (key_request ''a=x'' value_body) app0
      = Some (w1, set_answer ''a=x'' ''b'' h)"
proof -
  let ?tx = "set_tx ''a=x'' ''b''" and ?K = "solo_rpc rbt_badger sha256"
  have st: "staged_of [?tx] = [(bytes_of ''a'', bytes_of ''x=b'')]"
    by (simp add: staged_of_def valid_set_tx set_tx_parts)
  have block: "clean_commit rbt_badger (fst (FinalizeBlock app0 (solo_block app0 ?tx)))"
    by (rule working_badger.clean_commit_ordinary [OF tree_working])
      (simp add: FinalizeBlock_eq key_rules bytes_of_def byte_of_char_def solo_block_def st)
  have "isValidTx ?tx" by (simp add: valid_set_tx)
  then have "\<exists>w1 res. BroadcastTxCommit ?K ?tx app0 = Some (w1, Inr res)"
    using CheckTx_code [of ?tx] by (simp add: solo_rpc_def Let_def)
  then obtain w1 res where c: "BroadcastTxCommit ?K ?tx app0 = Some (w1, Inr res)" by blast
  have key: "bytes_of ''a'' \<noteq> height_key" "bytes_of ''a'' \<noteq> hash_key"
    by (simp_all add: metaHeight_def metaAppHash_def)
  from kv_put_split_key [OF solo.kv_node_axioms tree_db _ _ _ key value_body_decodes c block, of "''x''"]
  show ?thesis by (auto simp: solo_block_def)
qed

end
