(* ===== verification/Api_Node.thy ===== *)
theory Api_Node
  imports Api_Main Query_Std
begin

text \<open>
  The contract between the REST service and the SDK's transaction library, as a locale: what is
  built for some messages and a factory, signed with a key of the keyring and encoded, is a
  transaction that carries the messages and the factory's fields, signed by that key's account.
  The lemmas say what \<open>broadcastMsg\<close> and the operations above it hand to the node. The locale is
  interpreted on a local node, which holds the module's store, the account's sequence and the
  transactions that it accepted; its transactions contain the generated protobuf encoding of the
  messages, and it answers queries through the module's query service.
\<close>

section \<open>Signed transactions\<close>

locale tx_signing =
  fixes S :: "('w, 'k, 'b) chain_sdk"
    and carries :: "bytes \<Rightarrow> sdk_msg list \<Rightarrow> Factory \<Rightarrow> bytes \<Rightarrow> bool"
  assumes sign_law: "BuildUnsignedTx S f msgs = Inr b \<Longrightarrow> tx_Sign S f name b True = Inr b1
      \<Longrightarrow> TxEncoder S b1 = Inr bz \<Longrightarrow> kr_Key S name = Inr rec \<Longrightarrow> rec_GetAddress S rec = Inr addr
      \<Longrightarrow> carries bz msgs f addr"

text \<open>The account that the node reports for the signer.\<close>

definition signer_account ::
  "('w, 'k, 'b) chain_sdk \<Rightarrow> ChainClient \<Rightarrow> 'w \<Rightarrow> 'w \<Rightarrow> Account \<Rightarrow> bool" where
  "signer_account S c w w1 acc \<longleftrightarrow>
     (\<exists>addr account. getSignerAddr S c = Inr addr \<and> auth_Account S (addr_String S addr) w = Some (w1, Inr account)
        \<and> UnpackAny S account = Inr (Some acc))"

text \<open>A transaction of the messages, with the account's number and sequence and signed by the
  service's account, was handed to the node, which accepted it: its code is zero.\<close>

definition submitted ::
  "('w, 'k, 'b) chain_sdk \<Rightarrow> (bytes \<Rightarrow> sdk_msg list \<Rightarrow> Factory \<Rightarrow> bytes \<Rightarrow> bool) \<Rightarrow> ChainClient \<Rightarrow> sdk_msg list
    \<Rightarrow> 'w \<Rightarrow> 'w \<Rightarrow> ResultBroadcastTx \<Rightarrow> bool" where
  "submitted S carries c msgs w w1 res \<longleftrightarrow>
     (\<exists>addr w0 acc bz. getSignerAddr S c = Inr addr \<and> signer_account S c w w0 acc
        \<and> carries bz msgs (tx_factory c acc) addr
        \<and> BroadcastTxSync S bz w0 = Some (w1, Inr res) \<and> broadcast_Code res = 0)"

lemma getSignerAddr_Inr:
  "getSignerAddr S c = Inr addr \<longleftrightarrow> (\<exists>rec. kr_Key S (cc_keyName c) = Inr rec \<and> rec_GetAddress S rec = Inr addr)"
  by (auto simp: getSignerAddr_def split: sum.splits)

lemma signer_accountI:
  "getAccount S c addr w = Some (w0, Inr acc) \<Longrightarrow> getSignerAddr S c = Inr addr \<Longrightarrow> signer_account S c w w0 acc"
  by (auto simp: getAccount_def io_results signer_account_def)

text \<open>The stages at which \<open>broadcastMsg\<close> fails.\<close>

lemma broadcastMsg_error_cases [consumes 1, case_names signer account build sign encode broadcast code]:
  assumes "broadcastMsg S c msgs w = Some (w1, Inl e)"
  obtains e0 where "getSignerAddr S c = Inl e0" "w1 = w" "e = ''get signer'' @ '': '' @ e0"
  | addr e0 where "getSignerAddr S c = Inr addr" "getAccount S c addr w = Some (w1, Inl e0)"
      "e = ''get account'' @ '': '' @ e0"
  | a e0 where "signer_account S c w w1 a" "BuildUnsignedTx S (tx_factory c a) msgs = Inl e0"
      "e = ''build tx'' @ '': '' @ e0"
  | a b e0 where "signer_account S c w w1 a" "BuildUnsignedTx S (tx_factory c a) msgs = Inr b"
      "tx_Sign S (tx_factory c a) (cc_keyName c) b True = Inl e0" "e = ''sign'' @ '': '' @ e0"
  | a b b1 e0 where "signer_account S c w w1 a" "BuildUnsignedTx S (tx_factory c a) msgs = Inr b"
      "tx_Sign S (tx_factory c a) (cc_keyName c) b True = Inr b1" "TxEncoder S b1 = Inl e0"
      "e = ''encode tx'' @ '': '' @ e0"
  | a w0 bz e0 where "signer_account S c w w0 a" "BroadcastTxSync S bz w0 = Some (w1, Inl e0)"
      "e = ''broadcast'' @ '': '' @ e0"
  | a w0 bz res where "signer_account S c w w0 a" "BroadcastTxSync S bz w0 = Some (w1, Inr res)"
      "broadcast_Code res \<noteq> 0"
      "e = ''tx failed (code '' @ fmt_d (unat (broadcast_Code res)) @ ''): '' @ broadcast_Log res"
  using assms unfolding broadcastMsg_def Let_def
  by (simp only: io_results if_distrib split: if_splits) (elim disjE exE conjE; metis signer_accountI)

context tx_signing
begin

text \<open>A result that is no error is one of a transaction that the node accepted.\<close>

lemma broadcastMsg_accepted:
  assumes "broadcastMsg S c msgs w = Some (w1, Inr resp)"
  shows "\<exists>res. submitted S carries c msgs w w1 res
    \<and> resp = \<lparr>resp_TxHash = hash_String S (broadcast_Hash res), resp_Code = 0\<rparr>"
proof -
  from assms obtain addr w0 acc b b1 bz res where signer: "getSignerAddr S c = Inr addr"
    and acc: "getAccount S c addr w = Some (w0, Inr acc)"
    and tx: "BuildUnsignedTx S (tx_factory c acc) msgs = Inr b"
      "tx_Sign S (tx_factory c acc) (cc_keyName c) b True = Inr b1" "TxEncoder S b1 = Inr bz"
    and res: "BroadcastTxSync S bz w0 = Some (w1, Inr res)" "broadcast_Code res = 0"
      "resp = \<lparr>resp_TxHash = hash_String S (broadcast_Hash res), resp_Code = 0\<rparr>"
    unfolding broadcastMsg_def Let_def by (auto simp: io_results split: if_splits)
  have "carries bz msgs (tx_factory c acc) addr"
    using signer sign_law [OF tx] by (auto simp: getSignerAddr_Inr)
  with signer acc res signer_accountI [OF acc signer] show ?thesis
    unfolding submitted_def by blast
qed

text \<open>The operations that send one message made with the signer's address.\<close>

lemma signed_call:
  assumes "io_bind (io_lift (getSignerAddr S c)) (\<lambda>addr.
      io_bind (broadcastMsg S c (msgs addr)) (\<lambda>resp. io_return (tx_hash_map resp))) w = Some (w1, Inr j)"
  shows "\<exists>addr res. getSignerAddr S c = Inr addr \<and> submitted S carries c (msgs addr) w w1 res
    \<and> j = JObject [(''tx_hash'', JString (hash_String S (broadcast_Hash res)))]"
proof -
  from assms obtain addr resp where "getSignerAddr S c = Inr addr"
    and b: "broadcastMsg S c (msgs addr) w = Some (w1, Inr resp)" and "j = tx_hash_map resp"
    by (auto simp: io_results)
  with broadcastMsg_accepted [OF b] show ?thesis by (auto simp: tx_hash_map_def)
qed

lemma Client_CreateTask_accepted:
  assumes "Client_CreateTask S c title description w = Some (w1, Inr j)"
  shows "\<exists>addr res. getSignerAddr S c = Inr addr
    \<and> submitted S carries c [TaskregMsg (CreateMsg
        \<lparr>ct_Creator = addr_String S addr, ct_Title = title, ct_Description = description\<rparr>)] w w1 res
    \<and> j = JObject [(''tx_hash'', JString (hash_String S (broadcast_Hash res)))]"
  using signed_call [OF assms [unfolded Client_CreateTask_def]] .

lemma Client_AssignTask_accepted:
  assumes "Client_AssignTask S c taskID assignee w = Some (w1, Inr j)"
  shows "\<exists>addr res. getSignerAddr S c = Inr addr
    \<and> submitted S carries c [TaskregMsg (AssignMsg
        \<lparr>at_Creator = addr_String S addr, at_TaskId = taskID, at_Assignee = assignee\<rparr>)] w w1 res
    \<and> j = JObject [(''tx_hash'', JString (hash_String S (broadcast_Hash res)))]"
  using signed_call [OF assms [unfolded Client_AssignTask_def]] .

lemma Client_CompleteTask_accepted:
  assumes "Client_CompleteTask S c taskID w = Some (w1, Inr j)"
  shows "\<exists>addr res. getSignerAddr S c = Inr addr
    \<and> submitted S carries c [TaskregMsg (CompleteMsg
        \<lparr>cp_Assignee = addr_String S addr, cp_TaskId = taskID\<rparr>)] w w1 res
    \<and> j = JObject [(''tx_hash'', JString (hash_String S (broadcast_Hash res)))]"
  using signed_call [OF assms [unfolded Client_CompleteTask_def]] .

lemma FundBounty_accepted:
  assumes "FundBounty S c taskID amount denom w = Some (w1, Inr j)"
  shows "\<exists>addr coin funds res. getSignerAddr S c = Inr addr
    \<and> ParseCoinNormalized S (amount @ denom) = Inr coin \<and> NewCoins S [coin] = Some funds
    \<and> submitted S carries c [ExecuteMsg
        \<lparr>exec_Sender = addr_String S addr, exec_Contract = cc_contractAddr c,
         exec_Msg = bytes_of (json_text (task_call ''fund_bounty'' taskID)), exec_Funds = funds\<rparr>] w w1 res
    \<and> j = JObject [(''tx_hash'', JString (hash_String S (broadcast_Hash res)))]"
proof -
  from assms obtain addr coin funds resp where o: "getSignerAddr S c = Inr addr"
    "ParseCoinNormalized S (amount @ denom) = Inr coin" "NewCoins S [coin] = Some funds"
    and b: "broadcastMsg S c [ExecuteMsg
        \<lparr>exec_Sender = addr_String S addr, exec_Contract = cc_contractAddr c,
         exec_Msg = bytes_of (json_text (task_call ''fund_bounty'' taskID)), exec_Funds = funds\<rparr>] w = Some (w1, Inr resp)"
    and "j = tx_hash_map resp"
    by (auto simp: FundBounty_def Let_def io_results)
  with broadcastMsg_accepted [OF b] show ?thesis by (auto simp: tx_hash_map_def)
qed

lemma ClaimBounty_accepted:
  assumes "ClaimBounty S c taskID w = Some (w1, Inr j)"
  shows "\<exists>addr res. getSignerAddr S c = Inr addr
    \<and> submitted S carries c [ExecuteMsg
        \<lparr>exec_Sender = addr_String S addr, exec_Contract = cc_contractAddr c,
         exec_Msg = bytes_of (json_text (task_call ''claim_bounty'' taskID)), exec_Funds = []\<rparr>] w w1 res
    \<and> j = JObject [(''tx_hash'', JString (hash_String S (broadcast_Hash res)))]"
  using signed_call [OF assms [unfolded ClaimBounty_def Let_def]] .

end

section \<open>A local node\<close>

text \<open>
  The node's store, the sequence of the signer's account and the transactions it accepted. A
  transaction is its sequence, for each message the type URL and the encoding, and the signer.
\<close>

record 's node =
  node_ctx :: "'s ctx"
  node_seq :: u64
  node_mempool :: "bytes list"

definition msg_payload :: "sdk_msg \<Rightarrow> string + bytes" where
  "msg_payload msg =
     (let typed = (\<lambda>url. map_sum (\<lambda>e. e) (\<lambda>bz. bytes_of url @ bz)) in
      case msg of
        TaskregMsg (CreateMsg m) \<Rightarrow> typed ''/mychain.taskreg.v1.MsgCreateTask'' (MsgCreateTask_Marshal std_wire m)
      | TaskregMsg (AssignMsg m) \<Rightarrow> typed ''/mychain.taskreg.v1.MsgAssignTask'' (MsgAssignTask_Marshal std_wire m)
      | TaskregMsg (CompleteMsg m) \<Rightarrow>
          typed ''/mychain.taskreg.v1.MsgCompleteTask'' (MsgCompleteTask_Marshal std_wire m)
      | ExecuteMsg m \<Rightarrow> Inr (bytes_of (exec_Contract m) @ exec_Msg m))"

fun payloads :: "sdk_msg list \<Rightarrow> string + bytes" where
  "payloads [] = Inr []"
| "payloads (msg # msgs) =
     (case (msg_payload msg, payloads msgs) of
        (Inr bz, Inr bzs) \<Rightarrow> Inr (bz @ bzs)
      | (Inl e, _) \<Rightarrow> Inl e
      | (_, Inl e) \<Rightarrow> Inl e)"

definition encode_local :: "sdk_msg list \<times> Factory \<times> bytes \<Rightarrow> string + bytes" where
  "encode_local = (\<lambda>(msgs, f, signer). map_sum (\<lambda>e. e) (\<lambda>p. PutUint64 (fac_Sequence f) @ p @ signer) (payloads msgs))"

definition local_tx :: "bytes \<Rightarrow> sdk_msg list \<Rightarrow> Factory \<Rightarrow> bytes \<Rightarrow> bool" where
  "local_tx bz msgs f addr \<longleftrightarrow> encode_local (msgs, f, addr) = Inr bz"

text \<open>The errors of the query service as the client prints them.\<close>

definition conn_errors ::
  "('e \<Rightarrow> string) \<Rightarrow> (string \<Rightarrow> 'i \<Rightarrow> 'o \<Rightarrow> ('o \<times> 'e option) option) \<Rightarrow> string \<Rightarrow> 'i \<Rightarrow> 'o \<Rightarrow> ('o \<times> string option) option" where
  "conn_errors show invoke method req out = map_option (\<lambda>(o1, e). (o1, map_option show e)) (invoke method req out)"

definition direct_list ::
  "'s Keeper \<Rightarrow> 's ctx \<Rightarrow> string \<Rightarrow> QueryListTasksRequest \<Rightarrow> QueryListTasksResponse
    \<Rightarrow> (QueryListTasksResponse \<times> query_error option) option" where
  "direct_list k ctx method req out =
     map_option (case_sum (\<lambda>e. (out, Some e)) (\<lambda>resp. (resp, None))) (ListTasks k (ctx_store ctx) (Some req))"

definition local_sdk ::
  "'s Keeper \<Rightarrow> string \<Rightarrow> (service_error \<Rightarrow> string) \<Rightarrow> (query_error \<Rightarrow> string)
    \<Rightarrow> ('s node, string, sdk_msg list \<times> Factory \<times> bytes) chain_sdk" where
  "local_sdk k signer show_service show_query =
     \<lparr>kr_NewAccount = (\<lambda>name mnemonic passphrase path. None),
      kr_Key = (\<lambda>name. if name = ''admin'' then Inr signer else Inl ''key not found''),
      rec_GetAddress = (\<lambda>rec. Inr (bytes_of rec)),
      hd_Path = (\<lambda>coin account index. ''m''),
      addr_String = string_of,
      grpc_Dial = (\<lambda>addr. None),
      rpc_New = (\<lambda>addr. None),
      auth_Account = (\<lambda>addr n. Some (n, Inr (Some \<lparr>any_TypeUrl = [], any_Value = PutUint64 (node_seq n)\<rparr>))),
      UnpackAny = (\<lambda>any. case any of
          None \<Rightarrow> Inr None
        | Some a \<Rightarrow> (case Uint64 (any_Value a) of
            None \<Rightarrow> Inl ''bad account''
          | Some s \<Rightarrow> Inr (Some \<lparr>acc_Number = 0, acc_Sequence = s\<rparr>))),
      BuildUnsignedTx = (\<lambda>f msgs. Inr (msgs, f, [])),
      tx_Sign = (\<lambda>f name b overwrite. if name = ''admin'' then Inr (fst b, f, bytes_of signer) else Inl ''key not found''),
      TxEncoder = encode_local,
      BroadcastTxSync = (\<lambda>bz n. Some (n\<lparr>node_mempool := node_mempool n @ [bz]\<rparr>,
        Inr \<lparr>broadcast_Code = 0, broadcast_Log = [], broadcast_Hash = take 1 (rev bz)\<rparr>)),
      hash_String = hex_EncodeToString,
      rpc_Status = (\<lambda>n. Some (n, Inr ())),
      conn_Task = (\<lambda>n. conn_errors show_service (wire_invoke std_wire k (node_ctx n))),
      conn_ListTasks = (\<lambda>n. conn_errors show_query (direct_list k (node_ctx n))),
      wasm_SmartContractState = (\<lambda>addr q n. Some (n, Inr (bytes_of ''null''))),
      wasm_ContractsByCode = (\<lambda>codeID n. Some (n, Inr [''contract''])),
      ParseCoinNormalized = (\<lambda>s. if list_all is_digit (takeWhile is_digit s) \<and> dropWhile is_digit s \<noteq> []
        then Inr \<lparr>coin_Denom = dropWhile is_digit s, coin_Amount = dec_val 0 (takeWhile is_digit s)\<rparr>
        else Inl ''invalid decimal coin expression''),
      NewCoins = (\<lambda>cs. Some (filter (\<lambda>coin. 0 < coin_Amount coin) cs)),
      json_SyntaxError = (\<lambda>data. ''unexpected end of JSON input'')\<rparr>"

interpretation local_node: tx_signing "local_sdk k signer show_service show_query" local_tx
  by unfold_locales (auto simp: local_sdk_def local_tx_def split: if_splits)

text \<open>The answers of a query client keep their form when the errors are printed.\<close>

lemma queryClient_Task_errors:
  "queryClient_Task (conn_errors show invoke) req = map_option (map_sum show (\<lambda>x. x)) (queryClient_Task invoke req)"
  by (cases "invoke ''/mychain.taskreg.v1.Query/Task'' req zero_QueryTaskResponse")
    (auto simp: queryClient_Task_def conn_errors_def split: option.split)

lemma queryClient_ListTasks_direct:
  "queryClient_ListTasks (conn_errors show (direct_list k ctx)) req =
    map_option (map_sum show (\<lambda>x. x)) (ListTasks k (ctx_store ctx) (Some req))"
  by (auto simp: queryClient_ListTasks_def conn_errors_def direct_list_def map_option_case
      split: option.split sum.split)

text \<open>What an accepted transaction looks like to the caller.\<close>

abbreviation tx_answer :: "('w, 'k, 'b) chain_sdk \<Rightarrow> nat \<Rightarrow> ResultBroadcastTx \<Rightarrow> http_response" where
  "tx_answer S status res \<equiv>
     respondJSON status (Some (JObject [(''tx_hash'', JString (hash_String S (broadcast_Hash res)))]))"

lemma answer_cases:
  assumes "answer status data call w = Some (w1, resp)"
  obtains e where "call w = Some (w1, Inl e)" "resp = respondError StatusInternalServerError e"
  | x where "call w = Some (w1, Inr x)" "resp = respondJSON status (data x)"
  using assms by (cases "call w" rule: result_cases) (auto simp: answer_def)

lemma error_status:
  "\<not> resp_Status (respondError StatusInternalServerError e) < 400"
  "\<not> resp_Status (respondError StatusBadRequest e) < 400"
  by (simp_all add: respondError_def http_status_defs)

lemma contract_calls:
  "json_text (task_call ''fund_bounty'' n) = ''{\"fund_bounty\":{\"task_id\":'' @ fmt_d (unat n) @ ''}}''"
  "json_text (task_call ''claim_bounty'' n) = ''{\"claim_bounty\":{\"task_id\":'' @ fmt_d (unat n) @ ''}}''"
  "json_text (task_call ''bounty'' n) = ''{\"bounty\":{\"task_id\":'' @ fmt_d (unat n) @ ''}}''"
  by (simp_all add: task_call_def quoted_def html_safe_def quot_def backslash_def)

context tx_signing
begin

lemma CreateTask_answer:
  assumes "TaskHandler_CreateTask S c r w = Some (w1, resp)" "resp_Status resp < 400"
  shows "\<exists>req addr res. Decode_CreateTaskRequest (req_body r) = Some req \<and> getSignerAddr S c = Inr addr
    \<and> submitted S carries c [TaskregMsg (CreateMsg \<lparr>ct_Creator = addr_String S addr,
        ct_Title = ctq_Title req, ct_Description = ctq_Description req\<rparr>)] w w1 res
    \<and> resp = tx_answer S 201 res"
proof -
  from assms obtain req where req: "Decode_CreateTaskRequest (req_body r) = Some req"
    and a: "answer StatusCreated Some (Client_CreateTask S c (ctq_Title req) (ctq_Description req)) w = Some (w1, resp)"
    by (auto simp: TaskHandler_CreateTask_def error_status split: option.splits if_splits)
  from a show ?thesis
  proof (cases rule: answer_cases)
    case (1 e)
    with assms(2) show ?thesis by (simp add: error_status)
  next
    case (2 j)
    with Client_CreateTask_accepted [OF 2(1)] req show ?thesis by (auto simp: http_status_defs)
  qed
qed

lemma AssignTask_answer:
  assumes "TaskHandler_AssignTask S c r w = Some (w1, resp)" "resp_Status resp < 400"
  shows "\<exists>req addr res. Decode_AssignTaskRequest (req_body r) = Some req \<and> getSignerAddr S c = Inr addr
    \<and> submitted S carries c [TaskregMsg (AssignMsg \<lparr>at_Creator = addr_String S addr,
        at_TaskId = fst (ParseUint (URLParam r ''id'')), at_Assignee = atq_Assignee req\<rparr>)] w w1 res
    \<and> resp = tx_answer S 200 res"
proof -
  obtain n e where p: "ParseUint (URLParam r ''id'') = (n, e)" by (cases "ParseUint (URLParam r ''id'')")
  from assms p obtain req where req: "Decode_AssignTaskRequest (req_body r) = Some req"
    and a: "answer StatusOK Some (Client_AssignTask S c n (atq_Assignee req)) w = Some (w1, resp)"
    by (auto simp: TaskHandler_AssignTask_def error_status split: option.splits)
  from a show ?thesis
  proof (cases rule: answer_cases)
    case (1 e)
    with assms(2) show ?thesis by (simp add: error_status)
  next
    case (2 j)
    with Client_AssignTask_accepted [OF 2(1)] req p show ?thesis by (auto simp: http_status_defs)
  qed
qed

lemma CompleteTask_answer:
  assumes "TaskHandler_CompleteTask S c r w = Some (w1, resp)" "resp_Status resp < 400"
  shows "\<exists>addr res. getSignerAddr S c = Inr addr
    \<and> submitted S carries c [TaskregMsg (CompleteMsg \<lparr>cp_Assignee = addr_String S addr,
        cp_TaskId = fst (ParseUint (URLParam r ''id''))\<rparr>)] w w1 res
    \<and> resp = tx_answer S 200 res"
proof -
  obtain n e where p: "ParseUint (URLParam r ''id'') = (n, e)" by (cases "ParseUint (URLParam r ''id'')")
  from assms p have a: "answer StatusOK Some (Client_CompleteTask S c n) w = Some (w1, resp)"
    by (auto simp: TaskHandler_CompleteTask_def error_status split: option.splits)
  from a show ?thesis
  proof (cases rule: answer_cases)
    case (1 e)
    with assms(2) show ?thesis by (simp add: error_status)
  next
    case (2 j)
    with Client_CompleteTask_accepted [OF 2(1)] p show ?thesis by (auto simp: http_status_defs)
  qed
qed

lemma FundBounty_answer:
  assumes "BountyHandler_FundBounty S c r w = Some (w1, resp)" "resp_Status resp < 400"
  shows "\<exists>req addr coin funds res. Decode_FundBountyRequest (req_body r) = Some req \<and> getSignerAddr S c = Inr addr
    \<and> ParseCoinNormalized S (fbq_Amount req @ fbq_Denom req) = Inr coin \<and> NewCoins S [coin] = Some funds
    \<and> submitted S carries c [ExecuteMsg \<lparr>exec_Sender = addr_String S addr, exec_Contract = cc_contractAddr c,
        exec_Msg = bytes_of (''{\"fund_bounty\":{\"task_id\":'' @ fmt_d (unat (fbq_TaskID req)) @ ''}}''),
        exec_Funds = funds\<rparr>] w w1 res
    \<and> resp = tx_answer S 201 res"
proof -
  from assms obtain req where req: "Decode_FundBountyRequest (req_body r) = Some req"
    and a: "answer StatusCreated Some (FundBounty S c (fbq_TaskID req) (fbq_Amount req) (fbq_Denom req)) w = Some (w1, resp)"
    by (auto simp: BountyHandler_FundBounty_def error_status split: option.splits)
  from a show ?thesis
  proof (cases rule: answer_cases)
    case (1 e)
    with assms(2) show ?thesis by (simp add: error_status)
  next
    case (2 j)
    with FundBounty_accepted [OF 2(1)] req show ?thesis
      unfolding contract_calls by (auto simp: http_status_defs)
  qed
qed

lemma ClaimBounty_answer:
  assumes "BountyHandler_ClaimBounty S c r w = Some (w1, resp)" "resp_Status resp < 400"
  shows "\<exists>req addr res. Decode_ClaimBountyRequest (req_body r) = Some req \<and> getSignerAddr S c = Inr addr
    \<and> submitted S carries c [ExecuteMsg \<lparr>exec_Sender = addr_String S addr, exec_Contract = cc_contractAddr c,
        exec_Msg = bytes_of (''{\"claim_bounty\":{\"task_id\":'' @ fmt_d (unat (cbq_TaskID req)) @ ''}}''),
        exec_Funds = []\<rparr>] w w1 res
    \<and> resp = tx_answer S 200 res"
proof -
  from assms obtain req where req: "Decode_ClaimBountyRequest (req_body r) = Some req"
    and a: "answer StatusOK Some (ClaimBounty S c (cbq_TaskID req)) w = Some (w1, resp)"
    by (auto simp: BountyHandler_ClaimBounty_def error_status split: option.splits)
  from a show ?thesis
  proof (cases rule: answer_cases)
    case (1 e)
    with assms(2) show ?thesis by (simp add: error_status)
  next
    case (2 j)
    with ClaimBounty_accepted [OF 2(1)] req show ?thesis
      unfolding contract_calls by (auto simp: http_status_defs)
  qed
qed

end

text \<open>A created task is what the query client reads, through the encoded query service.\<close>

lemma created_task_queried:
  assumes "wire_format pw" "kv_store (storeService k) m" "cdc k = proto_codec pw"
    and "wf_at k m ctx" "go_MsgCreateTask msg"
    and "go_len (Task_wire pw (new_task (reg_at k m ctx) msg))"
  shows "\<exists>ctx'. CreateTask k ctx msg = Some (ctx', Inr \<lparr>ctr_Id = reg_next (reg_at k m ctx)\<rparr>)
    \<and> queryClient_Task (wire_invoke pw k ctx') \<lparr>qtr_Id = reg_next (reg_at k m ctx)\<rparr> =
        Some (Inr \<lparr>qts_Task = new_task (reg_at k m ctx) msg\<rparr>)"
proof -
  note env = proto_keeper_env [OF assms(1-3)]
  let ?t = "new_task (reg_at k m ctx) msg"
  obtain ctx' where c: "CreateTask k ctx msg = Some (ctx', Inr \<lparr>ctr_Id = reg_next (reg_at k m ctx)\<rparr>)"
    "wf_at k m ctx'" "reg_at k m ctx' = reg_create (reg_at k m ctx) msg"
    using keeper_env.CreateTask_refines [OF env assms(4,5)] by blast
  have "go_task ?t" using assms(5) by (simp add: go_task_def go_MsgCreateTask_def new_task_def)
  moreover have "Query_Task k (ctx_store ctx') (Some \<lparr>qtr_Id = reg_next (reg_at k m ctx)\<rparr>) = Some (Inr \<lparr>qts_Task = ?t\<rparr>)"
    using keeper_env.Query_Task_eq [OF env c(2), of "\<lparr>qtr_Id = reg_next (reg_at k m ctx)\<rparr>"] c(3) by simp
  ultimately have "queryClient_Task (wire_invoke pw k ctx') \<lparr>qtr_Id = reg_next (reg_at k m ctx)\<rparr> = Some (Inr \<lparr>qts_Task = ?t\<rparr>)"
    using client_Task_eq [OF assms(1), of k ctx' _ "\<lparr>qts_Task = ?t\<rparr>"] assms(6) by simp
  with c(1) show ?thesis by blast
qed

section \<open>An instance\<close>

text \<open>Alice's service on an empty store, and the requests that the witnesses send.\<close>

abbreviation alice_sdk where
  "alice_sdk k \<equiv> local_sdk k ''alice'' (\<lambda>e. ''service error'') (\<lambda>e. ''query error'')"

definition local_client :: ChainClient where
  "local_client = \<lparr>cc_chainID = ''mychain-1'', cc_keyName = ''admin'', cc_contractAddr = ''contract''\<rparr>"

definition fresh_node :: "'s ctx \<Rightarrow> 's node" where
  "fresh_node ctx = \<lparr>node_ctx = ctx, node_seq = 4, node_mempool = []\<rparr>"

definition id_request :: "string \<Rightarrow> string \<Rightarrow> http_request" where
  "id_request taskID body = \<lparr>url_params = [(''id'', taskID)], req_body = body\<rparr>"

lemma URLParam_id [simp]: "URLParam (id_request taskID body) ''id'' = taskID" "req_body (id_request taskID body) = body"
  by (simp_all add: URLParam_def id_request_def)

definition create_body :: string where
  "create_body = json_text (JObject [(''title'', JString ''write docs'')])"

definition assign_body :: string where
  "assign_body = json_text (JObject [(''assignee'', JString ''bob'')])"

definition fund_body :: string where
  "fund_body = json_text (JObject [(''task_id'', JNumber ''1''), (''amount'', JString ''1000''), (''denom'', JString ''stake'')])"

definition claim_body :: string where
  "claim_body = json_text (JObject [(''task_id'', JNumber ''1'')])"

lemma fmt_d_1: "fmt_d 1 = ''1''"
proof -
  have "char_of (code (CHR ''1'')) = CHR ''1''" by (rule char_of_char)
  then show ?thesis by (subst fmt_d.simps) simp
qed

lemma ParseUint_1 [simp]: "ParseUint ''1'' = (1, None)"
  using ParseUint_fmt_d [of 1] by (simp add: fmt_d_1 [simplified])

lemma body_decodes [simp]:
  "Decode_CreateTaskRequest create_body = Some \<lparr>ctq_Title = ''write docs'', ctq_Description = []\<rparr>"
  "Decode_AssignTaskRequest assign_body = Some \<lparr>atq_Assignee = ''bob''\<rparr>"
  "Decode_FundBountyRequest fund_body = Some \<lparr>fbq_TaskID = 1, fbq_Amount = ''1000'', fbq_Denom = ''stake''\<rparr>"
  "Decode_ClaimBountyRequest claim_body = Some \<lparr>cbq_TaskID = 1\<rparr>"
proof -
  have e: "value_end []" by (simp add: value_end_def)
  have d: "0 < max_depth" by (simp add: max_depth_def)
  have one: "number_ok ''1''" by (simp add: number_ok_def is_digit_def)
  note decode = Decode_text [OF _ e, unfolded append_Nil2]
  note unfold = Decode_CreateTaskRequest_def Decode_AssignTaskRequest_def Decode_FundBountyRequest_def
    Decode_ClaimBountyRequest_def create_body_def assign_body_def fund_body_def claim_body_def
  note store = store_CreateTaskRequest_def store_AssignTaskRequest_def store_FundBountyRequest_def
    store_ClaimBountyRequest_def find_field_def json_uint64_def
  show "Decode_CreateTaskRequest create_body = Some \<lparr>ctq_Title = ''write docs'', ctq_Description = []\<rparr>"
    "Decode_AssignTaskRequest assign_body = Some \<lparr>atq_Assignee = ''bob''\<rparr>"
    "Decode_FundBountyRequest fund_body = Some \<lparr>fbq_TaskID = 1, fbq_Amount = ''1000'', fbq_Denom = ''stake''\<rparr>"
    "Decode_ClaimBountyRequest claim_body = Some \<lparr>cbq_TaskID = 1\<rparr>"
    using d one by (simp_all add: unfold decode store del: json_text.simps)
qed

text \<open>What the local node accepts.\<close>

definition accept :: "bytes \<Rightarrow> 's node \<Rightarrow> 's node" where
  "accept bz n = n\<lparr>node_mempool := node_mempool n @ [bz]\<rparr>"

lemma local_broadcast:
  assumes "payloads msgs = Inr p"
  shows "broadcastMsg (alice_sdk k) local_client msgs n = Some (accept (PutUint64 (node_seq n) @ p @ bytes_of ''alice'') n,
    Inr \<lparr>resp_TxHash = hex_EncodeToString (take 1 (rev (PutUint64 (node_seq n) @ p @ bytes_of ''alice''))), resp_Code = 0\<rparr>)"
  using assms by (simp add: broadcastMsg_def getSignerAddr_def getAccount_def io_simps local_sdk_def
      local_client_def tx_factory_def Let_def accept_def encode_local_def)

text \<open>The requests above are accepted, whatever the node's store.\<close>

lemma local_payloads:
  "\<exists>p. payloads [TaskregMsg msg] = Inr p"
  "payloads [ExecuteMsg m] = Inr (bytes_of (exec_Contract m) @ exec_Msg m)"
  by (cases msg) (simp_all add: msg_payload_def Let_def
      wire_format.MsgCreateTask_Marshal_eq [OF std.wire_format_axioms] wire_format.MsgAssignTask_Marshal_eq [OF std.wire_format_axioms]
      wire_format.MsgCompleteTask_Marshal_eq [OF std.wire_format_axioms])

lemma local_signer [simp]:
  "getSignerAddr (alice_sdk k) local_client = Inr (bytes_of ''alice'')"
  "addr_String (alice_sdk k) = string_of"
  by (simp_all add: getSignerAddr_def local_sdk_def local_client_def)

lemma local_answers:
  "\<exists>w1 res. TaskHandler_CreateTask (alice_sdk k) local_client (id_request i create_body) n = Some (w1, tx_answer (alice_sdk k) 201 res)"
  "\<exists>w1 res. TaskHandler_AssignTask (alice_sdk k) local_client (id_request ''1'' assign_body) n = Some (w1, tx_answer (alice_sdk k) 200 res)"
proof -
  have h: "\<exists>res :: ResultBroadcastTx. hex_EncodeToString b = hash_String (alice_sdk k) (broadcast_Hash res)" for b
  proof -
    have "hex_EncodeToString b = hash_String (alice_sdk k)
        (broadcast_Hash \<lparr>broadcast_Code = 0, broadcast_Log = [], broadcast_Hash = b\<rparr>)"
      by (simp add: local_sdk_def)
    then show ?thesis by blast
  qed
  obtain p where p: "payloads [TaskregMsg (CreateMsg \<lparr>ct_Creator = ''alice'', ct_Title = ''write docs'', ct_Description = []\<rparr>)] = Inr p"
    using local_payloads(1) by blast
  obtain q where q: "payloads [TaskregMsg (AssignMsg \<lparr>at_Creator = ''alice'', at_TaskId = 1, at_Assignee = ''bob''\<rparr>)] = Inr q"
    using local_payloads(1) by blast
  obtain res :: ResultBroadcastTx where r: "hex_EncodeToString (take 1 (rev (PutUint64 (node_seq n) @ p @ bytes_of ''alice''))) = hash_String (alice_sdk k) (broadcast_Hash res)"
    using h by blast
  obtain res' :: ResultBroadcastTx where r': "hex_EncodeToString (take 1 (rev (PutUint64 (node_seq n) @ q @ bytes_of ''alice''))) = hash_String (alice_sdk k) (broadcast_Hash res')"
    using h by blast
  show "\<exists>w1 res. TaskHandler_CreateTask (alice_sdk k) local_client (id_request i create_body) n = Some (w1, tx_answer (alice_sdk k) 201 res)"
    using local_broadcast [OF p, of k n] r
    by (auto simp: TaskHandler_CreateTask_def Client_CreateTask_def tx_hash_map_def io_simps answer_def http_status_defs)
  show "\<exists>w1 res. TaskHandler_AssignTask (alice_sdk k) local_client (id_request ''1'' assign_body) n = Some (w1, tx_answer (alice_sdk k) 200 res)"
    using local_broadcast [OF q, of k n] r'
    by (auto simp: TaskHandler_AssignTask_def Client_AssignTask_def tx_hash_map_def io_simps answer_def http_status_defs)
qed

lemma answer_status [simp]: "resp_Status (respondJSON s d) = s"
  by (simp add: respondJSON_def)

end
