(* ===== verification/Api_Main_Props.thy ===== *)
theory Api_Main_Props
  imports Api_Node Api_Main Task_Props
begin

text \<open>
  The properties of the REST service as a whole: what its answers look like to the reader of the
  JSON text, and what it does between the start of the process and the first request.
\<close>

section \<open>Answers\<close>

lemma fmt_d_inj: "fmt_d m = fmt_d n \<longleftrightarrow> m = n"
  using fmt_d_digits by metis

lemma json_int_inj: "json_int m = json_int n \<longleftrightarrow> m = n"
proof
  assume eq: "json_int m = json_int n"
  have sign: "\<not> (fmt_d k = CHR ''-'' # s)" for k s
    using fmt_d_digits [of k] by (auto simp: is_digit_def)
  have "sint m = sint n"
    using eq sign by (auto simp: json_int_def fmt_d_inj sign [symmetric] split: if_splits dest: sym)
  then show "m = n" by (rule signed_word_eqI)
qed simp

lemma number_ok_json_int: "0 \<le> sint s \<Longrightarrow> number_ok (json_int s)"
  by (simp add: json_int_def)

text \<open>A field of the text of a task.\<close>

definition task_members :: "Task \<Rightarrow> (string \<times> json) list" where
  "task_members t = (case Task_json t of JObject ms \<Rightarrow> ms | _ \<Rightarrow> [])"

lemma Task_json_members: "Task_json t = JObject (task_members t)"
  by (simp add: task_members_def Task_json_def)

lemma task_member:
  "map_of (task_members t) ''id'' = (if task_Id t = 0 then None else Some (JNumber (fmt_d (unat (task_Id t)))))"
  "map_of (task_members t) ''title'' = (if task_Title t = [] then None else Some (JString (task_Title t)))"
  "map_of (task_members t) ''description'' = (if task_Description t = [] then None else Some (JString (task_Description t)))"
  "map_of (task_members t) ''creator'' = (if task_Creator t = [] then None else Some (JString (task_Creator t)))"
  "map_of (task_members t) ''assignee'' = (if task_Assignee t = [] then None else Some (JString (task_Assignee t)))"
  "map_of (task_members t) ''status'' = (if task_Status t = 0 then None else Some (JNumber (json_int (task_Status t))))"
  by (simp_all add: task_members_def Task_json_def)

lemma Task_json_inj:
  assumes "Task_json t = Task_json t'"
  shows "t = t'"
proof -
  have m: "map_of (task_members t) f = map_of (task_members t') f" for f
    using assms by (simp add: Task_json_members)
  show ?thesis
    using m [of "''id''"] m [of "''title''"] m [of "''description''"] m [of "''creator''"] m [of "''assignee''"] m [of "''status''"]
    unfolding task_member by (cases t; cases t') (auto simp: fmt_d_inj json_int_inj word_unat_eq_iff split: if_splits)
qed

text \<open>Response bodies: the body of an answer with a task, which ends in a newline, parses to an
  object with \<^verbatim>\<open>success\<close> and \<^verbatim>\<open>data\<close>, and the data determine the task, whatever fields are omitted;
  the body of an error parses to an object with \<^verbatim>\<open>success\<close> false and the text, if there is one.\<close>

theorem response_bodies:
  assumes "valid_utf8 (task_Title t)" "valid_utf8 (task_Description t)" "valid_utf8 (task_Creator t)"
    and "valid_utf8 (task_Assignee t)" "0 \<le> sint (task_Status t)" "valid_utf8 msg"
  shows "first_value (resp_Body (respondJSON 200 (Some (Task_json t)))) =
      Some (JObject [(''success'', JBool True), (''data'', Task_json t)])
    \<and> (\<forall>t'. Task_json t' = Task_json t \<longrightarrow> t' = t)
    \<and> first_value (resp_Body (respondError status msg)) =
      Some (JObject ((''success'', JBool False) # (if msg = [] then [] else [(''error'', JString msg)])))"
proof -
  have e: "value_end [CHR 0x0A]" by (simp add: value_end_def)
  have d: "0 < max_depth" "Suc 0 < max_depth" by (simp_all add: max_depth_def)
  have names: "valid_utf8 ''success''" "valid_utf8 ''data''" "valid_utf8 ''error''" "valid_utf8 ''id''"
    "valid_utf8 ''title''" "valid_utf8 ''description''" "valid_utf8 ''creator''" "valid_utf8 ''assignee''"
    "valid_utf8 ''status''" by simp_all
  have t: "json_ok 1 (Task_json t)"
    using assms names d by (auto simp: Task_json_def number_ok_json_int simp del: valid_utf8.simps)
  have "json_ok 0 (JObject [(''success'', JBool True), (''data'', Task_json t)])"
    using t names d by (simp del: valid_utf8.simps)
  moreover have "json_ok 0 (JObject ((''success'', JBool False) # (if msg = [] then [] else [(''error'', JString msg)])))"
    using assms(6) names d by (simp del: valid_utf8.simps)
  ultimately show ?thesis
    using first_value_text [OF _ e] Task_json_inj
    by (auto simp: respondJSON_def respondError_def Encode_def APIResponse_json_def simp del: json_text.simps json_ok.simps)
qed

theorem response_bodies_witness:
  "first_value (resp_Body (respondJSON 200 (Some (Task_json \<lparr>task_Id = 1, task_Title = ''a'', task_Description = [],
      task_Creator = ''b'', task_Assignee = [], task_Status = TASK_STATUS_OPEN\<rparr>)))) =
    Some (JObject [(''success'', JBool True), (''data'', JObject [(''id'', JNumber ''1''), (''title'', JString ''a''),
      (''creator'', JString ''b''), (''status'', JNumber ''1'')])])"
  using response_bodies [of "\<lparr>task_Id = 1, task_Title = ''a'', task_Description = [],
      task_Creator = ''b'', task_Assignee = [], task_Status = TASK_STATUS_OPEN\<rparr>" "[]"]
  by (simp add: Task_json_def status_defs json_int_def fmt_d_1 [simplified])

section \<open>Before the first request\<close>

text \<open>Waiting: \<open>waitForReady\<close> asks for the status at most \<open>maxRetries\<close> times, two seconds apart. It
  stops right after the first answer with status 200, and goes on without one after the last
  round. It never returns exactly when a request of one of these rounds never does.\<close>

theorem waitForReady_bounded:
  "(waitForReady N url n w = Some w1 \<longleftrightarrow> waited_for N url n w w1)
    \<and> (waitForReady N url n w = None \<longleftrightarrow> hangs N url n w)"
  by (simp add: waitForReady_def wait_loop_Some wait_loop_None)

text \<open>C38: How the service starts, provided the connections can be made, the key can be imported and the
  query for the contracts returns without a panic. A status request that never returns, because a
  peer accepts the connection and does not answer, is never given up: in any of the sixty rounds of
  the wait for the chain, or of the wait for the key-value store after it, it keeps \<open>main\<close> from the
  listener for ever. Otherwise \<open>main\<close> reaches the listener, even when neither chain is ever ready:
  each wait ended after the first answer with status 200 or after sixty rounds without one. The
  client signs for the configured chain. With a code id of 0 no contract is looked up; otherwise
  it has the first contract of the first answer that lists one within five tries, or none after
  five failed ones.\<close>

theorem startup_correct:
  fixes getenv :: "string \<Rightarrow> string" and N :: "'w net" and S :: "('w, 'k, 'b) chain_sdk" and w :: 'w
  defines "cfg \<equiv> read_config getenv"
  defines "chain \<equiv> cfg_chainRPC cfg @ ''/status''"
  defines "store \<equiv> cfg_kvstoreRPC cfg @ ''/status''"
  assumes "grpc_Dial S (cfg_chainGRPC cfg) = None" "rpc_New S (cfg_chainRPC cfg) = None"
    and "kr_NewAccount S ''admin'' (cfg_mnemonic cfg) [] (hd_Path S 118 0 0) = None"
    and "kv_New K (cfg_kvstoreRPC cfg) = None"
    and "\<And>w. wasm_ContractsByCode S (cfg_wasmCodeID cfg) w \<noteq> None"
  shows "if hangs N chain 60 w \<or> (\<exists>chain_up. waited_for N chain 60 w chain_up \<and> hangs N store 60 chain_up)
    then startup getenv N S K w = None
    else \<exists>chain_up waited w1 c. waited_for N chain 60 w chain_up \<and> waited_for N store 60 chain_up waited
    \<and> startup getenv N S K w = Some (w1, \<lparr>svc_client = c, svc_kv = K, svc_addr = '':'' @ cfg_port cfg\<rparr>)
    \<and> cc_chainID c = cfg_chainID cfg \<and> cc_keyName c = ''admin''
    \<and> (if cfg_wasmCodeID cfg = 0 then w1 = waited \<and> cc_contractAddr c = []
       else (\<exists>n < 5. \<exists>w0 c0 contracts. failed_rounds N S c0 (cfg_wasmCodeID cfg) 0 n waited = Some w0
             \<and> wasm_ContractsByCode S (cfg_wasmCodeID cfg) w0 = Some (w1, Inr contracts)
             \<and> contracts \<noteq> [] \<and> cc_contractAddr c = contracts ! 0)
         \<or> (\<exists>c0. failed_rounds N S c0 (cfg_wasmCodeID cfg) 0 5 waited = Some w1) \<and> cc_contractAddr c = [])"
proof (cases "hangs N chain 60 w \<or> (\<exists>chain_up. waited_for N chain 60 w chain_up \<and> hangs N store 60 chain_up)")
  case True
  then have "waitForReady N chain 60 w = None
    \<or> (\<exists>w1. waitForReady N chain 60 w = Some w1 \<and> waitForReady N store 60 w1 = None)"
    by (auto simp: waitForReady_def wait_loop_Some wait_loop_None)
  with True show ?thesis
    by (auto simp: startup_def Let_def cfg_def [symmetric] chain_def [symmetric] store_def [symmetric])
next
  case False
  let ?c = "\<lparr>cc_chainID = cfg_chainID cfg, cc_keyName = ''admin'', cc_contractAddr = []\<rparr>"
  obtain chain_up waited where
    up: "waitForReady N chain 60 w = Some chain_up" "waited_for N chain 60 w chain_up"
    and wt: "waitForReady N store 60 chain_up = Some waited" "waited_for N store 60 chain_up waited"
    using False waitForReady_returns [of N] by blast
  have client: "NewChainClient S (cfg_chainGRPC cfg) (cfg_chainRPC cfg) (cfg_chainID cfg) (cfg_mnemonic cfg) = Inr ?c"
    using assms(4-6) by (simp add: NewChainClient_def Let_def)
  have kv: "NewKVStoreClient K (cfg_kvstoreRPC cfg) = Inr K" using assms(7) by (simp add: NewKVStoreClient_def)
  note begun = startup_def Let_def cfg_def [symmetric] chain_def [symmetric] store_def [symmetric] up(1) wt(1) client kv
  have "\<exists>w1 c. startup getenv N S K w = Some (w1, \<lparr>svc_client = c, svc_kv = K, svc_addr = '':'' @ cfg_port cfg\<rparr>)
    \<and> cc_chainID c = cfg_chainID cfg \<and> cc_keyName c = ''admin''
    \<and> (if cfg_wasmCodeID cfg = 0 then w1 = waited \<and> cc_contractAddr c = []
       else (\<exists>n < 5. \<exists>w0 c0 contracts. failed_rounds N S c0 (cfg_wasmCodeID cfg) 0 n waited = Some w0
             \<and> wasm_ContractsByCode S (cfg_wasmCodeID cfg) w0 = Some (w1, Inr contracts)
             \<and> contracts \<noteq> [] \<and> cc_contractAddr c = contracts ! 0)
         \<or> (\<exists>c0. failed_rounds N S c0 (cfg_wasmCodeID cfg) 0 5 waited = Some w1) \<and> cc_contractAddr c = [])"
  proof (cases "cfg_wasmCodeID cfg = 0")
    case True
    then show ?thesis by (simp add: begun)
  next
    case False
    then have pos: "0 < cfg_wasmCodeID cfg" by (simp add: word_neq_0_conv)
    obtain w1 c1 where r: "resolve_loop N S (cfg_wasmCodeID cfg) 0 ?c waited = Some (w1, c1)"
      using resolve_loop_total [OF assms(8)] by blast
    then have "startup getenv N S K w = Some (w1, \<lparr>svc_client = c1, svc_kv = K, svc_addr = '':'' @ cfg_port cfg\<rparr>)"
      using pos by (simp add: begun)
    moreover from resolve_loop_cases [OF _ r] have "cc_chainID c1 = cfg_chainID cfg \<and> cc_keyName c1 = ''admin''
      \<and> ((\<exists>n < 5. \<exists>w0 c0 contracts. failed_rounds N S c0 (cfg_wasmCodeID cfg) 0 n waited = Some w0
             \<and> wasm_ContractsByCode S (cfg_wasmCodeID cfg) w0 = Some (w1, Inr contracts)
             \<and> contracts \<noteq> [] \<and> cc_contractAddr c1 = contracts ! 0)
         \<or> (\<exists>c0. failed_rounds N S c0 (cfg_wasmCodeID cfg) 0 5 waited = Some w1) \<and> cc_contractAddr c1 = [])"
      by (fastforce simp: ResolveContractByCodeID_Inr SetContractAddr_def)
    ultimately show ?thesis using False by (intro exI [of _ w1] exI [of _ c1]) simp
  qed
  with False up(2) wt(2) show ?thesis by (intro if_not_P [THEN iffD2]) blast+
qed

text \<open>A network on which every connection is refused.\<close>

definition dead_net :: "'w net" where
  "dead_net = \<lparr>http_Get = (\<lambda>url w. Some (w, Inl ''connection refused'')), Sleep = (\<lambda>seconds w. w)\<rparr>"

definition dead_kv :: "'w kv_rpc" where
  "dead_kv = \<lparr>kv_New = (\<lambda>_. None), BroadcastTxCommit = (\<lambda>tx w. Some (w, Inl ''connection refused'')),
     ABCIQuery = (\<lambda>path data w. Some (w, Inl ''connection refused'')), kv_Status = (\<lambda>w. Some (w, Inl ''connection refused''))\<rparr>"

text \<open>A chain that answers every question with a status 503, and a key-value store that accepts the
  connection and never answers.\<close>

definition half_dead_net :: "'w net" where
  "half_dead_net = \<lparr>http_Get = (\<lambda>url w. if url = ''http://localhost:26657/status'' then Some (w, Inr 503) else None),
     Sleep = (\<lambda>seconds w. w)\<rparr>"

lemma half_dead_hangs:
  "waited_for half_dead_net ''http://localhost:26657/status'' n w w"
  "0 < n \<Longrightarrow> hangs half_dead_net ''http://localhost:36657/status'' n w"
proof -
  have "failed_wait half_dead_net ''http://localhost:26657/status'' w = Some w"
    by (simp add: half_dead_net_def failed_wait_def)
  then have "failed_waits half_dead_net ''http://localhost:26657/status'' n w = Some w" for n
    by (induction n) simp_all
  then show "waited_for half_dead_net ''http://localhost:26657/status'' n w w" by (simp add: waited_for_def)
  show "0 < n \<Longrightarrow> hangs half_dead_net ''http://localhost:36657/status'' n w"
    by (auto simp: hangs_def half_dead_net_def intro!: exI [of _ 0])
qed

lemma dead_returns [simp]: "\<not> hangs dead_net url n w" "kv_New dead_kv addr = None"
  by (simp_all add: hangs_def dead_net_def dead_kv_def)

lemma default_config:
  "cfg_port (read_config (\<lambda>_. [])) = ''8080''" "cfg_chainID (read_config (\<lambda>_. [])) = ''mychain-1''"
  "cfg_chainRPC (read_config (\<lambda>_. [])) = ''http://localhost:26657''"
  "cfg_kvstoreRPC (read_config (\<lambda>_. [])) = ''http://localhost:36657''"
  by (simp_all add: read_config_def envOrDefault_def)

theorem startup_correct_witness:
  "(\<exists>w1 c. startup (\<lambda>_. []) dead_net (alice_sdk std_keeper) dead_kv (fresh_node ctx0) =
      Some (w1, \<lparr>svc_client = c, svc_kv = dead_kv, svc_addr = '':8080''\<rparr>)
    \<and> cc_chainID c = ''mychain-1'')
  \<and> startup (\<lambda>_. []) half_dead_net (alice_sdk std_keeper) dead_kv (fresh_node ctx0) = None"
proof -
  note start = startup_correct [where getenv = "\<lambda>_. []" and S = "alice_sdk std_keeper" and K = dead_kv
      and w = "fresh_node ctx0", unfolded default_config, simplified append.simps]
  have sdk: "grpc_Dial (alice_sdk std_keeper) addr = None" "rpc_New (alice_sdk std_keeper) addr = None"
    "kr_NewAccount (alice_sdk std_keeper) name mnemonic [] path = None"
    "wasm_ContractsByCode (alice_sdk std_keeper) codeID n \<noteq> None" for addr name mnemonic path codeID n
    by (simp_all add: local_sdk_def)
  have "\<exists>w1 c. startup (\<lambda>_. []) dead_net (alice_sdk std_keeper) dead_kv (fresh_node ctx0) =
      Some (w1, \<lparr>svc_client = c, svc_kv = dead_kv, svc_addr = '':8080''\<rparr>) \<and> cc_chainID c = ''mychain-1''"
    using start [where N = dead_net] sdk dead_returns by auto
  moreover have "startup (\<lambda>_. []) half_dead_net (alice_sdk std_keeper) dead_kv (fresh_node ctx0) = None"
    using start [where N = half_dead_net] sdk half_dead_hangs [of 60 "fresh_node ctx0"] by (auto split: if_splits)
  ultimately show ?thesis by blast
qed

end
