(* ===== verification/Bounty_Contract.thy ===== *)
theory Bounty_Contract
  imports Json_Doc "HOL-Library.RBT"
begin

text \<open>
  The CosmWasm contract of \<^verbatim>\<open>contracts/task-bounty\<close>: its state (\<^verbatim>\<open>state.rs\<close>), messages (\<^verbatim>\<open>msg.rs\<close>), errors
  (\<^verbatim>\<open>error.rs\<close>) and entry points (\<^verbatim>\<open>contract.rs\<close>). The typed storage of \<^verbatim>\<open>cw-storage-plus\<close> is a parameter,
  with its documented laws in the locale \<open>cw_storage\<close>. An entry point returns an error or the storage and
  the response; what a failing call wrote is discarded by the host and is not represented. Addresses
  are their text. The arithmetic errors of \<^verbatim>\<open>Uint128\<close> are the variant \<^verbatim>\<open>Std\<close>.

  Shown here: what each entry point does on every branch, for any storage that satisfies the laws.
\<close>

section \<open>state.rs, msg.rs, error.rs\<close>

type_synonym u128 = "128 word"
type_synonym u32 = "32 word"
type_synonym Addr = string

record Config =
  cfg_admin :: Addr
  cfg_fee_collector :: Addr
  cfg_fee_pct :: u64

record Bounty =
  bn_task_id :: u64
  bn_funder :: Addr
  bn_amount :: u128
  bn_denom :: string
  bn_multiplier_pct :: u64
  bn_claimed :: bool
  bn_claimer :: "Addr option"

record InstantiateMsg =
  im_fee_collector :: string
  im_fee_pct :: u64

datatype ExecuteMsg =
    ExecFundBounty u64
  | ExecClaimBounty u64
  | ExecUpdateFee u64
  | ExecAddBonus u64 u64

datatype QueryMsg =
    QueryConfig
  | QueryBounty u64
  | QueryListBounties "u64 option" "u32 option"

datatype ContractError =
    Std string
  | Unauthorized
  | BountyAlreadyExists u64
  | BountyNotFound u64
  | BountyAlreadyClaimed u64
  | NoFunds
  | MultipleDenoms
  | InvalidFee

fun ContractError_text :: "ContractError \<Rightarrow> string" where
  "ContractError_text (Std e) = e"
| "ContractError_text Unauthorized = ''unauthorized''"
| "ContractError_text (BountyAlreadyExists task_id) = ''bounty already exists for task '' @ fmt_d (unat task_id)"
| "ContractError_text (BountyNotFound task_id) = ''bounty not found for task '' @ fmt_d (unat task_id)"
| "ContractError_text (BountyAlreadyClaimed task_id) = ''bounty already claimed for task '' @ fmt_d (unat task_id)"
| "ContractError_text NoFunds = ''no funds sent''"
| "ContractError_text MultipleDenoms = ''must send exactly one denomination''"
| "ContractError_text InvalidFee = ''fee percentage must be <= 100''"

section \<open>Library types\<close>

record CwCoin =
  coin_denom :: string
  coin_amount :: u128

record MessageInfo =
  info_sender :: Addr
  info_funds :: "CwCoin list"

text \<open>\<^verbatim>\<open>BankMsg::Send\<close>.\<close>

record BankSend =
  to_address :: string
  send_amount :: "CwCoin list"

record Response =
  resp_messages :: "BankSend list"
  resp_attributes :: "(string \<times> string) list"

definition u128_checked_mul :: "u128 \<Rightarrow> u128 \<Rightarrow> ContractError + u128" where
  "u128_checked_mul a b =
     (if unat a * unat b < 2 ^ 128 then Inr (a * b) else Inl (Std ''Cannot Mul with given operands''))"

definition u128_checked_div :: "u128 \<Rightarrow> u128 \<Rightarrow> ContractError + u128" where
  "u128_checked_div a b = (if b = 0 then Inl (Std ''Cannot divide by zero'') else Inr (a div b))"

definition u128_checked_sub :: "u128 \<Rightarrow> u128 \<Rightarrow> ContractError + u128" where
  "u128_checked_sub a b = (if b \<le> a then Inr (a - b) else Inl (Std ''Cannot Sub with given operands''))"

text \<open>The question mark of Rust is \<open>try_bind\<close>.\<close>

definition std :: "string + 'a \<Rightarrow> ContractError + 'a" where
  "std r = map_sum Std id r"

lemma std_simps [simp]: "std (Inl e) = Inl (Std e)" "std (Inr x) = Inr x"
  by (simp_all add: std_def)

text \<open>The storage that the contract is given, with the items and the map that it declares.\<close>

record 's cw_store =
  version_set :: "string \<Rightarrow> string \<Rightarrow> 's \<Rightarrow> string + 's"
  CONFIG_save :: "Config \<Rightarrow> 's \<Rightarrow> string + 's"
  CONFIG_load :: "'s \<Rightarrow> string + Config"
  BOUNTIES_has :: "u64 \<Rightarrow> 's \<Rightarrow> bool"
  BOUNTIES_may_load :: "u64 \<Rightarrow> 's \<Rightarrow> string + Bounty option"
  BOUNTIES_load :: "u64 \<Rightarrow> 's \<Rightarrow> string + Bounty"
  BOUNTIES_save :: "u64 \<Rightarrow> Bounty \<Rightarrow> 's \<Rightarrow> string + 's"
  BOUNTIES_range :: "u64 option \<Rightarrow> 's \<Rightarrow> (string + u64 \<times> Bounty) list"

section \<open>contract.rs\<close>

definition CONTRACT_NAME :: string where "CONTRACT_NAME = ''crates.io:task-bounty''"
definition CONTRACT_VERSION :: string where "CONTRACT_VERSION = ''0.1.0''"
definition DEFAULT_LIMIT :: u32 where "DEFAULT_LIMIT = 10"
definition MAX_LIMIT :: u32 where "MAX_LIMIT = 30"

definition instantiate ::
  "'s cw_store \<Rightarrow> (string \<Rightarrow> string + Addr) \<Rightarrow> 's \<Rightarrow> MessageInfo \<Rightarrow> InstantiateMsg \<Rightarrow> ContractError + 's \<times> Response" where
  "instantiate S addr_validate s info msg =
     (if im_fee_pct msg > 100 then Inl InvalidFee
      else try_bind (std (version_set S CONTRACT_NAME CONTRACT_VERSION s)) (\<lambda>s.
        try_bind (std (addr_validate (im_fee_collector msg))) (\<lambda>fee_collector.
        let config = \<lparr>cfg_admin = info_sender info, cfg_fee_collector = fee_collector, cfg_fee_pct = im_fee_pct msg\<rparr> in
        try_bind (std (CONFIG_save S config s)) (\<lambda>s.
        Inr (s, \<lparr>resp_messages = [],
          resp_attributes = [(''action'', ''instantiate''), (''admin'', info_sender info),
            (''fee_collector'', im_fee_collector msg), (''fee_pct'', fmt_d (unat (im_fee_pct msg))),
            (''contract'', CONTRACT_NAME), (''version'', CONTRACT_VERSION)]\<rparr>)))))"

definition execute_fund_bounty :: "'s cw_store \<Rightarrow> 's \<Rightarrow> MessageInfo \<Rightarrow> u64 \<Rightarrow> ContractError + 's \<times> Response" where
  "execute_fund_bounty S s info task_id =
     (if info_funds info = [] then Inl NoFunds
      else if 1 < length (info_funds info) then Inl MultipleDenoms
      else if BOUNTIES_has S task_id s then Inl (BountyAlreadyExists task_id)
      else
        let coin = info_funds info ! 0;
            bounty = \<lparr>bn_task_id = task_id, bn_funder = info_sender info, bn_amount = coin_amount coin,
              bn_denom = coin_denom coin, bn_multiplier_pct = 100, bn_claimed = False, bn_claimer = None\<rparr> in
        try_bind (std (BOUNTIES_save S task_id bounty s)) (\<lambda>s.
        Inr (s, \<lparr>resp_messages = [],
          resp_attributes = [(''action'', ''fund_bounty''), (''task_id'', fmt_d (unat task_id)),
            (''funder'', info_sender info), (''amount'', fmt_d (unat (coin_amount coin))),
            (''denom'', coin_denom coin), (''multiplier_pct'', ''100'')]\<rparr>)))"

definition execute_claim_bounty :: "'s cw_store \<Rightarrow> 's \<Rightarrow> MessageInfo \<Rightarrow> u64 \<Rightarrow> ContractError + 's \<times> Response" where
  "execute_claim_bounty S s info task_id =
     try_bind (std (BOUNTIES_may_load S task_id s)) (\<lambda>found.
     try_bind (case found of None \<Rightarrow> Inl (BountyNotFound task_id) | Some bounty \<Rightarrow> Inr bounty) (\<lambda>bounty.
     if bn_claimed bounty then Inl (BountyAlreadyClaimed task_id)
     else
       try_bind (std (CONFIG_load S s)) (\<lambda>config.
       try_bind (try_bind (u128_checked_mul (bn_amount bounty) (ucast (bn_multiplier_pct bounty)))
                  (\<lambda>x. u128_checked_div x 100)) (\<lambda>gross.
       try_bind (try_bind (u128_checked_mul gross (ucast (cfg_fee_pct config)))
                  (\<lambda>x. u128_checked_div x 100)) (\<lambda>fee.
       try_bind (u128_checked_sub gross fee) (\<lambda>net.
       let bounty = bounty\<lparr>bn_claimed := True, bn_claimer := Some (info_sender info)\<rparr> in
       try_bind (std (BOUNTIES_save S task_id bounty s)) (\<lambda>s.
       let msgs = [\<lparr>to_address = info_sender info,
                    send_amount = [\<lparr>coin_denom = bn_denom bounty, coin_amount = net\<rparr>]\<rparr>];
           msgs = (if fee \<noteq> 0
                   then msgs @ [\<lparr>to_address = cfg_fee_collector config,
                                 send_amount = [\<lparr>coin_denom = bn_denom bounty, coin_amount = fee\<rparr>]\<rparr>]
                   else msgs) in
       Inr (s, \<lparr>resp_messages = msgs,
         resp_attributes = [(''action'', ''claim_bounty''), (''task_id'', fmt_d (unat task_id)),
           (''claimer'', info_sender info), (''gross'', fmt_d (unat gross)), (''fee'', fmt_d (unat fee)),
           (''net'', fmt_d (unat net))]\<rparr>))))))))"

definition execute_update_fee :: "'s cw_store \<Rightarrow> 's \<Rightarrow> MessageInfo \<Rightarrow> u64 \<Rightarrow> ContractError + 's \<times> Response" where
  "execute_update_fee S s info fee_pct =
     try_bind (std (CONFIG_load S s)) (\<lambda>config.
     if info_sender info \<noteq> cfg_admin config then Inl Unauthorized
     else if fee_pct > 100 then Inl InvalidFee
     else
       let config = config\<lparr>cfg_fee_pct := fee_pct\<rparr> in
       try_bind (std (CONFIG_save S config s)) (\<lambda>s.
       Inr (s, \<lparr>resp_messages = [],
         resp_attributes = [(''action'', ''update_fee''), (''fee_pct'', fmt_d (unat fee_pct))]\<rparr>)))"

definition execute_add_bonus :: "'s cw_store \<Rightarrow> 's \<Rightarrow> MessageInfo \<Rightarrow> u64 \<Rightarrow> u64 \<Rightarrow> ContractError + 's \<times> Response" where
  "execute_add_bonus S s info task_id multiplier_pct =
     try_bind (std (CONFIG_load S s)) (\<lambda>config.
     if info_sender info \<noteq> cfg_admin config then Inl Unauthorized
     else
       try_bind (std (BOUNTIES_may_load S task_id s)) (\<lambda>found.
       try_bind (case found of None \<Rightarrow> Inl (BountyNotFound task_id) | Some bounty \<Rightarrow> Inr bounty) (\<lambda>bounty.
       let bounty = bounty\<lparr>bn_multiplier_pct := multiplier_pct\<rparr> in
       try_bind (std (BOUNTIES_save S task_id bounty s)) (\<lambda>s.
       Inr (s, \<lparr>resp_messages = [],
         resp_attributes = [(''action'', ''add_bonus''), (''task_id'', fmt_d (unat task_id)),
           (''multiplier_pct'', fmt_d (unat multiplier_pct))]\<rparr>)))))"

definition execute :: "'s cw_store \<Rightarrow> 's \<Rightarrow> MessageInfo \<Rightarrow> ExecuteMsg \<Rightarrow> ContractError + 's \<times> Response" where
  "execute S s info msg =
     (case msg of
        ExecFundBounty task_id \<Rightarrow> execute_fund_bounty S s info task_id
      | ExecClaimBounty task_id \<Rightarrow> execute_claim_bounty S s info task_id
      | ExecUpdateFee fee_pct \<Rightarrow> execute_update_fee S s info fee_pct
      | ExecAddBonus task_id multiplier_pct \<Rightarrow> execute_add_bonus S s info task_id multiplier_pct)"

text \<open>The answers of queries before \<^verbatim>\<open>to_json_binary\<close>, which writes their text.\<close>

definition Config_json :: "Config \<Rightarrow> json" where
  "Config_json c = JObject [(''admin'', JString (cfg_admin c)), (''fee_collector'', JString (cfg_fee_collector c)),
     (''fee_pct'', JNumber (fmt_d (unat (cfg_fee_pct c))))]"

definition Bounty_json :: "Bounty \<Rightarrow> json" where
  "Bounty_json b = JObject [(''task_id'', JNumber (fmt_d (unat (bn_task_id b)))), (''funder'', JString (bn_funder b)),
     (''amount'', JString (fmt_d (unat (bn_amount b)))), (''denom'', JString (bn_denom b)),
     (''multiplier_pct'', JNumber (fmt_d (unat (bn_multiplier_pct b)))), (''claimed'', JBool (bn_claimed b)),
     (''claimer'', case bn_claimer b of None \<Rightarrow> JNull | Some a \<Rightarrow> JString a)]"

definition list_bounties :: "'s cw_store \<Rightarrow> 's \<Rightarrow> u64 option \<Rightarrow> u32 option \<Rightarrow> string + Bounty list" where
  "list_bounties S s start_after limit =
     (let limit = unat (min (case limit of None \<Rightarrow> DEFAULT_LIMIT | Some l \<Rightarrow> l) MAX_LIMIT)
      in collect_results (map (map_sum id snd) (take limit (BOUNTIES_range S start_after s))))"

definition contract_query :: "'s cw_store \<Rightarrow> 's \<Rightarrow> QueryMsg \<Rightarrow> string + json" where
  "contract_query S s msg =
     (case msg of
        QueryConfig \<Rightarrow> try_bind (CONFIG_load S s) (\<lambda>c. Inr (Config_json c))
      | QueryBounty task_id \<Rightarrow> try_bind (BOUNTIES_load S task_id s) (\<lambda>b. Inr (Bounty_json b))
      | QueryListBounties start_after limit \<Rightarrow>
          try_bind (list_bounties S s start_after limit)
            (\<lambda>bounties. Inr (JObject [(''bounties'', JArray (map Bounty_json bounties))])))"

end
