(* ===== verification/Bounty_Store.thy ===== *)
theory Bounty_Store
  imports Bounty_Contract
begin

text \<open>
  What the contract promises, over natural numbers and finite maps: the escrow book of bounties, the
  payments of a claim, and each call as a transition of the book. The entry points refine it over any
  storage with the laws of \<open>cw_storage\<close>, which a pair of an item and a search tree satisfies.
\<close>

section \<open>The book of bounties\<close>

type_synonym book = "u64 \<rightharpoonup> Bounty"

type_synonym payment = "Addr \<times> string \<times> nat"

definition gross_of :: "Bounty \<Rightarrow> nat" where
  "gross_of b = unat (bn_amount b) * unat (bn_multiplier_pct b) div 100"

definition fee_of :: "Config \<Rightarrow> Bounty \<Rightarrow> nat" where
  "fee_of c b = gross_of b * unat (cfg_fee_pct c) div 100"

definition net_of :: "Config \<Rightarrow> Bounty \<Rightarrow> nat" where
  "net_of c b = gross_of b - fee_of c b"

definition new_bounty :: "Addr \<Rightarrow> u64 \<Rightarrow> CwCoin \<Rightarrow> Bounty" where
  "new_bounty sender task_id coin = \<lparr>bn_task_id = task_id, bn_funder = sender, bn_amount = coin_amount coin,
     bn_denom = coin_denom coin, bn_multiplier_pct = 100, bn_claimed = False, bn_claimer = None\<rparr>"

definition paid_out :: "Addr \<Rightarrow> Bounty \<Rightarrow> Bounty" where
  "paid_out sender b = b\<lparr>bn_claimed := True, bn_claimer := Some sender\<rparr>"

text \<open>The intermediate products fit \<^verbatim>\<open>Uint128\<close>.\<close>

definition fits :: "Config \<Rightarrow> Bounty \<Rightarrow> bool" where
  "fits c b \<longleftrightarrow> unat (bn_amount b) * unat (bn_multiplier_pct b) < 2 ^ 128
     \<and> gross_of b * unat (cfg_fee_pct c) < 2 ^ 128"

definition payments :: "Config \<Rightarrow> Addr \<Rightarrow> Bounty \<Rightarrow> payment list" where
  "payments c sender b = (sender, bn_denom b, net_of c b)
     # (if fee_of c b = 0 then [] else [(cfg_fee_collector c, bn_denom b, fee_of c b)])"

fun book_execute :: "Config \<Rightarrow> book \<Rightarrow> MessageInfo \<Rightarrow> ExecuteMsg \<Rightarrow> ContractError + Config \<times> book \<times> payment list" where
  "book_execute c bs info (ExecFundBounty i) =
     (case info_funds info of
        [] \<Rightarrow> Inl NoFunds
      | [coin] \<Rightarrow> if i \<in> dom bs then Inl (BountyAlreadyExists i)
                  else Inr (c, bs(i \<mapsto> new_bounty (info_sender info) i coin), [])
      | _ \<Rightarrow> Inl MultipleDenoms)"
| "book_execute c bs info (ExecClaimBounty i) =
     (case bs i of
        None \<Rightarrow> Inl (BountyNotFound i)
      | Some b \<Rightarrow>
          if bn_claimed b then Inl (BountyAlreadyClaimed i)
          else if \<not> fits c b then Inl (Std ''Cannot Mul with given operands'')
          else if gross_of b < fee_of c b then Inl (Std ''Cannot Sub with given operands'')
          else Inr (c, bs(i \<mapsto> paid_out (info_sender info) b), payments c (info_sender info) b))"
| "book_execute c bs info (ExecUpdateFee pct) =
     (if info_sender info \<noteq> cfg_admin c then Inl Unauthorized
      else if pct > 100 then Inl InvalidFee
      else Inr (c\<lparr>cfg_fee_pct := pct\<rparr>, bs, []))"
| "book_execute c bs info (ExecAddBonus i pct) =
     (if info_sender info \<noteq> cfg_admin c then Inl Unauthorized
      else case bs i of
        None \<Rightarrow> Inl (BountyNotFound i)
      | Some b \<Rightarrow> Inr (c, bs(i \<mapsto> b\<lparr>bn_multiplier_pct := pct\<rparr>), []))"

lemma book_claim:
  assumes "book_execute c bs info (ExecClaimBounty i) = Inr (c', bs', ps)"
  obtains b where "bs i = Some b" "\<not> bn_claimed b" "fits c b" "fee_of c b \<le> gross_of b" "c' = c"
    "bs' = bs(i \<mapsto> paid_out (info_sender info) b)" "ps = payments c (info_sender info) b"
  using assms by (cases "bs i") (auto split: if_splits)

definition payments_of :: "Response \<Rightarrow> payment list" where
  "payments_of r = concat (map (\<lambda>m. map (\<lambda>a. (to_address m, coin_denom a, unat (coin_amount a))) (send_amount m))
     (resp_messages r))"

section \<open>Arithmetic\<close>

lemma mul_fits: "u128_checked_mul a b = (if unat a * unat b < 2 ^ 128 then Inr (a * b) else Inl (Std ''Cannot Mul with given operands''))"
  by (simp add: u128_checked_mul_def)

lemma unat_mul_fits: "unat (a :: u128) * unat b < 2 ^ 128 \<Longrightarrow> unat (a * b) = unat a * unat b"
  by (simp add: unat_word_ariths)

lemma unat_ucast_pct: "unat (ucast (p :: u64) :: u128) = unat p"
proof -
  have "unat p < 2 ^ 64" using unsigned_less [of p] by simp
  then have "unat p < 2 ^ 128" by (rule less_trans) simp
  then show ?thesis by (simp add: unsigned_ucast_eq take_bit_nat_eq_self)
qed

lemma gross_word:
  assumes "unat (bn_amount b) * unat (bn_multiplier_pct b) < 2 ^ 128"
  shows "unat (bn_amount b * ucast (bn_multiplier_pct b) div 100 :: u128) = gross_of b"
  using assms by (simp add: unat_div gross_of_def unat_mul_fits unat_ucast_pct)

lemma fee_word:
  assumes "unat g * unat (cfg_fee_pct c) < 2 ^ 128" "unat g = gross_of b"
  shows "unat (g * ucast (cfg_fee_pct c) div 100 :: u128) = fee_of c b"
  using assms by (simp add: unat_div fee_of_def unat_mul_fits unat_ucast_pct)

lemma fee_le_gross: "cfg_fee_pct c \<le> 100 \<Longrightarrow> fee_of c b \<le> gross_of b"
proof -
  assume "cfg_fee_pct c \<le> 100"
  then have "unat (cfg_fee_pct c) \<le> 100" by (simp add: word_le_nat_alt)
  then have "gross_of b * unat (cfg_fee_pct c) div 100 \<le> gross_of b * 100 div 100"
    by (intro div_le_mono mult_le_mono2)
  then show ?thesis by (simp add: fee_of_def)
qed

section \<open>The laws of the storage\<close>

locale cw_storage =
  fixes S :: "'s cw_store" and config_of :: "'s \<Rightarrow> Config option" and bounties_of :: "'s \<Rightarrow> book"
  assumes version_law: "\<exists>s'. version_set S name ver s = Inr s' \<and> config_of s' = config_of s \<and> bounties_of s' = bounties_of s"
    and config_save_law: "\<exists>s'. CONFIG_save S c s = Inr s' \<and> config_of s' = Some c \<and> bounties_of s' = bounties_of s"
    and config_load_law: "case config_of s of None \<Rightarrow> isl (CONFIG_load S s) | Some c \<Rightarrow> CONFIG_load S s = Inr c"
    and has_law: "BOUNTIES_has S i s \<longleftrightarrow> i \<in> dom (bounties_of s)"
    and may_load_law: "BOUNTIES_may_load S i s = Inr (bounties_of s i)"
    and load_law: "case bounties_of s i of None \<Rightarrow> isl (BOUNTIES_load S i s) | Some b \<Rightarrow> BOUNTIES_load S i s = Inr b"
    and save_law: "\<exists>s'. BOUNTIES_save S i b s = Inr s' \<and> config_of s' = config_of s \<and> bounties_of s' = (bounties_of s)(i \<mapsto> b)"
    and range_law: "\<exists>is. BOUNTIES_range S start s = map (\<lambda>i. Inr (i, the (bounties_of s i))) is \<and> sorted_wrt (<) is
      \<and> set is = {i \<in> dom (bounties_of s). case start of None \<Rightarrow> True | Some a \<Rightarrow> a < i}"
begin

definition abs_result :: "ContractError + 's \<times> Response \<Rightarrow> ContractError + Config option \<times> book \<times> payment list" where
  "abs_result = map_sum id (\<lambda>(s, r). (config_of s, bounties_of s, payments_of r))"

lemma abs_result_simps [simp]:
  "abs_result (Inl e) = Inl e" "abs_result (Inr (s, r)) = Inr (config_of s, bounties_of s, payments_of r)"
  by (simp_all add: abs_result_def)

lemma config_load: "config_of s = Some c \<Longrightarrow> CONFIG_load S s = Inr c"
  using config_load_law [of s] by simp

lemma fund_refines:
  assumes "config_of s = Some c"
  shows "abs_result (execute_fund_bounty S s info i) =
    map_sum id (\<lambda>(c, r). (Some c, r)) (book_execute c (bounties_of s) info (ExecFundBounty i))"
proof (cases "\<exists>coin. info_funds info = [coin] \<and> i \<notin> dom (bounties_of s)")
  case True
  then obtain coin where coin: "info_funds info = [coin]" "i \<notin> dom (bounties_of s)" by blast
  obtain s' where "BOUNTIES_save S i (new_bounty (info_sender info) i coin) s = Inr s'" "config_of s' = config_of s"
    "bounties_of s' = (bounties_of s)(i \<mapsto> new_bounty (info_sender info) i coin)" using save_law by blast
  with coin assms show ?thesis
    by (simp add: execute_fund_bounty_def has_law new_bounty_def payments_of_def Let_def)
next
  case False
  then show ?thesis
    by (auto simp: execute_fund_bounty_def has_law Let_def split: list.split)
qed

lemma claim_refines:
  assumes "config_of s = Some c"
  shows "abs_result (execute_claim_bounty S s info i) =
    map_sum id (\<lambda>(c, r). (Some c, r)) (book_execute c (bounties_of s) info (ExecClaimBounty i))"
proof (cases "bounties_of s i")
  case None
  then show ?thesis by (simp add: execute_claim_bounty_def may_load_law)
next
  case (Some b)
  let ?g = "bn_amount b * ucast (bn_multiplier_pct b) div 100 :: u128"
  let ?f = "?g * ucast (cfg_fee_pct c) div 100 :: u128"
  have sub: "?f \<le> ?g \<Longrightarrow> unat (?g - ?f) = unat ?g - unat ?f" by (rule unat_sub)
  obtain s' where s': "BOUNTIES_save S i (paid_out (info_sender info) b) s = Inr s'" "config_of s' = config_of s"
    "bounties_of s' = (bounties_of s)(i \<mapsto> paid_out (info_sender info) b)" using save_law by blast
  show ?thesis
  proof (cases "bn_claimed b \<or> \<not> unat (bn_amount b) * unat (bn_multiplier_pct b) < 2 ^ 128")
    case True
    with Some show ?thesis
      by (auto simp: execute_claim_bounty_def may_load_law config_load [OF assms] mul_fits unat_ucast_pct fits_def)
  next
    case False
    then have g: "unat ?g = gross_of b" by (simp add: gross_word)
    show ?thesis
    proof (cases "gross_of b * unat (cfg_fee_pct c) < 2 ^ 128")
      case over: False
      with False Some g show ?thesis
        by (simp add: execute_claim_bounty_def may_load_law config_load [OF assms] mul_fits unat_ucast_pct
            u128_checked_div_def fits_def)
    next
      case fits: True
      then have f: "unat ?f = fee_of c b" using g by (intro fee_word) simp_all
      have le: "?f \<le> ?g \<longleftrightarrow> fee_of c b \<le> gross_of b" by (simp add: word_le_nat_alt f g)
      have z: "?f = 0 \<longleftrightarrow> fee_of c b = 0" by (metis f unat_eq_0)
      show ?thesis
        using False Some g fits f le z s' sub assms
        by (simp add: execute_claim_bounty_def may_load_law config_load [OF assms] mul_fits unat_ucast_pct
            u128_checked_div_def u128_checked_sub_def fits_def payments_def payments_of_def net_of_def
            paid_out_def [symmetric] Let_def not_le)
          (simp add: paid_out_def)
    qed
  qed
qed

lemma update_fee_refines:
  assumes "config_of s = Some c"
  shows "abs_result (execute_update_fee S s info pct) =
    map_sum id (\<lambda>(c, r). (Some c, r)) (book_execute c (bounties_of s) info (ExecUpdateFee pct))"
proof -
  obtain s' where "CONFIG_save S (c\<lparr>cfg_fee_pct := pct\<rparr>) s = Inr s'" "config_of s' = Some (c\<lparr>cfg_fee_pct := pct\<rparr>)"
    "bounties_of s' = bounties_of s" using config_save_law by blast
  then show ?thesis
    by (simp add: execute_update_fee_def config_load [OF assms] payments_of_def Let_def)
qed

lemma add_bonus_refines:
  assumes "config_of s = Some c"
  shows "abs_result (execute_add_bonus S s info i pct) =
    map_sum id (\<lambda>(c, r). (Some c, r)) (book_execute c (bounties_of s) info (ExecAddBonus i pct))"
proof (cases "bounties_of s i")
  case None
  then show ?thesis by (simp add: execute_add_bonus_def config_load [OF assms] may_load_law)
next
  case (Some b)
  obtain s' where "BOUNTIES_save S i (b\<lparr>bn_multiplier_pct := pct\<rparr>) s = Inr s'" "config_of s' = config_of s"
    "bounties_of s' = (bounties_of s)(i \<mapsto> b\<lparr>bn_multiplier_pct := pct\<rparr>)" using save_law by blast
  with Some assms show ?thesis
    by (simp add: execute_add_bonus_def config_load [OF assms] may_load_law payments_of_def Let_def)
qed

lemmas entry_points_refine = fund_refines claim_refines update_fee_refines add_bonus_refines

lemma execute_refines:
  "config_of s = Some c \<Longrightarrow> abs_result (execute S s info msg) =
    map_sum id (\<lambda>(c, r). (Some c, r)) (book_execute c (bounties_of s) info msg)"
  by (cases msg) (simp_all only: execute_def ExecuteMsg.case entry_points_refine)

lemma execute_Inr:
  assumes "config_of s = Some c" "execute S s info msg = Inr (s', r)"
  obtains c' where "book_execute c (bounties_of s) info msg = Inr (c', bounties_of s', payments_of r)"
    "config_of s' = Some c'"
  using execute_refines [OF assms(1), of info msg] assms(2)
  by (cases "book_execute c (bounties_of s) info msg") auto

lemma instantiate_eq:
  "abs_result (instantiate S addr_validate s info msg) =
    (if im_fee_pct msg > 100 then Inl InvalidFee
     else case addr_validate (im_fee_collector msg) of
       Inl e \<Rightarrow> Inl (Std e)
     | Inr a \<Rightarrow> Inr (Some \<lparr>cfg_admin = info_sender info, cfg_fee_collector = a, cfg_fee_pct = im_fee_pct msg\<rparr>,
         bounties_of s, []))"
proof -
  obtain s1 where s1: "version_set S CONTRACT_NAME CONTRACT_VERSION s = Inr s1" "bounties_of s1 = bounties_of s"
    using version_law by blast
  have "\<exists>s2. CONFIG_save S c s1 = Inr s2 \<and> config_of s2 = Some c \<and> bounties_of s2 = bounties_of s" for c
    using config_save_law [of c s1] s1(2) by simp
  then obtain after where "\<And>c. CONFIG_save S c s1 = Inr (after c) \<and> config_of (after c) = Some c
      \<and> bounties_of (after c) = bounties_of s" by metis
  with s1 show ?thesis by (simp add: instantiate_def payments_of_def Let_def split: sum.split)
qed

text \<open>Queries: a page is the bounties with the smallest ids above the given one.\<close>

lemma list_bounties_eq:
  assumes "limit' = unat (min (case limit of None \<Rightarrow> DEFAULT_LIMIT | Some l \<Rightarrow> l) MAX_LIMIT)"
  shows "\<exists>is. list_bounties S s start limit = Inr (map (\<lambda>i. the (bounties_of s i)) (take limit' is)) \<and> sorted_wrt (<) is
    \<and> set is = {i \<in> dom (bounties_of s). case start of None \<Rightarrow> True | Some a \<Rightarrow> a < i}"
proof -
  obtain "is" where "BOUNTIES_range S start s = map (\<lambda>i. Inr (i, the (bounties_of s i))) is" and "sorted_wrt (<) is"
    "set is = {i \<in> dom (bounties_of s). case start of None \<Rightarrow> True | Some a \<Rightarrow> a < i}" using range_law by blast
  moreover have "collect_results (map (map_sum id snd) (take n (map (\<lambda>i. Inr (i, the (bounties_of s i))) is)))
      = Inr (map (\<lambda>i. the (bounties_of s i)) (take n is))" for n :: nat
    using collect_Inr [of "map (\<lambda>i. the (bounties_of s i)) (take n is)"] by (simp add: take_map comp_def)
  ultimately show ?thesis by (auto simp: list_bounties_def assms Let_def)
qed

end

section \<open>A storage\<close>

type_synonym contract_store = "Config option \<times> (u64, Bounty) RBT.rbt"

definition rbt_contract_store :: "contract_store cw_store" where
  "rbt_contract_store =
     \<lparr>version_set = (\<lambda>name ver s. Inr s),
      CONFIG_save = (\<lambda>c (_, t). Inr (Some c, t)),
      CONFIG_load = (\<lambda>(c, _). case c of None \<Rightarrow> Inl ''Config not found'' | Some c \<Rightarrow> Inr c),
      BOUNTIES_has = (\<lambda>i (_, t). RBT.lookup t i \<noteq> None),
      BOUNTIES_may_load = (\<lambda>i (_, t). Inr (RBT.lookup t i)),
      BOUNTIES_load = (\<lambda>i (_, t). case RBT.lookup t i of None \<Rightarrow> Inl ''Bounty not found'' | Some b \<Rightarrow> Inr b),
      BOUNTIES_save = (\<lambda>i b (c, t). Inr (c, RBT.insert i b t)),
      BOUNTIES_range = (\<lambda>start (_, t). map Inr (filter (\<lambda>(i, _). case start of None \<Rightarrow> True | Some a \<Rightarrow> a < i) (RBT.entries t)))\<rparr>"

definition store_bounties :: "contract_store \<Rightarrow> book" where
  "store_bounties s = RBT.lookup (snd s)"

lemma entries_as_keys:
  "filter (\<lambda>(i, _). P i) (RBT.entries t) = map (\<lambda>i. (i, the (RBT.lookup t i))) (filter P (map fst (RBT.entries t)))"
proof -
  have "map (\<lambda>i. (i, the (RBT.lookup t i))) (filter P (map fst xs)) = filter (\<lambda>(i, _). P i) xs"
    if "\<forall>x \<in> set xs. RBT.lookup t (fst x) = Some (snd x)" for xs
    using that by (induction xs) auto
  then show ?thesis by (simp add: RBT.lookup_in_tree)
qed

lemma entry_keys: "set (map fst (RBT.entries t)) = dom (RBT.lookup t)"
  by (auto simp: dom_def RBT.lookup_in_tree image_iff) force

interpretation contract_store: cw_storage rbt_contract_store fst store_bounties
proof
  fix start :: "u64 option" and s :: contract_store
  let ?P = "\<lambda>i. case start of None \<Rightarrow> True | Some a \<Rightarrow> a < i"
  let ?is = "filter ?P (map fst (RBT.entries (snd s)))"
  have "BOUNTIES_range rbt_contract_store start s = map (\<lambda>i. Inr (i, the (store_bounties s i))) ?is"
    by (simp add: rbt_contract_store_def store_bounties_def entries_as_keys split: prod.split)
  moreover have "sorted_wrt (<) ?is"
    by (intro sorted_wrt_filter) (simp add: strict_sorted_iff RBT.sorted_entries RBT.distinct_entries)
  moreover have "set ?is = {i \<in> dom (store_bounties s). ?P i}"
    using entry_keys [of "snd s"] by (auto simp: store_bounties_def)
  ultimately show "\<exists>is. BOUNTIES_range rbt_contract_store start s = map (\<lambda>i. Inr (i, the (store_bounties s i))) is
      \<and> sorted_wrt (<) is \<and> set is = {i \<in> dom (store_bounties s). ?P i}" by blast
qed (auto simp: rbt_contract_store_def store_bounties_def split: option.split)

end
