(* ===== verification/Bounty_Host.thy ===== *)
theory Bounty_Host
  imports Bounty_Store
begin

text \<open>
  The contract on its chain. The wasm module of the chain is a parameter (locale \<open>wasm_host\<close>) with its
  documented behaviour: it moves the attached funds to the contract, runs \<open>execute\<close>, sends the payments of
  the response from the contract's balance in order, and undoes everything if any of this fails.
  \<open>escrow\<close> is the same over the book of bounties, and \<open>host_step\<close> is the chain as a state machine; what the
  contract guarantees along its steps is shown by rule induction: claimed bounties stay claimed, the fee
  stays a percentage, and the contract keeps the money for its open bounties as long as no bonus is given.
\<close>

section \<open>Balances\<close>

type_synonym balances = "Addr \<Rightarrow> string \<Rightarrow> nat"

definition transfer :: "Addr \<Rightarrow> Addr \<Rightarrow> string \<Rightarrow> nat \<Rightarrow> balances \<Rightarrow> balances" where
  "transfer src dst d n bal =
     (\<lambda>a e. if e = d then bal a d - (if a = src then n else 0) + (if a = dst then n else 0) else bal a e)"

text \<open>Sends in order: each needs a positive amount, a sufficient balance and a willing receiver.\<close>

fun send_all :: "(Addr \<Rightarrow> string \<Rightarrow> bool) \<Rightarrow> Addr \<Rightarrow> payment list \<Rightarrow> balances \<Rightarrow> balances option" where
  "send_all accepts src [] bal = Some bal"
| "send_all accepts src ((dst, d, n) # ps) bal =
     (if n = 0 \<or> bal src d < n \<or> \<not> accepts dst d then None
      else send_all accepts src ps (transfer src dst d n bal))"

definition deposit :: "Addr \<Rightarrow> CwCoin list \<Rightarrow> payment list" where
  "deposit self funds = map (\<lambda>c. (self, coin_denom c, unat (coin_amount c))) funds"

section \<open>The escrow\<close>

record escrow =
  es_config :: Config
  es_book :: book
  es_bal :: balances

definition escrow_execute ::
  "(Addr \<Rightarrow> string \<Rightarrow> bool) \<Rightarrow> Addr \<Rightarrow> escrow \<Rightarrow> Addr \<Rightarrow> CwCoin list \<Rightarrow> ExecuteMsg \<Rightarrow> escrow option" where
  "escrow_execute accepts self e sender funds msg =
     Option.bind (send_all accepts sender (deposit self funds) (es_bal e)) (\<lambda>bal.
     case book_execute (es_config e) (es_book e) \<lparr>info_sender = sender, info_funds = funds\<rparr> msg of
       Inl err \<Rightarrow> None
     | Inr (c, bs, ps) \<Rightarrow>
         map_option (\<lambda>bal. \<lparr>es_config = c, es_book = bs, es_bal = bal\<rparr>) (send_all accepts self ps bal))"

text \<open>The money that belongs to open bounties, and the state in which it is there.\<close>

definition open_amount :: "string \<Rightarrow> Bounty option \<Rightarrow> nat" where
  "open_amount d ob = (case ob of None \<Rightarrow> 0 | Some b \<Rightarrow> if bn_claimed b \<or> bn_denom b \<noteq> d then 0 else unat (bn_amount b))"

definition locked :: "book \<Rightarrow> string \<Rightarrow> nat" where
  "locked bs d = (\<Sum>i\<in>UNIV. open_amount d (bs i))"

definition fee_ok :: "escrow \<Rightarrow> bool" where
  "fee_ok e \<longleftrightarrow> cfg_fee_pct (es_config e) \<le> 100"

definition no_bonus :: "book \<Rightarrow> bool" where
  "no_bonus bs \<longleftrightarrow> (\<forall>i b. bs i = Some b \<longrightarrow> bn_multiplier_pct b \<le> 100)"

definition solvent :: "Addr \<Rightarrow> escrow \<Rightarrow> bool" where
  "solvent self e \<longleftrightarrow> fee_ok e \<and> no_bonus (es_book e) \<and> (\<forall>d. locked (es_book e) d \<le> es_bal e self d)"

fun modest :: "ExecuteMsg \<Rightarrow> bool" where
  "modest (ExecAddBonus i pct) \<longleftrightarrow> pct \<le> 100"
| "modest _ \<longleftrightarrow> True"

lemma open_amount_simps [simp]:
  "open_amount d None = 0"
  "open_amount d (Some b) = (if bn_claimed b \<or> bn_denom b \<noteq> d then 0 else unat (bn_amount b))"
  by (simp_all add: open_amount_def)

lemma locked_update: "locked (bs(i \<mapsto> b)) d + open_amount d (bs i) = locked bs d + open_amount d (Some b)"
proof -
  have "locked bs' d = open_amount d (bs' i) + (\<Sum>j\<in>UNIV - {i}. open_amount d (bs' j))" for bs'
    unfolding locked_def by (rule sum.remove) simp_all
  from this [of bs] this [of "bs(i \<mapsto> b)"] show ?thesis by simp
qed

lemma locked_same: "bs i = Some b \<Longrightarrow> open_amount d (Some b') = open_amount d (Some b) \<Longrightarrow> locked (bs(i \<mapsto> b')) d = locked bs d"
  using locked_update [of bs i b' d] by (metis add_right_cancel)

lemma amount_le_locked:
  assumes "bs i = Some b" "\<not> bn_claimed b"
  shows "unat (bn_amount b) \<le> locked bs (bn_denom b)"
proof -
  have "open_amount (bn_denom b) (bs i) \<le> locked bs (bn_denom b)" unfolding locked_def by (rule member_le_sum) simp_all
  with assms show ?thesis by simp
qed

lemma gross_le_amount:
  assumes "bn_multiplier_pct b \<le> 100" shows "gross_of b \<le> unat (bn_amount b)"
proof -
  from assms have "unat (bn_multiplier_pct b) \<le> 100" by (simp add: word_le_nat_alt)
  then have "unat (bn_amount b) * unat (bn_multiplier_pct b) div 100 \<le> unat (bn_amount b) * 100 div 100"
    by (intro div_le_mono mult_le_mono2)
  then show ?thesis by (simp add: gross_of_def)
qed

text \<open>Sends never take more than they say, and take only from the source.\<close>

fun total :: "string \<Rightarrow> payment list \<Rightarrow> nat" where
  "total d [] = 0"
| "total d ((a, e, n) # ps) = (if e = d then n else 0) + total d ps"

lemma send_all_source:
  "send_all accepts src ps bal = Some bal' \<Longrightarrow> bal src d \<le> bal' src d + total d ps"
proof (induction ps arbitrary: bal)
  case (Cons p ps)
  obtain dst e n where p: "p = (dst, e, n)" by (cases p)
  with Cons show ?case by (fastforce simp: transfer_def split: if_splits)
qed simp

lemma send_all_receives:
  assumes "send_all accepts src (map (\<lambda>c. (dst, f c, g c)) cs) bal = Some bal'" "dst \<noteq> src"
  shows "bal dst d + total d (map (\<lambda>c. (dst, f c, g c)) cs) = bal' dst d"
  using assms
proof (induction cs arbitrary: bal)
  case (Cons c cs)
  then show ?case by (fastforce simp: transfer_def split: if_splits)
qed simp

text \<open>The two payments of a claim go through exactly if they can.\<close>

lemma pay_claim:
  assumes "0 < net_of c b" "fee_of c b \<le> gross_of b" "gross_of b \<le> bal self (bn_denom b)" "sender \<noteq> self"
    and "accepts sender (bn_denom b)" "accepts (cfg_fee_collector c) (bn_denom b)"
  obtains bal' where "send_all accepts self (payments c sender b) bal = Some bal'"
    "cfg_fee_collector c \<noteq> sender \<Longrightarrow> bal' sender (bn_denom b) = bal sender (bn_denom b) + net_of c b"
    "bal' sender (bn_denom b) \<ge> bal sender (bn_denom b) + net_of c b"
proof -
  have n: "net_of c b + fee_of c b = gross_of b" using assms(2) by (simp add: net_of_def)
  show ?thesis
  proof (cases "fee_of c b = 0")
    case True
    with n assms show ?thesis
      by (intro that [of "transfer self sender (bn_denom b) (net_of c b) bal"]) (simp_all add: payments_def transfer_def)
  next
    case False
    with n assms show ?thesis
      by (intro that [of "transfer self (cfg_fee_collector c) (bn_denom b) (fee_of c b)
          (transfer self sender (bn_denom b) (net_of c b) bal)"]) (auto simp: payments_def transfer_def)
  qed
qed

section \<open>One call\<close>

lemma escrow_execute_Some:
  assumes "escrow_execute accepts self e sender funds msg = Some e'"
  obtains bal ps where "send_all accepts sender (deposit self funds) (es_bal e) = Some bal"
    "book_execute (es_config e) (es_book e) \<lparr>info_sender = sender, info_funds = funds\<rparr> msg
       = Inr (es_config e', es_book e', ps)"
    "send_all accepts self ps bal = Some (es_bal e')"
proof -
  from assms obtain bal where dep: "send_all accepts sender (deposit self funds) (es_bal e) = Some bal"
    by (auto simp: escrow_execute_def bind_eq_Some_conv)
  show ?thesis
  proof (cases "book_execute (es_config e) (es_book e) \<lparr>info_sender = sender, info_funds = funds\<rparr> msg")
    case (Inl err)
    with assms dep show ?thesis by (simp add: escrow_execute_def)
  next
    case (Inr r)
    obtain c bs ps where "r = (c, bs, ps)" by (cases r)
    with Inr assms dep that [OF dep, of ps] show ?thesis by (auto simp: escrow_execute_def)
  qed
qed

lemma deposit_grows:
  assumes "send_all accepts sender (deposit self funds) bal = Some bal'" "sender \<noteq> self"
  shows "bal self d \<le> bal' self d"
  using send_all_receives [of accepts sender self coin_denom "\<lambda>c. unat (coin_amount c)" funds bal bal' d] assms
  by (simp add: deposit_def)

lemma deposit_one:
  assumes "send_all accepts sender (deposit self [coin]) bal = Some bal'" "sender \<noteq> self"
  shows "bal' self d = bal self d + (if coin_denom coin = d then unat (coin_amount coin) else 0)"
  using send_all_receives [of accepts sender self coin_denom "\<lambda>c. unat (coin_amount c)" "[coin]" bal bal' d] assms
  by (simp add: deposit_def)

lemma total_payments: "fee_of c b \<le> gross_of b \<Longrightarrow> total d (payments c sender b) = (if bn_denom b = d then gross_of b else 0)"
  by (simp add: payments_def net_of_def)

text \<open>What a call does to a bounty and to the configuration.\<close>

definition bounty_kept :: "Bounty \<Rightarrow> Bounty \<Rightarrow> bool" where
  "bounty_kept b b' \<longleftrightarrow> bn_task_id b' = bn_task_id b \<and> bn_funder b' = bn_funder b \<and> bn_amount b' = bn_amount b
     \<and> bn_denom b' = bn_denom b \<and> (bn_claimed b \<longrightarrow> bn_claimed b' \<and> bn_claimer b' = bn_claimer b)"

lemma bounty_kept_refl [simp]: "bounty_kept b b"
  by (simp add: bounty_kept_def)

lemma bounty_kept_trans: "bounty_kept b b' \<Longrightarrow> bounty_kept b' b'' \<Longrightarrow> bounty_kept b b''"
  by (auto simp: bounty_kept_def)

lemma book_kept:
  assumes "book_execute c bs info msg = Inr (c', bs', ps)" "bs i = Some b"
  shows "\<exists>b'. bs' i = Some b' \<and> bounty_kept b b'"
  using assms by (cases msg) (auto simp: bounty_kept_def paid_out_def split: list.splits option.splits if_splits)

lemma config_kept:
  assumes "book_execute c bs info msg = Inr (c', bs', ps)"
  shows "cfg_admin c' = cfg_admin c" "cfg_fee_collector c' = cfg_fee_collector c"
    "cfg_fee_pct c \<le> 100 \<Longrightarrow> cfg_fee_pct c' \<le> 100"
  using assms by (cases msg; auto split: list.splits option.splits if_splits)+

lemma admin_only:
  assumes "book_execute c bs info msg = Inr (c', bs', ps)" "info_sender info \<noteq> cfg_admin c"
  shows "c' = c" "bs i = Some b \<Longrightarrow> bs' i = Some b' \<Longrightarrow> bn_multiplier_pct b' = bn_multiplier_pct b"
  using assms by (cases msg; auto simp: paid_out_def split: list.splits option.splits if_splits)+

lemma no_bonus_update: "no_bonus bs \<Longrightarrow> bn_multiplier_pct b \<le> 100 \<Longrightarrow> no_bonus (bs(i \<mapsto> b))"
  by (simp add: no_bonus_def)

lemma book_no_bonus:
  assumes "book_execute c bs info msg = Inr (c', bs', ps)" "modest msg" "no_bonus bs"
  shows "no_bonus bs'"
proof -
  have le: "bs i = Some b \<Longrightarrow> bn_multiplier_pct b \<le> 100" for i b using assms(3) by (simp add: no_bonus_def)
  show ?thesis
    using assms le
    by (cases msg) (auto simp: new_bounty_def paid_out_def split: list.splits option.splits if_splits
        intro!: no_bonus_update [OF assms(3)])
qed

text \<open>Without bonuses a call leaves the open bounties covered.\<close>

lemma solvent_execute:
  assumes "escrow_execute accepts self e sender funds msg = Some e'" "sender \<noteq> self" "modest msg" "solvent self e"
  shows "solvent self e'"
proof (rule escrow_execute_Some [OF assms(1)])
  fix bal ps
  assume dep: "send_all accepts sender (deposit self funds) (es_bal e) = Some bal"
    and ex: "book_execute (es_config e) (es_book e) \<lparr>info_sender = sender, info_funds = funds\<rparr> msg
       = Inr (es_config e', es_book e', ps)"
    and pay: "send_all accepts self ps bal = Some (es_bal e')"
  from assms(4) have fee: "cfg_fee_pct (es_config e) \<le> 100" and nb: "no_bonus (es_book e)"
    and cov: "\<And>d. locked (es_book e) d \<le> es_bal e self d" by (simp_all add: solvent_def fee_ok_def)
  have in_bal: "es_bal e self d \<le> bal self d" for d using dep assms(2) by (rule deposit_grows)
  have out_bal: "bal self d \<le> es_bal e' self d + total d ps" for d using pay by (rule send_all_source)
  have nb': "no_bonus (es_book e')"
    using ex assms(3) nb by (rule book_no_bonus)
  have cov': "locked (es_book e') d \<le> es_bal e' self d" for d
  proof (cases msg)
    case (ExecFundBounty i)
    with ex obtain coin where coin: "funds = [coin]" "es_book e i = None" "ps = []"
      "es_book e' = (es_book e)(i \<mapsto> new_bounty sender i coin)" by (auto split: list.splits if_splits)
    show ?thesis
      using locked_update [of "es_book e" i "new_bounty sender i coin" d] deposit_one [OF dep [unfolded coin(1)] assms(2), of d]
        coin cov [of d] pay by (simp add: new_bounty_def split: if_splits)
  next
    case (ExecClaimBounty i)
    with ex obtain b where b: "es_book e i = Some b" "\<not> bn_claimed b" "ps = payments (es_config e) sender b"
      "es_book e' = (es_book e)(i \<mapsto> paid_out sender b)" by (auto split: option.splits if_splits)
    have "gross_of b \<le> unat (bn_amount b)" using nb b(1) by (intro gross_le_amount) (simp add: no_bonus_def)
    then show ?thesis
      using locked_update [of "es_book e" i "paid_out sender b" d] b cov [of d] in_bal [of d] out_bal [of d]
        total_payments [OF fee_le_gross [OF fee], of d sender b]
      by (simp add: paid_out_def split: if_splits)
  next
    case (ExecUpdateFee pct)
    with ex have "es_book e' = es_book e" "ps = []" by (auto split: if_splits)
    then show ?thesis using cov [of d] in_bal [of d] out_bal [of d] by simp
  next
    case (ExecAddBonus i pct)
    with ex obtain b where b: "es_book e i = Some b" "ps = []"
      "es_book e' = (es_book e)(i \<mapsto> b\<lparr>bn_multiplier_pct := pct\<rparr>)" by (auto split: option.splits if_splits)
    then show ?thesis using locked_same [of "es_book e" i b d "b\<lparr>bn_multiplier_pct := pct\<rparr>"] cov [of d] in_bal [of d] out_bal [of d]
      by simp
  qed
  show ?thesis using config_kept(3) [OF ex fee] nb' cov' by (simp add: solvent_def fee_ok_def)
qed

section \<open>The chain as a state machine\<close>

text \<open>
  Steps: a call of the contract by another account, or anything else that happens on the chain, which
  cannot touch the contract's storage or take its money.
\<close>

inductive host_step ::
  "('w \<Rightarrow> Addr \<Rightarrow> CwCoin list \<Rightarrow> ExecuteMsg \<Rightarrow> 'w option) \<Rightarrow> ('w \<Rightarrow> 's) \<Rightarrow> ('w \<Rightarrow> balances) \<Rightarrow> Addr
    \<Rightarrow> (ExecuteMsg \<Rightarrow> bool) \<Rightarrow> 'w \<Rightarrow> 'w \<Rightarrow> bool"
  for wasm_execute store bal self allowed where
  call_step: "wasm_execute w sender funds msg = Some w' \<Longrightarrow> sender \<noteq> self \<Longrightarrow> allowed msg \<Longrightarrow>
    host_step wasm_execute store bal self allowed w w'"
| other_step: "store w' = store w \<Longrightarrow> (\<And>d. bal w self d \<le> bal w' self d) \<Longrightarrow>
    host_step wasm_execute store bal self allowed w w'"

section \<open>The host\<close>

locale wasm_host = cw_storage S config_of bounties_of
  for S :: "'s cw_store" and config_of :: "'s \<Rightarrow> Config option" and bounties_of :: "'s \<Rightarrow> book" +
  fixes wasm_execute :: "'w \<Rightarrow> Addr \<Rightarrow> CwCoin list \<Rightarrow> ExecuteMsg \<Rightarrow> 'w option"
    and store :: "'w \<Rightarrow> 's" and bal :: "'w \<Rightarrow> balances"
    and accepts :: "Addr \<Rightarrow> string \<Rightarrow> bool" and self :: Addr
  assumes host_law: "map_option (\<lambda>w'. (store w', bal w')) (wasm_execute w sender funds msg) =
      Option.bind (send_all accepts sender (deposit self funds) (bal w)) (\<lambda>b.
      case execute S (store w) \<lparr>info_sender = sender, info_funds = funds\<rparr> msg of
        Inl err \<Rightarrow> None
      | Inr (s', r) \<Rightarrow> map_option (Pair s') (send_all accepts self (payments_of r) b))"
begin

definition escrow_of :: "'w \<Rightarrow> escrow option" where
  "escrow_of w = map_option (\<lambda>c. \<lparr>es_config = c, es_book = bounties_of (store w), es_bal = bal w\<rparr>) (config_of (store w))"

lemma host_refines:
  assumes "escrow_of w = Some e"
  shows "map_option escrow_of (wasm_execute w sender funds msg) = map_option Some (escrow_execute accepts self e sender funds msg)"
proof -
  let ?info = "\<lparr>info_sender = sender, info_funds = funds\<rparr>"
  let ?abs = "\<lambda>(s, b). map_option (\<lambda>c. \<lparr>es_config = c, es_book = bounties_of s, es_bal = b\<rparr>) (config_of s)"
  from assms obtain c where c: "config_of (store w) = Some c"
    and e: "e = \<lparr>es_config = c, es_book = bounties_of (store w), es_bal = bal w\<rparr>" by (auto simp: escrow_of_def)
  have "map_option escrow_of (wasm_execute w sender funds msg) =
      map_option ?abs (map_option (\<lambda>w'. (store w', bal w')) (wasm_execute w sender funds msg))"
    by (simp add: option.map_comp comp_def escrow_of_def [abs_def])
  also have "\<dots> = map_option Some (escrow_execute accepts self e sender funds msg)"
  proof (cases "send_all accepts sender (deposit self funds) (bal w)")
    case None
    then show ?thesis by (simp add: host_law escrow_execute_def e)
  next
    case (Some b)
    show ?thesis
    proof (cases "execute S (store w) ?info msg")
      case (Inl err)
      then have "book_execute c (bounties_of (store w)) ?info msg = Inl err"
        using execute_refines [OF c, of ?info msg] by (cases "book_execute c (bounties_of (store w)) ?info msg") auto
      with Inl Some show ?thesis by (simp add: host_law escrow_execute_def e)
    next
      case (Inr sr)
      obtain s' r where sr: "sr = (s', r)" by (cases sr)
      from execute_Inr [OF c Inr [unfolded sr]] obtain c' where
        "book_execute c (bounties_of (store w)) ?info msg = Inr (c', bounties_of s', payments_of r)"
        "config_of s' = Some c'" .
      with Inr Some sr show ?thesis
        by (cases "send_all accepts self (payments_of r) b") (simp_all add: host_law escrow_execute_def e)
    qed
  qed
  finally show ?thesis .
qed

lemma host_Some:
  assumes "escrow_of w = Some e" "wasm_execute w sender funds msg = Some w'"
  obtains e' where "escrow_execute accepts self e sender funds msg = Some e'" "escrow_of w' = Some e'"
  using host_refines [OF assms(1), of sender funds msg] assms(2)
  by (cases "escrow_execute accepts self e sender funds msg") auto

lemma host_None: "escrow_of w = Some e \<Longrightarrow>
    wasm_execute w sender funds msg = None \<longleftrightarrow> escrow_execute accepts self e sender funds msg = None"
  using host_refines [of w e sender funds msg] by (metis option.map_disc_iff)

text \<open>Steps of the host on the escrow.\<close>

abbreviation steps :: "(ExecuteMsg \<Rightarrow> bool) \<Rightarrow> 'w \<Rightarrow> 'w \<Rightarrow> bool" where
  "steps allowed \<equiv> (host_step wasm_execute store bal self allowed)\<^sup>*\<^sup>*"

lemma step_escrow:
  assumes "host_step wasm_execute store bal self allowed w w'" "escrow_of w = Some e"
  obtains (call) sender funds msg e' where "sender \<noteq> self" "allowed msg" "escrow_of w' = Some e'"
      "escrow_execute accepts self e sender funds msg = Some e'"
    | (other) b' where "escrow_of w' = Some (e\<lparr>es_bal := b'\<rparr>)" "\<And>d. es_bal e self d \<le> b' self d"
  using assms
proof (cases rule: host_step.cases)
  case (call_step sender funds msg)
  with host_Some [OF assms(2) call_step(1)] call show ?thesis by metis
next
  case other_step
  then show ?thesis using assms(2) other [of "bal w'"] by (auto simp: escrow_of_def)
qed

lemma steps_invariant:
  assumes "steps allowed w w'" "escrow_of w = Some e" "P e"
    and "\<And>e sender funds msg e'. P e \<Longrightarrow> sender \<noteq> self \<Longrightarrow> allowed msg \<Longrightarrow>
      escrow_execute accepts self e sender funds msg = Some e' \<Longrightarrow> P e'"
    and "\<And>e b'. P e \<Longrightarrow> (\<And>d. es_bal e self d \<le> b' self d) \<Longrightarrow> P (e\<lparr>es_bal := b'\<rparr>)"
  shows "\<exists>e'. escrow_of w' = Some e' \<and> P e'"
  using assms(1)
proof (induction rule: rtranclp_induct)
  case base
  show ?case using assms(2,3) by blast
next
  case (step w1 w2)
  then obtain e1 where e1: "escrow_of w1 = Some e1" "P e1" by blast
  from step(2) e1(1) show ?case
    by (cases rule: step_escrow) (use assms(4,5) e1(2) in blast)+
qed

lemma steps_solvent:
  assumes "steps modest w w'" "escrow_of w = Some e" "solvent self e"
  shows "\<exists>e'. escrow_of w' = Some e' \<and> solvent self e'"
proof (rule steps_invariant [where P = "solvent self", OF assms])
  show "solvent self e'" if "solvent self e" "sender \<noteq> self" "modest msg"
    "escrow_execute accepts self e sender funds msg = Some e'" for e e' sender funds msg
    using that by (metis solvent_execute)
  show "solvent self (e\<lparr>es_bal := b'\<rparr>)" if "solvent self e" "\<And>d. es_bal e self d \<le> b' self d" for e b'
    using that by (auto simp: solvent_def fee_ok_def intro: order_trans)
qed

lemma steps_kept:
  assumes "steps allowed w w'" "escrow_of w = Some e" "es_book e i = Some b"
  shows "\<exists>e'. escrow_of w' = Some e' \<and> (\<exists>b'. es_book e' i = Some b' \<and> bounty_kept b b')
    \<and> cfg_admin (es_config e') = cfg_admin (es_config e) \<and> (fee_ok e \<longrightarrow> fee_ok e')"
proof (rule steps_invariant [where P = "\<lambda>e'. (\<exists>b'. es_book e' i = Some b' \<and> bounty_kept b b')
    \<and> cfg_admin (es_config e') = cfg_admin (es_config e) \<and> (fee_ok e \<longrightarrow> fee_ok e')", OF assms(1,2)])
  fix e1 sender funds msg e2
  assume I: "(\<exists>b'. es_book e1 i = Some b' \<and> bounty_kept b b') \<and> cfg_admin (es_config e1) = cfg_admin (es_config e)
      \<and> (fee_ok e \<longrightarrow> fee_ok e1)" and ex: "escrow_execute accepts self e1 sender funds msg = Some e2"
  then obtain b1 where b1: "es_book e1 i = Some b1" "bounty_kept b b1" by blast
  from ex obtain ps where
    bk: "book_execute (es_config e1) (es_book e1) \<lparr>info_sender = sender, info_funds = funds\<rparr> msg
      = Inr (es_config e2, es_book e2, ps)" by (rule escrow_execute_Some)
  from book_kept [OF bk b1(1)] b1(2) config_kept [OF bk] I
  show "(\<exists>b'. es_book e2 i = Some b' \<and> bounty_kept b b') \<and> cfg_admin (es_config e2) = cfg_admin (es_config e)
      \<and> (fee_ok e \<longrightarrow> fee_ok e2)" by (auto simp: fee_ok_def intro: bounty_kept_trans)
qed (use assms(3) in \<open>auto simp: fee_ok_def\<close>)

end

end
