(* ===== verification/Bounty_Props.thy ===== *)
theory Bounty_Props
  imports Bounty_Host
begin

text \<open>
  The properties of the bounty contract: it implements the book of bounties, a claim pays what it
  should and only once, nobody but the administrator changes the terms, and the contract can pay every
  open bounty as long as no bonus is given; and where it falls short: a bonus is paid with the money of
  other bounties, and a bounty whose net payment is zero cannot be claimed.
\<close>

section \<open>A chain\<close>

type_synonym local_chain = "contract_store \<times> balances"

definition local_execute :: "local_chain \<Rightarrow> Addr \<Rightarrow> CwCoin list \<Rightarrow> ExecuteMsg \<Rightarrow> local_chain option" where
  "local_execute w sender funds msg =
     Option.bind (send_all (\<lambda>_ _. True) sender (deposit ''escrow'' funds) (snd w)) (\<lambda>b.
     case execute rbt_contract_store (fst w) \<lparr>info_sender = sender, info_funds = funds\<rparr> msg of
       Inl err \<Rightarrow> None
     | Inr (s', r) \<Rightarrow> map_option (Pair s') (send_all (\<lambda>_ _. True) ''escrow'' (payments_of r) b))"

interpretation local_chain: wasm_host rbt_contract_store fst store_bounties local_execute fst snd "\<lambda>_ _. True" "''escrow''"
  by unfold_locales (simp add: local_execute_def option.map_ident)

text \<open>After instantiation: a fee of ten percent, no bounties; alice and bob have a thousand coins.\<close>

definition terms :: Config where
  "terms = \<lparr>cfg_admin = ''admin'', cfg_fee_collector = ''fees'', cfg_fee_pct = 10\<rparr>"

definition chain0 :: local_chain where
  "chain0 = ((Some terms, RBT.empty), (\<lambda>a d. if a \<in> {''alice'', ''bob''} \<and> d = ''stake'' then 1000 else 0))"

definition stake :: "u128 \<Rightarrow> CwCoin" where
  "stake n = \<lparr>coin_denom = ''stake'', coin_amount = n\<rparr>"

definition escrow0 :: escrow where
  "escrow0 = \<lparr>es_config = terms, es_book = (\<lambda>_. None), es_bal = snd chain0\<rparr>"

lemma escrow_chain0: "local_chain.escrow_of chain0 = Some escrow0"
  by (simp add: local_chain.escrow_of_def chain0_def escrow0_def store_bounties_def fun_eq_iff)

text \<open>A funded bounty.\<close>

definition bounty1 :: Bounty where
  "bounty1 = new_bounty ''alice'' 1 (stake 1000)"

definition escrow1 :: escrow where
  "escrow1 = \<lparr>es_config = terms, es_book = [1 \<mapsto> bounty1], es_bal = transfer ''alice'' ''escrow'' ''stake'' 1000 (snd chain0)\<rparr>"


lemma local_call:
  assumes "local_chain.escrow_of w = Some e" "escrow_execute (\<lambda>_ _. True) ''escrow'' e sender funds msg = Some e'"
  obtains w' where "local_execute w sender funds msg = Some w'" "local_chain.escrow_of w' = Some e'"
  using local_chain.host_refines [OF assms(1), of sender funds msg] assms(2)
  by (cases "local_execute w sender funds msg") auto

lemma local_step: "local_execute w sender funds msg = Some w' \<Longrightarrow> sender \<noteq> ''escrow'' \<Longrightarrow> allowed msg \<Longrightarrow>
    host_step local_execute fst snd ''escrow'' allowed w w'"
  by (rule host_step.call_step)

lemma escrow_ofD:
  assumes "local_chain.escrow_of w = Some e"
  shows "fst (fst w) = Some (es_config e)" "store_bounties (fst w) = es_book e" "snd w = es_bal e"
  using assms by (auto simp: local_chain.escrow_of_def)

lemmas sample_defs = escrow0_def escrow1_def chain0_def bounty1_def new_bounty_def stake_def terms_def
lemmas claim_defs = fits_def gross_of_def fee_of_def net_of_def payments_def paid_out_def transfer_def

section \<open>Properties\<close>

text \<open>C7: The contract implements the book of bounties: every call gives, on every branch, the error that
  the book gives, or the book's next configuration, bounties and payments, computed in 128 bits as in
  the natural numbers.\<close>

theorem bounty_contract_refines:
  assumes "cw_storage S config_of bounties_of" "config_of s = Some c"
  shows "map_sum id (\<lambda>(s', r). (config_of s', bounties_of s', payments_of r)) (execute S s info msg)
    = map_sum id (\<lambda>(c', r). (Some c', r)) (book_execute c (bounties_of s) info msg)"
  using cw_storage.execute_refines [OF assms] by (simp add: cw_storage.abs_result_def [OF assms(1)])

theorem bounty_contract_refines_witness:
  "map_sum id (\<lambda>(s', r). (fst s', store_bounties s', payments_of r))
      (execute rbt_contract_store (Some terms, RBT.insert 1 bounty1 RBT.empty) \<lparr>info_sender = ''bob'', info_funds = []\<rparr> (ExecClaimBounty 1))
    = Inr (Some terms, [1 \<mapsto> paid_out ''bob'' bounty1], [(''bob'', ''stake'', 900), (''fees'', ''stake'', 100)])"
proof -
  let ?s = "(Some terms, RBT.insert 1 bounty1 RBT.empty) :: contract_store"
  have "fst ?s = Some terms" "store_bounties ?s = [1 \<mapsto> bounty1]" by (simp_all add: store_bounties_def fun_eq_iff)
  with bounty_contract_refines [OF contract_store.cw_storage_axioms, of ?s terms] show ?thesis
    by (simp add: bounty1_def new_bounty_def stake_def terms_def fits_def gross_of_def fee_of_def net_of_def payments_def)
qed

text \<open>C9: A successful claim was of an open bounty, marks it claimed by the sender and changes nothing else;
  it pays the sender and, if the fee is not zero, the fee collector, in the bounty's denomination. The
  two payments together are the amount times the multiplier in percent, rounded down, and the fee is at
  most the fee percentage of it, by less than one coin below.\<close>

theorem claim_payout:
  assumes "cw_storage S config_of bounties_of" "config_of s = Some c"
    and "execute S s info (ExecClaimBounty i) = Inr (s', r)"
  shows "\<exists>b net fee. bounties_of s i = Some b \<and> \<not> bn_claimed b
    \<and> config_of s' = Some c \<and> bounties_of s' = (bounties_of s)(i \<mapsto> b\<lparr>bn_claimed := True, bn_claimer := Some (info_sender info)\<rparr>)
    \<and> payments_of r = (info_sender info, bn_denom b, net) # (if fee = 0 then [] else [(cfg_fee_collector c, bn_denom b, fee)])
    \<and> net + fee = unat (bn_amount b) * unat (bn_multiplier_pct b) div 100
    \<and> 100 * fee \<le> (net + fee) * unat (cfg_fee_pct c) \<and> (net + fee) * unat (cfg_fee_pct c) < 100 * fee + 100"
proof -
  from cw_storage.execute_Inr [OF assms] obtain c' where
    b: "book_execute c (bounties_of s) info (ExecClaimBounty i) = Inr (c', bounties_of s', payments_of r)"
    "config_of s' = Some c'" .
  from b(1) obtain b where b': "bounties_of s i = Some b" "\<not> bn_claimed b" "fee_of c b \<le> gross_of b" "c' = c"
    "bounties_of s' = (bounties_of s)(i \<mapsto> paid_out (info_sender info) b)" "payments_of r = payments c (info_sender info) b"
    by (rule book_claim)
  have "100 * (x div 100) \<le> x" "x < 100 * (x div 100) + 100" for x :: nat
    using div_mult_mod_eq [of x 100] mod_less_divisor [of 100 x] by linarith+
  then have "100 * fee_of c b \<le> gross_of b * unat (cfg_fee_pct c)" "gross_of b * unat (cfg_fee_pct c) < 100 * fee_of c b + 100"
    unfolding fee_of_def by blast+
  moreover have "net_of c b + fee_of c b = gross_of b" using b'(3) by (simp add: net_of_def)
  ultimately show ?thesis
    using b(2) b' by (intro exI [of _ b] exI [of _ "net_of c b"] exI [of _ "fee_of c b"])
      (simp add: payments_def paid_out_def gross_of_def)
qed

theorem claim_payout_witness:
  "\<exists>s' r. execute rbt_contract_store (Some terms, RBT.insert 1 (bounty1\<lparr>bn_amount := 999\<rparr>) RBT.empty)
      \<lparr>info_sender = ''bob'', info_funds = []\<rparr> (ExecClaimBounty 1) = Inr (s', r)
    \<and> payments_of r = [(''bob'', ''stake'', 900), (''fees'', ''stake'', 99)]"
proof -
  let ?b = "bounty1\<lparr>bn_amount := 999\<rparr>"
  let ?s = "(Some terms, RBT.insert 1 ?b RBT.empty) :: contract_store"
  let ?i = "\<lparr>info_sender = ''bob'', info_funds = []\<rparr>"
  have s: "fst ?s = Some terms" "store_bounties ?s = [1 \<mapsto> ?b]" by (simp_all add: store_bounties_def fun_eq_iff)
  have "\<exists>x. book_execute terms (store_bounties ?s) ?i (ExecClaimBounty 1) = Inr x"
    unfolding s by (simp add: bounty1_def new_bounty_def stake_def terms_def fits_def gross_of_def fee_of_def)
  then obtain s' r where ex: "execute rbt_contract_store ?s ?i (ExecClaimBounty 1) = Inr (s', r)"
    using contract_store.execute_refines [OF s(1), of ?i "ExecClaimBounty 1"]
    by (cases "execute rbt_contract_store ?s ?i (ExecClaimBounty 1)") auto
  from claim_payout [OF contract_store.cw_storage_axioms s(1) ex] obtain net fee where
    pay: "payments_of r = (''bob'', ''stake'', net) # (if fee = 0 then [] else [(''fees'', ''stake'', fee)])"
    and sum: "net + fee = 999" "100 * fee \<le> 9990" "9990 < 100 * fee + 100"
    unfolding s by (auto simp: bounty1_def new_bounty_def stake_def terms_def)
  from sum have "fee = 99" "net = 900" by presburger+
  with ex pay show ?thesis by auto
qed

text \<open>C12: A bounty is paid out once: whatever happens on the chain after it was claimed, it stays claimed by
  the same account, and every later call to claim it fails.\<close>

theorem bounty_claimed_once:
  assumes "wasm_host S config_of bounties_of wasm_execute store bal accepts self"
    and "(host_step wasm_execute store bal self (\<lambda>_. True))\<^sup>*\<^sup>* w w'"
    and "config_of (store w) \<noteq> None" "bounties_of (store w) i = Some b" "bn_claimed b"
  shows "(\<exists>b'. bounties_of (store w') i = Some b' \<and> bn_claimed b' \<and> bn_claimer b' = bn_claimer b)
    \<and> wasm_execute w' sender funds (ExecClaimBounty i) = None"
proof -
  note host = assms(1)
  obtain e where e: "wasm_host.escrow_of config_of bounties_of store bal w = Some e" "es_book e i = Some b"
    using assms(3,4) by (auto simp: wasm_host.escrow_of_def [OF host])
  from wasm_host.steps_kept [OF host assms(2) e] obtain e' b' where
    e': "wasm_host.escrow_of config_of bounties_of store bal w' = Some e'" "es_book e' i = Some b'" "bounty_kept b b'" by blast
  have "bn_claimed b'" "bn_claimer b' = bn_claimer b" using e'(3) assms(5) by (simp_all add: bounty_kept_def)
  moreover have "bounties_of (store w') i = Some b'" using e'(1,2) by (auto simp: wasm_host.escrow_of_def [OF host])
  moreover have "escrow_execute accepts self e' sender funds (ExecClaimBounty i) = None"
    using e'(2) calculation(1) by (simp add: escrow_execute_def split: Option.bind_split)
  ultimately show ?thesis using wasm_host.host_None [OF host e'(1)] by blast
qed

text \<open>Alice funds a bounty.\<close>

lemma funded:
  obtains w1 where "local_execute chain0 ''alice'' [stake 1000] (ExecFundBounty 1) = Some w1"
    "local_chain.escrow_of w1 = Some escrow1"
proof (rule local_call [OF escrow_chain0, of "''alice''" "[stake 1000]" "ExecFundBounty 1" escrow1])
  show "escrow_execute (\<lambda>_ _. True) ''escrow'' escrow0 ''alice'' [stake 1000] (ExecFundBounty 1) = Some escrow1"
    by (simp add: escrow_execute_def escrow0_def escrow1_def deposit_def stake_def chain0_def bounty1_def)
qed (rule that)

lemma claimed_by_bob:
  assumes "local_chain.escrow_of w1 = Some escrow1"
  obtains w2 e2 where "local_execute w1 ''bob'' [] (ExecClaimBounty 1) = Some w2" "local_chain.escrow_of w2 = Some e2"
    "es_config e2 = terms" "es_book e2 = [1 \<mapsto> paid_out ''bob'' bounty1]" "es_bal e2 ''bob'' ''stake'' = 1900"
proof -
  have "\<exists>e2. escrow_execute (\<lambda>_ _. True) ''escrow'' escrow1 ''bob'' [] (ExecClaimBounty 1) = Some e2
      \<and> es_config e2 = terms \<and> es_book e2 = [1 \<mapsto> paid_out ''bob'' bounty1] \<and> es_bal e2 ''bob'' ''stake'' = 1900"
    by (simp add: escrow_execute_def deposit_def sample_defs claim_defs)
  then show ?thesis using local_call [OF assms] that by metis
qed

theorem bounty_claimed_once_witness:
  "\<exists>w2 w3. (host_step local_execute fst snd ''escrow'' (\<lambda>_. True))\<^sup>*\<^sup>* w2 w3
    \<and> (\<exists>b. store_bounties (fst w2) 1 = Some b \<and> bn_claimer b = Some ''bob'')
    \<and> (\<exists>b. store_bounties (fst w3) 1 = Some b \<and> bn_claimer b = Some ''bob'' \<and> bn_multiplier_pct b = 200)
    \<and> local_execute w3 ''carol'' [] (ExecClaimBounty 1) = None"
proof -
  obtain w1 where w1: "local_chain.escrow_of w1 = Some escrow1" by (rule funded)
  obtain w2 e2 where w2: "local_chain.escrow_of w2 = Some e2" "es_config e2 = terms" "es_book e2 = [1 \<mapsto> paid_out ''bob'' bounty1]"
    by (rule claimed_by_bob [OF w1])
  let ?e3 = "e2\<lparr>es_book := [1 \<mapsto> (paid_out ''bob'' bounty1)\<lparr>bn_multiplier_pct := 200\<rparr>]\<rparr>"
  have "escrow_execute (\<lambda>_ _. True) ''escrow'' e2 ''admin'' [] (ExecAddBonus 1 200) = Some ?e3"
    using w2(2,3) by (cases e2) (simp add: escrow_execute_def deposit_def terms_def)
  with w2(1) obtain w3 where w3: "local_execute w2 ''admin'' [] (ExecAddBonus 1 200) = Some w3"
    "local_chain.escrow_of w3 = Some ?e3" by (rule local_call)
  have steps: "(host_step local_execute fst snd ''escrow'' (\<lambda>_. True))\<^sup>*\<^sup>* w2 w3"
    using local_step [OF w3(1), of "\<lambda>_. True"] by simp
  have b2: "fst (fst w2) \<noteq> None" "store_bounties (fst w2) 1 = Some (paid_out ''bob'' bounty1)"
    using escrow_ofD [OF w2(1)] w2(3) by simp_all
  have b3: "store_bounties (fst w3) 1 = Some ((paid_out ''bob'' bounty1)\<lparr>bn_multiplier_pct := 200\<rparr>)"
    using escrow_ofD(2) [OF w3(2)] by simp
  from bounty_claimed_once [OF local_chain.wasm_host_axioms steps b2, of "''carol''" "[]"] steps b2 b3
  show ?thesis by (intro exI [of _ w2] exI [of _ w3]) (simp add: paid_out_def)
qed

text \<open>C24: The terms of a bounty are the administrator's: a successful call by any other account leaves the
  configuration and every multiplier as they were; and no call at all changes a bounty's funder, amount
  or denomination, or the administrator and the fee collector, or raises the fee above one hundred percent.\<close>

theorem contract_terms:
  assumes "wasm_host S config_of bounties_of wasm_execute store bal accepts self"
    and "wasm_execute w sender funds msg = Some w'"
    and "config_of (store w) = Some c" "bounties_of (store w) i = Some b"
  shows "\<exists>c' b'. config_of (store w') = Some c' \<and> bounties_of (store w') i = Some b'
    \<and> bn_funder b' = bn_funder b \<and> bn_amount b' = bn_amount b \<and> bn_denom b' = bn_denom b
    \<and> cfg_admin c' = cfg_admin c \<and> cfg_fee_collector c' = cfg_fee_collector c
    \<and> (cfg_fee_pct c \<le> 100 \<longrightarrow> cfg_fee_pct c' \<le> 100)
    \<and> (sender \<noteq> cfg_admin c \<longrightarrow> c' = c \<and> bn_multiplier_pct b' = bn_multiplier_pct b)"
proof -
  note host = assms(1)
  let ?e = "\<lparr>es_config = c, es_book = bounties_of (store w), es_bal = bal w\<rparr>"
  have e: "wasm_host.escrow_of config_of bounties_of store bal w = Some ?e"
    using assms(3) by (simp add: wasm_host.escrow_of_def [OF host])
  from wasm_host.host_Some [OF host e assms(2)] obtain e' where ex: "escrow_execute accepts self ?e sender funds msg = Some e'"
    and e': "wasm_host.escrow_of config_of bounties_of store bal w' = Some e'" .
  from ex obtain ps where bk: "book_execute c (bounties_of (store w)) \<lparr>info_sender = sender, info_funds = funds\<rparr> msg
      = Inr (es_config e', es_book e', ps)" by (rule escrow_execute_Some) simp
  from book_kept [OF bk assms(4)] obtain b' where b': "es_book e' i = Some b'" "bounty_kept b b'" by blast
  have w': "config_of (store w') = Some (es_config e')" "bounties_of (store w') = es_book e'"
    using e' by (auto simp: wasm_host.escrow_of_def [OF host])
  show ?thesis
    using config_kept [OF bk] admin_only(1) [OF bk] admin_only(2) [OF bk _ assms(4) b'(1)] b' w'
    by (intro exI [of _ "es_config e'"] exI [of _ b']) (auto simp: bounty_kept_def)
qed

theorem contract_terms_witness:
  "\<exists>w1 w2 c' b'. local_execute w1 ''bob'' [] (ExecClaimBounty 1) = Some w2
    \<and> fst (fst w2) = Some c' \<and> store_bounties (fst w2) 1 = Some b' \<and> c' = terms \<and> bn_multiplier_pct b' = 100"
proof -
  obtain w1 where w1: "local_chain.escrow_of w1 = Some escrow1" by (rule funded)
  obtain w2 e2 where w2: "local_execute w1 ''bob'' [] (ExecClaimBounty 1) = Some w2" by (rule claimed_by_bob [OF w1])
  have "fst (fst w1) = Some terms" "store_bounties (fst w1) 1 = Some bounty1"
    using escrow_ofD [OF w1] by (simp_all add: escrow1_def)
  from contract_terms [OF local_chain.wasm_host_axioms w2 this] obtain c' b' where
    "fst (fst w2) = Some c'" "store_bounties (fst w2) 1 = Some b'" "c' = terms" "bn_multiplier_pct b' = 100"
    by (auto simp: terms_def bounty1_def new_bounty_def)
  with w2 show ?thesis by blast
qed

text \<open>C8: Solvency: from its instantiation on, through any calls and whatever else happens on the chain, the
  contract's balance in every denomination covers the amounts of all open bounties in it, as long as the
  administrator sets no multiplier above one hundred percent.\<close>

theorem bounty_solvency:
  assumes "wasm_host S config_of bounties_of wasm_execute store bal accepts self"
    and "(host_step wasm_execute store bal self modest)\<^sup>*\<^sup>* w w'"
    and "config_of (store w) = Some c" "cfg_fee_pct c \<le> 100" "bounties_of (store w) = (\<lambda>_. None)"
  shows "locked (bounties_of (store w')) d \<le> bal w' self d"
proof -
  note host = assms(1)
  let ?e = "\<lparr>es_config = c, es_book = bounties_of (store w), es_bal = bal w\<rparr>"
  have "wasm_host.escrow_of config_of bounties_of store bal w = Some ?e"
    using assms(3) by (simp add: wasm_host.escrow_of_def [OF host])
  moreover have "solvent self ?e" using assms(4,5) by (simp add: solvent_def fee_ok_def no_bonus_def locked_def)
  ultimately obtain e' where "wasm_host.escrow_of config_of bounties_of store bal w' = Some e'" "solvent self e'"
    using wasm_host.steps_solvent [OF host assms(2)] by blast
  then show ?thesis by (auto simp: wasm_host.escrow_of_def [OF host] solvent_def)
qed

theorem bounty_solvency_witness:
  "\<exists>w1. (host_step local_execute fst snd ''escrow'' modest)\<^sup>*\<^sup>* chain0 w1
    \<and> locked (store_bounties (fst w1)) ''stake'' \<le> snd w1 ''escrow'' ''stake'' \<and> snd w1 ''escrow'' ''stake'' = 1000"
proof -
  obtain w1 where w1: "local_execute chain0 ''alice'' [stake 1000] (ExecFundBounty 1) = Some w1"
    "local_chain.escrow_of w1 = Some escrow1" by (rule funded)
  have steps: "(host_step local_execute fst snd ''escrow'' modest)\<^sup>*\<^sup>* chain0 w1"
    using local_step [OF w1(1), of modest] by simp
  have "snd w1 ''escrow'' ''stake'' = 1000"
    using escrow_ofD(3) [OF w1(2)] by (simp add: escrow1_def chain0_def transfer_def)
  moreover have "fst (fst chain0) = Some terms" "cfg_fee_pct terms \<le> 100" "store_bounties (fst chain0) = (\<lambda>_. None)"
    by (simp_all add: chain0_def terms_def store_bounties_def fun_eq_iff)
  ultimately show ?thesis using steps bounty_solvency [OF local_chain.wasm_host_axioms steps, of terms "''stake''"] by blast
qed

text \<open>C23: Without bonuses every open bounty can be claimed, by anyone: if its net payment is positive, its
  products fit 128 bits and the receivers accept the coins, the call goes through, the sender's balance
  grows by the net payment, and the bounty is the sender's.\<close>

theorem bounty_claimable:
  assumes "wasm_host S config_of bounties_of wasm_execute store bal accepts self"
    and "(host_step wasm_execute store bal self modest)\<^sup>*\<^sup>* w w'"
    and "config_of (store w) = Some c" "cfg_fee_pct c \<le> 100" "bounties_of (store w) = (\<lambda>_. None)"
    and "config_of (store w') = Some c'" "bounties_of (store w') i = Some b" "\<not> bn_claimed b"
    and "fits c' b" "0 < net_of c' b" "sender \<noteq> self" "accepts sender (bn_denom b)" "accepts (cfg_fee_collector c') (bn_denom b)"
  shows "\<exists>w''. wasm_execute w' sender [] (ExecClaimBounty i) = Some w''
    \<and> bal w' sender (bn_denom b) + net_of c' b \<le> bal w'' sender (bn_denom b)
    \<and> bounties_of (store w'') i = Some (b\<lparr>bn_claimed := True, bn_claimer := Some sender\<rparr>)"
proof -
  note host = assms(1)
  let ?e = "\<lparr>es_config = c, es_book = bounties_of (store w), es_bal = bal w\<rparr>"
  have "wasm_host.escrow_of config_of bounties_of store bal w = Some ?e"
    using assms(3) by (simp add: wasm_host.escrow_of_def [OF host])
  moreover have "solvent self ?e" using assms(4,5) by (simp add: solvent_def fee_ok_def no_bonus_def locked_def)
  ultimately obtain e' where "wasm_host.escrow_of config_of bounties_of store bal w' = Some e'" "solvent self e'"
    using wasm_host.steps_solvent [OF host assms(2)] by blast
  then have e': "wasm_host.escrow_of config_of bounties_of store bal w' = Some e'" "es_config e' = c'" "es_book e' i = Some b"
    "es_bal e' = bal w'" and sol: "cfg_fee_pct c' \<le> 100" "bn_multiplier_pct b \<le> 100"
    "locked (es_book e') (bn_denom b) \<le> bal w' self (bn_denom b)"
    using assms(6,7) by (auto simp: wasm_host.escrow_of_def [OF host] solvent_def fee_ok_def no_bonus_def)
  have fee: "fee_of c' b \<le> gross_of b" using sol(1) by (rule fee_le_gross)
  have "gross_of b \<le> bal w' self (bn_denom b)"
    using gross_le_amount [OF sol(2)] amount_le_locked [of "es_book e'" i b] e'(3) assms(8) sol(3) by linarith
  from pay_claim [of c' b "bal w'" self sender accepts, OF assms(10) fee this assms(11-13)] obtain bal' where
    bal': "send_all accepts self (payments c' sender b) (bal w') = Some bal'"
    "bal w' sender (bn_denom b) + net_of c' b \<le> bal' sender (bn_denom b)" .
  let ?e'' = "\<lparr>es_config = c', es_book = (es_book e')(i \<mapsto> paid_out sender b), es_bal = bal'\<rparr>"
  have "escrow_execute accepts self e' sender [] (ExecClaimBounty i) = Some ?e''"
    using e' assms(8,9) fee bal'(1) by (simp add: escrow_execute_def deposit_def)
  then obtain w'' where "wasm_execute w' sender [] (ExecClaimBounty i) = Some w''"
    "wasm_host.escrow_of config_of bounties_of store bal w'' = Some ?e''"
    using wasm_host.host_refines [OF host e'(1), of sender "[]" "ExecClaimBounty i"]
    by (cases "wasm_execute w' sender [] (ExecClaimBounty i)") auto
  then show ?thesis using bal'(2) by (auto simp: wasm_host.escrow_of_def [OF host] paid_out_def)
qed

theorem bounty_claimable_witness:
  "\<exists>w1 w2. local_execute chain0 ''alice'' [stake 1000] (ExecFundBounty 1) = Some w1
    \<and> local_execute w1 ''bob'' [] (ExecClaimBounty 1) = Some w2
    \<and> snd w1 ''bob'' ''stake'' + 900 \<le> snd w2 ''bob'' ''stake''
    \<and> store_bounties (fst w2) 1 = Some (bounty1\<lparr>bn_claimed := True, bn_claimer := Some ''bob''\<rparr>)"
proof -
  obtain w1 where w1: "local_execute chain0 ''alice'' [stake 1000] (ExecFundBounty 1) = Some w1"
    "local_chain.escrow_of w1 = Some escrow1" by (rule funded)
  have steps: "(host_step local_execute fst snd ''escrow'' modest)\<^sup>*\<^sup>* chain0 w1"
    using local_step [OF w1(1), of modest] by simp
  have start: "fst (fst chain0) = Some terms" "cfg_fee_pct terms \<le> 100" "store_bounties (fst chain0) = (\<lambda>_. None)"
    by (simp_all add: chain0_def terms_def store_bounties_def fun_eq_iff)
  have now: "fst (fst w1) = Some terms" "store_bounties (fst w1) 1 = Some bounty1" "\<not> bn_claimed bounty1" "fits terms bounty1"
    "net_of terms bounty1 = 900" "bn_denom bounty1 = ''stake''"
    using escrow_ofD [OF w1(2)] by (simp_all add: escrow1_def bounty1_def new_bounty_def stake_def terms_def claim_defs)
  from bounty_claimable [OF local_chain.wasm_host_axioms steps start now(1-4), of "''bob''"] now(5,6) w1(1)
  show ?thesis by auto
qed

text \<open>What a call brings along in a denomination, and that the payments of a claim need the contract to
  hold them.\<close>

definition attached :: "string \<Rightarrow> CwCoin list \<Rightarrow> nat" where
  "attached d funds = (\<Sum>coin\<leftarrow>funds. if coin_denom coin = d then unat (coin_amount coin) else 0)"

lemma total_deposit: "total d (deposit self funds) = attached d funds"
  by (induction funds) (simp_all add: deposit_def attached_def)

lemma deposited:
  assumes "send_all accepts sender (deposit self funds) bal = Some bal'" "sender \<noteq> self"
  shows "bal' self d = bal self d + attached d funds"
  using send_all_receives [of accepts sender self coin_denom "\<lambda>c. unat (coin_amount c)" funds bal bal' d] assms
  using total_deposit [of d self funds] by (simp add: deposit_def)

lemma payments_need:
  assumes "send_all accepts self (payments c claimer b) bal = Some bal'" "claimer \<noteq> self" "cfg_fee_pct c \<le> 100"
  shows "gross_of b \<le> bal self (bn_denom b)"
  using assms(1,2) fee_le_gross [OF assms(3), of b]
  by (auto simp: payments_def net_of_def transfer_def split: if_splits)

text \<open>C25: A bonus is paid with the money of other bounties: when the contract holds just the amounts of two
  open bounties, the administrator can raise the multiplier of one to the payment of both amounts. Its
  claim (if its products fit their 128 bits, it pays something after a fee of at most 100 percent, and
  the bank accepts both receivers, who are not the contract) then empties the contract. The other
  bounty is still open and funded on the books, but every claim of it fails unless its caller, who is
  not the contract, attaches at least the whole gross payment of that bounty himself.\<close>

theorem bonus_spends_other_bounties:
  assumes "wasm_host S config_of bounties_of wasm_execute store bal accepts self"
    and "config_of (store w) = Some c" "bounties_of (store w) i = Some b" "bounties_of (store w) j = Some b'"
    and "i \<noteq> j" "\<not> bn_claimed b" "\<not> bn_claimed b'" "bn_denom b' = bn_denom b"
    and "bal w self (bn_denom b) = unat (bn_amount b) + unat (bn_amount b')"
    and "unat (bn_amount b) * unat pct div 100 = unat (bn_amount b) + unat (bn_amount b')"
    and "fits c (b\<lparr>bn_multiplier_pct := pct\<rparr>)" "0 < net_of c (b\<lparr>bn_multiplier_pct := pct\<rparr>)" "cfg_fee_pct c \<le> 100"
    and "sender \<noteq> self" "cfg_fee_collector c \<noteq> self" "accepts sender (bn_denom b)" "accepts (cfg_fee_collector c) (bn_denom b)"
  shows "\<exists>w1 w2. wasm_execute w (cfg_admin c) [] (ExecAddBonus i pct) = Some w1
    \<and> wasm_execute w1 sender [] (ExecClaimBounty i) = Some w2
    \<and> bounties_of (store w2) j = Some b' \<and> bal w2 self (bn_denom b) = 0
    \<and> (\<forall>claimer funds. claimer \<noteq> self \<and> attached (bn_denom b) funds < gross_of b'
        \<longrightarrow> wasm_execute w2 claimer funds (ExecClaimBounty j) = None)"
proof -
  note host = assms(1)
  let ?d = "bn_denom b" and ?b1 = "b\<lparr>bn_multiplier_pct := pct\<rparr>"
  let ?book1 = "(bounties_of (store w))(i \<mapsto> ?b1)"
  let ?e1 = "\<lparr>es_config = c, es_book = ?book1, es_bal = bal w\<rparr>"
  have e: "wasm_host.escrow_of config_of bounties_of store bal w
      = Some \<lparr>es_config = c, es_book = bounties_of (store w), es_bal = bal w\<rparr>"
    using assms(2) by (simp add: wasm_host.escrow_of_def [OF host])
  have "escrow_execute accepts self \<lparr>es_config = c, es_book = bounties_of (store w), es_bal = bal w\<rparr> (cfg_admin c) []
      (ExecAddBonus i pct) = Some ?e1"
    using assms(3) by (simp add: escrow_execute_def deposit_def)
  with wasm_host.host_refines [OF host e, of "cfg_admin c" "[]" "ExecAddBonus i pct"] obtain w1 where
    w1: "wasm_execute w (cfg_admin c) [] (ExecAddBonus i pct) = Some w1"
    and e1: "wasm_host.escrow_of config_of bounties_of store bal w1 = Some ?e1"
    by (cases "wasm_execute w (cfg_admin c) [] (ExecAddBonus i pct)") auto
  have fee: "fee_of c ?b1 \<le> gross_of ?b1" using assms(13) by (rule fee_le_gross)
  have gross: "gross_of ?b1 = bal w self ?d" using assms(9,10) by (simp add: gross_of_def)
  obtain bal' where bal': "send_all accepts self (payments c sender ?b1) (bal w) = Some bal'"
    using pay_claim [of c ?b1 "bal w" self sender accepts] assms(12,14,16,17) fee gross by auto
  have "bal' self ?d = 0"
  proof -
    have "n = bal w self ?d \<Longrightarrow> bal' self ?d = 0" if "n = net_of c ?b1 + fee_of c ?b1" for n
      using that bal' assms(14,15) by (auto simp: payments_def transfer_def split: if_splits)
    then show ?thesis using fee gross by (simp add: net_of_def)
  qed
  let ?e2 = "\<lparr>es_config = c, es_book = ?book1(i \<mapsto> paid_out sender ?b1), es_bal = bal'\<rparr>"
  have "escrow_execute accepts self ?e1 sender [] (ExecClaimBounty i) = Some ?e2"
    using assms(6,11) fee bal' by (simp add: escrow_execute_def deposit_def)
  with wasm_host.host_refines [OF host e1, of sender "[]" "ExecClaimBounty i"] obtain w2 where
    w2: "wasm_execute w1 sender [] (ExecClaimBounty i) = Some w2"
    and e2: "wasm_host.escrow_of config_of bounties_of store bal w2 = Some ?e2"
    by (cases "wasm_execute w1 sender [] (ExecClaimBounty i)") auto
  have "wasm_execute w2 claimer funds (ExecClaimBounty j) = None"
    if claim: "claimer \<noteq> self" "attached ?d funds < gross_of b'" for claimer funds
  proof -
    have "send_all accepts self (payments c claimer b') bal2 = None"
      if dep: "send_all accepts claimer (deposit self funds) bal' = Some bal2" for bal2
    proof -
      have "bal2 self ?d < gross_of b'" using deposited [OF dep claim(1), of ?d] \<open>bal' self ?d = 0\<close> claim(2) by simp
      then show ?thesis
        using payments_need [of accepts self c claimer b' bal2] claim(1) assms(8,13)
        by (cases "send_all accepts self (payments c claimer b') bal2") auto
    qed
    then have "escrow_execute accepts self ?e2 claimer funds (ExecClaimBounty j) = None"
      using assms(4,5) by (cases "send_all accepts claimer (deposit self funds) bal'") (auto simp: escrow_execute_def)
    then show ?thesis using wasm_host.host_None [OF host e2] by blast
  qed
  then show ?thesis
    using w1 w2 e2 assms(4,5) \<open>bal' self ?d = 0\<close> by (auto simp: wasm_host.escrow_of_def [OF host])
qed

theorem bonus_spends_other_bounties_witness:
  "\<exists>w w1 w2. local_execute w ''admin'' [] (ExecAddBonus 1 200) = Some w1
    \<and> local_execute w1 ''carol'' [] (ExecClaimBounty 1) = Some w2
    \<and> snd w2 ''escrow'' ''stake'' = 0 \<and> local_execute w2 ''dave'' [] (ExecClaimBounty 2) = None
    \<and> local_execute w2 ''dave'' [\<lparr>coin_denom = ''stake'', coin_amount = 999\<rparr>] (ExecClaimBounty 2) = None"
proof -
  let ?b2 = "bounty1\<lparr>bn_task_id := 2, bn_funder := ''bob''\<rparr>"
  obtain w :: local_chain where w: "fst (fst w) = Some terms" "store_bounties (fst w) 1 = Some bounty1"
    "store_bounties (fst w) 2 = Some ?b2" and bal: "snd w ''escrow'' ''stake'' = 2000"
    by (rule that [of "((Some terms, RBT.insert 1 bounty1 (RBT.insert 2 ?b2 RBT.empty)), (\<lambda>a d. 2000))"])
      (simp_all add: store_bounties_def)
  have d: "bn_denom bounty1 = ''stake''" "bn_denom ?b2 = bn_denom bounty1" "unat (bn_amount bounty1) = 1000"
    "unat (bn_amount ?b2) = 1000" "\<not> bn_claimed bounty1" "\<not> bn_claimed ?b2"
    by (simp_all add: bounty1_def new_bounty_def stake_def)
  have "fits terms (bounty1\<lparr>bn_multiplier_pct := 200\<rparr>)" "0 < net_of terms (bounty1\<lparr>bn_multiplier_pct := 200\<rparr>)"
    "cfg_fee_pct terms \<le> 100" "cfg_admin terms = ''admin''" "cfg_fee_collector terms \<noteq> ''escrow''"
    using d by (simp_all add: terms_def fits_def gross_of_def fee_of_def net_of_def)
  with bonus_spends_other_bounties [OF local_chain.wasm_host_axioms w, of 200 "''carol''"] d bal
  obtain w1 w2 where run: "local_execute w ''admin'' [] (ExecAddBonus 1 200) = Some w1"
    "local_execute w1 ''carol'' [] (ExecClaimBounty 1) = Some w2" "snd w2 ''escrow'' ''stake'' = 0"
    and fails: "\<forall>claimer funds. claimer \<noteq> ''escrow'' \<and> attached (bn_denom bounty1) funds < gross_of ?b2
      \<longrightarrow> local_execute w2 claimer funds (ExecClaimBounty 2) = None"
    by fastforce
  have "gross_of ?b2 = 1000" "bn_denom bounty1 = ''stake''"
    by (simp_all add: gross_of_def bounty1_def new_bounty_def stake_def)
  then have "local_execute w2 ''dave'' funds (ExecClaimBounty 2) = None" if "attached ''stake'' funds < 1000" for funds
    using fails that by simp
  from this [of "[]"] this [of "[\<lparr>coin_denom = ''stake'', coin_amount = 999\<rparr>]"] run show ?thesis
    by (intro exI conjI) (assumption | simp add: attached_def)+
qed

text \<open>A bounty whose net payment is zero, because the fee is one hundred percent or the amount too small,
  cannot be claimed by anyone: the contract sends the empty payment all the same, which the bank refuses.\<close>

theorem zero_net_unclaimable:
  assumes "wasm_host S config_of bounties_of wasm_execute store bal accepts self"
    and "config_of (store w) = Some c" "bounties_of (store w) i = Some b"
    and "cfg_fee_pct c = 100 \<or> gross_of b = 0"
  shows "wasm_execute w sender funds (ExecClaimBounty i) = None"
proof -
  note host = assms(1)
  let ?e = "\<lparr>es_config = c, es_book = bounties_of (store w), es_bal = bal w\<rparr>"
  have e: "wasm_host.escrow_of config_of bounties_of store bal w = Some ?e"
    using assms(2) by (simp add: wasm_host.escrow_of_def [OF host])
  have "net_of c b = 0" using assms(4) by (auto simp: net_of_def fee_of_def)
  then have "escrow_execute accepts self ?e sender funds (ExecClaimBounty i) = None"
    using assms(3) by (simp add: escrow_execute_def payments_def split: Option.bind_split)
  then show ?thesis using wasm_host.host_None [OF host e] by blast
qed

theorem zero_net_unclaimable_witness:
  "local_execute ((Some (terms\<lparr>cfg_fee_pct := 100\<rparr>), RBT.insert 1 bounty1 RBT.empty), (\<lambda>a d. 1000))
    ''bob'' [] (ExecClaimBounty 1) = None"
  by (rule zero_net_unclaimable [OF local_chain.wasm_host_axioms, where c = "terms\<lparr>cfg_fee_pct := 100\<rparr>" and b = bounty1])
    (simp_all add: store_bounties_def)

text \<open>A page of bounties is those with the smallest task ids above the given one, in order, thirty at
  most and ten when no limit is given.\<close>

theorem list_bounties_page:
  assumes "cw_storage S config_of bounties_of"
  shows "list_bounties S s start_after limit
    = Inr (map (\<lambda>i. the (bounties_of s i))
        (take (min (case limit of None \<Rightarrow> 10 | Some l \<Rightarrow> unat l) 30)
          (sorted_list_of_set {i \<in> dom (bounties_of s). case start_after of None \<Rightarrow> True | Some a \<Rightarrow> a < i})))"
proof -
  let ?n = "unat (min (case limit of None \<Rightarrow> DEFAULT_LIMIT | Some l \<Rightarrow> l) MAX_LIMIT)"
  have n: "?n = min (case limit of None \<Rightarrow> 10 | Some l \<Rightarrow> unat l) 30"
    by (cases limit) (simp_all add: DEFAULT_LIMIT_def MAX_LIMIT_def min_def word_le_nat_alt)
  from cw_storage.list_bounties_eq [OF assms refl, of s start_after limit] obtain "is" where
    l: "list_bounties S s start_after limit = Inr (map (\<lambda>i. the (bounties_of s i)) (take ?n is))"
    and "is": "sorted_wrt (<) is" "set is = {i \<in> dom (bounties_of s). case start_after of None \<Rightarrow> True | Some a \<Rightarrow> a < i}" by blast
  from "is" have "is = sorted_list_of_set {i \<in> dom (bounties_of s). case start_after of None \<Rightarrow> True | Some a \<Rightarrow> a < i}"
    by (metis sorted_list_of_set.idem_if_sorted_distinct strict_sorted_iff)
  then show ?thesis unfolding l n by simp
qed

theorem list_bounties_page_witness:
  "list_bounties rbt_contract_store (Some terms, RBT.insert 3 bounty1 (RBT.insert 2 bounty1 RBT.empty)) (Some 2) None = Inr [bounty1]"
proof -
  let ?s = "(Some terms, RBT.insert 3 bounty1 (RBT.insert 2 bounty1 RBT.empty)) :: contract_store"
  have "{i \<in> dom (store_bounties ?s). case Some 2 of None \<Rightarrow> True | Some a \<Rightarrow> a < i} = {3}"
    by (auto simp: store_bounties_def split: if_splits)
  moreover have "store_bounties ?s 3 = Some bounty1" by (simp add: store_bounties_def)
  ultimately show ?thesis
    using list_bounties_page [OF contract_store.cw_storage_axioms, of ?s "Some 2" None] by simp
qed

text \<open>Funding reports six attributes.\<close>

lemma fund_attributes:
  "execute S s info (ExecFundBounty i) = Inr (s', r) \<Longrightarrow> map fst (resp_attributes r) =
    [''action'', ''task_id'', ''funder'', ''amount'', ''denom'', ''multiplier_pct'']"
  by (auto simp: execute_def execute_fund_bounty_def try_bind_Inr Let_def split: if_splits)

end
