(* ===== verification/Api_Props.thy ===== *)
theory Api_Props
  imports Api_Node Task_Props
begin

text \<open>
  The properties of the REST service's task and bounty operations: which requests are refused, what
  is handed to the node for the others, what the answers say, and what they do not say.
\<close>

section \<open>Requests\<close>

text \<open>A task id in a URL is accepted exactly if it is a non-empty string of decimal digits below
  \<open>2 ^ 64\<close>; then the operation runs for the number it denotes, and otherwise the answer is 400 and
  nothing is called.\<close>

theorem id_parameter:
  shows "let s = URLParam r ''id''; n = word_of_nat (dec_val 0 s) in
    if s \<noteq> [] \<and> list_all is_digit s \<and> dec_val 0 s < 2 ^ 64 then
      TaskHandler_GetTask S c r w = answer StatusOK (\<lambda>t. Some (Task_json t)) (Client_GetTask S c n) w
      \<and> TaskHandler_CompleteTask S c r w = answer StatusOK Some (Client_CompleteTask S c n) w
      \<and> BountyHandler_GetBounty S c r w = answer StatusOK any_data (GetBounty S c n) w
    else
      TaskHandler_GetTask S c r w = Some (w, respondError StatusBadRequest ''invalid task id'')
      \<and> TaskHandler_CompleteTask S c r w = Some (w, respondError StatusBadRequest ''invalid task id'')
      \<and> TaskHandler_AssignTask S c r w = Some (w, respondError StatusBadRequest ''invalid task id'')
      \<and> BountyHandler_GetBounty S c r w = Some (w, respondError StatusBadRequest ''invalid bounty id'')"
proof -
  let ?s = "URLParam r ''id''"
  obtain v e where p: "ParseUint ?s = (v, e)" by (cases "ParseUint ?s")
  have e: "e = None \<longleftrightarrow> ?s \<noteq> [] \<and> list_all is_digit ?s \<and> dec_val 0 ?s < 2 ^ 64"
    using ParseUint_iff [of ?s] p by simp
  have v: "e = None \<Longrightarrow> v = word_of_nat (dec_val 0 ?s)"
  proof -
    assume "e = None"
    then have "unat v = dec_val 0 ?s" using ParseUint_value [of ?s] p by simp
    moreover have "word_of_nat (unat v) = v" by simp
    ultimately show "v = word_of_nat (dec_val 0 ?s)" by simp
  qed
  show ?thesis
    using e v p
    by (cases e) (auto simp: TaskHandler_GetTask_def TaskHandler_CompleteTask_def TaskHandler_AssignTask_def
        BountyHandler_GetBounty_def Let_def)
qed

text \<open>Request bodies: the text that an encoder writes for a request, with whatever follows it, is
  decoded to the request; absent fields are empty, and members that are no fields are skipped.\<close>

theorem request_bodies:
  assumes "valid_utf8 title" "valid_utf8 description" "valid_utf8 assignee" "valid_utf8 value"
    and "valid_utf8 amount" "valid_utf8 denom" "value_end rest"
  shows "Decode_CreateTaskRequest (json_text (JObject [(''title'', JString title), (''description'', JString description)]) @ rest)
      = Some \<lparr>ctq_Title = title, ctq_Description = description\<rparr>
    \<and> Decode_CreateTaskRequest (json_text (JObject [(''description'', JString description), (''id'', JNumber ''7'')]) @ rest)
      = Some \<lparr>ctq_Title = [], ctq_Description = description\<rparr>
    \<and> Decode_AssignTaskRequest (json_text (JObject [(''assignee'', JString assignee)]) @ rest)
      = Some \<lparr>atq_Assignee = assignee\<rparr>
    \<and> Decode_SetKVRequest (json_text (JObject [(''value'', JString value)]) @ rest) = Some \<lparr>skq_Value = value\<rparr>
    \<and> Decode_FundBountyRequest (json_text (JObject [(''task_id'', JNumber (fmt_d (unat n))),
        (''amount'', JString amount), (''denom'', JString denom)]) @ rest)
      = Some \<lparr>fbq_TaskID = n, fbq_Amount = amount, fbq_Denom = denom\<rparr>
    \<and> Decode_ClaimBountyRequest (json_text (JObject [(''task_id'', JNumber (fmt_d (unat n)))]) @ rest)
      = Some \<lparr>cbq_TaskID = n\<rparr>"
proof -
  have names: "valid_utf8 ''title''" "valid_utf8 ''description''" "valid_utf8 ''assignee''" "valid_utf8 ''value''"
    "valid_utf8 ''task_id''" "valid_utf8 ''amount''" "valid_utf8 ''denom''" "valid_utf8 ''id''"
    by simp_all
  have d: "0 < max_depth" by (simp add: max_depth_def)
  have seven: "number_ok ''7''" by (simp add: number_ok_def is_digit_def)
  have f: "find_field [''title'', ''description''] ''id'' = None" by (simp add: find_field_def)
  note decode = Decode_text [OF _ assms(7)]
  note unfold = Decode_CreateTaskRequest_def Decode_AssignTaskRequest_def Decode_SetKVRequest_def
    Decode_FundBountyRequest_def Decode_ClaimBountyRequest_def
  note store = store_CreateTaskRequest_def store_AssignTaskRequest_def store_SetKVRequest_def
    store_FundBountyRequest_def store_ClaimBountyRequest_def find_field_def
  show ?thesis
    using assms(1-6) d seven names f
    by (simp add: unfold decode store del: json_text.simps valid_utf8.simps fmt_d.simps)
qed

theorem request_bodies_witness:
  "Decode_FundBountyRequest (json_text (JObject [(''task_id'', JNumber (fmt_d (unat (3 :: u64)))),
      (''amount'', JString ''10''), (''denom'', JString ''stake'')]) @ [])
    = Some \<lparr>fbq_TaskID = 3, fbq_Amount = ''10'', fbq_Denom = ''stake''\<rparr>"
  using request_bodies [of "[]" "[]" "[]" "[]" "''10''" "''stake''" "[]" 3] by (simp add: value_end_def)

section \<open>Transactions\<close>

text \<open>Every outcome of \<^verbatim>\<open>POST /api/tasks\<close>: a body that does not decode and an empty title are
  answered 400 before anything is called; otherwise either the client failed, which is answered 500
  with its error, or the node accepted a transaction of exactly one message, the creation with the
  signer as creator and the request's fields, which is answered 201 with the hash of the transaction.\<close>

theorem api_CreateTask_correct:
  assumes "tx_signing S carries" "TaskHandler_CreateTask S c r w = Some (w1, resp)"
  shows "case Decode_CreateTaskRequest (req_body r) of
      None \<Rightarrow> w1 = w \<and> resp = respondError 400 ''invalid request body''
    | Some req \<Rightarrow>
        if ctq_Title req = [] then w1 = w \<and> resp = respondError 400 ''title is required''
        else (\<exists>e. Client_CreateTask S c (ctq_Title req) (ctq_Description req) w = Some (w1, Inl e)
              \<and> resp = respondError 500 e)
          \<or> (\<exists>addr res. getSignerAddr S c = Inr addr
              \<and> submitted S carries c [TaskregMsg (CreateMsg \<lparr>ct_Creator = addr_String S addr,
                  ct_Title = ctq_Title req, ct_Description = ctq_Description req\<rparr>)] w w1 res
              \<and> resp = tx_answer S 201 res)"
proof (cases "Decode_CreateTaskRequest (req_body r)")
  case None
  with assms(2) show ?thesis by (simp add: TaskHandler_CreateTask_def http_status_defs)
next
  case (Some req)
  show ?thesis
  proof (cases "ctq_Title req = []")
    case True
    with assms(2) Some show ?thesis by (simp add: TaskHandler_CreateTask_def http_status_defs)
  next
    case False
    with assms(2) Some have
      "answer StatusCreated Some (Client_CreateTask S c (ctq_Title req) (ctq_Description req)) w = Some (w1, resp)"
      by (simp add: TaskHandler_CreateTask_def)
    then show ?thesis
    proof (cases rule: answer_cases)
      case (1 e)
      with Some False show ?thesis by (simp add: http_status_defs)
    next
      case (2 j)
      with Some False tx_signing.Client_CreateTask_accepted [OF assms(1) 2(1)] show ?thesis
        by (simp add: http_status_defs) blast
    qed
  qed
qed

theorem api_CreateTask_correct_witness:
  "\<exists>w1 res. submitted (alice_sdk std_keeper) local_tx local_client [TaskregMsg (CreateMsg
      \<lparr>ct_Creator = ''alice'', ct_Title = ''write docs'', ct_Description = []\<rparr>)] (fresh_node ctx0) w1 res"
proof -
  obtain w1 res where a: "TaskHandler_CreateTask (alice_sdk std_keeper) local_client (id_request [] create_body)
      (fresh_node ctx0) = Some (w1, tx_answer (alice_sdk std_keeper) 201 res)"
    using local_answers(1) by blast
  have "tx_answer (alice_sdk std_keeper) 201 res \<noteq> respondError 500 e" for e
    by (simp add: respondJSON_def respondError_def)
  with api_CreateTask_correct [OF local_node.tx_signing_axioms a] show ?thesis by auto
qed

text \<open>C31: The other transactions: an answer below 400 of the assignment, the completion, the funding
  and the claim of a bounty means that the node accepted a transaction of exactly the one message
  that the request asks for, signed by the service's account; the contract's messages are the JSON
  texts \<^verbatim>\<open>{"fund_bounty":{"task_id":N}}\<close> and \<^verbatim>\<open>{"claim_bounty":{"task_id":N}}\<close>.\<close>

theorem api_transactions:
  assumes "tx_signing S carries" "resp_Status resp < 400"
  shows "(TaskHandler_AssignTask S c r w = Some (w1, resp) \<longrightarrow>
      (\<exists>req addr res. Decode_AssignTaskRequest (req_body r) = Some req \<and> getSignerAddr S c = Inr addr
        \<and> submitted S carries c [TaskregMsg (AssignMsg \<lparr>at_Creator = addr_String S addr,
            at_TaskId = fst (ParseUint (URLParam r ''id'')), at_Assignee = atq_Assignee req\<rparr>)] w w1 res
        \<and> resp = tx_answer S 200 res))
    \<and> (TaskHandler_CompleteTask S c r w = Some (w1, resp) \<longrightarrow>
      (\<exists>addr res. getSignerAddr S c = Inr addr
        \<and> submitted S carries c [TaskregMsg (CompleteMsg \<lparr>cp_Assignee = addr_String S addr,
            cp_TaskId = fst (ParseUint (URLParam r ''id''))\<rparr>)] w w1 res
        \<and> resp = tx_answer S 200 res))
    \<and> (BountyHandler_FundBounty S c r w = Some (w1, resp) \<longrightarrow>
      (\<exists>req addr coin funds res. Decode_FundBountyRequest (req_body r) = Some req \<and> getSignerAddr S c = Inr addr
        \<and> ParseCoinNormalized S (fbq_Amount req @ fbq_Denom req) = Inr coin \<and> NewCoins S [coin] = Some funds
        \<and> submitted S carries c [ExecuteMsg \<lparr>exec_Sender = addr_String S addr, exec_Contract = cc_contractAddr c,
            exec_Msg = bytes_of (''{\"fund_bounty\":{\"task_id\":'' @ fmt_d (unat (fbq_TaskID req)) @ ''}}''),
            exec_Funds = funds\<rparr>] w w1 res
        \<and> resp = tx_answer S 201 res))
    \<and> (BountyHandler_ClaimBounty S c r w = Some (w1, resp) \<longrightarrow>
      (\<exists>req addr res. Decode_ClaimBountyRequest (req_body r) = Some req \<and> getSignerAddr S c = Inr addr
        \<and> submitted S carries c [ExecuteMsg \<lparr>exec_Sender = addr_String S addr, exec_Contract = cc_contractAddr c,
            exec_Msg = bytes_of (''{\"claim_bounty\":{\"task_id\":'' @ fmt_d (unat (cbq_TaskID req)) @ ''}}''),
            exec_Funds = []\<rparr>] w w1 res
        \<and> resp = tx_answer S 200 res))"
  using tx_signing.AssignTask_answer [OF assms(1) _ assms(2)] tx_signing.CompleteTask_answer [OF assms(1) _ assms(2)]
    tx_signing.FundBounty_answer [OF assms(1) _ assms(2)] tx_signing.ClaimBounty_answer [OF assms(1) _ assms(2)]
  by blast

theorem api_transactions_witness:
  "\<exists>w1 res. submitted (alice_sdk std_keeper) local_tx local_client [TaskregMsg (AssignMsg
      \<lparr>at_Creator = ''alice'', at_TaskId = 1, at_Assignee = ''bob''\<rparr>)] (fresh_node ctx0) w1 res"
proof -
  obtain w1 res where a: "TaskHandler_AssignTask (alice_sdk std_keeper) local_client (id_request ''1'' assign_body)
      (fresh_node ctx0) = Some (w1, tx_answer (alice_sdk std_keeper) 200 res)"
    using local_answers(2) by blast
  have "resp_Status (tx_answer (alice_sdk std_keeper) 200 res) < 400" by simp
  from api_transactions [OF local_node.tx_signing_axioms this] a show ?thesis by fastforce
qed

text \<open>Where \<open>broadcastMsg\<close> can fail, in order: the signer's key or address, the account, the
  building, signing or encoding of the transaction, the broadcast itself, and a non-zero code of the
  node. Each error names its stage, and the node is called only in the last two.\<close>

theorem broadcastMsg_errors:
  assumes "broadcastMsg S c msgs w = Some (w1, Inl e)"
  shows "(\<exists>e0. getSignerAddr S c = Inl e0 \<and> w1 = w \<and> e = ''get signer: '' @ e0)
    \<or> (\<exists>addr e0. getSignerAddr S c = Inr addr \<and> getAccount S c addr w = Some (w1, Inl e0)
         \<and> e = ''get account: '' @ e0)
    \<or> (\<exists>acc e0. signer_account S c w w1 acc \<and> BuildUnsignedTx S (tx_factory c acc) msgs = Inl e0
         \<and> e = ''build tx: '' @ e0)
    \<or> (\<exists>acc b e0. signer_account S c w w1 acc \<and> BuildUnsignedTx S (tx_factory c acc) msgs = Inr b
         \<and> tx_Sign S (tx_factory c acc) (cc_keyName c) b True = Inl e0 \<and> e = ''sign: '' @ e0)
    \<or> (\<exists>acc b b1 e0. signer_account S c w w1 acc \<and> BuildUnsignedTx S (tx_factory c acc) msgs = Inr b
         \<and> tx_Sign S (tx_factory c acc) (cc_keyName c) b True = Inr b1 \<and> TxEncoder S b1 = Inl e0
         \<and> e = ''encode tx: '' @ e0)
    \<or> (\<exists>w0 acc bz e0. signer_account S c w w0 acc \<and> BroadcastTxSync S bz w0 = Some (w1, Inl e0)
         \<and> e = ''broadcast: '' @ e0)
    \<or> (\<exists>w0 acc bz res. signer_account S c w w0 acc \<and> BroadcastTxSync S bz w0 = Some (w1, Inr res)
         \<and> broadcast_Code res \<noteq> 0
         \<and> e = ''tx failed (code '' @ fmt_d (unat (broadcast_Code res)) @ ''): '' @ broadcast_Log res)"
  using assms by (cases rule: broadcastMsg_error_cases) fastforce+

theorem broadcastMsg_errors_witness:
  "\<exists>e0. getSignerAddr (alice_sdk std_keeper) (local_client\<lparr>cc_keyName := ''bob''\<rparr>) = Inl e0"
proof -
  let ?c = "local_client\<lparr>cc_keyName := ''bob''\<rparr>"
  have s: "getSignerAddr (alice_sdk std_keeper) ?c = Inl ''key not found''"
    by (simp add: getSignerAddr_def local_sdk_def)
  then have "broadcastMsg (alice_sdk std_keeper) ?c [] (fresh_node ctx0) =
      Some (fresh_node ctx0, Inl ''get signer: key not found'')"
    by (simp add: broadcastMsg_def io_simps)
  from broadcastMsg_errors [OF this] s show ?thesis by (auto simp: signer_account_def)
qed

section \<open>With the chain behind the service\<close>

text \<open>C13: From HTTP to HTTP: when \<^verbatim>\<open>POST /api/tasks\<close> answered 201, the accepted transaction carries a
  creation which, executed on any well-formed store, succeeds with some identifier, and
  \<^verbatim>\<open>GET /api/tasks/{id}\<close> for it, on a node that serves the resulting store through the encoded
  query service, answers 200 with exactly the requested task, open and unassigned.\<close>

theorem api_create_then_get:
  assumes "tx_signing S carries" "TaskHandler_CreateTask S c r w = Some (w1, resp)" "resp_Status resp = 201"
    and "wire_format pw" "kv_store (storeService k) m" "cdc k = proto_codec pw" "wf_at k m ctx"
  shows "\<exists>req addr msg res. Decode_CreateTaskRequest (req_body r) = Some req \<and> getSignerAddr S c = Inr addr
    \<and> msg = \<lparr>ct_Creator = addr_String S addr, ct_Title = ctq_Title req, ct_Description = ctq_Description req\<rparr>
    \<and> submitted S carries c [TaskregMsg (CreateMsg msg)] w w1 res \<and> resp = tx_answer S 201 res
    \<and> (go_MsgCreateTask msg \<and> go_len (Task_wire pw (new_task (reg_at k m ctx) msg)) \<longrightarrow>
        (\<exists>ctx' n. CreateTask k ctx msg = Some (ctx', Inr \<lparr>ctr_Id = n\<rparr>)
          \<and> (\<forall>w2 get show_error. conn_Task S w2 = conn_errors show_error (wire_invoke pw k ctx')
                \<and> URLParam get ''id'' = fmt_d (unat n) \<longrightarrow>
              TaskHandler_GetTask S c get w2 = Some (w2, respondJSON 200 (Some (Task_json
                \<lparr>task_Id = n, task_Title = ctq_Title req, task_Description = ctq_Description req,
                 task_Creator = addr_String S addr, task_Assignee = [], task_Status = TASK_STATUS_OPEN\<rparr>))))))"
proof -
  obtain req addr res where r: "Decode_CreateTaskRequest (req_body r) = Some req" "getSignerAddr S c = Inr addr"
    and sub: "submitted S carries c [TaskregMsg (CreateMsg \<lparr>ct_Creator = addr_String S addr,
        ct_Title = ctq_Title req, ct_Description = ctq_Description req\<rparr>)] w w1 res" "resp = tx_answer S 201 res"
    using tx_signing.CreateTask_answer [OF assms(1,2)] assms(3) by auto
  define msg where "msg = \<lparr>ct_Creator = addr_String S addr, ct_Title = ctq_Title req,
      ct_Description = ctq_Description req\<rparr>"
  have get: "TaskHandler_GetTask S c get w2 = Some (w2, respondJSON 200 (Some (Task_json (new_task (reg_at k m ctx) msg))))"
    if "queryClient_Task (wire_invoke pw k ctx') \<lparr>qtr_Id = n\<rparr> = Some (Inr \<lparr>qts_Task = new_task (reg_at k m ctx) msg\<rparr>)"
      "conn_Task S w2 = conn_errors show_error (wire_invoke pw k ctx')" "URLParam get ''id'' = fmt_d (unat n)"
    for ctx' n w2 get show_error
    using that by (simp add: TaskHandler_GetTask_def answer_def Client_GetTask_def io_simps
        queryClient_Task_errors http_status_defs)
  have "\<exists>ctx' n. CreateTask k ctx msg = Some (ctx', Inr \<lparr>ctr_Id = n\<rparr>)
      \<and> (\<forall>w2 get show_error. conn_Task S w2 = conn_errors show_error (wire_invoke pw k ctx')
            \<and> URLParam get ''id'' = fmt_d (unat n) \<longrightarrow>
          TaskHandler_GetTask S c get w2 = Some (w2, respondJSON 200 (Some (Task_json
            \<lparr>task_Id = n, task_Title = ctq_Title req, task_Description = ctq_Description req,
             task_Creator = addr_String S addr, task_Assignee = [], task_Status = TASK_STATUS_OPEN\<rparr>))))"
    if go: "go_MsgCreateTask msg" "go_len (Task_wire pw (new_task (reg_at k m ctx) msg))"
  proof -
    obtain ctx' where "CreateTask k ctx msg = Some (ctx', Inr \<lparr>ctr_Id = reg_next (reg_at k m ctx)\<rparr>)"
      and q: "queryClient_Task (wire_invoke pw k ctx') \<lparr>qtr_Id = reg_next (reg_at k m ctx)\<rparr> =
        Some (Inr \<lparr>qts_Task = new_task (reg_at k m ctx) msg\<rparr>)"
      using created_task_queried [OF assms(4-7) go] by blast
    moreover have "new_task (reg_at k m ctx) msg = \<lparr>task_Id = reg_next (reg_at k m ctx), task_Title = ctq_Title req,
        task_Description = ctq_Description req, task_Creator = addr_String S addr, task_Assignee = [],
        task_Status = TASK_STATUS_OPEN\<rparr>"
      by (simp add: new_task_def msg_def)
    ultimately show ?thesis using get [OF q] by metis
  qed
  with r sub msg_def show ?thesis by blast
qed

theorem api_create_then_get_witness:
  "\<exists>w1 resp ctx'. TaskHandler_CreateTask (alice_sdk std_keeper) local_client (id_request [] create_body)
      (fresh_node ctx0) = Some (w1, resp)
    \<and> TaskHandler_GetTask (alice_sdk std_keeper) local_client (id_request ''1'' []) (fresh_node ctx') =
      Some (fresh_node ctx', respondJSON 200 (Some (Task_json \<lparr>task_Id = 1, task_Title = ''write docs'',
        task_Description = [], task_Creator = ''alice'', task_Assignee = [], task_Status = TASK_STATUS_OPEN\<rparr>)))"
proof -
  let ?S = "alice_sdk std_keeper" and ?n = "fresh_node ctx0"
  let ?msg = "\<lparr>ct_Creator = ''alice'', ct_Title = ''write docs'', ct_Description = []\<rparr>"
  obtain w1 res where a: "TaskHandler_CreateTask ?S local_client (id_request [] create_body) ?n =
      Some (w1, tx_answer ?S 201 res)"
    using local_answers(1) by blast
  have k: "kv_store (storeService std_keeper) RBT.lookup" "cdc std_keeper = proto_codec std_wire"
    using rbt.kv_store_axioms by (simp_all add: std_keeper_def)
  have wf: "wf_at std_keeper RBT.lookup ctx0" by simp
  have go: "go_MsgCreateTask ?msg" by (simp add: instance_defs)
  have len: "go_len (Task_wire std_wire (new_task (reg_at std_keeper RBT.lookup ctx0) ?msg))"
    by (simp add: go_len_def Task_wire_def new_task_def empty_registry_def appendUint64_def appendString_def
        std_wire_def std_AppendTag_def std_tag_def std_AppendVarint_def std_AppendBytes_def uvarint.simps status_defs)
  have conn: "conn_Task ?S (fresh_node ctx') = conn_errors (\<lambda>e. ''service error'') (wire_invoke std_wire std_keeper ctx')" for ctx'
    by (simp add: local_sdk_def fresh_node_def)
  have id: "URLParam (id_request ''1'' []) ''id'' = fmt_d (unat (1 :: u64))"
    by (simp add: fmt_d_1 [simplified])
  from api_create_then_get [OF local_node.tx_signing_axioms a _ std.wire_format_axioms k wf] go len obtain ctx' n where
    c: "CreateTask std_keeper ctx0 ?msg = Some (ctx', Inr \<lparr>ctr_Id = n\<rparr>)" and
    g: "\<forall>w2 get show_error. conn_Task ?S w2 = conn_errors show_error (wire_invoke std_wire std_keeper ctx')
          \<and> URLParam get ''id'' = fmt_d (unat n) \<longrightarrow>
        TaskHandler_GetTask ?S local_client get w2 = Some (w2, respondJSON 200 (Some (Task_json
          \<lparr>task_Id = n, task_Title = ''write docs'', task_Description = [], task_Creator = ''alice'',
           task_Assignee = [], task_Status = TASK_STATUS_OPEN\<rparr>)))"
    by auto
  have "n = 1"
    using keeper_env.CreateTask_refines [OF std_env wf go] c by (auto simp: empty_registry_def)
  with g conn id a show ?thesis by blast
qed

text \<open>What an answer does not say: the assignment of a task that does not exist, by an account that
  does not own it, or of a task that is not open, is answered 200 as soon as the node accepts the
  transaction, although its execution fails and changes nothing.\<close>

theorem assignment_fails_after_200:
  assumes "tx_signing S carries" "TaskHandler_AssignTask S c r w = Some (w1, resp)" "resp_Status resp = 200"
    and "keeper_env k m" "wf_at k m ctx"
  shows "\<exists>req addr msg res. Decode_AssignTaskRequest (req_body r) = Some req \<and> getSignerAddr S c = Inr addr
    \<and> msg = \<lparr>at_Creator = addr_String S addr, at_TaskId = fst (ParseUint (URLParam r ''id'')),
        at_Assignee = atq_Assignee req\<rparr>
    \<and> submitted S carries c [TaskregMsg (AssignMsg msg)] w w1 res \<and> resp = tx_answer S 200 res
    \<and> (\<forall>e. go_MsgAssignTask msg \<and> reg_assign (reg_at k m ctx) msg = Inl e \<longrightarrow>
        AssignTask k ctx msg = Some (ctx, Inl e))"
proof -
  have "go_MsgAssignTask msg \<and> reg_assign (reg_at k m ctx) msg = Inl e \<longrightarrow>
      AssignTask k ctx msg = Some (ctx, Inl e)" for msg e
    using keeper_env.AssignTask_refines [OF assms(4,5), of msg] by auto
  with tx_signing.AssignTask_answer [OF assms(1,2)] assms(3) show ?thesis by simp
qed

theorem assignment_fails_after_200_witness:
  "\<exists>w1 msg res. TaskHandler_AssignTask (alice_sdk std_keeper) local_client (id_request ''1'' assign_body)
      (fresh_node ctx0) = Some (w1, tx_answer (alice_sdk std_keeper) 200 res)
    \<and> submitted (alice_sdk std_keeper) local_tx local_client [TaskregMsg (AssignMsg msg)] (fresh_node ctx0) w1 res
    \<and> AssignTask std_keeper ctx0 msg = Some (ctx0, Inl (not_found 1))"
proof -
  obtain w1 res where a: "TaskHandler_AssignTask (alice_sdk std_keeper) local_client (id_request ''1'' assign_body)
      (fresh_node ctx0) = Some (w1, tx_answer (alice_sdk std_keeper) 200 res)"
    using local_answers(2) by blast
  have "wf_at std_keeper RBT.lookup ctx0" by simp
  from assignment_fails_after_200 [OF local_node.tx_signing_axioms a _ std_env this] a
  show ?thesis by (fastforce simp: reg_assign_def empty_registry_def instance_defs)
qed

text \<open>Two transactions in a row: as long as the node reports the same account, as it does until a
  block has executed the first one, both are signed with the same account number and sequence.\<close>

theorem sequence_reused:
  assumes "tx_signing S carries" "broadcastMsg S c msgs w = Some (w1, Inr resp1)"
    and "broadcastMsg S c msgs' w1 = Some (w2, Inr resp2)"
    and "signer_account S c w w' acc" "signer_account S c w1 w1' acc"
  shows "\<exists>addr bz bz' res res'. getSignerAddr S c = Inr addr
    \<and> carries bz msgs (tx_factory c acc) addr \<and> carries bz' msgs' (tx_factory c acc) addr
    \<and> BroadcastTxSync S bz w' = Some (w1, Inr res) \<and> BroadcastTxSync S bz' w1' = Some (w2, Inr res')"
  using tx_signing.broadcastMsg_accepted [OF assms(1,2)] tx_signing.broadcastMsg_accepted [OF assms(1,3)]
    assms(4,5)
  by (auto simp: submitted_def signer_account_def) blast

theorem sequence_reused_witness:
  "\<exists>bz bz' n1 n2 res res'. local_tx bz [] (tx_factory local_client \<lparr>acc_Number = 0, acc_Sequence = 4\<rparr>) (bytes_of ''alice'')
    \<and> local_tx bz' [] (tx_factory local_client \<lparr>acc_Number = 0, acc_Sequence = 4\<rparr>) (bytes_of ''alice'')
    \<and> BroadcastTxSync (alice_sdk std_keeper) bz (fresh_node ctx0) = Some (n1, Inr res)
    \<and> BroadcastTxSync (alice_sdk std_keeper) bz' n1 = Some (n2, Inr res')"
proof -
  let ?S = "alice_sdk std_keeper" and ?n = "fresh_node ctx0"
  have p: "payloads [] = Inr []" by simp
  have acc: "signer_account ?S local_client n n \<lparr>acc_Number = 0, acc_Sequence = node_seq n\<rparr>" for n
    by (simp add: signer_account_def local_sdk_def getSignerAddr_def local_client_def)
  have seq: "node_seq ?n = 4" "node_seq (accept bz ?n) = 4" for bz
    by (simp_all add: fresh_node_def accept_def)
  let ?n1 = "accept (PutUint64 (node_seq ?n) @ [] @ bytes_of ''alice'') ?n"
  have "signer_account ?S local_client ?n1 ?n1 \<lparr>acc_Number = 0, acc_Sequence = 4\<rparr>"
    using acc [of ?n1] seq by simp
  from sequence_reused [OF local_node.tx_signing_axioms local_broadcast [OF p] local_broadcast [OF p]
      acc [of ?n, unfolded seq] this]
  obtain addr bz bz' res res' where "getSignerAddr ?S local_client = Inr addr"
    and "local_tx bz [] (tx_factory local_client \<lparr>acc_Number = 0, acc_Sequence = 4\<rparr>) addr"
      "local_tx bz' [] (tx_factory local_client \<lparr>acc_Number = 0, acc_Sequence = 4\<rparr>) addr"
      "BroadcastTxSync ?S bz ?n = Some (?n1, Inr res)"
      "BroadcastTxSync ?S bz' ?n1 = Some (accept (PutUint64 (node_seq ?n1) @ [] @ bytes_of ''alice'') ?n1, Inr res')"
    by blast
  moreover from this(1) have "addr = bytes_of ''alice''" by simp
  ultimately show ?thesis by blast
qed

text \<open>\<^verbatim>\<open>GET /api/tasks\<close> answers 200 with the array of all tasks, in the order of their
  identifiers and without pagination; for an empty registry the data is null.\<close>

theorem api_ListTasks_correct:
  assumes "keeper_env k m" "all_tasks k (ctx_store ctx) = Some ts" "go_len ts"
    and "conn_ListTasks S w = conn_errors show_error (direct_list k ctx)"
  shows "TaskHandler_ListTasks S c r w =
    Some (w, respondJSON 200 (Some (if ts = [] then JNull else JArray (map Task_json ts))))"
proof -
  have "page_fits (length ts) None" "page_of ts None = ts"
    by (simp_all add: page_fits_def page_of_def page_offset_def page_limit_def)
  then show ?thesis
    using keeper_env.ListTasks_eq [OF assms(1-3), of "\<lparr>qlr_Pagination = None\<rparr>"] assms(4)
    by (simp add: TaskHandler_ListTasks_def answer_def Client_ListTasks_def io_simps
        queryClient_ListTasks_direct Tasks_json_def http_status_defs)
qed

theorem api_ListTasks_correct_witness:
  "TaskHandler_ListTasks (alice_sdk std_keeper) local_client (id_request [] []) (fresh_node ctx0) =
    Some (fresh_node ctx0, respondJSON 200 (Some JNull))"
proof -
  have "all_tasks std_keeper (ctx_store ctx0) = Some []"
    using keeper_env.all_tasks_eq [OF std_env, of RBT.empty] by (auto simp: empty_registry_def)
  from api_ListTasks_correct [OF std_env this, of "alice_sdk std_keeper" "fresh_node ctx0" "\<lambda>e. ''query error''"]
  show ?thesis by (simp add: go_len_def local_sdk_def fresh_node_def)
qed

end
