(* ===== verification/Bounty_Api.thy ===== *)
theory Bounty_Api
  imports Bounty_Props Api_Props
begin

text \<open>
  The REST service and the contract: the JSON forms of the contract's messages, as \<^verbatim>\<open>cw_serde\<close> derives
  them from the types of \<^verbatim>\<open>msg.rs\<close> (an object with the variant's name in snake case, and an object of
  its fields, none missing and none unknown), and that what \<^verbatim>\<open>client/chain.go\<close> sends is understood.
\<close>

section \<open>JSON forms of msg.rs\<close>

definition one_field :: "string \<Rightarrow> (string \<times> json) list \<Rightarrow> u64 option" where
  "one_field name fs = (case fs of [(n, v)] \<Rightarrow> if n = name then json_uint64 v else None | _ \<Rightarrow> None)"

definition two_fields :: "string \<Rightarrow> string \<Rightarrow> (string \<times> json) list \<Rightarrow> (u64 \<times> u64) option" where
  "two_fields a b fs =
     (if length fs = 2 then
        Option.bind (Option.bind (map_of fs a) json_uint64) (\<lambda>x.
        map_option (Pair x) (Option.bind (map_of fs b) json_uint64))
      else None)"

definition ExecuteMsg_of_json :: "json \<Rightarrow> ExecuteMsg option" where
  "ExecuteMsg_of_json j =
     (case j of
        JObject [(variant, JObject fs)] \<Rightarrow>
          if variant = ''fund_bounty'' then map_option ExecFundBounty (one_field ''task_id'' fs)
          else if variant = ''claim_bounty'' then map_option ExecClaimBounty (one_field ''task_id'' fs)
          else if variant = ''update_fee'' then map_option ExecUpdateFee (one_field ''fee_pct'' fs)
          else if variant = ''add_bonus'' then
            map_option (\<lambda>(i, pct). ExecAddBonus i pct) (two_fields ''task_id'' ''multiplier_pct'' fs)
          else None
      | _ \<Rightarrow> None)"

text \<open>An optional field may be missing or null.\<close>

definition opt_field :: "string \<Rightarrow> (string \<times> json) list \<Rightarrow> u64 option option" where
  "opt_field name fs =
     (case map_of fs name of None \<Rightarrow> Some None | Some JNull \<Rightarrow> Some None | Some v \<Rightarrow> map_option Some (json_uint64 v))"

definition QueryMsg_of_json :: "json \<Rightarrow> QueryMsg option" where
  "QueryMsg_of_json j =
     (case j of
        JObject [(variant, JObject fs)] \<Rightarrow>
          if variant = ''config'' then (if fs = [] then Some QueryConfig else None)
          else if variant = ''bounty'' then map_option QueryBounty (one_field ''task_id'' fs)
          else if variant = ''list_bounties'' then
            (if set (map fst fs) \<subseteq> {''start_after'', ''limit''} \<and> distinct (map fst fs) then
               Option.bind (opt_field ''start_after'' fs) (\<lambda>a.
               Option.bind (opt_field ''limit'' fs) (\<lambda>l.
                 case l of None \<Rightarrow> Some (QueryListBounties a None)
                 | Some n \<Rightarrow> if unat n < 2 ^ 32 then Some (QueryListBounties a (Some (ucast n))) else None))
             else None)
          else None
      | _ \<Rightarrow> None)"

lemma task_call_ok: "valid_utf8 op \<Longrightarrow> json_ok 0 (task_call op n)"
  by (simp add: task_call_def max_depth_def number_ok_fmt_d)

section \<open>Properties\<close>

text \<open>The contract understands what the service sends: the texts that the client builds for funding and
  claiming a bounty, and for the three queries, are JSON documents that read back as they were, and the
  contract's message types decode them to the operation and the task id that were meant.\<close>

theorem api_contract_messages:
  shows "Option.bind (first_value (json_text (task_call ''fund_bounty'' n))) ExecuteMsg_of_json = Some (ExecFundBounty n)
    \<and> Option.bind (first_value (json_text (task_call ''claim_bounty'' n))) ExecuteMsg_of_json = Some (ExecClaimBounty n)
    \<and> Option.bind (first_value (json_text (task_call ''bounty'' n))) QueryMsg_of_json = Some (QueryBounty n)
    \<and> Option.bind (first_value (json_text (JObject [(''list_bounties'', JObject [])]))) QueryMsg_of_json = Some (QueryListBounties None None)
    \<and> Option.bind (first_value (json_text (JObject [(''config'', JObject [])]))) QueryMsg_of_json = Some QueryConfig"
proof -
  have parsed: "json_ok 0 j \<Longrightarrow> first_value (json_text j) = Some j" for j
    using first_value_text [of j "[]"] by (simp add: value_end_def)
  show ?thesis
    by (simp add: parsed task_call_ok max_depth_def del: json_text.simps)
      (simp add: task_call_def ExecuteMsg_of_json_def QueryMsg_of_json_def one_field_def opt_field_def)
qed

text \<open>C32: A claim over HTTP pays the service: when a claim request is answered below 400, the transaction
  carries one message to the contract, which decodes to the claim of the requested bounty, and if the
  contract executes it, the net payment goes to the account that signs for the service, whoever sent
  the request.\<close>

theorem api_claim_pays_service:
  assumes "tx_signing S carries" "BountyHandler_ClaimBounty S c r w = Some (w1, resp)" "resp_Status resp < 400"
    and "cw_storage St config_of bounties_of" "config_of s = Some cfg"
  shows "\<exists>req addr res text. Decode_ClaimBountyRequest (req_body r) = Some req \<and> getSignerAddr S c = Inr addr
    \<and> submitted S carries c [Api_Client.ExecuteMsg \<lparr>exec_Sender = addr_String S addr, exec_Contract = cc_contractAddr c,
        exec_Msg = bytes_of text, exec_Funds = []\<rparr>] w w1 res
    \<and> Option.bind (first_value text) ExecuteMsg_of_json = Some (ExecClaimBounty (cbq_TaskID req))
    \<and> (\<forall>s' r'. execute St s \<lparr>info_sender = addr_String S addr, info_funds = []\<rparr> (ExecClaimBounty (cbq_TaskID req)) = Inr (s', r')
        \<longrightarrow> fst (hd (payments_of r')) = addr_String S addr)"
proof -
  from tx_signing.ClaimBounty_answer [OF assms(1-3)] obtain req addr res where
    a: "Decode_ClaimBountyRequest (req_body r) = Some req" "getSignerAddr S c = Inr addr"
    "submitted S carries c [Api_Client.ExecuteMsg \<lparr>exec_Sender = addr_String S addr, exec_Contract = cc_contractAddr c,
        exec_Msg = bytes_of (json_text (task_call ''claim_bounty'' (cbq_TaskID req))), exec_Funds = []\<rparr>] w w1 res"
    unfolding contract_calls by blast
  have "first_value (json_text (task_call ''claim_bounty'' (cbq_TaskID req))) = Some (task_call ''claim_bounty'' (cbq_TaskID req))"
    using first_value_text [OF task_call_ok, of "''claim_bounty''" "[]"] by (simp add: value_end_def del: json_text.simps)
  then have d: "Option.bind (first_value (json_text (task_call ''claim_bounty'' (cbq_TaskID req)))) ExecuteMsg_of_json
      = Some (ExecClaimBounty (cbq_TaskID req))"
    by (simp add: task_call_def ExecuteMsg_of_json_def one_field_def del: json_text.simps)
  have p: "fst (hd (payments_of r')) = info_sender info"
    if "execute St s info (ExecClaimBounty i) = Inr (s', r')" for s' r' info i
  proof -
    from cw_storage.execute_Inr [OF assms(4,5) that] obtain c' where
      "book_execute cfg (bounties_of s) info (ExecClaimBounty i) = Inr (c', bounties_of s', payments_of r')" .
    then obtain b where "payments_of r' = payments cfg (info_sender info) b" by (rule book_claim)
    then show ?thesis by (simp add: payments_def)
  qed
  show ?thesis using a d p by fastforce
qed

theorem api_claim_pays_service_witness:
  "\<exists>w1 resp. BountyHandler_ClaimBounty (alice_sdk std_keeper) local_client (id_request ''1'' claim_body) (fresh_node ctx0) = Some (w1, resp)
    \<and> (\<exists>w0 res m. submitted (alice_sdk std_keeper) local_tx local_client [Api_Client.ExecuteMsg m] w0 w1 res \<and> exec_Sender m = ''alice'')
    \<and> (\<exists>s' r'. execute rbt_contract_store (Some terms, RBT.insert 1 bounty1 RBT.empty) \<lparr>info_sender = ''alice'', info_funds = []\<rparr>
          (ExecClaimBounty 1) = Inr (s', r') \<and> fst (hd (payments_of r')) = ''alice'')"
proof -
  obtain w1 resp where a: "BountyHandler_ClaimBounty (alice_sdk std_keeper) local_client (id_request ''1'' claim_body) (fresh_node ctx0)
      = Some (w1, resp)" "resp_Status resp = 200"
    using local_broadcast [where k = std_keeper and n = "fresh_node ctx0", OF local_payloads(2)]
    by (auto simp: BountyHandler_ClaimBounty_def ClaimBounty_def tx_hash_map_def io_simps answer_def http_status_defs Let_def)
  let ?s = "(Some terms, RBT.insert 1 bounty1 RBT.empty) :: contract_store"
  let ?i = "\<lparr>info_sender = ''alice'', info_funds = []\<rparr>"
  have s: "fst ?s = Some terms" "store_bounties ?s = [1 \<mapsto> bounty1]" by (simp_all add: store_bounties_def fun_eq_iff)
  have "\<exists>x. book_execute terms (store_bounties ?s) ?i (ExecClaimBounty 1) = Inr x"
    unfolding s by (simp add: bounty1_def new_bounty_def stake_def terms_def fits_def gross_of_def fee_of_def)
  then obtain s' r where ex: "execute rbt_contract_store ?s ?i (ExecClaimBounty 1) = Inr (s', r)"
    using contract_store.execute_refines [OF s(1), of ?i "ExecClaimBounty 1"]
    by (cases "execute rbt_contract_store ?s ?i (ExecClaimBounty 1)") auto
  from api_claim_pays_service [OF local_node.tx_signing_axioms a(1) _ contract_store.cw_storage_axioms s(1)] a(2) ex
  have "(\<exists>res m. submitted (alice_sdk std_keeper) local_tx local_client [Api_Client.ExecuteMsg m] (fresh_node ctx0) w1 res
      \<and> exec_Sender m = ''alice'') \<and> fst (hd (payments_of r)) = ''alice''"
    by fastforce
  with a(1) ex show ?thesis by blast
qed

end
