(* ===== verification/Bounty_Reads.thy ===== *)
theory Bounty_Reads
  imports Bounty_Api
begin

text \<open>
  Reading the contract through the REST service: the query goes to the contract as JSON, its answer
  comes back as JSON text, is decoded into an untyped value and written again. Ids pass unchanged
  below \<open>2 ^ 53\<close>; above, the service answers for two bounties with the same id.
\<close>

section \<open>The contract behind a node\<close>

text \<open>
  The node answers a smart query by the contract's query entry point on the state it holds for the
  contract; \<^verbatim>\<open>to_json_binary\<close> writes a JSON text of the answer.
\<close>

locale contract_node = cw_storage St config_of bounties_of
  for St :: "'s cw_store" and config_of :: "'s \<Rightarrow> Config option" and bounties_of :: "'s \<Rightarrow> book" +
  fixes S :: "('w, 'k, 'b) chain_sdk" and contract :: string and store_of :: "'w \<Rightarrow> 's"
    and to_json :: "json \<Rightarrow> bytes" and query_error :: "string \<Rightarrow> string"
  assumes to_json_text: "json_ok 0 j \<Longrightarrow> whole_value (string_of (to_json j)) = Some j"
    and query_state: "whole_value (string_of q) = Some j \<Longrightarrow> QueryMsg_of_json j = Some msg \<Longrightarrow>
      wasm_SmartContractState S contract q w = Some (w, map_sum query_error to_json (contract_query St (store_of w) msg))"

text \<open>What a Rust string and the numbers of the answer are.\<close>

definition utf8_bounty :: "Bounty \<Rightarrow> bool" where
  "utf8_bounty b \<longleftrightarrow> valid_utf8 (bn_funder b) \<and> valid_utf8 (bn_denom b) \<and> pred_option valid_utf8 (bn_claimer b)"

definition small_bounty :: "Bounty \<Rightarrow> bool" where
  "small_bounty b \<longleftrightarrow> unat (bn_task_id b) < 2 ^ 53 \<and> unat (bn_multiplier_pct b) < 2 ^ 53"

text \<open>A bounty as the service shows it, with the given text of its id.\<close>

definition bounty_object :: "string \<Rightarrow> Bounty \<Rightarrow> json" where
  "bounty_object i b = JObject
     [(''amount'', JString (fmt_d (unat (bn_amount b)))), (''claimed'', JBool (bn_claimed b)),
      (''claimer'', case bn_claimer b of None \<Rightarrow> JNull | Some a \<Rightarrow> JString a), (''denom'', JString (bn_denom b)),
      (''funder'', JString (bn_funder b)), (''multiplier_pct'', JNumber (fmt_d (unat (bn_multiplier_pct b)))),
      (''task_id'', JNumber i)]"

abbreviation shown_bounty :: "Bounty \<Rightarrow> json" where
  "shown_bounty b \<equiv> bounty_object (fmt_d (unat (bn_task_id b))) b"

lemma valid_utf8_digits: "list_all is_digit s \<Longrightarrow> valid_utf8 s"
  by (induction s rule: valid_utf8.induct) (auto simp: is_digit_def)

lemma Bounty_json_ok: "utf8_bounty b \<Longrightarrow> d < max_depth \<Longrightarrow> json_ok d (Bounty_json b)"
  using fmt_d_digits by (auto simp: Bounty_json_def utf8_bounty_def valid_utf8_digits split: option.split)

lemma Bounty_json_exact: "small_bounty b \<Longrightarrow> exact (Bounty_json b)"
  by (auto simp: Bounty_json_def small_bounty_def split: option.split)

lemma bounty_fields_sorted:
  "sort_key fst [(''task_id'', i), (''funder'', f), (''amount'', a), (''denom'', d), (''multiplier_pct'', p), (''claimed'', c), (''claimer'', m)]
    = [(''amount'', a), (''claimed'', c), (''claimer'', m), (''denom'', d), (''funder'', f), (''multiplier_pct'', p), (''task_id'', i)]"
  by simp

lemma Bounty_json_sorted: "sorted_json (Bounty_json b) = shown_bounty b"
  unfolding Bounty_json_def bounty_object_def sorted_json.simps list.map prod.case bounty_fields_sorted
  by (cases "bn_claimer b") (simp_all only: option.case sorted_json.simps)

lemma any_data_exact:
  assumes "exact j" "j \<noteq> JNull"
  obtains a where "any_of_json j = Inr a" "any_data a = Some (sorted_json j)"
proof -
  obtain a where a: "any_of_json j = Inr a" "any_json a = sorted_json j" using any_exact [OF assms(1)] by blast
  have "sorted_json j \<noteq> JNull" using assms(2) by (cases j) simp_all
  then have "a \<noteq> ANil" using a(2) by auto
  then have "any_data a = Some (sorted_json j)" using a(2) by (simp add: any_data_def)
  with a(1) show thesis by (rule that)
qed

section \<open>Reads of one bounty and of the list\<close>

context contract_node
begin

lemma smart_query:
  assumes "cc_contractAddr c = contract" "json_ok 0 q" "QueryMsg_of_json q = Some msg"
  shows "queryContract S c (bytes_of (json_text q)) w =
    (case contract_query St (store_of w) msg of
       Inl e \<Rightarrow> Some (w, Inl (query_error e))
     | Inr j \<Rightarrow> Some (w, Unmarshal_any (json_SyntaxError S) (to_json j)))"
proof -
  have "whole_value (string_of (bytes_of (json_text q))) = Some q"
    unfolding string_of_bytes_of by (rule whole_value_text [OF assms(2)])
  from query_state [OF this assms(3)] show ?thesis
    by (simp add: queryContract_def assms(1) io_simps split: sum.split)
qed

lemma GetBounty_eq:
  assumes "cc_contractAddr c = contract"
  shows "GetBounty S c i w =
    (case BOUNTIES_load St i (store_of w) of
       Inl e \<Rightarrow> Some (w, Inl (query_error e))
     | Inr b \<Rightarrow> Some (w, Unmarshal_any (json_SyntaxError S) (to_json (Bounty_json b))))"
proof -
  have "QueryMsg_of_json (task_call ''bounty'' i) = Some (QueryBounty i)"
    by (simp add: task_call_def QueryMsg_of_json_def one_field_def)
  from smart_query [OF assms task_call_ok this] show ?thesis
    by (simp add: GetBounty_def contract_query_def del: json_text.simps split: sum.split)
qed

lemma GetBounty_stored:
  assumes "cc_contractAddr c = contract" "bounties_of (store_of w) i = Some b" "utf8_bounty b"
  shows "GetBounty S c i w = Some (w, any_of_json (Bounty_json b))"
proof -
  have "BOUNTIES_load St i (store_of w) = Inr b" using load_law [where i = i and s = "store_of w"] assms(2) by simp
  moreover have "whole_value (string_of (to_json (Bounty_json b))) = Some (Bounty_json b)"
    using assms(3) by (intro to_json_text Bounty_json_ok) (simp_all add: max_depth_def)
  ultimately show ?thesis by (simp add: GetBounty_eq [OF assms(1)] Unmarshal_any_def)
qed

lemma GetBounty_missing:
  assumes "cc_contractAddr c = contract" "bounties_of (store_of w) i = None"
  shows "\<exists>e. GetBounty S c i w = Some (w, Inl e)"
  using load_law [where i = i and s = "store_of w"] assms by (auto simp: GetBounty_eq isl_def)

lemma ListBounties_stored:
  assumes "cc_contractAddr c = contract" "\<And>i b. bounties_of (store_of w) i = Some b \<Longrightarrow> utf8_bounty b"
  obtains "is" where "sorted_wrt (<) is" "set is = dom (bounties_of (store_of w))"
    "ListBounties S c w = Some (w, any_of_json (JObject [(''bounties'',
       JArray (map (\<lambda>i. Bounty_json (the (bounties_of (store_of w) i))) (take 10 is)))]))"
proof -
  let ?q = "JObject [(''list_bounties'', JObject [])]"
  have q: "json_ok 0 ?q" "QueryMsg_of_json ?q = Some (QueryListBounties None None)"
    by (simp_all add: max_depth_def QueryMsg_of_json_def opt_field_def)
  obtain "is" where l: "list_bounties St (store_of w) None None = Inr (map (\<lambda>i. the (bounties_of (store_of w) i)) (take 10 is))"
    and "is": "sorted_wrt (<) is" "set is = dom (bounties_of (store_of w))"
    using list_bounties_eq [of 10 None "store_of w" None] by (auto simp: DEFAULT_LIMIT_def MAX_LIMIT_def)
  let ?j = "JObject [(''bounties'', JArray (map (\<lambda>i. Bounty_json (the (bounties_of (store_of w) i))) (take 10 is)))]"
  have "json_ok (Suc (Suc 0)) (Bounty_json (the (bounties_of (store_of w) i)))" if "i \<in> set (take 10 is)" for i
    using that "is"(2) set_take_subset [of 10 "is"] assms(2) by (intro Bounty_json_ok) (auto simp: max_depth_def)
  then have "whole_value (string_of (to_json ?j)) = Some ?j" by (intro to_json_text) (auto simp: max_depth_def)
  with smart_query [OF assms(1) q, of w] l have
    "ListBounties S c w = Some (w, any_of_json ?j)"
    by (simp add: ListBounties_def contract_query_def Unmarshal_any_def comp_def del: json_text.simps any_of_json.simps)
  with "is" that show thesis by blast
qed

lemma GetBounty_shown:
  assumes "cc_contractAddr c = contract" "bounties_of (store_of w) i = Some b" "utf8_bounty b" "small_bounty b"
  obtains a where "GetBounty S c i w = Some (w, Inr a)" "any_data a = Some (shown_bounty b)"
proof -
  have "Bounty_json b \<noteq> JNull" by (simp add: Bounty_json_def)
  with Bounty_json_exact [OF assms(4)] obtain a where "any_of_json (Bounty_json b) = Inr a" "any_data a = Some (shown_bounty b)"
    by (rule any_data_exact) (simp add: Bounty_json_sorted)
  with GetBounty_stored [OF assms(1-3)] that show thesis by simp
qed

lemma ListBounties_shown:
  assumes "cc_contractAddr c = contract" "\<forall>i b. bounties_of (store_of w) i = Some b \<longrightarrow> utf8_bounty b \<and> small_bounty b"
  obtains "is" a where "sorted_wrt (<) is" "set is = dom (bounties_of (store_of w))" "ListBounties S c w = Some (w, Inr a)"
    "any_data a = Some (JObject [(''bounties'', JArray (map (\<lambda>i. shown_bounty (the (bounties_of (store_of w) i))) (take 10 is)))])"
proof -
  obtain "is" where "is": "sorted_wrt (<) is" "set is = dom (bounties_of (store_of w))"
    and list: "ListBounties S c w = Some (w, any_of_json (JObject [(''bounties'',
       JArray (map (\<lambda>i. Bounty_json (the (bounties_of (store_of w) i))) (take 10 is)))]))"
    using ListBounties_stored [OF assms(1)] assms(2) by metis
  let ?j = "JObject [(''bounties'', JArray (map (\<lambda>i. Bounty_json (the (bounties_of (store_of w) i))) (take 10 is)))]"
  have "exact (Bounty_json (the (bounties_of (store_of w) i)))" if "i \<in> set (take 10 is)" for i
    using that "is"(2) set_take_subset [of 10 "is"] assms(2) by (intro Bounty_json_exact) auto
  then have "exact ?j" by auto
  then obtain a where a: "any_of_json ?j = Inr a" "any_data a = Some (sorted_json ?j)" by (rule any_data_exact) simp
  have sorted: "sorted_json ?j = JObject [(''bounties'', JArray (map (\<lambda>i. shown_bounty (the (bounties_of (store_of w) i))) (take 10 is)))]"
    by (simp add: Bounty_json_sorted)
  have "ListBounties S c w = Some (w, Inr a)" using list unfolding a(1) .
  then show thesis using a(2) unfolding sorted by (rule that [OF "is"])
qed

end

text \<open>The value that the service makes of a bounty whose id is read as any float.\<close>

lemma Bounty_json_any:
  assumes "ParseFloat (fmt_d (unat (bn_task_id b))) = Some f" "unat (bn_multiplier_pct b) < 2 ^ 53"
  obtains a where "any_of_json (Bounty_json b) = Inr a" "any_data a = Some (bounty_object (float_text f) b)"
proof -
  obtain g where g: "ParseFloat (fmt_d (unat (bn_multiplier_pct b))) = Some g" "float_text g = fmt_d (unat (bn_multiplier_pct b))"
    using float_exact [OF assms(2)] by auto
  let ?claimer = "case bn_claimer b of None \<Rightarrow> ANil | Some a \<Rightarrow> AString a"
  let ?a = "AMap [(''task_id'', AFloat f), (''funder'', AString (bn_funder b)), (''amount'', AString (fmt_d (unat (bn_amount b)))),
    (''denom'', AString (bn_denom b)), (''multiplier_pct'', AFloat g), (''claimed'', ABool (bn_claimed b)), (''claimer'', ?claimer)]"
  have "any_of_json (case bn_claimer b of None \<Rightarrow> JNull | Some a \<Rightarrow> JString a) = Inr ?claimer"
    by (cases "bn_claimer b") simp_all
  then have "any_of_json (Bounty_json b) = Inr ?a" by (simp add: Bounty_json_def assms(1) g(1))
  moreover have "any_json ?claimer = (case bn_claimer b of None \<Rightarrow> JNull | Some a \<Rightarrow> JString a)"
    by (cases "bn_claimer b") simp_all
  then have "any_json ?a = bounty_object (float_text f) b"
    unfolding any_json.simps list.map prod.case bounty_fields_sorted bounty_object_def g(2) by simp
  then have "any_data ?a = Some (bounty_object (float_text f) b)" by (simp add: any_data_def)
  ultimately show thesis by (rule that)
qed

section \<open>A node with the contract\<close>

definition bounty_sdk :: "('w, 'k, 'b) chain_sdk \<Rightarrow> contract_store \<Rightarrow> ('w, 'k, 'b) chain_sdk" where
  "bounty_sdk S s = S\<lparr>wasm_SmartContractState := (\<lambda>addr q w.
     case Option.bind (whole_value (string_of q)) QueryMsg_of_json of
       None \<Rightarrow> Some (w, Inl ''Error parsing into type QueryMsg'')
     | Some msg \<Rightarrow> Some (w, map_sum id (\<lambda>j. bytes_of (json_text j)) (contract_query rbt_contract_store s msg)))\<rparr>"

interpretation local_contract: contract_node rbt_contract_store fst store_bounties "bounty_sdk S s" contract "\<lambda>_. s"
  "\<lambda>j. bytes_of (json_text j)" id
  by unfold_locales (simp_all add: whole_value_text bounty_sdk_def del: json_text.simps)

section \<open>Properties\<close>

text \<open>C17: Reading bounties over HTTP: on a node that runs the contract, \<^verbatim>\<open>GET /api/bounties/{id}\<close> answers 200 with
  exactly the stored bounty, its fields by name, and 500 if there is none; \<^verbatim>\<open>GET /api/bounties\<close> answers
  an object with the ten bounties of the smallest ids, and there is no way to ask for the others. This
  holds while ids and multipliers are below \<open>2 ^ 53\<close>.\<close>

theorem api_bounty_reads:
  assumes "contract_node St config_of bounties_of S contract store_of to_json query_error" "cc_contractAddr c = contract"
    and "URLParam r ''id'' = fmt_d (unat i)"
    and "\<forall>i b. bounties_of (store_of w) i = Some b \<longrightarrow> utf8_bounty b \<and> small_bounty b"
  shows "(case bounties_of (store_of w) i of
        None \<Rightarrow> \<exists>e. BountyHandler_GetBounty S c r w = Some (w, respondError 500 e)
      | Some b \<Rightarrow> BountyHandler_GetBounty S c r w = Some (w, respondJSON 200 (Some (shown_bounty b))))
    \<and> (\<exists>is. sorted_wrt (<) is \<and> set is = dom (bounties_of (store_of w))
        \<and> BountyHandler_ListBounties S c r' w = Some (w, respondJSON 200 (Some (JObject [(''bounties'',
            JArray (map (\<lambda>i. shown_bounty (the (bounties_of (store_of w) i))) (take 10 is)))]))))"
proof -
  have get: "BountyHandler_GetBounty S c r w = answer 200 any_data (GetBounty S c i) w"
    by (simp add: BountyHandler_GetBounty_def assms(3) http_status_defs)
  have "case bounties_of (store_of w) i of
        None \<Rightarrow> \<exists>e. BountyHandler_GetBounty S c r w = Some (w, respondError 500 e)
      | Some b \<Rightarrow> BountyHandler_GetBounty S c r w = Some (w, respondJSON 200 (Some (shown_bounty b)))"
  proof (cases "bounties_of (store_of w) i")
    case None
    then obtain e where "GetBounty S c i w = Some (w, Inl e)" using contract_node.GetBounty_missing [OF assms(1,2)] by blast
    with None show ?thesis unfolding get by (auto simp: answer_def http_status_defs)
  next
    case (Some b)
    then obtain a where "GetBounty S c i w = Some (w, Inr a)" "any_data a = Some (shown_bounty b)"
      using contract_node.GetBounty_shown [OF assms(1,2)] assms(4) by metis
    with Some show ?thesis unfolding get by (simp add: answer_def)
  qed
  moreover obtain "is" a where "is": "sorted_wrt (<) is" "set is = dom (bounties_of (store_of w))"
    and list: "ListBounties S c w = Some (w, Inr a)"
      "any_data a = Some (JObject [(''bounties'', JArray (map (\<lambda>i. shown_bounty (the (bounties_of (store_of w) i))) (take 10 is)))])"
    using contract_node.ListBounties_shown [OF assms(1,2,4)] .
  then have "BountyHandler_ListBounties S c r' w = Some (w, respondJSON 200 (Some (JObject [(''bounties'',
      JArray (map (\<lambda>i. shown_bounty (the (bounties_of (store_of w) i))) (take 10 is)))])))"
    by (simp add: BountyHandler_ListBounties_def answer_def http_status_defs)
  ultimately show ?thesis using "is" by blast
qed

text \<open>The bounty of \<open>bounty1\<close> on the local node.\<close>

theorem api_bounty_reads_witness:
  "BountyHandler_GetBounty (bounty_sdk (alice_sdk std_keeper) (Some terms, RBT.insert 1 bounty1 RBT.empty)) local_client
      (id_request ''1'' []) (fresh_node ctx0) = Some (fresh_node ctx0, respondJSON 200 (Some (shown_bounty bounty1)))
    \<and> BountyHandler_ListBounties (bounty_sdk (alice_sdk std_keeper) (Some terms, RBT.insert 1 bounty1 RBT.empty)) local_client
      (id_request [] []) (fresh_node ctx0)
      = Some (fresh_node ctx0, respondJSON 200 (Some (JObject [(''bounties'', JArray [shown_bounty bounty1])])))"
proof -
  let ?s = "(Some terms, RBT.insert 1 bounty1 RBT.empty) :: contract_store"
  have s: "store_bounties ?s = [1 \<mapsto> bounty1]" by (simp add: store_bounties_def fun_eq_iff)
  have b: "\<forall>i b. store_bounties ?s i = Some b \<longrightarrow> utf8_bounty b \<and> small_bounty b"
    unfolding s by (simp add: utf8_bounty_def small_bounty_def bounty1_def new_bounty_def stake_def)
  have "char_of (code (CHR ''1'')) = CHR ''1''" by (rule char_of_char)
  then have id: "URLParam (id_request ''1'' []) ''id'' = fmt_d (unat (1 :: u64))" by (simp add: fmt_d.simps)
  have c: "cc_contractAddr local_client = ''contract''" by (simp add: local_client_def)
  from api_bounty_reads [OF local_contract.contract_node_axioms c id b, where S1 = "alice_sdk std_keeper"
      and w = "fresh_node ctx0" and r' = "id_request [] []"]
  obtain "is" where "BountyHandler_GetBounty (bounty_sdk (alice_sdk std_keeper) ?s) local_client (id_request ''1'' [])
      (fresh_node ctx0) = Some (fresh_node ctx0, respondJSON 200 (Some (shown_bounty bounty1)))"
    and "sorted_wrt (<) is" "set is = dom [(1 :: u64) \<mapsto> bounty1]"
    and "BountyHandler_ListBounties (bounty_sdk (alice_sdk std_keeper) ?s) local_client (id_request [] []) (fresh_node ctx0)
      = Some (fresh_node ctx0, respondJSON 200 (Some (JObject [(''bounties'',
            JArray (map (\<lambda>i. shown_bounty (the ([1 \<mapsto> bounty1] i))) (take 10 is)))])))"
    unfolding s by (simp only: fun_upd_same option.case) blast
  moreover from this(2,3) have "is = [1]"
    by (intro sorted_distinct_set_unique) (auto simp: strict_sorted_iff)
  ultimately show ?thesis by simp
qed

text \<open>C26: Ids above \<open>2 ^ 53\<close> are ambiguous: the answer about the bounty with an odd id between \<open>2 ^ 53\<close> and
  \<open>2 ^ 54\<close> shows the decimal of an even neighbour \<open>j\<close> as its id, exactly what the answer about the bounty
  \<open>j\<close> shows, because the client decodes the contract's numbers as 64-bit floats. Both bounties are
  stored, their texts are UTF-8 and their multipliers below \<open>2 ^ 53\<close>.\<close>

theorem api_large_ids:
  assumes "contract_node St config_of bounties_of S contract store_of to_json query_error" "cc_contractAddr c = contract"
    and "odd (unat i)" "2 ^ 53 < unat i" "unat i < 2 ^ 54" "j = (if unat i mod 4 = 1 then i - 1 else i + 1)"
    and "bounties_of (store_of w) i = Some b" "bn_task_id b = i" "utf8_bounty b" "unat (bn_multiplier_pct b) < 2 ^ 53"
    and "bounties_of (store_of w) j = Some b'" "bn_task_id b' = j" "utf8_bounty b'" "unat (bn_multiplier_pct b') < 2 ^ 53"
    and "URLParam r ''id'' = fmt_d (unat i)" "URLParam r' ''id'' = fmt_d (unat j)"
  shows "BountyHandler_GetBounty S c r w = Some (w, respondJSON 200 (Some (bounty_object (fmt_d (unat j)) b)))
    \<and> BountyHandler_GetBounty S c r' w = Some (w, respondJSON 200 (Some (bounty_object (fmt_d (unat j)) b')))"
proof -
  have "unat (i - 1) = unat i - 1" using assms(4) by (intro unat_minus_one) auto
  moreover have "unat (i + 1) = unat i + 1" using assms(5) by (simp add: unat_word_ariths)
  ultimately have j: "unat j = (if unat i mod 4 = 1 then unat i - 1 else unat i + 1)" by (simp add: assms(6))
  have even: "even (unat j)" "2 ^ 53 \<le> unat j" "unat j \<le> 2 ^ 54"
    unfolding j using assms(3-5) by (auto simp: even_Suc elim!: oddE)
  let ?f = "\<lparr>f64_neg = False, f64_mant = fst (even_float (unat j)), f64_exp = snd (even_float (unat j))\<rparr>"
  have "f64_round (unat i) (Suc 0) = Some (even_float (unat j))"
    using f64_round_odd [OF assms(3-5)] unfolding j .
  then have f: "ParseFloat (fmt_d (unat (bn_task_id b))) = Some ?f" "ParseFloat (fmt_d (unat (bn_task_id b'))) = Some ?f"
    using f64_round_even [OF even] by (simp_all add: ParseFloat_fmt_d assms(8,12) case_prod_beta)
  have t: "float_text ?f = fmt_d (unat j)" by (rule float_text_even [OF even])
  obtain x x' where "any_of_json (Bounty_json b) = Inr x" "any_data x = Some (bounty_object (float_text ?f) b)"
    and "any_of_json (Bounty_json b') = Inr x'" "any_data x' = Some (bounty_object (float_text ?f) b')"
    using Bounty_json_any [OF f(1) assms(10)] Bounty_json_any [OF f(2) assms(14)] by metis
  with contract_node.GetBounty_stored [OF assms(1,2,7,9)] contract_node.GetBounty_stored [OF assms(1,2,11,13)]
  show ?thesis by (simp add: t BountyHandler_GetBounty_def assms(15,16) answer_def http_status_defs)
qed

text \<open>Bounties for \<open>2 ^ 53 + 1\<close> and \<open>2 ^ 53\<close>.\<close>

definition odd_id :: u64 where "odd_id = 9007199254740993"
definition even_id :: u64 where "even_id = 9007199254740992"

definition large_store :: contract_store where
  "large_store = (Some terms, RBT.insert odd_id (bounty1\<lparr>bn_task_id := odd_id\<rparr>)
     (RBT.insert even_id (bounty1\<lparr>bn_task_id := even_id\<rparr>) RBT.empty))"

theorem api_large_ids_witness:
  "BountyHandler_GetBounty (bounty_sdk (alice_sdk std_keeper) large_store) local_client
      (id_request (fmt_d (unat odd_id)) []) (fresh_node ctx0)
    = Some (fresh_node ctx0, respondJSON 200 (Some (bounty_object (fmt_d (unat even_id)) (bounty1\<lparr>bn_task_id := odd_id\<rparr>))))
  \<and> BountyHandler_GetBounty (bounty_sdk (alice_sdk std_keeper) large_store) local_client
      (id_request (fmt_d (unat even_id)) []) (fresh_node ctx0)
    = Some (fresh_node ctx0, respondJSON 200 (Some (bounty_object (fmt_d (unat even_id)) (bounty1\<lparr>bn_task_id := even_id\<rparr>))))"
proof -
  have s: "store_bounties large_store odd_id = Some (bounty1\<lparr>bn_task_id := odd_id\<rparr>)"
    "store_bounties large_store even_id = Some (bounty1\<lparr>bn_task_id := even_id\<rparr>)"
    by (simp_all add: large_store_def odd_id_def even_id_def store_bounties_def)
  have b: "utf8_bounty (bounty1\<lparr>bn_task_id := n\<rparr>)" "unat (bn_multiplier_pct (bounty1\<lparr>bn_task_id := n\<rparr>)) < 2 ^ 53" for n
    by (simp_all add: utf8_bounty_def bounty1_def new_bounty_def stake_def)
  have c: "cc_contractAddr local_client = ''contract''" by (simp add: local_client_def)
  have i: "odd (unat odd_id)" "2 ^ 53 < unat odd_id" "unat odd_id < 2 ^ 54"
    "even_id = (if unat odd_id mod 4 = 1 then odd_id - 1 else odd_id + 1)"
    by (simp_all add: odd_id_def even_id_def)
  show ?thesis
    by (rule api_large_ids [OF local_contract.contract_node_axioms c i s(1) _ b s(2) _ b]) simp_all
qed

end
