(* ===== verification/Taskreg_Descriptor.thy ===== *)
theory Taskreg_Descriptor
  imports Task_Chain Query_Pb
begin

text \<open>
  \<^verbatim>\<open>mychain/x/taskreg/types/proto_descriptor.go\<close>: the file descriptors written by hand, their
  registration when the package is loaded, and the tables of the \<^verbatim>\<open>.pb.go\<close> files that refer to them
  (\<^verbatim>\<open>Descriptor\<close> methods, \<^verbatim>\<open>proto.RegisterType\<close>). The encoder of descriptors, gzip and the protobuf
  registry are parameters. At the end, what a descriptor means for a message: the encoding that
  the proto3 rules prescribe for its fields, and what the raw bytes of its signer option say.
\<close>

section \<open>Descriptors\<close>

datatype field_type = TYPE_STRING | TYPE_UINT64 | TYPE_ENUM | TYPE_MESSAGE

datatype field_label = LABEL_OPTIONAL | LABEL_REPEATED

record FieldDescriptorProto =
  fdp_Name :: string
  fdp_Number :: i32
  fdp_Type :: field_type
  fdp_Label :: field_label
  fdp_TypeName :: "string option"
  fdp_JsonName :: string

text \<open>Options are set as raw bytes of unknown fields.\<close>

record DescriptorProto =
  dp_Name :: string
  dp_Options :: "bytes option"
  dp_Field :: "FieldDescriptorProto list"

record MethodDescriptorProto =
  mdp_Name :: string
  mdp_InputType :: string
  mdp_OutputType :: string

record ServiceDescriptorProto =
  sdp_Name :: string
  sdp_Options :: "bytes option"
  sdp_Method :: "MethodDescriptorProto list"

record EnumDescriptorProto =
  edp_Name :: string
  edp_Value :: "(string \<times> i32) list"

record FileDescriptorProto =
  fp_Name :: string
  fp_Package :: string
  fp_Syntax :: string
  fp_Dependency :: "string list"
  fp_GoPackage :: string
  fp_Service :: "ServiceDescriptorProto list"
  fp_EnumType :: "EnumDescriptorProto list"
  fp_MessageType :: "DescriptorProto list"

definition signerOpts :: "protowire \<Rightarrow> string \<Rightarrow> bytes" where
  "signerOpts pw signerField =
     (let raw = [];
          raw = AppendTag pw raw 11110000 BytesType;
          raw = AppendString pw raw signerField
      in raw)"

definition serviceOpts :: "protowire \<Rightarrow> bytes" where
  "serviceOpts pw =
     (let raw = [];
          raw = AppendTag pw raw 11110001 VarintType;
          raw = AppendVarint pw raw 1
      in raw)"

definition strField :: "string \<Rightarrow> i32 \<Rightarrow> FieldDescriptorProto" where
  "strField name num = \<lparr>fdp_Name = name, fdp_Number = num, fdp_Type = TYPE_STRING,
     fdp_Label = LABEL_OPTIONAL, fdp_TypeName = None, fdp_JsonName = name\<rparr>"

definition uint64Field :: "string \<Rightarrow> i32 \<Rightarrow> FieldDescriptorProto" where
  "uint64Field name num = \<lparr>fdp_Name = name, fdp_Number = num, fdp_Type = TYPE_UINT64,
     fdp_Label = LABEL_OPTIONAL, fdp_TypeName = None, fdp_JsonName = name\<rparr>"

definition enumField :: "string \<Rightarrow> i32 \<Rightarrow> string \<Rightarrow> FieldDescriptorProto" where
  "enumField name num typeName = \<lparr>fdp_Name = name, fdp_Number = num, fdp_Type = TYPE_ENUM,
     fdp_Label = LABEL_OPTIONAL, fdp_TypeName = Some typeName, fdp_JsonName = name\<rparr>"

definition msgField :: "string \<Rightarrow> i32 \<Rightarrow> string \<Rightarrow> FieldDescriptorProto" where
  "msgField name num typeName = \<lparr>fdp_Name = name, fdp_Number = num, fdp_Type = TYPE_MESSAGE,
     fdp_Label = LABEL_OPTIONAL, fdp_TypeName = Some typeName, fdp_JsonName = name\<rparr>"

definition repeatedMsgField :: "string \<Rightarrow> i32 \<Rightarrow> string \<Rightarrow> FieldDescriptorProto" where
  "repeatedMsgField name num typeName = \<lparr>fdp_Name = name, fdp_Number = num, fdp_Type = TYPE_MESSAGE,
     fdp_Label = LABEL_REPEATED, fdp_TypeName = Some typeName, fdp_JsonName = name\<rparr>"

section \<open>The four files\<close>

definition tx_file :: "protowire \<Rightarrow> FileDescriptorProto" where
  "tx_file pw =
     \<lparr>fp_Name = ''mychain/taskreg/v1/tx.proto'', fp_Package = ''mychain.taskreg.v1'', fp_Syntax = ''proto3'',
      fp_Dependency = [''cosmos/msg/v1/msg.proto'', ''gogoproto/gogo.proto''],
      fp_GoPackage = ''poc-cometbft/mychain/x/taskreg/types'',
      fp_Service =
        [\<lparr>sdp_Name = ''Msg'', sdp_Options = Some (serviceOpts pw),
          sdp_Method =
            [\<lparr>mdp_Name = ''CreateTask'', mdp_InputType = ''.mychain.taskreg.v1.MsgCreateTask'',
              mdp_OutputType = ''.mychain.taskreg.v1.MsgCreateTaskResponse''\<rparr>,
             \<lparr>mdp_Name = ''AssignTask'', mdp_InputType = ''.mychain.taskreg.v1.MsgAssignTask'',
              mdp_OutputType = ''.mychain.taskreg.v1.MsgAssignTaskResponse''\<rparr>,
             \<lparr>mdp_Name = ''CompleteTask'', mdp_InputType = ''.mychain.taskreg.v1.MsgCompleteTask'',
              mdp_OutputType = ''.mychain.taskreg.v1.MsgCompleteTaskResponse''\<rparr>]\<rparr>],
      fp_EnumType = [],
      fp_MessageType =
        [\<lparr>dp_Name = ''MsgCreateTask'', dp_Options = Some (signerOpts pw ''creator''),
          dp_Field = [strField ''creator'' 1, strField ''title'' 2, strField ''description'' 3]\<rparr>,
         \<lparr>dp_Name = ''MsgCreateTaskResponse'', dp_Options = None, dp_Field = [uint64Field ''id'' 1]\<rparr>,
         \<lparr>dp_Name = ''MsgAssignTask'', dp_Options = Some (signerOpts pw ''creator''),
          dp_Field = [strField ''creator'' 1, uint64Field ''task_id'' 2, strField ''assignee'' 3]\<rparr>,
         \<lparr>dp_Name = ''MsgAssignTaskResponse'', dp_Options = None, dp_Field = []\<rparr>,
         \<lparr>dp_Name = ''MsgCompleteTask'', dp_Options = Some (signerOpts pw ''assignee''),
          dp_Field = [strField ''assignee'' 1, uint64Field ''task_id'' 2]\<rparr>,
         \<lparr>dp_Name = ''MsgCompleteTaskResponse'', dp_Options = None, dp_Field = []\<rparr>]\<rparr>"

definition types_file :: FileDescriptorProto where
  "types_file =
     \<lparr>fp_Name = ''mychain/taskreg/v1/types.proto'', fp_Package = ''mychain.taskreg.v1'', fp_Syntax = ''proto3'',
      fp_Dependency = [''gogoproto/gogo.proto''],
      fp_GoPackage = ''poc-cometbft/mychain/x/taskreg/types'',
      fp_Service = [],
      fp_EnumType =
        [\<lparr>edp_Name = ''TaskStatus'',
          edp_Value = [(''TASK_STATUS_UNSPECIFIED'', 0), (''TASK_STATUS_OPEN'', 1), (''TASK_STATUS_ASSIGNED'', 2),
            (''TASK_STATUS_COMPLETED'', 3)]\<rparr>],
      fp_MessageType =
        [\<lparr>dp_Name = ''Task'', dp_Options = None,
          dp_Field = [uint64Field ''id'' 1, strField ''title'' 2, strField ''description'' 3, strField ''creator'' 4,
            strField ''assignee'' 5, enumField ''status'' 6 ''.mychain.taskreg.v1.TaskStatus'']\<rparr>]\<rparr>"

definition query_file :: FileDescriptorProto where
  "query_file =
     \<lparr>fp_Name = ''mychain/taskreg/v1/query.proto'', fp_Package = ''mychain.taskreg.v1'', fp_Syntax = ''proto3'',
      fp_Dependency = [''gogoproto/gogo.proto'', ''google/api/annotations.proto'',
        ''cosmos/base/query/v1beta1/pagination.proto'', ''mychain/taskreg/v1/types.proto''],
      fp_GoPackage = ''poc-cometbft/mychain/x/taskreg/types'',
      fp_Service =
        [\<lparr>sdp_Name = ''Query'', sdp_Options = None,
          sdp_Method =
            [\<lparr>mdp_Name = ''Task'', mdp_InputType = ''.mychain.taskreg.v1.QueryTaskRequest'',
              mdp_OutputType = ''.mychain.taskreg.v1.QueryTaskResponse''\<rparr>,
             \<lparr>mdp_Name = ''ListTasks'', mdp_InputType = ''.mychain.taskreg.v1.QueryListTasksRequest'',
              mdp_OutputType = ''.mychain.taskreg.v1.QueryListTasksResponse''\<rparr>]\<rparr>],
      fp_EnumType = [],
      fp_MessageType =
        [\<lparr>dp_Name = ''QueryTaskRequest'', dp_Options = None, dp_Field = [uint64Field ''id'' 1]\<rparr>,
         \<lparr>dp_Name = ''QueryTaskResponse'', dp_Options = None,
          dp_Field = [msgField ''task'' 1 ''.mychain.taskreg.v1.Task'']\<rparr>,
         \<lparr>dp_Name = ''QueryListTasksRequest'', dp_Options = None,
          dp_Field = [msgField ''pagination'' 1 ''.cosmos.base.query.v1beta1.PageRequest'']\<rparr>,
         \<lparr>dp_Name = ''QueryListTasksResponse'', dp_Options = None,
          dp_Field = [repeatedMsgField ''tasks'' 1 ''.mychain.taskreg.v1.Task'',
            msgField ''pagination'' 2 ''.cosmos.base.query.v1beta1.PageResponse'']\<rparr>]\<rparr>"

definition genesis_file :: FileDescriptorProto where
  "genesis_file =
     \<lparr>fp_Name = ''mychain/taskreg/v1/genesis.proto'', fp_Package = ''mychain.taskreg.v1'', fp_Syntax = ''proto3'',
      fp_Dependency = [''gogoproto/gogo.proto'', ''mychain/taskreg/v1/types.proto''],
      fp_GoPackage = ''poc-cometbft/mychain/x/taskreg/types'',
      fp_Service = [], fp_EnumType = [],
      fp_MessageType =
        [\<lparr>dp_Name = ''GenesisState'', dp_Options = None,
          dp_Field = [repeatedMsgField ''tasks'' 1 ''.mychain.taskreg.v1.Task'', uint64Field ''next_task_id'' 2]\<rparr>]\<rparr>"

section \<open>Registration\<close>

text \<open>The libraries: the encoder of descriptors and gzip, which may fail; the registry is a map.\<close>

record descriptor_lib =
  dl_Marshal :: "FileDescriptorProto \<Rightarrow> string + bytes"
  dl_gzip :: "bytes \<Rightarrow> string + bytes"

type_synonym file_registry = "string \<rightharpoonup> bytes"

definition registerProtoFile ::
  "descriptor_lib \<Rightarrow> FileDescriptorProto \<Rightarrow> file_registry \<Rightarrow> (file_registry \<times> bytes) option" where
  "registerProtoFile L fd reg =
     (case dl_Marshal L fd of
        Inl err \<Rightarrow> None
      | Inr b \<Rightarrow>
          (case dl_gzip L b of
             Inl err \<Rightarrow> None
           | Inr gzipped \<Rightarrow> Some (reg(fp_Name fd \<mapsto> gzipped), gzipped)))"

definition registerTxFileDescriptor where
  "registerTxFileDescriptor pw L = registerProtoFile L (tx_file pw)"

definition registerTypesFileDescriptor where
  "registerTypesFileDescriptor L = registerProtoFile L types_file"

definition registerQueryFileDescriptor where
  "registerQueryFileDescriptor L = registerProtoFile L query_file"

definition registerGenesisFileDescriptor where
  "registerGenesisFileDescriptor L = registerProtoFile L genesis_file"

text \<open>The package variables.\<close>

record file_descriptors =
  fileDescriptor_tx :: bytes
  fileDescriptor_types :: bytes
  fileDescriptor_query :: bytes
  fileDescriptor_genesis :: bytes

definition init_descriptors ::
  "protowire \<Rightarrow> descriptor_lib \<Rightarrow> file_registry \<Rightarrow> (file_registry \<times> file_descriptors) option" where
  "init_descriptors pw L reg =
     Option.bind (registerTxFileDescriptor pw L reg) (\<lambda>(reg, tx).
     Option.bind (registerTypesFileDescriptor L reg) (\<lambda>(reg, types).
     Option.bind (registerQueryFileDescriptor L reg) (\<lambda>(reg, query).
     Option.bind (registerGenesisFileDescriptor L reg) (\<lambda>(reg, genesis).
       Some (reg, \<lparr>fileDescriptor_tx = tx, fileDescriptor_types = types, fileDescriptor_query = query,
                  fileDescriptor_genesis = genesis\<rparr>)))))"

section \<open>The messages\<close>

datatype message_type =
    MsgCreateTaskT | MsgCreateTaskResponseT | MsgAssignTaskT | MsgAssignTaskResponseT
  | MsgCompleteTaskT | MsgCompleteTaskResponseT
  | TaskT
  | QueryTaskRequestT | QueryTaskResponseT | QueryListTasksRequestT | QueryListTasksResponseT
  | GenesisStateT

text \<open>The \<^verbatim>\<open>Descriptor\<close> methods: the bytes of the file, and the index of the message in it.\<close>

fun Descriptor :: "file_descriptors \<Rightarrow> message_type \<Rightarrow> bytes \<times> nat list" where
  "Descriptor D MsgCreateTaskT = (fileDescriptor_tx D, [0])"
| "Descriptor D MsgCreateTaskResponseT = (fileDescriptor_tx D, [1])"
| "Descriptor D MsgAssignTaskT = (fileDescriptor_tx D, [2])"
| "Descriptor D MsgAssignTaskResponseT = (fileDescriptor_tx D, [3])"
| "Descriptor D MsgCompleteTaskT = (fileDescriptor_tx D, [4])"
| "Descriptor D MsgCompleteTaskResponseT = (fileDescriptor_tx D, [5])"
| "Descriptor D TaskT = (fileDescriptor_types D, [0])"
| "Descriptor D QueryTaskRequestT = (fileDescriptor_query D, [0])"
| "Descriptor D QueryTaskResponseT = (fileDescriptor_query D, [1])"
| "Descriptor D QueryListTasksRequestT = (fileDescriptor_query D, [2])"
| "Descriptor D QueryListTasksResponseT = (fileDescriptor_query D, [3])"
| "Descriptor D GenesisStateT = (fileDescriptor_genesis D, [0])"

text \<open>The calls of \<^verbatim>\<open>proto.RegisterType\<close> and \<^verbatim>\<open>proto.RegisterEnum\<close>, file by file.\<close>

definition tx_types :: "(message_type \<times> string) list" where
  "tx_types =
     [(MsgCreateTaskT, ''mychain.taskreg.v1.MsgCreateTask''),
      (MsgCreateTaskResponseT, ''mychain.taskreg.v1.MsgCreateTaskResponse''),
      (MsgAssignTaskT, ''mychain.taskreg.v1.MsgAssignTask''),
      (MsgAssignTaskResponseT, ''mychain.taskreg.v1.MsgAssignTaskResponse''),
      (MsgCompleteTaskT, ''mychain.taskreg.v1.MsgCompleteTask''),
      (MsgCompleteTaskResponseT, ''mychain.taskreg.v1.MsgCompleteTaskResponse'')]"

definition types_types :: "(message_type \<times> string) list" where
  "types_types = [(TaskT, ''mychain.taskreg.v1.Task'')]"

definition query_types :: "(message_type \<times> string) list" where
  "query_types =
     [(QueryTaskRequestT, ''mychain.taskreg.v1.QueryTaskRequest''),
      (QueryTaskResponseT, ''mychain.taskreg.v1.QueryTaskResponse''),
      (QueryListTasksRequestT, ''mychain.taskreg.v1.QueryListTasksRequest''),
      (QueryListTasksResponseT, ''mychain.taskreg.v1.QueryListTasksResponse'')]"

definition genesis_types :: "(message_type \<times> string) list" where
  "genesis_types = [(GenesisStateT, ''mychain.taskreg.v1.GenesisState'')]"

definition registered_enum :: "string \<times> (i32 \<times> string) list \<times> (string \<times> i32) list" where
  "registered_enum = (''mychain.taskreg.v1.TaskStatus'', TaskStatus_name, TaskStatus_value)"

section \<open>What a descriptor means\<close>

definition all_files :: "protowire \<Rightarrow> FileDescriptorProto list" where
  "all_files pw = [tx_file pw, types_file, query_file, genesis_file]"

definition full_name :: "FileDescriptorProto \<Rightarrow> string \<Rightarrow> string" where
  "full_name fd name = fp_Package fd @ ''.'' @ name"

text \<open>The names a file defines, and those it refers to.\<close>

definition defined_names :: "FileDescriptorProto \<Rightarrow> string list" where
  "defined_names fd = map (\<lambda>md. full_name fd (dp_Name md)) (fp_MessageType fd)
     @ map (\<lambda>ed. full_name fd (edp_Name ed)) (fp_EnumType fd)"

definition field_references :: "FieldDescriptorProto \<Rightarrow> string list" where
  "field_references f = (case fdp_TypeName f of None \<Rightarrow> [] | Some name \<Rightarrow> [name])"

definition referenced_names :: "FileDescriptorProto \<Rightarrow> string list" where
  "referenced_names fd =
     concat (map (\<lambda>md. concat (map field_references (dp_Field md))) (fp_MessageType fd))
     @ concat (map (\<lambda>sd. concat (map (\<lambda>m. [mdp_InputType m, mdp_OutputType m]) (sdp_Method sd))) (fp_Service fd))"

text \<open>The SDK's pagination messages are in a file of their own.\<close>

definition resolves :: "protowire \<Rightarrow> FileDescriptorProto \<Rightarrow> string \<Rightarrow> bool" where
  "resolves pw fd name \<longleftrightarrow>
     (\<exists>f \<in> set (all_files pw). (fp_Name f = fp_Name fd \<or> fp_Name f \<in> set (fp_Dependency fd))
        \<and> name \<in> (\<lambda>n. CHR ''.'' # n) ` set (defined_names f))
     \<or> (name \<in> {''.cosmos.base.query.v1beta1.PageRequest'', ''.cosmos.base.query.v1beta1.PageResponse''}
        \<and> ''cosmos/base/query/v1beta1/pagination.proto'' \<in> set (fp_Dependency fd))"

definition lookup_message :: "protowire \<Rightarrow> string \<Rightarrow> DescriptorProto option" where
  "lookup_message pw name =
     map_of (concat (map (\<lambda>fd. map (\<lambda>md. (full_name fd (dp_Name md), md)) (fp_MessageType fd)) (all_files pw))) name"

text \<open>
  The encoding that proto3 prescribes for a message by its descriptor: the fields in the order of the
  descriptor, a scalar only if it is not its default value, an enum as a sign-extended varint, an
  embedded message as its length and bytes.
\<close>

datatype field_value = StringV string | Uint64V u64 | EnumV i32 | MessagesV "bytes list"

definition varint_field :: "protowire \<Rightarrow> int \<Rightarrow> u64 \<Rightarrow> bytes" where
  "varint_field pw num v = (if v = 0 then [] else AppendTag pw [] num VarintType @ AppendVarint pw [] v)"

definition bytes_field :: "protowire \<Rightarrow> int \<Rightarrow> bytes \<Rightarrow> bytes" where
  "bytes_field pw num bz = AppendTag pw [] num BytesType @ AppendBytes pw [] bz"

fun encode_field :: "protowire \<Rightarrow> int \<Rightarrow> field_type \<Rightarrow> field_value \<Rightarrow> bytes option" where
  "encode_field pw num TYPE_STRING (StringV s) = Some (if s = [] then [] else bytes_field pw num (bytes_of s))"
| "encode_field pw num TYPE_UINT64 (Uint64V v) = Some (varint_field pw num v)"
| "encode_field pw num TYPE_ENUM (EnumV v) = Some (varint_field pw num (scast v))"
| "encode_field pw num TYPE_MESSAGE (MessagesV bzs) = Some (concat (map (bytes_field pw num) bzs))"
| "encode_field pw num _ _ = None"

fun encode_fields :: "protowire \<Rightarrow> FieldDescriptorProto list \<Rightarrow> (string \<times> field_value) list \<Rightarrow> bytes option" where
  "encode_fields pw [] vals = Some []"
| "encode_fields pw (f # fs) vals =
     Option.bind (map_of vals (fdp_Name f)) (\<lambda>v.
     Option.bind (encode_field pw (sint (fdp_Number f)) (fdp_Type f) v) (\<lambda>b.
     map_option (\<lambda>bs. b @ bs) (encode_fields pw fs vals)))"

definition encode_message :: "protowire \<Rightarrow> string \<Rightarrow> (string \<times> field_value) list \<Rightarrow> bytes option" where
  "encode_message pw name vals =
     Option.bind (lookup_message pw name) (\<lambda>md. encode_fields pw (dp_Field md) vals)"

text \<open>The fields of the messages by name.\<close>

definition Task_values :: "Task \<Rightarrow> (string \<times> field_value) list" where
  "Task_values t =
     [(''id'', Uint64V (task_Id t)), (''title'', StringV (task_Title t)), (''description'', StringV (task_Description t)),
      (''creator'', StringV (task_Creator t)), (''assignee'', StringV (task_Assignee t)),
      (''status'', EnumV (task_Status t))]"

fun TaskMsg_values :: "TaskMsg \<Rightarrow> (string \<times> field_value) list" where
  "TaskMsg_values (CreateMsg m) =
     [(''creator'', StringV (ct_Creator m)), (''title'', StringV (ct_Title m)), (''description'', StringV (ct_Description m))]"
| "TaskMsg_values (AssignMsg m) =
     [(''creator'', StringV (at_Creator m)), (''task_id'', Uint64V (at_TaskId m)), (''assignee'', StringV (at_Assignee m))]"
| "TaskMsg_values (CompleteMsg m) =
     [(''assignee'', StringV (cp_Assignee m)), (''task_id'', Uint64V (cp_TaskId m))]"

fun TaskMsg_name :: "TaskMsg \<Rightarrow> string" where
  "TaskMsg_name (CreateMsg m) = ''mychain.taskreg.v1.MsgCreateTask''"
| "TaskMsg_name (AssignMsg m) = ''mychain.taskreg.v1.MsgAssignTask''"
| "TaskMsg_name (CompleteMsg m) = ''mychain.taskreg.v1.MsgCompleteTask''"

lemmas file_defs = tx_file_def types_file_def query_file_def genesis_file_def
lemmas field_defs = strField_def uint64Field_def enumField_def msgField_def repeatedMsgField_def

text \<open>The descriptors of the messages that are looked up.\<close>

lemma lookup_simps [simp]:
  "lookup_message pw ''mychain.taskreg.v1.MsgCreateTask'' = Some (fp_MessageType (tx_file pw) ! 0)"
  "lookup_message pw ''mychain.taskreg.v1.MsgCreateTaskResponse'' = Some (fp_MessageType (tx_file pw) ! 1)"
  "lookup_message pw ''mychain.taskreg.v1.MsgAssignTask'' = Some (fp_MessageType (tx_file pw) ! 2)"
  "lookup_message pw ''mychain.taskreg.v1.MsgAssignTaskResponse'' = Some (fp_MessageType (tx_file pw) ! 3)"
  "lookup_message pw ''mychain.taskreg.v1.MsgCompleteTask'' = Some (fp_MessageType (tx_file pw) ! 4)"
  "lookup_message pw ''mychain.taskreg.v1.MsgCompleteTaskResponse'' = Some (fp_MessageType (tx_file pw) ! 5)"
  "lookup_message pw ''mychain.taskreg.v1.Task'' = Some (fp_MessageType types_file ! 0)"
  "lookup_message pw ''mychain.taskreg.v1.QueryTaskRequest'' = Some (fp_MessageType query_file ! 0)"
  "lookup_message pw ''mychain.taskreg.v1.QueryTaskResponse'' = Some (fp_MessageType query_file ! 1)"
  "lookup_message pw ''mychain.taskreg.v1.GenesisState'' = Some (fp_MessageType genesis_file ! 0)"
  by (simp_all add: lookup_message_def all_files_def file_defs full_name_def)

section \<open>The encoders and the descriptors\<close>

context wire_format
begin

lemma scalar_fields:
  "appendString pw [] num s = (if s = [] then [] else bytes_field pw num (bytes_of s))"
  "appendUint64 pw [] num v = varint_field pw num v"
  by (simp_all add: appendString_eq [of "[]"] appendUint64_eq [of "[]"] append_string bytes_field_def varint_field_def)

lemma encode_Task: "encode_message pw ''mychain.taskreg.v1.Task'' (Task_values t) = Some (Task_wire pw t)"
  by (simp add: encode_message_def types_file_def field_defs Task_values_def Task_wire_def scalar_fields)

lemma encode_TaskMsg:
  "map_option Inr (encode_message pw (TaskMsg_name msg) (TaskMsg_values msg)) =
    Some (case msg of CreateMsg m \<Rightarrow> MsgCreateTask_Marshal pw m | AssignMsg m \<Rightarrow> MsgAssignTask_Marshal pw m
       | CompleteMsg m \<Rightarrow> MsgCompleteTask_Marshal pw m)"
  by (cases msg) (simp_all add: encode_message_def tx_file_def field_defs wire_simps scalar_fields)

lemma encode_id:
  "encode_message pw ''mychain.taskreg.v1.MsgCreateTaskResponse'' [(''id'', Uint64V v)] = Some (varint_field pw 1 v)"
  "encode_message pw ''mychain.taskreg.v1.QueryTaskRequest'' [(''id'', Uint64V v)] = Some (varint_field pw 1 v)"
  by (simp_all add: encode_message_def tx_file_def query_file_def field_defs)

lemma encode_QueryTaskResponse:
  "encode_message pw ''mychain.taskreg.v1.QueryTaskResponse'' [(''task'', MessagesV (filter (\<lambda>bz. bz \<noteq> []) [bz]))] =
    Some (append_message pw [] 1 bz)"
  by (simp add: encode_message_def query_file_def field_defs append_message_def bytes_field_def
      append_bytes [of "AppendTag pw [] 1 BytesType"])

lemma encode_GenesisState:
  "encode_message pw ''mychain.taskreg.v1.GenesisState''
      [(''tasks'', MessagesV (map (Task_wire pw) ts)), (''next_task_id'', Uint64V v)] =
    Some (tasks_wire pw ts @ varint_field pw 2 v)"
  by (simp add: encode_message_def genesis_file_def field_defs tasks_wire_def bytes_field_def comp_def)

text \<open>The raw option of a message is the field 11110000 with the name of the signing field, and nothing else.\<close>

lemma signerOpts_reads:
  assumes "go_len name"
  shows "\<exists>n. ConsumeTag pw (signerOpts pw name) = (11110000, BytesType, n)
    \<and> ConsumeString pw (drop (nat n) (signerOpts pw name)) = (name, int (length (signerOpts pw name)) - n)"
proof -
  have v: "valid_tag 11110000 BytesType" by (simp add: valid_tag_def)
  have raw: "signerOpts pw name = AppendTag pw [] 11110000 BytesType @ AppendBytes pw [] (bytes_of name)"
    using append_bytes [of "AppendTag pw [] 11110000 BytesType" "bytes_of name"]
    by (simp add: signerOpts_def append_string Let_def)
  have "ConsumeString pw (AppendBytes pw [] (bytes_of name)) =
      (name, int (length (AppendBytes pw [] (bytes_of name))))"
    using consume_bytes [of "bytes_of name" "[]"] assms by (simp add: consume_string)
  then show ?thesis
    using consume_tag [OF v, of "AppendBytes pw [] (bytes_of name)"] by (simp add: raw)
qed

end

end
