(* ===== verification/Taskreg_Module.thy ===== *)
theory Taskreg_Module
  imports Taskreg_Descriptor Service Taskreg_Genesis
begin

text \<open>
  The module as the application sees it: \<^verbatim>\<open>x/taskreg/module.go\<close> without its genesis methods (which
  are in \<open>Taskreg_Genesis\<close>), the registrations of \<^verbatim>\<open>types/codec.go\<close>, and the service descriptors of
  \<^verbatim>\<open>tx.pb.go\<close> and \<^verbatim>\<open>query.pb.go\<close>. The amino codec, the interface registry and the two gRPC routers are
  libraries; they are modelled by what is registered with them, in order.
\<close>

section \<open>codec.go\<close>

text \<open>An amino codec: the concrete types by name. \<^verbatim>\<open>RegisterConcrete\<close> panics on a name or a type that is
  already there.\<close>

type_synonym amino = "(string \<times> message_type) list"

definition RegisterConcrete :: "message_type \<Rightarrow> string \<Rightarrow> amino \<Rightarrow> amino option" where
  "RegisterConcrete t name reg =
     (if name \<in> fst ` set reg \<or> t \<in> snd ` set reg then None else Some (reg @ [(name, t)]))"

definition RegisterCodec :: "amino \<Rightarrow> amino option" where
  "RegisterCodec reg =
     Option.bind (RegisterConcrete MsgCreateTaskT ''taskreg/MsgCreateTask'' reg) (\<lambda>reg.
     Option.bind (RegisterConcrete MsgAssignTaskT ''taskreg/MsgAssignTask'' reg) (\<lambda>reg.
       RegisterConcrete MsgCompleteTaskT ''taskreg/MsgCompleteTask'' reg))"

text \<open>gRPC service descriptors: the methods with their handlers.\<close>

record 'h ServiceDesc =
  sd_ServiceName :: string
  sd_Methods :: "(string \<times> 'h) list"
  sd_Metadata :: string

datatype msg_handler = CreateTask_Handler | AssignTask_Handler | CompleteTask_Handler

datatype query_handler = Task_Handler | ListTasks_Handler

definition Msg_serviceDesc :: "msg_handler ServiceDesc" where
  "Msg_serviceDesc =
     \<lparr>sd_ServiceName = ''mychain.taskreg.v1.Msg'',
      sd_Methods = [(''CreateTask'', CreateTask_Handler), (''AssignTask'', AssignTask_Handler),
        (''CompleteTask'', CompleteTask_Handler)],
      sd_Metadata = ''mychain/taskreg/v1/tx.proto''\<rparr>"

definition Query_serviceDesc :: "query_handler ServiceDesc" where
  "Query_serviceDesc =
     \<lparr>sd_ServiceName = ''mychain.taskreg.v1.Query'',
      sd_Methods = [(''Task'', Task_Handler), (''ListTasks'', ListTasks_Handler)],
      sd_Metadata = ''mychain/taskreg/v1/query.proto''\<rparr>"

text \<open>The interface registry: the implementations of \<^verbatim>\<open>sdk.Msg\<close>, and the service descriptors.\<close>

record interface_registry =
  ir_Msgs :: "message_type list"
  ir_Services :: "msg_handler ServiceDesc list"

definition RegisterInterfaces :: "interface_registry \<Rightarrow> interface_registry" where
  "RegisterInterfaces registry =
     (let registry = registry\<lparr>ir_Msgs := ir_Msgs registry @ [MsgCreateTaskT, MsgAssignTaskT, MsgCompleteTaskT]\<rparr>
      in registry\<lparr>ir_Services := ir_Services registry @ [Msg_serviceDesc]\<rparr>)"

section \<open>module.go\<close>

definition AppModuleBasic_Name :: string where
  "AppModuleBasic_Name = ModuleName"

definition AppModuleBasic_RegisterLegacyAminoCodec :: "amino \<Rightarrow> amino option" where
  "AppModuleBasic_RegisterLegacyAminoCodec reg = RegisterCodec reg"

definition AppModuleBasic_RegisterInterfaces :: "interface_registry \<Rightarrow> interface_registry" where
  "AppModuleBasic_RegisterInterfaces registry = RegisterInterfaces registry"

text \<open>No routes: the API backend serves HTTP.\<close>

definition AppModuleBasic_RegisterGRPCGatewayRoutes :: "'mux \<Rightarrow> 'mux" where
  "AppModuleBasic_RegisterGRPCGatewayRoutes mux = mux"

record ('s, 'cdc) AppModule =
  am_cdc :: 'cdc
  am_keeper :: "'s Keeper"

definition NewAppModule :: "'cdc \<Rightarrow> 's Keeper \<Rightarrow> ('s, 'cdc) AppModule" where
  "NewAppModule codec keeper = \<lparr>am_cdc = codec, am_keeper = keeper\<rparr>"

definition AppModule_ConsensusVersion :: u64 where
  "AppModule_ConsensusVersion = 1"

text \<open>The two gRPC routers of a configurator.\<close>

record 's configurator =
  cfg_MsgServer :: "(msg_handler ServiceDesc \<times> 's ctx MsgServer) list"
  cfg_QueryServer :: "(query_handler ServiceDesc \<times> 's ctx QueryServer) list"

definition RegisterMsgServer ::
  "'s ctx MsgServer \<Rightarrow> (msg_handler ServiceDesc \<times> 's ctx MsgServer) list
    \<Rightarrow> (msg_handler ServiceDesc \<times> 's ctx MsgServer) list" where
  "RegisterMsgServer srv s = s @ [(Msg_serviceDesc, srv)]"

definition RegisterQueryServer ::
  "'s ctx QueryServer \<Rightarrow> (query_handler ServiceDesc \<times> 's ctx QueryServer) list
    \<Rightarrow> (query_handler ServiceDesc \<times> 's ctx QueryServer) list" where
  "RegisterQueryServer srv s = s @ [(Query_serviceDesc, srv)]"

definition AppModule_RegisterServices :: "('s, 'cdc) AppModule \<Rightarrow> 's configurator \<Rightarrow> 's configurator" where
  "AppModule_RegisterServices am cfg =
     (let cfg = cfg\<lparr>cfg_MsgServer := RegisterMsgServer (NewMsgServerImpl (am_keeper am)) (cfg_MsgServer cfg)\<rparr>
      in cfg\<lparr>cfg_QueryServer := RegisterQueryServer (NewQueryServerImpl (am_keeper am)) (cfg_QueryServer cfg)\<rparr>)"

end
