(* ===== verification/Descriptor_Props.thy ===== *)
theory Descriptor_Props
  imports Taskreg_Module Task_Props
begin

text \<open>
  The hand-written descriptors against the code they describe: the tables agree, the encoders write
  what the descriptors prescribe, the annotated signer field holds the account that the handlers
  check, and the registered services are the declared ones.
\<close>

section \<open>Tables\<close>

definition method_path :: "FileDescriptorProto \<Rightarrow> ServiceDescriptorProto \<Rightarrow> MethodDescriptorProto \<Rightarrow> string" where
  "method_path fd sd m = ''/'' @ full_name fd (sdp_Name sd) @ ''/'' @ mdp_Name m"

definition method_paths :: "FileDescriptorProto \<Rightarrow> string list" where
  "method_paths fd = concat (map (\<lambda>sd. map (method_path fd sd) (sdp_Method sd)) (fp_Service fd))"

lemma paths:
  "method_paths (tx_file pw) = [''/mychain.taskreg.v1.Msg/CreateTask'', ''/mychain.taskreg.v1.Msg/AssignTask'',
     ''/mychain.taskreg.v1.Msg/CompleteTask'']"
  "method_paths query_file = [''/mychain.taskreg.v1.Query/Task'', ''/mychain.taskreg.v1.Query/ListTasks'']"
  by (simp_all add: method_paths_def method_path_def file_defs full_name_def)

lemma registered_bytes:
  assumes "registerProtoFile L fd reg = Some (reg', gz)"
  shows "reg' = reg(fp_Name fd \<mapsto> gz)" "\<exists>b. dl_Marshal L fd = Inr b \<and> dl_gzip L b = Inr gz"
  using assms by (auto simp: registerProtoFile_def split: sum.splits)

lemma file_names [simp]:
  "fp_Name (tx_file pw) = ''mychain/taskreg/v1/tx.proto''"
  "fp_Name types_file = ''mychain/taskreg/v1/types.proto''"
  "fp_Name query_file = ''mychain/taskreg/v1/query.proto''"
  "fp_Name genesis_file = ''mychain/taskreg/v1/genesis.proto''"
  by (simp_all add: file_defs)

text \<open>The index that a message's \<^verbatim>\<open>Descriptor\<close> returns is that of its descriptor in the file.\<close>

definition indexed :: "file_descriptors \<Rightarrow> FileDescriptorProto \<Rightarrow> bytes \<Rightarrow> message_type \<Rightarrow> string \<Rightarrow> bool" where
  "indexed D fd gz t name \<longleftrightarrow> (\<exists>i < length (fp_MessageType fd). Descriptor D t = (gz, [i])
     \<and> name = full_name fd (dp_Name (fp_MessageType fd ! i)))"

lemma indexed_tx: "(t, name) \<in> set tx_types \<Longrightarrow> indexed D (tx_file pw) (fileDescriptor_tx D) t name"
  by (auto simp: tx_types_def indexed_def tx_file_def full_name_def)

lemma indexed_types: "(t, name) \<in> set types_types \<Longrightarrow> indexed D types_file (fileDescriptor_types D) t name"
  by (auto simp: types_types_def indexed_def types_file_def full_name_def)

lemma indexed_query: "(t, name) \<in> set query_types \<Longrightarrow> indexed D query_file (fileDescriptor_query D) t name"
  by (auto simp: query_types_def indexed_def query_file_def full_name_def)

lemma indexed_genesis: "(t, name) \<in> set genesis_types \<Longrightarrow> indexed D genesis_file (fileDescriptor_genesis D) t name"
  by (auto simp: genesis_types_def indexed_def genesis_file_def full_name_def)

text \<open>After a complete initialisation every file is registered under its name.\<close>

definition stored :: "descriptor_lib \<Rightarrow> file_registry \<Rightarrow> FileDescriptorProto \<Rightarrow> bytes \<Rightarrow> bool" where
  "stored L reg fd gz \<longleftrightarrow> reg (fp_Name fd) = Some gz \<and> (\<exists>b. dl_Marshal L fd = Inr b \<and> dl_gzip L b = Inr gz)"

lemma init_stored:
  assumes "init_descriptors pw L reg = Some (reg', D)"
  shows "stored L reg' (tx_file pw) (fileDescriptor_tx D)" "stored L reg' types_file (fileDescriptor_types D)"
    "stored L reg' query_file (fileDescriptor_query D)" "stored L reg' genesis_file (fileDescriptor_genesis D)"
proof -
  obtain r1 r2 r3 tx ty qu ge where
    f: "registerProtoFile L (tx_file pw) reg = Some (r1, tx)" "registerProtoFile L types_file r1 = Some (r2, ty)"
       "registerProtoFile L query_file r2 = Some (r3, qu)" "registerProtoFile L genesis_file r3 = Some (reg', ge)"
    and D: "D = \<lparr>fileDescriptor_tx = tx, fileDescriptor_types = ty, fileDescriptor_query = qu, fileDescriptor_genesis = ge\<rparr>"
    using assms
    by (auto simp: init_descriptors_def registerTxFileDescriptor_def registerTypesFileDescriptor_def
        registerQueryFileDescriptor_def registerGenesisFileDescriptor_def bind_eq_Some_conv)
  note r = registered_bytes(1) [OF f(1)] registered_bytes(1) [OF f(2)] registered_bytes(1) [OF f(3)]
    registered_bytes(1) [OF f(4)]
  show "stored L reg' (tx_file pw) (fileDescriptor_tx D)" "stored L reg' types_file (fileDescriptor_types D)"
    "stored L reg' query_file (fileDescriptor_query D)" "stored L reg' genesis_file (fileDescriptor_genesis D)"
    using registered_bytes(2) [OF f(1)] registered_bytes(2) [OF f(2)] registered_bytes(2) [OF f(3)]
      registered_bytes(2) [OF f(4)]
    by (simp_all add: stored_def r D)
qed

text \<open>The tables agree: after the package is loaded, the bytes and the index that the
  \<^verbatim>\<open>Descriptor\<close> method of a message returns are those of a registered file and of the message in it
  whose full name is the one the message is registered under; and the enum is described as it is
  registered.\<close>

theorem descriptor_tables:
  assumes "init_descriptors pw L reg = Some (reg', D)"
    and "(t, name) \<in> set (tx_types @ types_types @ query_types @ genesis_types)"
  shows "\<exists>fd gz b i. fd \<in> set (all_files pw) \<and> Descriptor D t = (gz, [i]) \<and> i < length (fp_MessageType fd)
      \<and> name = full_name fd (dp_Name (fp_MessageType fd ! i))
      \<and> reg' (fp_Name fd) = Some gz \<and> dl_Marshal L fd = Inr b \<and> dl_gzip L b = Inr gz
      \<and> (\<forall>n v. map_of (edp_Value (fp_EnumType types_file ! 0)) n = Some v
          \<longleftrightarrow> map_of (fst (snd registered_enum)) v = Some n)"
proof -
  have enum: "map_of (edp_Value (fp_EnumType types_file ! 0)) n = Some v
      \<longleftrightarrow> map_of (fst (snd registered_enum)) v = Some n" for n v
    by (auto simp: types_file_def registered_enum_def TaskStatus_name_def)
  have "\<exists>fd gz. fd \<in> set (all_files pw) \<and> indexed D fd gz t name \<and> stored L reg' fd gz"
  proof -
    from assms(2) consider "(t, name) \<in> set tx_types" | "(t, name) \<in> set types_types"
      | "(t, name) \<in> set query_types" | "(t, name) \<in> set genesis_types" by auto
    then show ?thesis
    proof cases
      case 1
      show ?thesis
        by (rule exI [of _ "tx_file pw"], rule exI, intro conjI)
          (simp add: all_files_def, rule indexed_tx [OF 1], rule init_stored(1) [OF assms(1)])
    next
      case 2
      show ?thesis
        by (rule exI [of _ types_file], rule exI, intro conjI)
          (simp add: all_files_def, rule indexed_types [OF 2], rule init_stored(2) [OF assms(1)])
    next
      case 3
      show ?thesis
        by (rule exI [of _ query_file], rule exI, intro conjI)
          (simp add: all_files_def, rule indexed_query [OF 3], rule init_stored(3) [OF assms(1)])
    next
      case 4
      show ?thesis
        by (rule exI [of _ genesis_file], rule exI, intro conjI)
          (simp add: all_files_def, rule indexed_genesis [OF 4], rule init_stored(4) [OF assms(1)])
    qed
  qed
  then show ?thesis unfolding indexed_def stored_def using enum by blast
qed

theorem descriptor_tables_witness:
  "\<exists>reg' D fd gz. init_descriptors std_wire \<lparr>dl_Marshal = (\<lambda>fd. Inr (bytes_of (fp_Name fd))), dl_gzip = Inr\<rparr>
      (\<lambda>_. None) = Some (reg', D)
    \<and> fd \<in> set (all_files std_wire) \<and> Descriptor D QueryTaskResponseT = (gz, [1]) \<and> reg' (fp_Name fd) = Some gz
    \<and> full_name fd (dp_Name (fp_MessageType fd ! 1)) = ''mychain.taskreg.v1.QueryTaskResponse''"
proof -
  let ?L = "\<lparr>dl_Marshal = (\<lambda>fd. Inr (bytes_of (fp_Name fd))), dl_gzip = Inr\<rparr>"
  obtain reg' D where i: "init_descriptors std_wire ?L (\<lambda>_. None) = Some (reg', D)"
    by (simp add: init_descriptors_def registerTxFileDescriptor_def registerTypesFileDescriptor_def
        registerQueryFileDescriptor_def registerGenesisFileDescriptor_def registerProtoFile_def)
  have "(QueryTaskResponseT, ''mychain.taskreg.v1.QueryTaskResponse'') \<in>
      set (tx_types @ types_types @ query_types @ genesis_types)"
    by (simp add: query_types_def)
  from descriptor_tables [OF i this] obtain fd gz k where "fd \<in> set (all_files std_wire)"
    and d: "Descriptor D QueryTaskResponseT = (gz, [k])"
    and "''mychain.taskreg.v1.QueryTaskResponse'' = full_name fd (dp_Name (fp_MessageType fd ! k))"
    "reg' (fp_Name fd) = Some gz" by blast
  moreover have "k = 1" using d by simp
  ultimately show ?thesis using i by metis
qed

section \<open>Encodings\<close>

text \<open>C15: The encoders write what the descriptors prescribe: for a task, each of the three transaction
  messages, their response with an id, the query for a task and the genesis state, \<^verbatim>\<open>Marshal\<close> gives the
  proto3 encoding of the message's fields by the descriptor that is registered under its name, with
  the field numbers, types and order of the descriptor. In a query response the task is left out
  when its own encoding is empty.\<close>

theorem descriptor_encodings:
  assumes "wire_format pw"
  shows "Some (Task_Marshal pw t) = map_option Inr (encode_message pw ''mychain.taskreg.v1.Task'' (Task_values t))
    \<and> Some (case msg of CreateMsg m \<Rightarrow> MsgCreateTask_Marshal pw m | AssignMsg m \<Rightarrow> MsgAssignTask_Marshal pw m
        | CompleteMsg m \<Rightarrow> MsgCompleteTask_Marshal pw m) = map_option Inr (encode_message pw (TaskMsg_name msg) (TaskMsg_values msg))
    \<and> Some (MsgCreateTaskResponse_Marshal pw res) =
        map_option Inr (encode_message pw ''mychain.taskreg.v1.MsgCreateTaskResponse'' [(''id'', Uint64V (ctr_Id res))])
    \<and> Some (QueryTaskRequest_Marshal pw req) =
        map_option Inr (encode_message pw ''mychain.taskreg.v1.QueryTaskRequest'' [(''id'', Uint64V (qtr_Id req))])
    \<and> Some (QueryTaskResponse_Marshal pw resp) =
        map_option Inr (encode_message pw ''mychain.taskreg.v1.QueryTaskResponse''
          [(''task'', MessagesV (filter (\<lambda>bz. bz \<noteq> []) [Task_wire pw (qts_Task resp)]))])
    \<and> Some (GenesisState_Marshal pw gs) =
        map_option Inr (encode_message pw ''mychain.taskreg.v1.GenesisState''
          [(''tasks'', MessagesV (map (Task_wire pw) (gs_Tasks gs))), (''next_task_id'', Uint64V (gs_NextTaskId gs))])"
  unfolding wire_format.encode_TaskMsg [OF assms]
  by (simp add: wire_format.encode_Task [OF assms] wire_format.encode_id [OF assms]
      wire_format.encode_QueryTaskResponse [OF assms] wire_format.encode_GenesisState [OF assms]
      wire_format.Task_Marshal_eq [OF assms] wire_format.MsgCreateTaskResponse_Marshal_eq [OF assms]
      wire_format.QueryTaskRequest_Marshal_eq [OF assms] wire_format.QueryTaskResponse_Marshal_eq [OF assms]
      wire_format.GenesisState_Marshal_eq [OF assms] wire_format.scalar_fields [OF assms] del: filter.simps)

theorem descriptor_encodings_witness:
  "map_option Inr (encode_message std_wire ''mychain.taskreg.v1.Task'' [(''id'', Uint64V 1), (''title'', StringV ''t''),
      (''description'', StringV []), (''creator'', StringV ''a''), (''assignee'', StringV []), (''status'', EnumV 1)]) =
    Some (Task_Marshal std_wire \<lparr>task_Id = 1, task_Title = ''t'', task_Description = [], task_Creator = ''a'',
      task_Assignee = [], task_Status = 1\<rparr>)"
  using descriptor_encodings [OF std.wire_format_axioms, of "\<lparr>task_Id = 1, task_Title = ''t'', task_Description = [],
    task_Creator = ''a'', task_Assignee = [], task_Status = 1\<rparr>"]
  by (simp add: Task_values_def)

lemma annotated_field:
  "\<exists>md f fd. lookup_message pw (TaskMsg_name msg) = Some md \<and> dp_Options md = Some (signerOpts pw f)
    \<and> go_len f \<and> fd \<in> set (dp_Field md) \<and> fdp_Name fd = f \<and> fdp_Type fd = TYPE_STRING
    \<and> map_of (TaskMsg_values msg) f = Some (StringV (msg_actor msg))"
proof (cases msg)
  case (CreateMsg m)
  then show ?thesis
    by (intro exI [of _ "fp_MessageType (tx_file pw) ! 0"] exI [of _ "''creator''"] exI [of _ "strField ''creator'' 1"])
      (simp add: tx_file_def field_defs msg_actor_def go_len_def)
next
  case (AssignMsg m)
  then show ?thesis
    by (intro exI [of _ "fp_MessageType (tx_file pw) ! 2"] exI [of _ "''creator''"] exI [of _ "strField ''creator'' 1"])
      (simp add: tx_file_def field_defs msg_actor_def go_len_def)
next
  case (CompleteMsg m)
  then show ?thesis
    by (intro exI [of _ "fp_MessageType (tx_file pw) ! 4"] exI [of _ "''assignee''"] exI [of _ "strField ''assignee'' 1"])
      (simp add: tx_file_def field_defs msg_actor_def go_len_def)
qed

text \<open>C27: The signer annotations: the descriptor of each transaction message carries one raw option, the
  field 11110000 (\<^verbatim>\<open>cosmos.msg.v1.signer\<close>) with the name of a string field of the message, and this
  field holds the account that the handlers check. So if a message leaves a different task under an
  identifier, its annotated field held the creator of the OPEN task or the assignee of the ASSIGNED
  one. The exception is a creation when a task is already stored under the counter's value, which
  the new task replaces; its annotated field held the new task's creator.\<close>

theorem signer_annotations:
  assumes "wire_format pw" "keeper_env k m" "wf_at k m ctx" "go_msg msg"
    and "handle k ctx msg = Some (ctx', res)"
    and "reg_tasks (reg_at k m ctx) i = Some t" "reg_tasks (reg_at k m ctx') i \<noteq> Some t"
  shows "\<exists>md raw n f fd signer. lookup_message pw (TaskMsg_name msg) = Some md \<and> dp_Options md = Some raw
    \<and> ConsumeTag pw raw = (11110000, BytesType, n)
    \<and> ConsumeString pw (drop (nat n) raw) = (f, int (length raw) - n)
    \<and> fd \<in> set (dp_Field md) \<and> fdp_Name fd = f \<and> fdp_Type fd = TYPE_STRING
    \<and> map_of (TaskMsg_values msg) f = Some (StringV signer)
    \<and> (task_Status t = TASK_STATUS_OPEN \<and> signer = task_Creator t
       \<or> task_Status t = TASK_STATUS_ASSIGNED \<and> signer = task_Assignee t
       \<or> (\<exists>cm. msg = CreateMsg cm \<and> i = reg_next (reg_at k m ctx) \<and> signer = ct_Creator cm))"
proof -
  let ?r = "reg_at k m ctx"
  have own: "own_ids ?r" by (rule reg_wf_own_ids, rule keeper_env.registry_of_wf [OF assms(2,3)])
  have "case reg_handle ?r msg of Inl e \<Rightarrow> ctx' = ctx | Inr r' \<Rightarrow> reg_at k m ctx' = r'"
    using keeper_env.handle_refines [OF assms(2-4)] assms(5) by (auto split: sum.splits)
  then obtain r' where r': "reg_handle ?r msg = Inr r'" "reg_at k m ctx' = r'"
    using assms(6,7) by (auto split: sum.splits)
  have "task_Status t = TASK_STATUS_OPEN \<and> msg_actor msg = task_Creator t
      \<or> task_Status t = TASK_STATUS_ASSIGNED \<and> msg_actor msg = task_Assignee t
      \<or> (\<exists>cm. msg = CreateMsg cm \<and> i = reg_next ?r \<and> msg_actor msg = ct_Creator cm)"
    using task_step_of_handle [OF own assms(6) r'(1)] r'(2) assms(7)
    by (cases "i \<noteq> reg_next ?r \<or> (\<forall>cm. msg \<noteq> CreateMsg cm)") (auto elim!: task_stepE simp: msg_actor_def)
  moreover obtain md f fd where len: "go_len f" and "lookup_message pw (TaskMsg_name msg) = Some md
      \<and> dp_Options md = Some (signerOpts pw f) \<and> fd \<in> set (dp_Field md) \<and> fdp_Name fd = f \<and> fdp_Type fd = TYPE_STRING
      \<and> map_of (TaskMsg_values msg) f = Some (StringV (msg_actor msg))"
    using annotated_field [of pw msg] by blast
  moreover obtain n where "ConsumeTag pw (signerOpts pw f) = (11110000, BytesType, n)
      \<and> ConsumeString pw (drop (nat n) (signerOpts pw f)) = (f, int (length (signerOpts pw f)) - n)"
    using wire_format.signerOpts_reads [OF assms(1) len] by blast
  ultimately show ?thesis
    by (intro exI [of _ md] exI [of _ "signerOpts pw f"] exI [of _ n] exI [of _ f] exI [of _ fd]
        exI [of _ "msg_actor msg"]) blast
qed

theorem signer_annotations_witness:
  "\<exists>ctx1 ctx2 md raw n k. handle std_keeper ctx1 (AssignMsg alice_assigns) = Some (ctx2, Inr (AssignResponse MsgAssignTaskResponse))
    \<and> lookup_message std_wire ''mychain.taskreg.v1.MsgAssignTask'' = Some md \<and> dp_Options md = Some raw
    \<and> ConsumeString std_wire (drop n raw) = (''creator'', k) \<and> at_Creator alice_assigns = ''alice''"
proof -
  obtain ctx1 where 1: "wf_at std_keeper RBT.lookup ctx1"
    "reg_at std_keeper RBT.lookup ctx1 = reg_create empty_registry alice_creates"
    "ids_below (reg_at std_keeper RBT.lookup ctx1)" by (rule created_ctx)
  have go: "go_MsgAssignTask alice_assigns" "go_msg (AssignMsg alice_assigns)" by (simp_all add: instance_defs)
  obtain ctx2 where h: "AssignTask std_keeper ctx1 alice_assigns = Some (ctx2, Inr MsgAssignTaskResponse)"
    and r: "Inr (reg_at std_keeper RBT.lookup ctx2) = reg_assign (reg_create empty_registry alice_creates) alice_assigns"
    using keeper_env.AssignTask_refines [OF std_env 1(1) go(1)]
    by (auto simp del: reg_create_simps simp: 1(2) reg_assign_def created_task alice_assigns_def)
  have h': "handle std_keeper ctx1 (AssignMsg alice_assigns) = Some (ctx2, Inr (AssignResponse MsgAssignTaskResponse))"
    by (simp add: handle_def respond_def h)
  have "reg_tasks (reg_at std_keeper RBT.lookup ctx2) 1 \<noteq> reg_tasks (reg_create empty_registry alice_creates) 1"
    using r by (simp del: reg_create_simps add: reg_assign_def created_task alice_assigns_def)
  moreover obtain t where t: "reg_tasks (reg_at std_keeper RBT.lookup ctx1) 1 = Some t"
    and c: "task_Creator t = ''alice''" "task_Status t = TASK_STATUS_OPEN"
    using created_task by (simp del: reg_create_simps add: 1(2))
  ultimately have "reg_tasks (reg_at std_keeper RBT.lookup ctx2) 1 \<noteq> Some t" using 1(2) by simp
  from signer_annotations [OF std.wire_format_axioms std_env 1(1) go(2) h' t this]
  obtain md raw n f j signer where "lookup_message std_wire (TaskMsg_name (AssignMsg alice_assigns)) = Some md"
    and o: "dp_Options md = Some raw" "ConsumeString std_wire (drop (nat n) raw) = (f, j)"
    and f: "map_of (TaskMsg_values (AssignMsg alice_assigns)) f = Some (StringV signer)"
    and s: "task_Status t = TASK_STATUS_OPEN \<and> signer = task_Creator t
      \<or> task_Status t = TASK_STATUS_ASSIGNED \<and> signer = task_Assignee t
      \<or> (\<exists>cm. AssignMsg alice_assigns = CreateMsg cm \<and> signer = ct_Creator cm)" by blast
  then have "lookup_message std_wire ''mychain.taskreg.v1.MsgAssignTask'' = Some md" by simp
  moreover have "signer = ''alice''" using s c by (auto simp: status_defs)
  then have "f = ''creator''" using f by (auto simp: alice_assigns_def split: if_splits)
  moreover have "at_Creator alice_assigns = ''alice''" by (simp add: alice_assigns_def)
  ultimately show ?thesis using h' o by metis
qed

section \<open>References\<close>

lemma defined_names_simps:
  "defined_names (tx_file pw) = map (\<lambda>n. ''mychain.taskreg.v1.'' @ n) [''MsgCreateTask'', ''MsgCreateTaskResponse'',
     ''MsgAssignTask'', ''MsgAssignTaskResponse'', ''MsgCompleteTask'', ''MsgCompleteTaskResponse'']"
  "defined_names types_file = map (\<lambda>n. ''mychain.taskreg.v1.'' @ n) [''Task'', ''TaskStatus'']"
  "defined_names query_file = map (\<lambda>n. ''mychain.taskreg.v1.'' @ n) [''QueryTaskRequest'', ''QueryTaskResponse'',
     ''QueryListTasksRequest'', ''QueryListTasksResponse'']"
  "defined_names genesis_file = map (\<lambda>n. ''mychain.taskreg.v1.'' @ n) [''GenesisState'']"
  by (simp_all add: defined_names_def file_defs full_name_def)

lemma names_distinct: "distinct (concat (map defined_names (all_files pw)))"
proof -
  have "concat (map defined_names (all_files pw)) = map (\<lambda>n. ''mychain.taskreg.v1.'' @ n)
      [''MsgCreateTask'', ''MsgCreateTaskResponse'', ''MsgAssignTask'', ''MsgAssignTaskResponse'', ''MsgCompleteTask'',
       ''MsgCompleteTaskResponse'', ''Task'', ''TaskStatus'', ''QueryTaskRequest'', ''QueryTaskResponse'',
       ''QueryListTasksRequest'', ''QueryListTasksResponse'', ''GenesisState'']"
    by (simp only: all_files_def defined_names_simps map_append concat.simps list.map append.simps append_Nil2)
  then show ?thesis by (simp only: distinct_map inj_on_def append_same_eq) simp
qed

lemma numbers_distinct:
  "list_all (\<lambda>fd. list_all (\<lambda>md. distinct (map fdp_Number (dp_Field md))) (fp_MessageType fd)) (all_files pw)"
  by (simp add: all_files_def file_defs field_defs)

lemma referenced_names_simps:
  "referenced_names (tx_file pw) = map (\<lambda>n. ''.mychain.taskreg.v1.'' @ n) [''MsgCreateTask'', ''MsgCreateTaskResponse'',
     ''MsgAssignTask'', ''MsgAssignTaskResponse'', ''MsgCompleteTask'', ''MsgCompleteTaskResponse'']"
  "referenced_names types_file = [''.mychain.taskreg.v1.TaskStatus'']"
  "referenced_names query_file = [''.mychain.taskreg.v1.Task'', ''.cosmos.base.query.v1beta1.PageRequest'',
     ''.mychain.taskreg.v1.Task'', ''.cosmos.base.query.v1beta1.PageResponse''] @
     map (\<lambda>n. ''.mychain.taskreg.v1.'' @ n) [''QueryTaskRequest'', ''QueryTaskResponse'',
     ''QueryListTasksRequest'', ''QueryListTasksResponse'']"
  "referenced_names genesis_file = [''.mychain.taskreg.v1.Task'']"
  by (simp_all add: referenced_names_def field_references_def file_defs field_defs)

lemma resolves_own:
  "fd \<in> set (all_files pw) \<Longrightarrow> set names \<subseteq> (\<lambda>n. CHR ''.'' # n) ` set (defined_names fd) \<Longrightarrow> list_all (resolves pw fd) names"
  unfolding list_all_iff resolves_def by blast

lemma references_resolve: "list_all (\<lambda>fd. list_all (resolves pw fd) (referenced_names fd)) (all_files pw)"
proof -
  have files: "tx_file pw \<in> set (all_files pw)" "types_file \<in> set (all_files pw)"
    "query_file \<in> set (all_files pw)" "genesis_file \<in> set (all_files pw)" by (simp_all add: all_files_def)
  have task: "resolves pw fd ''.mychain.taskreg.v1.Task''"
    if "''mychain/taskreg/v1/types.proto'' \<in> set (fp_Dependency fd)" for fd
    unfolding resolves_def
    by (rule disjI1, rule bexI [of _ types_file]) (use that files in \<open>simp_all add: defined_names_simps\<close>)
  have page: "resolves pw query_file ''.cosmos.base.query.v1beta1.PageRequest''"
    "resolves pw query_file ''.cosmos.base.query.v1beta1.PageResponse''"
    unfolding resolves_def by (rule disjI2, simp add: query_file_def)+
  have "list_all (resolves pw (tx_file pw)) (referenced_names (tx_file pw))"
    by (rule resolves_own [OF files(1)]) (simp add: defined_names_simps referenced_names_simps)
  moreover have "list_all (resolves pw types_file) (referenced_names types_file)"
    by (rule resolves_own [OF files(2)]) (simp add: defined_names_simps referenced_names_simps)
  moreover have "list_all (resolves pw query_file) (referenced_names query_file)"
  proof -
    have "''mychain/taskreg/v1/types.proto'' \<in> set (fp_Dependency query_file)" by (simp add: query_file_def)
    moreover have "list_all (resolves pw query_file) (map (\<lambda>n. ''.mychain.taskreg.v1.'' @ n)
        [''QueryTaskRequest'', ''QueryTaskResponse'', ''QueryListTasksRequest'', ''QueryListTasksResponse''])"
      by (rule resolves_own [OF files(3)]) (simp add: defined_names_simps)
    ultimately show ?thesis
      unfolding referenced_names_simps list_all_append using task page by (simp only: list.pred_inject)
  qed
  moreover have "list_all (resolves pw genesis_file) (referenced_names genesis_file)"
    using task [of genesis_file] by (simp add: referenced_names_simps) (simp add: genesis_file_def)
  ultimately show ?thesis by (simp only: all_files_def list.pred_inject)
qed

text \<open>Nothing dangles: every message and enum that a file names as the type of a field or as the input
  or output of a method is defined in the file itself or in one it declares as a dependency; no
  full name is defined twice; the field numbers of a message are different; and the full method names
  that the gRPC handlers pass to an interceptor and the query client invokes are those of the services
  declared in the descriptors.\<close>

theorem descriptor_references:
  shows "list_all (\<lambda>fd. list_all (resolves pw fd) (referenced_names fd)) (all_files pw)
    \<and> distinct (concat (map defined_names (all_files pw)))
    \<and> list_all (\<lambda>fd. list_all (\<lambda>md. distinct (map fdp_Number (dp_Field md))) (fp_MessageType fd)) (all_files pw)
    \<and> Msg_CreateTask_Handler srv ctx (\<lambda>_. Some (m1, None)) (Some call1) =
        call1 ctx m1 (method_paths (tx_file pw) ! 0) (srv_CreateTask srv)
    \<and> Msg_AssignTask_Handler srv ctx (\<lambda>_. Some (m2, None)) (Some call2) =
        call2 ctx m2 (method_paths (tx_file pw) ! 1) (srv_AssignTask srv)
    \<and> Msg_CompleteTask_Handler srv ctx (\<lambda>_. Some (m3, None)) (Some call3) =
        call3 ctx m3 (method_paths (tx_file pw) ! 2) (srv_CompleteTask srv)
    \<and> Query_Task_Handler qsrv ctx (\<lambda>_. Some (m4, None)) (Some call4) =
        call4 ctx m4 (method_paths query_file ! 0) (srv_Task qsrv)
    \<and> Query_ListTasks_Handler qsrv ctx (\<lambda>_. Some (m5, None)) (Some call5) =
        call5 ctx m5 (method_paths query_file ! 1) (srv_ListTasks qsrv)
    \<and> queryClient_Task (\<lambda>path q out. if path = method_paths query_file ! 0 then f q out else None) m4 =
        queryClient_Task (\<lambda>path. f) m4
    \<and> queryClient_ListTasks (\<lambda>path q out. if path = method_paths query_file ! 1 then g q out else None) m5 =
        queryClient_ListTasks (\<lambda>path. g) m5"
  using references_resolve names_distinct numbers_distinct
  by (simp add: Msg_CreateTask_Handler_def Msg_AssignTask_Handler_def Msg_CompleteTask_Handler_def
      Query_Task_Handler_def Query_ListTasks_Handler_def queryClient_Task_def queryClient_ListTasks_def paths)

section \<open>Services\<close>

text \<open>A runtime hands over a message: its decoder gives the message and there is no interceptor, or
  there is one that calls the handler with the message, whatever was decoded.\<close>

definition delivers :: "'i \<Rightarrow> 'i \<Rightarrow> 'i decoder \<Rightarrow> ('c, 'i, 'o) interceptor \<Rightarrow> bool" where
  "delivers zero msg dec interceptor \<longleftrightarrow>
     (\<exists>inp. dec zero = Some (inp, None)
        \<and> (case interceptor of
             None \<Rightarrow> inp = msg
           | Some call \<Rightarrow> \<forall>ctx method handler. call ctx inp method handler = handler ctx msg))"

text \<open>A method handler that answers every message it is handed as \<open>run\<close> does.\<close>

definition serves ::
  "('c \<Rightarrow> 'i decoder \<Rightarrow> ('c, 'i, 'o) interceptor \<Rightarrow> ('c, 'o) reply) \<Rightarrow> 'i \<Rightarrow> 'i \<Rightarrow> ('o \<Rightarrow> TaskResponse)
    \<Rightarrow> ('c \<Rightarrow> ('c \<times> (task_error + TaskResponse)) option) \<Rightarrow> bool" where
  "serves method_handler zero msg response run \<longleftrightarrow>
     (\<forall>ctx dec interceptor. delivers zero msg dec interceptor \<longrightarrow>
        map_option (map_prod id (map_sum id response)) (method_handler ctx dec interceptor) =
        map_option (map_prod id (map_sum ServerError id)) (run ctx))"

fun answers :: "msg_handler \<Rightarrow> 's ctx MsgServer \<Rightarrow> 's Keeper \<Rightarrow> TaskMsg \<Rightarrow> bool" where
  "answers CreateTask_Handler srv k (CreateMsg cm) \<longleftrightarrow>
     serves (Msg_CreateTask_Handler srv) zero_MsgCreateTask cm CreateResponse (\<lambda>ctx. handle k ctx (CreateMsg cm))"
| "answers AssignTask_Handler srv k (AssignMsg am) \<longleftrightarrow>
     serves (Msg_AssignTask_Handler srv) zero_MsgAssignTask am AssignResponse (\<lambda>ctx. handle k ctx (AssignMsg am))"
| "answers CompleteTask_Handler srv k (CompleteMsg pm) \<longleftrightarrow>
     serves (Msg_CompleteTask_Handler srv) zero_MsgCompleteTask pm CompleteResponse (\<lambda>ctx. handle k ctx (CompleteMsg pm))"
| "answers _ srv k _ \<longleftrightarrow> False"

text \<open>A decoder of the bytes that hands over the message.\<close>

fun decodes :: "protowire \<Rightarrow> TaskMsg \<Rightarrow> bytes \<Rightarrow> bool" where
  "decodes pw (CreateMsg cm) bz \<longleftrightarrow> delivers zero_MsgCreateTask cm (proto_dec (MsgCreateTask_Unmarshal pw) bz)
     (None :: (unit, MsgCreateTask, MsgCreateTaskResponse) interceptor)"
| "decodes pw (AssignMsg am) bz \<longleftrightarrow> delivers zero_MsgAssignTask am (proto_dec (MsgAssignTask_Unmarshal pw) bz)
     (None :: (unit, MsgAssignTask, MsgAssignTaskResponse) interceptor)"
| "decodes pw (CompleteMsg pm) bz \<longleftrightarrow> delivers zero_MsgCompleteTask pm (proto_dec (MsgCompleteTask_Unmarshal pw) bz)
     (None :: (unit, MsgCompleteTask, MsgCompleteTaskResponse) interceptor)"

lemma map_sum_Inr: "map_sum f g x = Inr y \<Longrightarrow> (\<And>z. x = Inr z \<Longrightarrow> g z = y \<Longrightarrow> P) \<Longrightarrow> P"
  by (cases x) simp_all

lemma servesD:
  "serves method_handler zero msg response run \<Longrightarrow> delivers zero msg dec interceptor \<Longrightarrow>
    map_option (map_prod id (map_sum id response)) (method_handler ctx dec interceptor) =
    map_option (map_prod id (map_sum ServerError id)) (run ctx)"
  by (simp add: serves_def)

lemma serves_handle:
  "serves (Msg_CreateTask_Handler (NewMsgServerImpl k)) zero_MsgCreateTask cm CreateResponse (\<lambda>ctx. handle k ctx (CreateMsg cm))"
  "serves (Msg_AssignTask_Handler (NewMsgServerImpl k)) zero_MsgAssignTask am AssignResponse (\<lambda>ctx. handle k ctx (AssignMsg am))"
  "serves (Msg_CompleteTask_Handler (NewMsgServerImpl k)) zero_MsgCompleteTask pm CompleteResponse
     (\<lambda>ctx. handle k ctx (CompleteMsg pm))"
  by (auto simp: serves_def delivers_def Msg_CreateTask_Handler_def Msg_AssignTask_Handler_def
      Msg_CompleteTask_Handler_def NewMsgServerImpl_def server_result_def handle_def respond_def
      option.map_comp sum.map_comp comp_def split_def map_prod_def split: option.splits)

lemma encoding_decodes:
  assumes "wire_format pw" "go_msg msg" "encode_message pw (TaskMsg_name msg) (TaskMsg_values msg) = Some bz"
  shows "decodes pw msg bz"
proof -
  have enc: "(case msg of CreateMsg m \<Rightarrow> MsgCreateTask_Marshal pw m | AssignMsg m \<Rightarrow> MsgAssignTask_Marshal pw m
      | CompleteMsg m \<Rightarrow> MsgCompleteTask_Marshal pw m) = Inr bz"
    using wire_format.encode_TaskMsg [OF assms(1), of msg] assms(3) by simp
  note unmarshal = wire_format.MsgCreateTask_Unmarshal_wire [OF assms(1)]
    wire_format.MsgAssignTask_Unmarshal_wire [OF assms(1)] wire_format.MsgCompleteTask_Unmarshal_wire [OF assms(1)]
  show ?thesis using enc assms(2)
    by (cases msg) (simp_all add: unmarshal delivers_def proto_dec_def go_msg_def)
qed

lemma declared_method:
  "\<exists>sd md h. fp_Service (tx_file pw) = [sd] \<and> md \<in> set (sdp_Method sd) \<and> mdp_InputType md = ''.'' @ TaskMsg_name msg
    \<and> map_of (sd_Methods Msg_serviceDesc) (mdp_Name md) = Some h \<and> answers h (NewMsgServerImpl k) k msg"
  using serves_handle by (cases msg) (simp_all add: tx_file_def Msg_serviceDesc_def ex_disj_distrib conj_disj_distribR)

lemma declared_services:
  "fp_Service (tx_file pw) = [sd] \<Longrightarrow> sd_ServiceName Msg_serviceDesc = full_name (tx_file pw) (sdp_Name sd)
    \<and> sd_Metadata Msg_serviceDesc = fp_Name (tx_file pw) \<and> map fst (sd_Methods Msg_serviceDesc) = map mdp_Name (sdp_Method sd)"
  "\<exists>qsd. fp_Service query_file = [qsd] \<and> sd_ServiceName Query_serviceDesc = full_name query_file (sdp_Name qsd)
    \<and> sd_Metadata Query_serviceDesc = fp_Name query_file \<and> map fst (sd_Methods Query_serviceDesc) = map mdp_Name (sdp_Method qsd)"
  by (auto simp: Msg_serviceDesc_def Query_serviceDesc_def tx_file_def query_file_def full_name_def)

text \<open>C39: From descriptors to handlers: \<open>RegisterServices\<close> adds to the message router one service, whose
  name, file and methods are those that the descriptors declare, with the keeper's server, and
  to the query router the query service. For each message the service has a method whose declared
  input is this message, and its handler, when the runtime hands it the message, answers as the
  keeper does; a decoder of the message's encoding by its descriptor does hand it over. Which
  method the runtime picks for a message is its own affair.\<close>

theorem registered_services:
  assumes "wire_format pw" "go_msg msg"
  shows "\<exists>desc qdesc sd qsd md h. cfg_MsgServer (AppModule_RegisterServices am cfg) =
      cfg_MsgServer cfg @ [(desc, NewMsgServerImpl (am_keeper am))]
    \<and> cfg_QueryServer (AppModule_RegisterServices am cfg) =
      cfg_QueryServer cfg @ [(qdesc, NewQueryServerImpl (am_keeper am))]
    \<and> fp_Service (tx_file pw) = [sd] \<and> fp_Service query_file = [qsd]
    \<and> sd_ServiceName desc = full_name (tx_file pw) (sdp_Name sd) \<and> sd_Metadata desc = fp_Name (tx_file pw)
    \<and> map fst (sd_Methods desc) = map mdp_Name (sdp_Method sd)
    \<and> sd_ServiceName qdesc = full_name query_file (sdp_Name qsd) \<and> sd_Metadata qdesc = fp_Name query_file
    \<and> map fst (sd_Methods qdesc) = map mdp_Name (sdp_Method qsd)
    \<and> md \<in> set (sdp_Method sd) \<and> mdp_InputType md = ''.'' @ TaskMsg_name msg
    \<and> map_of (sd_Methods desc) (mdp_Name md) = Some h
    \<and> answers h (NewMsgServerImpl (am_keeper am)) (am_keeper am) msg
    \<and> (\<forall>bz. encode_message pw (TaskMsg_name msg) (TaskMsg_values msg) = Some bz \<longrightarrow> decodes pw msg bz)"
proof -
  have "cfg_MsgServer (AppModule_RegisterServices am cfg) =
      cfg_MsgServer cfg @ [(Msg_serviceDesc, NewMsgServerImpl (am_keeper am))]"
    "cfg_QueryServer (AppModule_RegisterServices am cfg) =
      cfg_QueryServer cfg @ [(Query_serviceDesc, NewQueryServerImpl (am_keeper am))]"
    by (simp_all add: AppModule_RegisterServices_def RegisterMsgServer_def RegisterQueryServer_def Let_def)
  with declared_method [of pw msg "am_keeper am"] declared_services(1) [of pw] declared_services(2)
    encoding_decodes [OF assms]
  show ?thesis by metis
qed

text \<open>A creation through the registered service, with an interceptor as the message router uses it: it
  ignores what was decoded.\<close>

theorem registered_services_witness:
  "\<exists>desc srv h ctx'. cfg_MsgServer (AppModule_RegisterServices (NewAppModule () std_keeper)
        \<lparr>cfg_MsgServer = [], cfg_QueryServer = []\<rparr>) = [(desc, srv)]
    \<and> map_of (sd_Methods desc) ''CreateTask'' = Some h \<and> h = CreateTask_Handler
    \<and> Msg_CreateTask_Handler srv ctx0 (\<lambda>m. Some (m, None)) (Some (\<lambda>ctx req method handler. handler ctx alice_creates))
      = Some (ctx', Inr \<lparr>ctr_Id = 1\<rparr>)"
proof -
  let ?am = "NewAppModule () std_keeper" and ?cfg = "\<lparr>cfg_MsgServer = [], cfg_QueryServer = []\<rparr>"
  have go: "go_msg (CreateMsg alice_creates)" by (simp add: instance_defs)
  have am: "am_keeper ?am = std_keeper" by (simp add: NewAppModule_def)
  obtain ctx' where h: "handle std_keeper ctx0 (CreateMsg alice_creates) = Some (ctx', Inr (CreateResponse \<lparr>ctr_Id = 1\<rparr>))"
    using keeper_env.CreateTask_refines [OF std_env, of ctx0 alice_creates] go
    by (auto simp: handle_def respond_def go_msg_def empty_registry_def)
  from registered_services [OF std.wire_format_axioms go, of ?am ?cfg] obtain desc sd md h where
    reg: "cfg_MsgServer (AppModule_RegisterServices ?am ?cfg) = [(desc, NewMsgServerImpl std_keeper)]"
    and md: "fp_Service (tx_file std_wire) = [sd]" "md \<in> set (sdp_Method sd)"
      "mdp_InputType md = ''.'' @ TaskMsg_name (CreateMsg alice_creates)"
      "map_of (sd_Methods desc) (mdp_Name md) = Some h"
    and ans: "answers h (NewMsgServerImpl std_keeper) std_keeper (CreateMsg alice_creates)"
    by (simp add: am) blast
  have "mdp_Name md = ''CreateTask''" using md(1-3) by (auto simp: tx_file_def)
  moreover have h': "h = CreateTask_Handler" using ans by (cases h) simp_all
  moreover from ans h' have "serves (Msg_CreateTask_Handler (NewMsgServerImpl std_keeper)) zero_MsgCreateTask alice_creates
      CreateResponse (\<lambda>ctx. handle std_keeper ctx (CreateMsg alice_creates))" by simp
  then have "map_option (map_prod id (map_sum id CreateResponse))
      (Msg_CreateTask_Handler (NewMsgServerImpl std_keeper) ctx0 (\<lambda>m. Some (m, None))
        (Some (\<lambda>ctx req method handler. handler ctx alice_creates))) =
      map_option (map_prod id (map_sum ServerError id)) (handle std_keeper ctx0 (CreateMsg alice_creates))"
    by (rule servesD) (simp add: delivers_def)
  then have "map_option (map_prod id (map_sum id CreateResponse))
      (Msg_CreateTask_Handler (NewMsgServerImpl std_keeper) ctx0 (\<lambda>m. Some (m, None))
        (Some (\<lambda>ctx req method handler. handler ctx alice_creates))) = Some (ctx', Inr (CreateResponse \<lparr>ctr_Id = 1\<rparr>))"
    by (simp add: h)
  then have "Msg_CreateTask_Handler (NewMsgServerImpl std_keeper) ctx0 (\<lambda>m. Some (m, None))
      (Some (\<lambda>ctx req method handler. handler ctx alice_creates)) = Some (ctx', Inr \<lparr>ctr_Id = 1\<rparr>)"
    by (auto elim!: map_sum_Inr)
  ultimately show ?thesis using reg md(4) by metis
qed

text \<open>Registration of the messages: the amino codec accepts them, and the messages that can be put into
  transactions are those whose descriptors name a signer.\<close>

theorem registered_messages:
  shows "\<exists>reg. RegisterCodec [] = Some reg \<and> set (map snd reg) = set (ir_Msgs (RegisterInterfaces \<lparr>ir_Msgs = [], ir_Services = []\<rparr>))
    \<and> ir_Msgs (RegisterInterfaces \<lparr>ir_Msgs = [], ir_Services = []\<rparr>) =
        map fst (filter (\<lambda>(t, name). Option.bind (lookup_message pw name) dp_Options \<noteq> None) tx_types)
    \<and> map (\<lambda>desc. map fst (sd_Methods desc)) (ir_Services (RegisterInterfaces \<lparr>ir_Msgs = [], ir_Services = []\<rparr>)) =
        map (\<lambda>sd. map mdp_Name (sdp_Method sd)) (fp_Service (tx_file pw))"
  by (simp add: RegisterCodec_def RegisterConcrete_def RegisterInterfaces_def tx_types_def tx_file_def
      Msg_serviceDesc_def insert_commute)

end
