(* ===== verification/App_Wiring.thy ===== *)
theory App_Wiring
  imports Taskreg_Module
begin

text \<open>
  \<^verbatim>\<open>mychain/app\<close>: how the application is put together from the modules of the SDK, of IBC, of CosmWasm
  and the task registry. What the libraries build is not looked into: a value that a library call
  returns is the term of the call, with the name of the function and its arguments. Library calls that
  return an error are decided by an argument \<open>attempt\<close>, and calls that only change a library object are
  recorded in order. Exported constants of the libraries (module names, store keys) are represented by
  the module they belong to; they are different strings. \<^verbatim>\<open>panic\<close> is \<open>None\<close>. The basic manager, the
  account permissions and the sets of store keys are Go maps, which have no order: they are listed here
  in the order of the source, and nothing that is proved depends on it.
\<close>

section \<open>Library values\<close>

datatype sdk_module =
    Auth | Bank | Staking | Mint | Distr | Slashing | Gov | Params | Consensus | Upgrade | Feegrant | Evidence
  | Capability | Crisis | IBC | Transfer | IBCFee | Wasm | Taskreg | Genutil | Vesting

datatype val =
    NilV
  | Str string
  | Num int
  | Flag bool
  | Name sdk_module
  | KVStoreKey sdk_module
  | TransientStoreKey sdk_module
  | MemoryStoreKey sdk_module
  | Call string "val list"

type_synonym attempt = "string \<Rightarrow> val list \<Rightarrow> string + val"

text \<open>A library object's method that returns nothing: receiver, method and arguments.\<close>

type_synonym effect = "val \<times> string \<times> val list"

section \<open>Tables of app.go\<close>

definition ModuleBasics :: "sdk_module list" where
  "ModuleBasics =
     [Auth, Genutil, Bank, Staking, Mint, Distr, Gov, Params, Crisis, Slashing, Feegrant, Upgrade, Evidence,
      Vesting, Consensus, Capability, IBC, IBCFee, Transfer, Wasm, Taskreg]"

datatype macc = FeeCollectorName | BondedPoolName | NotBondedPoolName | ModuleAccount sdk_module

datatype permission = Minter | Burner | StakingPerm

definition maccPerms :: "(macc \<times> permission list) list" where
  "maccPerms =
     [(FeeCollectorName, []),
      (ModuleAccount Distr, []),
      (ModuleAccount Mint, [Minter]),
      (BondedPoolName, [Burner, StakingPerm]),
      (NotBondedPoolName, [Burner, StakingPerm]),
      (ModuleAccount Gov, [Burner]),
      (ModuleAccount Transfer, [Minter, Burner]),
      (ModuleAccount IBCFee, []),
      (ModuleAccount Wasm, [Burner])]"

text \<open>The address of a module account is a library function; the result is a map with the value true.\<close>

definition BlockedAddresses :: "(macc \<Rightarrow> string) \<Rightarrow> string \<Rightarrow> bool option" where
  "BlockedAddresses address =
     foldl (\<lambda>modAccAddrs acc. modAccAddrs(address acc \<mapsto> True)) (\<lambda>_. None) (map fst maccPerms)"

definition NewKVStoreKeys :: "sdk_module list \<Rightarrow> sdk_module \<rightharpoonup> val" where
  "NewKVStoreKeys names = map_of (map (\<lambda>n. (n, KVStoreKey n)) names)"

definition store_names :: "sdk_module list" where
  "store_names =
     [Auth, Bank, Staking, Mint, Distr, Slashing, Gov, Params, Consensus, Upgrade, Feegrant, Evidence,
      Capability, Crisis, IBC, Transfer, IBCFee, Wasm, Taskreg]"

text \<open>Indexing a map with a missing key gives nil.\<close>

definition index :: "(sdk_module \<rightharpoonup> val) \<Rightarrow> sdk_module \<Rightarrow> val" where
  "index m k = (case m k of None \<Rightarrow> NilV | Some v \<Rightarrow> v)"

section \<open>encoding.go\<close>

record EncodingConfig =
  enc_InterfaceRegistry :: val
  enc_Codec :: val
  enc_TxConfig :: val
  enc_Amino :: val

definition bech32 :: "string \<Rightarrow> val" where
  "bech32 prefix = Call ''addresscodec.NewBech32Codec'' [Call prefix [Call ''sdk.GetConfig'' []]]"

definition MakeEncodingConfig :: "attempt \<Rightarrow> (EncodingConfig \<times> effect list) option" where
  "MakeEncodingConfig attempt =
     (let amino = Call ''codec.NewLegacyAmino'' []
      in case attempt ''types.NewInterfaceRegistryWithOptions''
            [Str ''gogoproto.HybridResolver'', bech32 ''GetBech32AccountAddrPrefix'', bech32 ''GetBech32ValidatorAddrPrefix''] of
           Inl err \<Rightarrow> None
         | Inr interfaceRegistry \<Rightarrow>
             (let cdc = Call ''codec.NewProtoCodec'' [interfaceRegistry];
                  txCfg = Call ''tx.NewTxConfig'' [cdc, Str ''tx.DefaultSignModes'']
              in Some (\<lparr>enc_InterfaceRegistry = interfaceRegistry, enc_Codec = cdc, enc_TxConfig = txCfg, enc_Amino = amino\<rparr>,
                  [(Str ''std'', ''RegisterLegacyAminoCodec'', [amino]),
                   (Str ''std'', ''RegisterInterfaces'', [interfaceRegistry])]
                  @ map (\<lambda>m. (Name m, ''RegisterLegacyAminoCodec'', [amino])) ModuleBasics
                  @ map (\<lambda>m. (Name m, ''RegisterInterfaces'', [interfaceRegistry])) ModuleBasics)))"

section \<open>ante.go\<close>

record HandlerOptions =
  ho_AccountKeeper :: val
  ho_BankKeeper :: val
  ho_ExtensionOptionChecker :: val
  ho_FeegrantKeeper :: val
  ho_SignModeHandler :: val
  ho_SigGasConsumer :: val
  ho_TxFeeChecker :: val
  ho_IBCKeeper :: val
  ho_WasmConfig :: val
  ho_WasmKeeper :: val
  ho_TXCounterStoreService :: val

datatype ante_error = ErrNilAccountKeeper | ErrNilBankKeeper | ErrNilSignModeHandler

fun ante_error_text :: "ante_error \<Rightarrow> string" where
  "ante_error_text ErrNilAccountKeeper = ''account keeper is nil''"
| "ante_error_text ErrNilBankKeeper = ''bank keeper is nil''"
| "ante_error_text ErrNilSignModeHandler = ''sign mode handler is nil''"

text \<open>The handler is the chain of its decorators; \<^verbatim>\<open>options.WasmConfig\<close> is dereferenced unchecked. The
  decorators are library values; that the constructor of the second one panics on a gas limit of zero
  is part of the library and not modelled.\<close>

definition NewAnteHandler :: "HandlerOptions \<Rightarrow> (ante_error + (string \<times> val list) list) option" where
  "NewAnteHandler options =
     (if ho_AccountKeeper options = NilV then Some (Inl ErrNilAccountKeeper)
      else if ho_BankKeeper options = NilV then Some (Inl ErrNilBankKeeper)
      else if ho_SignModeHandler options = NilV then Some (Inl ErrNilSignModeHandler)
      else if ho_WasmConfig options = NilV then None
      else Some (Inr
        [(''ante.NewSetUpContextDecorator'', []),
         (''wasmkeeper.NewLimitSimulationGasDecorator'', [Call ''SimulationGasLimit'' [ho_WasmConfig options]]),
         (''wasmkeeper.NewCountTXDecorator'', [ho_TXCounterStoreService options]),
         (''ante.NewExtensionOptionsDecorator'', [ho_ExtensionOptionChecker options]),
         (''ante.NewValidateBasicDecorator'', []),
         (''ante.NewTxTimeoutHeightDecorator'', []),
         (''ante.NewValidateMemoDecorator'', [ho_AccountKeeper options]),
         (''ante.NewConsumeGasForTxSizeDecorator'', [ho_AccountKeeper options]),
         (''ante.NewDeductFeeDecorator'', [ho_AccountKeeper options, ho_BankKeeper options, ho_FeegrantKeeper options,
           ho_TxFeeChecker options]),
         (''ante.NewSetPubKeyDecorator'', [ho_AccountKeeper options]),
         (''ante.NewValidateSigCountDecorator'', [ho_AccountKeeper options]),
         (''ante.NewSigGasConsumeDecorator'', [ho_AccountKeeper options, ho_SigGasConsumer options]),
         (''ante.NewSigVerificationDecorator'', [ho_AccountKeeper options, ho_SignModeHandler options]),
         (''ante.NewIncrementSequenceDecorator'', [ho_AccountKeeper options]),
         (''ibcante.NewRedundantRelayDecorator'', [ho_IBCKeeper options])]))"

section \<open>App\<close>

record params_keeper =
  pk_value :: val
  pk_subspaces :: "sdk_module list"

record ModuleManager =
  mm_Modules :: "(sdk_module \<times> val) list"
  mm_OrderBeginBlockers :: "sdk_module list"
  mm_OrderEndBlockers :: "sdk_module list"
  mm_OrderInitGenesis :: "sdk_module list"

text \<open>The embedded \<^verbatim>\<open>BaseApp\<close>, the fields of \<^verbatim>\<open>App\<close>, and the library calls made so far.\<close>

record App =
  BaseApp :: val
  app_cdc :: val
  app_appCodec :: val
  app_interfaceRegistry :: val
  app_txConfig :: val
  app_keys :: "sdk_module \<rightharpoonup> val"
  app_tkeys :: "sdk_module \<rightharpoonup> val"
  app_memKeys :: "sdk_module \<rightharpoonup> val"
  AccountKeeper :: val
  BankKeeper :: val
  StakingKeeper :: val
  SlashingKeeper :: val
  MintKeeper :: val
  DistrKeeper :: val
  GovKeeper :: val
  CrisisKeeper :: val
  UpgradeKeeper :: val
  ParamsKeeper :: params_keeper
  EvidenceKeeper :: val
  FeeGrantKeeper :: val
  ConsensusParamsKeeper :: val
  CapabilityKeeper :: val
  IBCKeeper :: val
  IBCFeeKeeper :: val
  TransferKeeper :: val
  WasmKeeper :: val
  TaskregKeeper :: val
  ScopedIBCKeeper :: val
  ScopedTransferKeeper :: val
  ScopedWasmKeeper :: val
  App_ModuleManager :: ModuleManager
  app_configurator :: val
  app_effects :: "effect list"

definition invoke :: "val \<Rightarrow> string \<Rightarrow> val list \<Rightarrow> App \<Rightarrow> App" where
  "invoke receiver meth args app = app\<lparr>app_effects := app_effects app @ [(receiver, meth, args)]\<rparr>"

text \<open>A subspace can be made once; asking for one that is not there gives the zero subspace.\<close>

definition Subspace :: "sdk_module \<Rightarrow> params_keeper \<Rightarrow> params_keeper option" where
  "Subspace m pk = (if m \<in> set (pk_subspaces pk) then None else Some (pk\<lparr>pk_subspaces := pk_subspaces pk @ [m]\<rparr>))"

fun subspaces :: "sdk_module list \<Rightarrow> params_keeper \<Rightarrow> params_keeper option" where
  "subspaces [] pk = Some pk"
| "subspaces (m # ms) pk = Option.bind (Subspace m pk) (subspaces ms)"

definition initParamsKeeper :: "val \<Rightarrow> val \<Rightarrow> val \<Rightarrow> val \<Rightarrow> params_keeper option" where
  "initParamsKeeper appCodec legacyAmino key tkey =
     (let paramsKeeper = \<lparr>pk_value = Call ''paramskeeper.NewKeeper'' [appCodec, legacyAmino, key, tkey], pk_subspaces = []\<rparr>
      in subspaces [Auth, Bank, Staking, Mint, Distr, Slashing, Gov, Crisis, IBC, Transfer, Wasm] paramsKeeper)"

definition GetSubspace :: "App \<Rightarrow> sdk_module \<Rightarrow> val" where
  "GetSubspace app moduleName =
     (if moduleName \<in> set (pk_subspaces (ParamsKeeper app))
      then Call ''GetSubspace'' [pk_value (ParamsKeeper app), Name moduleName] else NilV)"

section \<open>New, step by step\<close>

definition appName :: string where "appName = ''MyChainApp''"

definition no_params :: params_keeper where "no_params = \<lparr>pk_value = NilV, pk_subspaces = []\<rparr>"

definition no_modules :: ModuleManager where
  "no_modules = \<lparr>mm_Modules = [], mm_OrderBeginBlockers = [], mm_OrderEndBlockers = [], mm_OrderInitGenesis = []\<rparr>"

definition new_base :: "EncodingConfig \<Rightarrow> effect list \<Rightarrow> val \<Rightarrow> val \<Rightarrow> val \<Rightarrow> val list \<Rightarrow> App" where
  "new_base encodingConfig effs logger db traceStore baseAppOptions =
     (let appCodec = enc_Codec encodingConfig;
          legacyAmino = enc_Amino encodingConfig;
          interfaceRegistry = enc_InterfaceRegistry encodingConfig;
          txConfig = enc_TxConfig encodingConfig;
          bApp = Call ''baseapp.NewBaseApp'' ([Str appName, logger, db, Call ''TxDecoder'' [txConfig]] @ baseAppOptions);
          keys = NewKVStoreKeys store_names;
          tkeys = map_of [(Params, TransientStoreKey Params)];
          memKeys = map_of [(Capability, MemoryStoreKey Capability)]
      in \<lparr>BaseApp = bApp, app_cdc = legacyAmino, app_appCodec = appCodec, app_interfaceRegistry = interfaceRegistry,
          app_txConfig = txConfig, app_keys = keys, app_tkeys = tkeys, app_memKeys = memKeys,
          AccountKeeper = NilV, BankKeeper = NilV, StakingKeeper = NilV, SlashingKeeper = NilV, MintKeeper = NilV,
          DistrKeeper = NilV, GovKeeper = NilV, CrisisKeeper = NilV, UpgradeKeeper = NilV, ParamsKeeper = no_params,
          EvidenceKeeper = NilV, FeeGrantKeeper = NilV, ConsensusParamsKeeper = NilV, CapabilityKeeper = NilV,
          IBCKeeper = NilV, IBCFeeKeeper = NilV, TransferKeeper = NilV, WasmKeeper = NilV, TaskregKeeper = NilV,
          ScopedIBCKeeper = NilV, ScopedTransferKeeper = NilV, ScopedWasmKeeper = NilV,
          App_ModuleManager = no_modules, app_configurator = NilV,
          app_effects = effs @
            [(bApp, ''SetCommitMultiStoreTracer'', [traceStore]),
             (bApp, ''SetVersion'', [Str ''version.Version'']),
             (bApp, ''SetInterfaceRegistry'', [interfaceRegistry]),
             (bApp, ''SetTxEncoder'', [Call ''TxEncoder'' [txConfig]])]\<rparr>)"

definition govAuthority :: val where
  "govAuthority = Call ''String'' [Call ''authtypes.NewModuleAddress'' [Name Gov]]"

definition kvService :: "App \<Rightarrow> sdk_module \<Rightarrow> val" where
  "kvService app m = Call ''runtime.NewKVStoreService'' [index (app_keys app) m]"

definition scoped :: "App \<Rightarrow> sdk_module \<Rightarrow> val" where
  "scoped app m = Call ''ScopeToModule'' [CapabilityKeeper app, Name m]"

text \<open>Consensus parameters and capabilities, after the parameters.\<close>

definition build_ConsensusParamsKeeper :: "App \<Rightarrow> App" where
  "build_ConsensusParamsKeeper app = app\<lparr>ConsensusParamsKeeper := Call ''consensuskeeper.NewKeeper''
     [app_appCodec app, kvService app Consensus, govAuthority, Str ''runtime.EventService'']\<rparr>"

definition build_CapabilityKeeper :: "App \<Rightarrow> App" where
  "build_CapabilityKeeper app = app\<lparr>CapabilityKeeper := Call ''capabilitykeeper.NewKeeper''
     [app_appCodec app, index (app_keys app) Capability, index (app_memKeys app) Capability]\<rparr>"

definition new_params :: "App \<Rightarrow> App option" where
  "new_params app =
     Option.bind (initParamsKeeper (app_appCodec app) (app_cdc app) (index (app_keys app) Params)
         (index (app_tkeys app) Params)) (\<lambda>pk.
     let app = build_ConsensusParamsKeeper (app\<lparr>ParamsKeeper := pk\<rparr>);
         app = invoke (BaseApp app) ''SetParamStore'' [Call ''ParamsStore'' [ConsensusParamsKeeper app]] app
     in Some (build_CapabilityKeeper app))"

text \<open>One definition for each keeper that is built from the ones before.\<close>

definition build_AccountKeeper :: "App \<Rightarrow> App" where
  "build_AccountKeeper app = app\<lparr>AccountKeeper :=
      Call ''authkeeper.NewAccountKeeper'' [app_appCodec app, kvService app Auth,
      Str ''authtypes.ProtoBaseAccount'', Str ''maccPerms'', bech32 ''GetBech32AccountAddrPrefix'',
      Call ''GetBech32AccountAddrPrefix'' [Call ''sdk.GetConfig'' []], govAuthority]\<rparr>"

definition build_BankKeeper :: "val \<Rightarrow> App \<Rightarrow> App" where
  "build_BankKeeper logger app = app\<lparr>BankKeeper :=
      Call ''bankkeeper.NewBaseKeeper'' [app_appCodec app, kvService app Bank, AccountKeeper app,
      Str ''BlockedAddresses()'', govAuthority, logger]\<rparr>"

definition build_StakingKeeper :: "App \<Rightarrow> App" where
  "build_StakingKeeper app = app\<lparr>StakingKeeper :=
      Call ''stakingkeeper.NewKeeper'' [app_appCodec app, kvService app Staking, AccountKeeper app,
      BankKeeper app, govAuthority, bech32 ''GetBech32ValidatorAddrPrefix'',
      bech32 ''GetBech32ConsensusAddrPrefix'']\<rparr>"

definition build_MintKeeper :: "App \<Rightarrow> App" where
  "build_MintKeeper app = app\<lparr>MintKeeper :=
      Call ''mintkeeper.NewKeeper'' [app_appCodec app, kvService app Mint, StakingKeeper app,
      AccountKeeper app, BankKeeper app, Str ''authtypes.FeeCollectorName'', govAuthority]\<rparr>"

definition build_DistrKeeper :: "App \<Rightarrow> App" where
  "build_DistrKeeper app = app\<lparr>DistrKeeper :=
      Call ''distrkeeper.NewKeeper'' [app_appCodec app, kvService app Distr, AccountKeeper app, BankKeeper app,
      StakingKeeper app, Str ''authtypes.FeeCollectorName'', govAuthority]\<rparr>"

definition build_SlashingKeeper :: "App \<Rightarrow> App" where
  "build_SlashingKeeper app = app\<lparr>SlashingKeeper :=
      Call ''slashingkeeper.NewKeeper'' [app_appCodec app, app_cdc app, kvService app Slashing,
      StakingKeeper app, govAuthority]\<rparr>"

definition set_staking_hooks :: "App \<Rightarrow> App" where
  "set_staking_hooks app = invoke (StakingKeeper app) ''SetHooks'' [Call ''stakingtypes.NewMultiStakingHooks''
     [Call ''Hooks'' [DistrKeeper app], Call ''Hooks'' [SlashingKeeper app]]] app"

definition build_CrisisKeeper :: "App \<Rightarrow> App" where
  "build_CrisisKeeper app = app\<lparr>CrisisKeeper :=
      Call ''crisiskeeper.NewKeeper'' [app_appCodec app, kvService app Crisis, Num 5, BankKeeper app,
      Str ''authtypes.FeeCollectorName'', govAuthority, Call ''AddressCodec'' [AccountKeeper app]]\<rparr>"

definition build_FeeGrantKeeper :: "App \<Rightarrow> App" where
  "build_FeeGrantKeeper app = app\<lparr>FeeGrantKeeper :=
      Call ''feegrantkeeper.NewKeeper'' [app_appCodec app, kvService app Feegrant, AccountKeeper app]\<rparr>"

definition build_UpgradeKeeper :: "App \<Rightarrow> App" where
  "build_UpgradeKeeper app = app\<lparr>UpgradeKeeper :=
      Call ''upgradekeeper.NewKeeper'' [Str ''make(map[int64]bool)'', kvService app Upgrade, app_appCodec app,
      Str ''DefaultNodeHome'', BaseApp app, govAuthority]\<rparr>"

definition build_EvidenceKeeper :: "App \<Rightarrow> App" where
  "build_EvidenceKeeper app = app\<lparr>EvidenceKeeper :=
      Call ''evidencekeeper.NewKeeper'' [app_appCodec app, kvService app Evidence, StakingKeeper app,
      SlashingKeeper app, Call ''AddressCodec'' [AccountKeeper app],
      Call ''runtime.ProvideCometInfoService'' []]\<rparr>"

definition channelKeeper :: "App \<Rightarrow> val" where
  "channelKeeper app = Call ''ChannelKeeper'' [IBCKeeper app]"

definition portKeeper :: "App \<Rightarrow> val" where
  "portKeeper app = Call ''PortKeeper'' [IBCKeeper app]"

definition build_IBCKeeper :: "App \<Rightarrow> App" where
  "build_IBCKeeper app = app\<lparr>IBCKeeper :=
      Call ''ibckeeper.NewKeeper'' [app_appCodec app, index (app_keys app) IBC, GetSubspace app IBC,
      StakingKeeper app, UpgradeKeeper app, scoped app IBC, govAuthority]\<rparr>"

definition build_IBCFeeKeeper :: "App \<Rightarrow> App" where
  "build_IBCFeeKeeper app = app\<lparr>IBCFeeKeeper :=
      Call ''ibcfeekeeper.NewKeeper'' [app_appCodec app, index (app_keys app) IBCFee, channelKeeper app,
      channelKeeper app, portKeeper app, AccountKeeper app, BankKeeper app]\<rparr>"

definition build_TransferKeeper :: "App \<Rightarrow> App" where
  "build_TransferKeeper app = app\<lparr>TransferKeeper :=
      Call ''ibctransferkeeper.NewKeeper'' [app_appCodec app, index (app_keys app) Transfer,
      GetSubspace app Transfer, IBCFeeKeeper app, channelKeeper app, portKeeper app, AccountKeeper app,
      BankKeeper app, scoped app Transfer, govAuthority]\<rparr>"

definition build_GovKeeper :: "App \<Rightarrow> App" where
  "build_GovKeeper app = app\<lparr>GovKeeper :=
      Call ''govkeeper.NewKeeper'' [app_appCodec app, kvService app Gov, AccountKeeper app, BankKeeper app,
      StakingKeeper app, DistrKeeper app, Call ''MsgServiceRouter'' [BaseApp app],
      Call ''govtypes.DefaultConfig'' [], govAuthority]\<rparr>"

definition set_gov_router :: "App \<Rightarrow> App" where
  "set_gov_router app =
     (let govRouter = Call ''AddRoute''
            [Call ''AddRoute'' [Call ''govv1beta1.NewRouter'' [], Str ''govtypes.RouterKey'', Str ''govv1beta1.ProposalHandler''],
             Str ''paramproposal.RouterKey'', Call ''params.NewParamChangeProposalHandler'' [pk_value (ParamsKeeper app)]]
      in invoke (GovKeeper app) ''SetLegacyRouter'' [govRouter] app)"

definition build_TaskregKeeper :: "val \<Rightarrow> App \<Rightarrow> App" where
  "build_TaskregKeeper logger app = app\<lparr>TaskregKeeper :=
      Call ''taskregkeeper.NewKeeper'' [app_appCodec app, kvService app Taskreg, logger, BankKeeper app,
      govAuthority]\<rparr>"

definition new_keepers :: "val \<Rightarrow> App \<Rightarrow> App" where
  "new_keepers logger app =
     (let app = build_AccountKeeper app;
          app = build_BankKeeper logger app;
          app = build_StakingKeeper app;
          app = build_MintKeeper app;
          app = build_DistrKeeper app;
          app = build_SlashingKeeper app;
          app = set_staking_hooks app;
          app = build_CrisisKeeper app;
          app = build_FeeGrantKeeper app;
          app = build_UpgradeKeeper app;
          app = build_EvidenceKeeper app;
          app = build_IBCKeeper app;
          app = build_IBCFeeKeeper app;
          app = build_TransferKeeper app;
          app = build_GovKeeper app;
          app = set_gov_router app
      in build_TaskregKeeper logger app)"

definition new_wasm :: "attempt \<Rightarrow> val \<Rightarrow> val list \<Rightarrow> App \<Rightarrow> (App \<times> val) option" where
  "new_wasm attempt appOpts wasmOpts app =
     (let wasmDir = Call ''filepath.Join'' [Str ''DefaultNodeHome'', Str ''wasm'']
      in case attempt ''wasm.ReadWasmConfig'' [appOpts] of
           Inl err \<Rightarrow> None
         | Inr wasmConfig \<Rightarrow>
             Some (app\<lparr>WasmKeeper := Call ''wasmkeeper.NewKeeper''
               ([app_appCodec app, kvService app Wasm, AccountKeeper app, BankKeeper app, StakingKeeper app,
                 Call ''distrkeeper.NewQuerier'' [DistrKeeper app], IBCFeeKeeper app, channelKeeper app, portKeeper app,
                 scoped app Wasm, TransferKeeper app, Call ''MsgServiceRouter'' [BaseApp app],
                 Call ''GRPCQueryRouter'' [BaseApp app], wasmDir, wasmConfig, Call ''wasmkeeper.BuiltInCapabilities'' [],
                 govAuthority] @ wasmOpts)\<rparr>, wasmConfig))"

text \<open>Each route of the IBC router is a stack with the fee middleware on top.\<close>

definition new_ibc_router :: "App \<Rightarrow> App" where
  "new_ibc_router app =
     (let transferIBCModule = Call ''transfer.NewIBCModule'' [TransferKeeper app];
          transferIBCModule = Call ''ibcfee.NewIBCMiddleware'' [transferIBCModule, IBCFeeKeeper app];
          wasmStack = Call ''wasm.NewIBCHandler'' [WasmKeeper app, channelKeeper app, IBCFeeKeeper app];
          wasmStack = Call ''ibcfee.NewIBCMiddleware'' [wasmStack, IBCFeeKeeper app];
          ibcRouter = Call ''AddRoute'' [Call ''AddRoute'' [Call ''ibcporttypes.NewRouter'' [], Name Transfer,
            transferIBCModule], Name Wasm, wasmStack]
      in invoke (IBCKeeper app) ''SetRouter'' [ibcRouter] app)"

section \<open>The module manager\<close>

definition managed_modules :: "App \<Rightarrow> (sdk_module \<times> val) list" where
  "managed_modules app =
     (let c = app_appCodec app; ak = AccountKeeper app; bk = BankKeeper app; sk = StakingKeeper app
      in [(Genutil, Call ''genutil.NewAppModule'' [ak, sk, Str ''app'', app_txConfig app]),
          (Auth, Call ''auth.NewAppModule'' [c, ak, NilV, GetSubspace app Auth]),
          (Vesting, Call ''vesting.NewAppModule'' [ak, bk]),
          (Bank, Call ''bank.NewAppModule'' [c, bk, ak, GetSubspace app Bank]),
          (Crisis, Call ''crisis.NewAppModule'' [CrisisKeeper app, Flag False, GetSubspace app Crisis]),
          (Feegrant, Call ''feegrantmodule.NewAppModule'' [c, ak, bk, FeeGrantKeeper app, app_interfaceRegistry app]),
          (Gov, Call ''gov.NewAppModule'' [c, GovKeeper app, ak, bk, GetSubspace app Gov]),
          (Mint, Call ''mint.NewAppModule'' [c, MintKeeper app, ak, NilV, GetSubspace app Mint]),
          (Slashing, Call ''slashing.NewAppModule'' [c, SlashingKeeper app, ak, bk, sk, GetSubspace app Slashing,
            app_interfaceRegistry app]),
          (Distr, Call ''distr.NewAppModule'' [c, DistrKeeper app, ak, bk, sk, GetSubspace app Distr]),
          (Staking, Call ''staking.NewAppModule'' [c, sk, ak, bk, GetSubspace app Staking]),
          (Upgrade, Call ''upgrade.NewAppModule'' [UpgradeKeeper app, Call ''AddressCodec'' [ak]]),
          (Evidence, Call ''evidence.NewAppModule'' [EvidenceKeeper app]),
          (Params, Call ''params.NewAppModule'' [pk_value (ParamsKeeper app)]),
          (Consensus, Call ''consensus.NewAppModule'' [c, ConsensusParamsKeeper app]),
          (Capability, Call ''capability.NewAppModule'' [c, CapabilityKeeper app, Flag False]),
          (IBC, Call ''ibc.NewAppModule'' [IBCKeeper app]),
          (IBCFee, Call ''ibcfee.NewAppModule'' [IBCFeeKeeper app]),
          (Transfer, Call ''transfer.NewAppModule'' [TransferKeeper app]),
          (Wasm, Call ''wasm.NewAppModule'' [c, WasmKeeper app, sk, ak, bk, Call ''MsgServiceRouter'' [BaseApp app],
            GetSubspace app Wasm]),
          (Taskreg, Call ''taskreg.NewAppModule'' [c, TaskregKeeper app])])"

definition begin_blockers :: "sdk_module list" where
  "begin_blockers =
     [Upgrade, Capability, Mint, Distr, Slashing, Evidence, Staking, IBC, Transfer, IBCFee, Auth, Bank, Gov, Crisis,
      Genutil, Feegrant, Params, Vesting, Consensus, Taskreg, Wasm]"

definition end_blockers :: "sdk_module list" where
  "end_blockers =
     [Crisis, Gov, Staking, Capability, IBC, Transfer, IBCFee, Auth, Bank, Distr, Slashing, Mint, Genutil, Evidence,
      Feegrant, Params, Upgrade, Vesting, Consensus, Taskreg, Wasm]"

definition init_genesis_order :: "sdk_module list" where
  "init_genesis_order =
     [Capability, Auth, Bank, Distr, Staking, Slashing, Gov, Mint, Crisis, Genutil, IBC, Transfer, IBCFee, Evidence,
      Feegrant, Params, Upgrade, Vesting, Consensus, Taskreg, Wasm]"

text \<open>
  The SDK's \<^verbatim>\<open>SetOrder\<close> methods panic when a managed module that takes part is forgotten: \<open>forgotten\<close>
  is this check, for a given set of modules that take part.
\<close>

definition forgotten :: "(sdk_module \<Rightarrow> bool) \<Rightarrow> (sdk_module \<times> val) list \<Rightarrow> sdk_module list \<Rightarrow> bool" where
  "forgotten takes_part modules order \<longleftrightarrow> (\<exists>m \<in> set (map fst modules). takes_part m \<and> m \<notin> set order)"

record hooks =
  has_BeginBlock :: "sdk_module \<Rightarrow> bool"
  has_EndBlock :: "sdk_module \<Rightarrow> bool"
  has_InitGenesis :: "sdk_module \<Rightarrow> bool"

definition new_modules :: "hooks \<Rightarrow> App \<Rightarrow> App option" where
  "new_modules h app =
     (let modules = managed_modules app
      in if forgotten (has_BeginBlock h) modules begin_blockers then None
         else if forgotten (has_EndBlock h) modules end_blockers then None
         else if forgotten (has_InitGenesis h) modules init_genesis_order then None
         else Some (app\<lparr>App_ModuleManager := \<lparr>mm_Modules = modules, mm_OrderBeginBlockers = begin_blockers,
                mm_OrderEndBlockers = end_blockers, mm_OrderInitGenesis = init_genesis_order\<rparr>\<rparr>))"

text \<open>Invariants and services.\<close>

definition new_services :: "attempt \<Rightarrow> App \<Rightarrow> App option" where
  "new_services attempt app =
     (let app = invoke (Str ''ModuleManager'') ''RegisterInvariants'' [CrisisKeeper app] app;
          app = app\<lparr>app_configurator := Call ''module.NewConfigurator''
            [app_appCodec app, Call ''MsgServiceRouter'' [BaseApp app], Call ''GRPCQueryRouter'' [BaseApp app]]\<rparr>
      in case attempt ''ModuleManager.RegisterServices'' [app_configurator app] of
           Inl err \<Rightarrow> None
         | Inr _ \<Rightarrow> Some app)"

definition ante_options :: "App \<Rightarrow> val \<Rightarrow> HandlerOptions" where
  "ante_options app wasmConfig =
     \<lparr>ho_AccountKeeper = AccountKeeper app, ho_BankKeeper = BankKeeper app, ho_ExtensionOptionChecker = NilV,
      ho_FeegrantKeeper = FeeGrantKeeper app, ho_SignModeHandler = Call ''SignModeHandler'' [app_txConfig app],
      ho_SigGasConsumer = Str ''ante.DefaultSigVerificationGasConsumer'', ho_TxFeeChecker = NilV,
      ho_IBCKeeper = IBCKeeper app, ho_WasmConfig = Call ''&'' [wasmConfig], ho_WasmKeeper = WasmKeeper app,
      ho_TXCounterStoreService = kvService app Wasm\<rparr>"

definition new_handlers :: "val \<Rightarrow> App \<Rightarrow> App option" where
  "new_handlers wasmConfig app =
     (case NewAnteHandler (ante_options app wasmConfig) of
        None \<Rightarrow> None
      | Some (Inl err) \<Rightarrow> None
      | Some (Inr decorators) \<Rightarrow>
          (let anteHandler = Call ''sdk.ChainAnteDecorators'' (map (\<lambda>(d, args). Call d args) decorators);
               app = invoke (BaseApp app) ''SetAnteHandler'' [anteHandler] app;
               app = invoke (BaseApp app) ''SetInitChainer'' [Str ''app.InitChainer''] app;
               app = invoke (BaseApp app) ''SetBeginBlocker'' [Str ''app.BeginBlocker''] app
           in Some (invoke (BaseApp app) ''SetEndBlocker'' [Str ''app.EndBlocker''] app)))"

text \<open>Scoped keepers, stores, and the last committed version if it is asked for.\<close>

definition mount :: "string \<Rightarrow> (sdk_module \<rightharpoonup> val) \<Rightarrow> App \<Rightarrow> App" where
  "mount meth stores app = invoke (BaseApp app) meth (map (index stores) (filter (\<lambda>m. m \<in> dom stores) store_names)) app"

definition new_finish :: "attempt \<Rightarrow> bool \<Rightarrow> App \<Rightarrow> App option" where
  "new_finish attempt loadLatest app =
     (let app = app\<lparr>ScopedIBCKeeper := scoped app IBC\<rparr>;
          app = app\<lparr>ScopedTransferKeeper := scoped app Transfer\<rparr>;
          app = app\<lparr>ScopedWasmKeeper := scoped app Wasm\<rparr>;
          app = mount ''MountKVStores'' (app_keys app) app;
          app = mount ''MountTransientStores'' (app_tkeys app) app;
          app = mount ''MountMemoryStores'' (app_memKeys app) app
      in if loadLatest then
           (case attempt ''LoadLatestVersion'' [BaseApp app] of
              Inl err \<Rightarrow> None
            | Inr _ \<Rightarrow> Some (invoke (BaseApp app) ''LoadLatestVersion'' [] app))
         else Some app)"

definition New :: "attempt \<Rightarrow> hooks \<Rightarrow> val \<Rightarrow> val \<Rightarrow> val \<Rightarrow> bool \<Rightarrow> val \<Rightarrow> val list \<Rightarrow> val list \<Rightarrow> App option" where
  "New attempt h logger db traceStore loadLatest appOpts wasmOpts baseAppOptions =
     Option.bind (MakeEncodingConfig attempt) (\<lambda>(encodingConfig, effs).
     Option.bind (new_params (new_base encodingConfig effs logger db traceStore baseAppOptions)) (\<lambda>app.
     Option.bind (new_wasm attempt appOpts wasmOpts (new_keepers logger app)) (\<lambda>(app, wasmConfig).
     Option.bind (new_modules h (new_ibc_router app)) (\<lambda>app.
     Option.bind (new_services attempt app) (\<lambda>app.
     Option.bind (new_handlers wasmConfig app) (\<lambda>app.
       new_finish attempt loadLatest app))))))"

section \<open>Methods of App, export.go and root.go\<close>

text \<open>\<^verbatim>\<open>json.Unmarshal\<close> into the map of genesis states and the manager are library calls.\<close>

definition InitChainer :: "attempt \<Rightarrow> App \<Rightarrow> val \<Rightarrow> val \<Rightarrow> (string + val) option" where
  "InitChainer attempt app ctx appStateBytes =
     (case attempt ''json.Unmarshal'' [appStateBytes] of
        Inl err \<Rightarrow> None
      | Inr genesisState \<Rightarrow> Some (attempt ''ModuleManager.InitGenesis'' [ctx, app_appCodec app, genesisState]))"

definition BeginBlocker :: "attempt \<Rightarrow> val \<Rightarrow> string + val" where
  "BeginBlocker attempt ctx = attempt ''ModuleManager.BeginBlock'' [ctx]"

definition EndBlocker :: "attempt \<Rightarrow> val \<Rightarrow> string + val" where
  "EndBlocker attempt ctx = attempt ''ModuleManager.EndBlock'' [ctx]"

text \<open>The home directory that the package finds when it is loaded.\<close>

definition init_home :: "attempt \<Rightarrow> val option" where
  "init_home attempt =
     (case attempt ''os.UserHomeDir'' [] of
        Inl err \<Rightarrow> None
      | Inr userHomeDir \<Rightarrow> Some (Call ''filepath.Join'' [userHomeDir, Str ''.mychain'']))"

text \<open>Routes and services of the API server; the two other hooks of the server do nothing.\<close>

definition RegisterAPIRoutes :: "val \<Rightarrow> effect list" where
  "RegisterAPIRoutes apiSvr =
     (let clientCtx = Call ''ClientCtx'' [apiSvr]; router = Call ''GRPCGatewayRouter'' [apiSvr]
      in (Str ''authtx'', ''RegisterGRPCGatewayRoutes'', [clientCtx, router])
         # map (\<lambda>m. (Name m, ''RegisterGRPCGatewayRoutes'', [clientCtx, router])) ModuleBasics)"

definition RegisterTxService :: "App \<Rightarrow> val \<Rightarrow> effect list" where
  "RegisterTxService app clientCtx =
     [(Str ''authtx'', ''RegisterTxService'', [Call ''GRPCQueryRouter'' [BaseApp app], clientCtx,
        Call ''Simulate'' [BaseApp app], app_interfaceRegistry app])]"

definition RegisterTendermintService :: "App \<Rightarrow> val \<Rightarrow> effect list" where
  "RegisterTendermintService app clientCtx = []"

definition RegisterNodeService :: "App \<Rightarrow> val \<Rightarrow> val \<Rightarrow> effect list" where
  "RegisterNodeService app clientCtx cfg = []"

definition App_Name :: string where "App_Name = appName"

definition App_TxConfig :: "App \<Rightarrow> val" where "App_TxConfig app = app_txConfig app"

record ExportedApp =
  exp_AppState :: val
  exp_Validators :: "val list"
  exp_Height :: int
  exp_ConsensusParams :: val

definition ExportAppStateAndValidators ::
  "attempt \<Rightarrow> App \<Rightarrow> bool \<Rightarrow> string list \<Rightarrow> string list \<Rightarrow> string + ExportedApp" where
  "ExportAppStateAndValidators attempt app forZeroHeight jailAllowedAddrs modulesToExport =
     (let ctx = Call ''NewContext'' [BaseApp app, Flag True]
      in case attempt ''ModuleManager.ExportGenesisForModules''
            ([ctx, app_appCodec app] @ map Str modulesToExport) of
           Inl err \<Rightarrow> Inl err
         | Inr genState \<Rightarrow>
             (case attempt ''json.MarshalIndent'' [genState, Str '''', Str ''  ''] of
                Inl err \<Rightarrow> Inl (''failed to marshal app state: '' @ err)
              | Inr appState \<Rightarrow> Inr \<lparr>exp_AppState = appState, exp_Validators = [], exp_Height = 0,
                  exp_ConsensusParams = NilV\<rparr>))"

definition newApp :: "attempt \<Rightarrow> hooks \<Rightarrow> val \<Rightarrow> val \<Rightarrow> val \<Rightarrow> val \<Rightarrow> App option" where
  "newApp attempt h logger db traceStore appOpts =
     New attempt h logger db traceStore True appOpts [] [Call ''server.DefaultBaseappOptions'' [appOpts]]"

definition appExport :: "attempt \<Rightarrow> hooks \<Rightarrow> val \<Rightarrow> val \<Rightarrow> val \<Rightarrow> int \<Rightarrow> bool \<Rightarrow> string list \<Rightarrow> val
    \<Rightarrow> string list \<Rightarrow> (string + ExportedApp) option" where
  "appExport attempt h logger db traceStore height forZeroHeight jailAllowedAddrs appOpts modulesToExport =
     map_option (\<lambda>app. ExportAppStateAndValidators attempt app forZeroHeight jailAllowedAddrs modulesToExport)
       (New attempt h logger db traceStore False appOpts [] [])"

end
