(* ===== verification/App_Props.thy ===== *)
theory App_Props
  imports App_Wiring "HOL-Library.Multiset"
begin

text \<open>
  The properties of the application's wiring: it can be built, every keeper is built from complete
  parts and over its own store, the module orders are complete, which accounts may mint and are
  blocked, in which order a transaction is checked, and what an export leaves out.
\<close>

section \<open>What New builds\<close>

lemma key_index [simp]: "index (NewKVStoreKeys store_names) m = (if m \<in> set store_names then KVStoreKey m else NilV)"
  by (cases m) (simp_all add: index_def NewKVStoreKeys_def store_names_def)

lemma index_single [simp]: "index [k \<mapsto> v] k = v"
  by (simp add: index_def)

lemma init_params:
  "initParamsKeeper c l k t = Some \<lparr>pk_value = Call ''paramskeeper.NewKeeper'' [c, l, k, t],
    pk_subspaces = [Auth, Bank, Staking, Mint, Distr, Slashing, Gov, Crisis, IBC, Transfer, Wasm]\<rparr>"
  by (simp add: initParamsKeeper_def Subspace_def)

lemma orders_complete:
  "distinct begin_blockers" "distinct end_blockers" "distinct init_genesis_order" "distinct store_names" "distinct ModuleBasics"
  "m \<in> set begin_blockers" "m \<in> set end_blockers" "m \<in> set init_genesis_order" "m \<in> set ModuleBasics"
  by (simp_all add: begin_blockers_def end_blockers_def init_genesis_order_def store_names_def ModuleBasics_def)
    (cases m; simp)+

lemma managed_all: "set (map fst (managed_modules app)) = UNIV" "distinct (map fst (managed_modules app))"
proof -
  have "m \<in> set (map fst (managed_modules app))" for m by (cases m) (simp_all add: managed_modules_def Let_def)
  then show "set (map fst (managed_modules app)) = UNIV" by blast
  show "distinct (map fst (managed_modules app))" by (simp add: managed_modules_def Let_def)
qed

lemma new_modules_eq:
  "new_modules h app = Some (app\<lparr>App_ModuleManager := \<lparr>mm_Modules = managed_modules app,
     mm_OrderBeginBlockers = begin_blockers, mm_OrderEndBlockers = end_blockers,
     mm_OrderInitGenesis = init_genesis_order\<rparr>\<rparr>)"
  by (simp add: new_modules_def forgotten_def orders_complete Let_def)

lemma new_wasm_config: "new_wasm attempt appOpts wasmOpts app = Some (app', wasmConfig) \<Longrightarrow>
    attempt ''wasm.ReadWasmConfig'' [appOpts] = Inr wasmConfig"
  by (simp add: new_wasm_def Let_def split: sum.splits)

lemma New_cases:
  assumes "New attempt h logger db traceStore loadLatest appOpts wasmOpts baseAppOptions = Some app"
  obtains enc effs app1 app2 wasmConfig app3 app4 app5 where
    "MakeEncodingConfig attempt = Some (enc, effs)"
    "new_params (new_base enc effs logger db traceStore baseAppOptions) = Some app1"
    "new_wasm attempt appOpts wasmOpts (new_keepers logger app1) = Some (app2, wasmConfig)"
    "new_modules h (new_ibc_router app2) = Some app3" "new_services attempt app3 = Some app4"
    "new_handlers wasmConfig app4 = Some app5" "new_finish attempt loadLatest app5 = Some app"
proof -
  from assms obtain enc effs where e: "MakeEncodingConfig attempt = Some (enc, effs)"
    and 1: "Option.bind (new_params (new_base enc effs logger db traceStore baseAppOptions)) (\<lambda>app.
      Option.bind (new_wasm attempt appOpts wasmOpts (new_keepers logger app)) (\<lambda>(app, wasmConfig).
      Option.bind (new_modules h (new_ibc_router app)) (\<lambda>app.
      Option.bind (new_services attempt app) (\<lambda>app.
      Option.bind (new_handlers wasmConfig app) (new_finish attempt loadLatest))))) = Some app"
    unfolding New_def Let_def by (cases "MakeEncodingConfig attempt") auto
  from 1 obtain app1 where p: "new_params (new_base enc effs logger db traceStore baseAppOptions) = Some app1"
    and 2: "Option.bind (new_wasm attempt appOpts wasmOpts (new_keepers logger app1)) (\<lambda>(app, wasmConfig).
      Option.bind (new_modules h (new_ibc_router app)) (\<lambda>app.
      Option.bind (new_services attempt app) (\<lambda>app.
      Option.bind (new_handlers wasmConfig app) (new_finish attempt loadLatest)))) = Some app"
    by (rule bind_eq_Some_conv [THEN iffD1, THEN exE]) blast
  from 2 obtain app2 wc where w: "new_wasm attempt appOpts wasmOpts (new_keepers logger app1) = Some (app2, wc)"
    and 3: "Option.bind (new_modules h (new_ibc_router app2)) (\<lambda>app.
      Option.bind (new_services attempt app) (\<lambda>app.
      Option.bind (new_handlers wc app) (new_finish attempt loadLatest))) = Some app"
    by (cases "new_wasm attempt appOpts wasmOpts (new_keepers logger app1)") auto
  from 3 obtain app3 app4 app5 where "new_modules h (new_ibc_router app2) = Some app3" "new_services attempt app3 = Some app4"
    "new_handlers wc app4 = Some app5" "new_finish attempt loadLatest app5 = Some app"
    by (auto simp: bind_eq_Some_conv)
  with e p w show ?thesis by (rule that)
qed

text \<open>Every keeper with the module it belongs to.\<close>

definition keepers :: "App \<Rightarrow> (sdk_module \<times> val) list" where
  "keepers app =
     [(Auth, AccountKeeper app), (Bank, BankKeeper app), (Staking, StakingKeeper app), (Mint, MintKeeper app),
      (Distr, DistrKeeper app), (Slashing, SlashingKeeper app), (Gov, GovKeeper app),
      (Params, pk_value (ParamsKeeper app)), (Consensus, ConsensusParamsKeeper app), (Upgrade, UpgradeKeeper app),
      (Feegrant, FeeGrantKeeper app), (Evidence, EvidenceKeeper app), (Capability, CapabilityKeeper app),
      (Crisis, CrisisKeeper app), (IBC, IBCKeeper app), (Transfer, TransferKeeper app), (IBCFee, IBCFeeKeeper app),
      (Wasm, WasmKeeper app), (Taskreg, TaskregKeeper app)]"

text \<open>The store keys that a constructor gets, directly or as a store service.\<close>

definition direct_keys :: "val \<Rightarrow> sdk_module list" where
  "direct_keys v =
     (case v of
        KVStoreKey m \<Rightarrow> [m]
      | Call f args \<Rightarrow> (if f = ''runtime.NewKVStoreService'' then (case args of [KVStoreKey m] \<Rightarrow> [m] | _ \<Rightarrow> []) else [])
      | _ \<Rightarrow> [])"

definition store_keys :: "val \<Rightarrow> sdk_module list" where
  "store_keys v = (case v of Call f args \<Rightarrow> concat (map direct_keys args) | _ \<Rightarrow> [])"

fun complete :: "val \<Rightarrow> bool" where
  "complete NilV = False"
| "complete (Call f args) = list_all complete args"
| "complete v = True"

lemma mount_simps [simp]:
  "keepers (mount meth s app) = keepers app" "App_ModuleManager (mount meth s app) = App_ModuleManager app"
  "app_keys (mount meth s app) = app_keys app" "app_tkeys (mount meth s app) = app_tkeys app"
  "app_memKeys (mount meth s app) = app_memKeys app" "BaseApp (mount meth s app) = BaseApp app"
  "app_effects (mount meth s app) =
    app_effects app @ [(BaseApp app, meth, map (index s) (filter (\<lambda>m. m \<in> dom s) store_names))]"
  by (simp_all add: mount_def invoke_def keepers_def)

lemma later_stages_keep:
  "keepers (new_ibc_router app) = keepers app \<and> app_keys (new_ibc_router app) = app_keys app"
  "new_services attempt app = Some app' \<Longrightarrow>
    keepers app' = keepers app \<and> App_ModuleManager app' = App_ModuleManager app \<and> app_keys app' = app_keys app"
  "new_handlers wasmConfig app = Some app' \<Longrightarrow>
    keepers app' = keepers app \<and> App_ModuleManager app' = App_ModuleManager app \<and> app_keys app' = app_keys app"
  "new_finish attempt loadLatest app = Some app' \<Longrightarrow>
    keepers app' = keepers app \<and> App_ModuleManager app' = App_ModuleManager app \<and> app_keys app' = app_keys app"
  by (auto simp: keepers_def new_ibc_router_def invoke_def new_services_def new_handlers_def new_finish_def mount_def Let_def
      split: sum.splits option.splits if_splits)

text \<open>What \<open>new_params\<close> leaves, and what the stages for the keepers do not touch.\<close>

lemma new_params_fields:
  assumes "new_params (new_base enc effs logger db traceStore baseAppOptions) = Some app1"
  shows "app_keys app1 = NewKVStoreKeys store_names" "app_tkeys app1 = map_of [(Params, TransientStoreKey Params)]"
    "app_memKeys app1 = map_of [(Capability, MemoryStoreKey Capability)]"
    "app_appCodec app1 = enc_Codec enc" "app_cdc app1 = enc_Amino enc" "app_txConfig app1 = enc_TxConfig enc"
    "app_interfaceRegistry app1 = enc_InterfaceRegistry enc"
    "BaseApp app1 = Call ''baseapp.NewBaseApp'' ([Str appName, logger, db, Call ''TxDecoder'' [enc_TxConfig enc]] @ baseAppOptions)"
    "ParamsKeeper app1 = \<lparr>pk_value = Call ''paramskeeper.NewKeeper'' [enc_Codec enc, enc_Amino enc, KVStoreKey Params,
        TransientStoreKey Params], pk_subspaces = [Auth, Bank, Staking, Mint, Distr, Slashing, Gov, Crisis, IBC, Transfer, Wasm]\<rparr>"
    "ConsensusParamsKeeper app1 = Call ''consensuskeeper.NewKeeper'' [enc_Codec enc,
        Call ''runtime.NewKVStoreService'' [KVStoreKey Consensus], govAuthority, Str ''runtime.EventService'']"
    "CapabilityKeeper app1 = Call ''capabilitykeeper.NewKeeper'' [enc_Codec enc, KVStoreKey Capability, MemoryStoreKey Capability]"
  using assms
  by (auto simp: new_params_def build_ConsensusParamsKeeper_def build_CapabilityKeeper_def init_params new_base_def invoke_def kvService_def Let_def store_names_def
      key_index [unfolded store_names_def])

lemma key_args [simp]:
  "direct_keys (KVStoreKey m) = [m]" "direct_keys (TransientStoreKey m) = []" "direct_keys (MemoryStoreKey m) = []"
  "direct_keys (Str s) = []" "direct_keys (Num n) = []" "direct_keys NilV = []"
  "direct_keys govAuthority = []" "direct_keys (bech32 p) = []"
  "direct_keys (Call ''runtime.NewKVStoreService'' [KVStoreKey m]) = [m]"
  "f \<noteq> ''runtime.NewKVStoreService'' \<Longrightarrow> direct_keys (Call f args) = []"
  "store_keys (Call f args) = concat (map direct_keys args)"
  by (simp_all add: direct_keys_def govAuthority_def bech32_def store_keys_def)

text \<open>
  A stage at a time. A value is a proper argument when it brings no store key along and has no nil
  inside; a keeper owns its store when it gets exactly the key of its module and proper arguments.
\<close>

definition proper :: "val \<Rightarrow> bool" where
  "proper v \<longleftrightarrow> direct_keys v = [] \<and> complete v"

definition owns :: "sdk_module \<Rightarrow> val \<Rightarrow> bool" where
  "owns m v \<longleftrightarrow> proper v \<and> store_keys v = [m]"

definition ready :: "App \<Rightarrow> bool" where
  "ready app \<longleftrightarrow> app_keys app = NewKVStoreKeys store_names \<and> proper (app_appCodec app) \<and> proper (app_cdc app)
     \<and> proper (BaseApp app)
     \<and> pk_subspaces (ParamsKeeper app) = [Auth, Bank, Staking, Mint, Distr, Slashing, Gov, Crisis, IBC, Transfer, Wasm]"

definition owners :: "sdk_module set \<Rightarrow> App \<Rightarrow> bool" where
  "owners ms app \<longleftrightarrow> ready app \<and> (\<forall>(m, v) \<in> set (keepers app). m \<in> ms \<longrightarrow> owns m v)"

lemma proper_simps [simp]:
  "proper (Str s)" "proper (Num n)" "proper govAuthority" "proper (bech32 p)"
  "f \<noteq> ''runtime.NewKVStoreService'' \<Longrightarrow> proper (Call f args) \<longleftrightarrow> list_all complete args"
  by (simp_all add: proper_def) (simp_all add: govAuthority_def bech32_def)

lemma proper_args [simp]: "proper v \<Longrightarrow> direct_keys v = []" "proper v \<Longrightarrow> complete v"
  "owns m v \<Longrightarrow> proper v" "owns m v \<Longrightarrow> direct_keys v = []" "owns m v \<Longrightarrow> complete v"
  by (simp_all add: proper_def owns_def)

lemma owns_Call [simp]:
  "f \<noteq> ''runtime.NewKVStoreService'' \<Longrightarrow>
    owns m (Call f args) \<longleftrightarrow> list_all complete args \<and> concat (map direct_keys args) = [m]"
  by (auto simp: owns_def)

lemma ready_stores:
  assumes "ready app"
  shows "m \<in> set store_names \<Longrightarrow> kvService app m = Call ''runtime.NewKVStoreService'' [KVStoreKey m]"
    "m \<in> set store_names \<Longrightarrow> index (app_keys app) m = KVStoreKey m"
    "proper (app_appCodec app)" "proper (app_cdc app)" "proper (BaseApp app)"
  using assms by (simp_all add: ready_def kvService_def)

lemma owners_ready [simp]: "owners ms app \<Longrightarrow> ready app"
  by (simp add: owners_def)

lemma owners_of:
  assumes "owners ms app"
  shows "Auth \<in> ms \<Longrightarrow> owns Auth (AccountKeeper app)" "Bank \<in> ms \<Longrightarrow> owns Bank (BankKeeper app)"
    "Staking \<in> ms \<Longrightarrow> owns Staking (StakingKeeper app)" "Distr \<in> ms \<Longrightarrow> owns Distr (DistrKeeper app)"
    "Slashing \<in> ms \<Longrightarrow> owns Slashing (SlashingKeeper app)" "Upgrade \<in> ms \<Longrightarrow> owns Upgrade (UpgradeKeeper app)"
    "Capability \<in> ms \<Longrightarrow> owns Capability (CapabilityKeeper app)" "IBC \<in> ms \<Longrightarrow> owns IBC (IBCKeeper app)"
    "IBCFee \<in> ms \<Longrightarrow> owns IBCFee (IBCFeeKeeper app)" "Transfer \<in> ms \<Longrightarrow> owns Transfer (TransferKeeper app)"
    "Params \<in> ms \<Longrightarrow> owns Params (pk_value (ParamsKeeper app))"
  using assms by (simp_all add: owners_def keepers_def)

lemma owners_update:
  assumes "owners ms app"
  shows "owns Auth v \<Longrightarrow> owners (insert Auth ms) (app\<lparr>AccountKeeper := v\<rparr>)"
    "owns Bank v \<Longrightarrow> owners (insert Bank ms) (app\<lparr>BankKeeper := v\<rparr>)"
    "owns Staking v \<Longrightarrow> owners (insert Staking ms) (app\<lparr>StakingKeeper := v\<rparr>)"
    "owns Mint v \<Longrightarrow> owners (insert Mint ms) (app\<lparr>MintKeeper := v\<rparr>)"
    "owns Distr v \<Longrightarrow> owners (insert Distr ms) (app\<lparr>DistrKeeper := v\<rparr>)"
    "owns Slashing v \<Longrightarrow> owners (insert Slashing ms) (app\<lparr>SlashingKeeper := v\<rparr>)"
    "owns Crisis v \<Longrightarrow> owners (insert Crisis ms) (app\<lparr>CrisisKeeper := v\<rparr>)"
    "owns Feegrant v \<Longrightarrow> owners (insert Feegrant ms) (app\<lparr>FeeGrantKeeper := v\<rparr>)"
    "owns Upgrade v \<Longrightarrow> owners (insert Upgrade ms) (app\<lparr>UpgradeKeeper := v\<rparr>)"
    "owns Evidence v \<Longrightarrow> owners (insert Evidence ms) (app\<lparr>EvidenceKeeper := v\<rparr>)"
    "owns IBC v \<Longrightarrow> owners (insert IBC ms) (app\<lparr>IBCKeeper := v\<rparr>)"
    "owns IBCFee v \<Longrightarrow> owners (insert IBCFee ms) (app\<lparr>IBCFeeKeeper := v\<rparr>)"
    "owns Transfer v \<Longrightarrow> owners (insert Transfer ms) (app\<lparr>TransferKeeper := v\<rparr>)"
    "owns Gov v \<Longrightarrow> owners (insert Gov ms) (app\<lparr>GovKeeper := v\<rparr>)"
    "owns Taskreg v \<Longrightarrow> owners (insert Taskreg ms) (app\<lparr>TaskregKeeper := v\<rparr>)"
    "owns Wasm v \<Longrightarrow> owners (insert Wasm ms) (app\<lparr>WasmKeeper := v\<rparr>)"
    "owners ms (invoke r f args app)"
  using assms by (simp_all add: owners_def keepers_def ready_def invoke_def)

text \<open>Each keeper, from those it is given.\<close>

lemma all_stores [simp]: "m \<in> set store_names \<longleftrightarrow> m \<noteq> Genutil \<and> m \<noteq> Vesting"
  by (cases m) (simp_all add: store_names_def)

lemma subspace_proper:
  assumes "owners ms app" "Params \<in> ms" "m \<in> {Auth, Bank, Staking, Mint, Distr, Slashing, Gov, Crisis, IBC, Transfer, Wasm}"
  shows "proper (GetSubspace app m)"
proof -
  have "m \<in> set (pk_subspaces (ParamsKeeper app))"
    using owners_ready [OF assms(1)] assms(3) by (auto simp: ready_def)
  then show ?thesis using owners_of(11) [OF assms(1,2)] by (simp add: GetSubspace_def)
qed

lemma owners_sdk:
  assumes "owners ms app" "proper logger"
  shows "owners (insert Auth ms) (build_AccountKeeper app)"
    "Auth \<in> ms \<Longrightarrow> owners (insert Bank ms) (build_BankKeeper logger app)"
    "{Auth, Bank} \<subseteq> ms \<Longrightarrow> owners (insert Staking ms) (build_StakingKeeper app)"
    "{Auth, Bank, Staking} \<subseteq> ms \<Longrightarrow> owners (insert Mint ms) (build_MintKeeper app)"
    "{Auth, Bank, Staking} \<subseteq> ms \<Longrightarrow> owners (insert Distr ms) (build_DistrKeeper app)"
    "Staking \<in> ms \<Longrightarrow> owners (insert Slashing ms) (build_SlashingKeeper app)"
    "owners ms (set_staking_hooks app)"
    "{Auth, Bank} \<subseteq> ms \<Longrightarrow> owners (insert Crisis ms) (build_CrisisKeeper app)"
    "Auth \<in> ms \<Longrightarrow> owners (insert Feegrant ms) (build_FeeGrantKeeper app)"
    "owners (insert Upgrade ms) (build_UpgradeKeeper app)"
    "{Auth, Staking, Slashing} \<subseteq> ms \<Longrightarrow> owners (insert Evidence ms) (build_EvidenceKeeper app)"
  using owners_ready [OF assms(1)] assms(2) owners_of [OF assms(1)]
  by (auto simp: build_AccountKeeper_def build_BankKeeper_def build_StakingKeeper_def build_MintKeeper_def
      build_DistrKeeper_def build_SlashingKeeper_def set_staking_hooks_def build_CrisisKeeper_def build_FeeGrantKeeper_def
      build_UpgradeKeeper_def build_EvidenceKeeper_def ready_stores intro!: owners_update [OF assms(1)])

lemma owners_rest:
  assumes "owners ms app" "proper logger" "Params \<in> ms" "Capability \<in> ms"
  shows "{Staking, Upgrade} \<subseteq> ms \<Longrightarrow> owners (insert IBC ms) (build_IBCKeeper app)"
    "{Auth, Bank, IBC} \<subseteq> ms \<Longrightarrow> owners (insert IBCFee ms) (build_IBCFeeKeeper app)"
    "{Auth, Bank, IBC, IBCFee} \<subseteq> ms \<Longrightarrow> owners (insert Transfer ms) (build_TransferKeeper app)"
    "{Auth, Bank, Staking, Distr} \<subseteq> ms \<Longrightarrow> owners (insert Gov ms) (build_GovKeeper app)"
    "owners ms (set_gov_router app)"
    "Bank \<in> ms \<Longrightarrow> owners (insert Taskreg ms) (build_TaskregKeeper logger app)"
proof -
  have sub: "proper (GetSubspace app IBC)" "proper (GetSubspace app Transfer)"
    using subspace_proper [OF assms(1,3)] by simp_all
  show "{Staking, Upgrade} \<subseteq> ms \<Longrightarrow> owners (insert IBC ms) (build_IBCKeeper app)"
    "{Auth, Bank, IBC} \<subseteq> ms \<Longrightarrow> owners (insert IBCFee ms) (build_IBCFeeKeeper app)"
    "{Auth, Bank, IBC, IBCFee} \<subseteq> ms \<Longrightarrow> owners (insert Transfer ms) (build_TransferKeeper app)"
    "{Auth, Bank, Staking, Distr} \<subseteq> ms \<Longrightarrow> owners (insert Gov ms) (build_GovKeeper app)"
    "owners ms (set_gov_router app)"
    "Bank \<in> ms \<Longrightarrow> owners (insert Taskreg ms) (build_TaskregKeeper logger app)"
    using owners_ready [OF assms(1)] assms(2,4) owners_of [OF assms(1)] sub
    by (auto simp: build_IBCKeeper_def build_IBCFeeKeeper_def build_TransferKeeper_def build_GovKeeper_def set_gov_router_def
        build_TaskregKeeper_def channelKeeper_def portKeeper_def scoped_def ready_stores Let_def
        intro!: owners_update [OF assms(1)])
qed

lemma owners_wasm:
  assumes "owners ms app" "{Auth, Bank, Staking, Distr, IBC, IBCFee, Transfer, Capability} \<subseteq> ms"
    and "new_wasm attempt appOpts wasmOpts app = Some (app', wasmConfig)"
    and "proper wasmConfig" "list_all proper wasmOpts"
  shows "owners (insert Wasm ms) app'"
proof -
  have opts: "list_all complete wasmOpts" "concat (map direct_keys wasmOpts) = []"
    using assms(5) by (induction wasmOpts) auto
  show ?thesis
    using owners_ready [OF assms(1)] assms(2-4) opts owners_of [OF assms(1)]
    by (auto simp: new_wasm_def channelKeeper_def portKeeper_def scoped_def ready_stores Let_def
        split: sum.splits intro!: owners_update [OF assms(1)])
qed

lemma owners_keepers:
  assumes "owners {Params, Consensus, Capability} app" "proper logger"
  shows "owners (UNIV - {Wasm, Genutil, Vesting}) (new_keepers logger app)"
proof -
  note step = owners_sdk [OF _ assms(2)] owners_rest [OF _ assms(2)]
  have all: "{Taskreg, Gov, Transfer, IBCFee, IBC, Evidence, Upgrade, Feegrant, Crisis, Slashing, Distr, Mint, Staking, Bank,
      Auth, Params, Consensus, Capability} = UNIV - {Wasm, Genutil, Vesting}" (is "?all = _")
  proof (rule set_eqI)
    show "m \<in> ?all \<longleftrightarrow> m \<in> UNIV - {Wasm, Genutil, Vesting}" for m by (cases m) simp_all
  qed
  show ?thesis
    unfolding new_keepers_def Let_def all [symmetric]
    by (intro step assms(1)) simp_all
qed

section \<open>Building the application\<close>

text \<open>
  What is assumed of the values that come from outside: they are not nil and are not themselves store
  keys or store services.
\<close>

definition proper_results :: "attempt \<Rightarrow> bool" where
  "proper_results attempt \<longleftrightarrow> (\<forall>f args v. attempt f args = Inr v \<longrightarrow> proper v)"

lemma proper_resultsD: "proper_results attempt \<Longrightarrow> attempt f args = Inr v \<Longrightarrow> proper v"
  unfolding proper_results_def by blast

lemma enc_proper:
  assumes "MakeEncodingConfig attempt = Some (enc, effs)" "proper_results attempt"
  shows "proper (enc_Codec enc)" "proper (enc_Amino enc)" "proper (enc_TxConfig enc)"
proof -
  from assms(1) obtain f args r where "attempt f args = Inr r"
    and enc: "enc_Codec enc = Call ''codec.NewProtoCodec'' [r]" "enc_Amino enc = Call ''codec.NewLegacyAmino'' []"
      "enc_TxConfig enc = Call ''tx.NewTxConfig'' [enc_Codec enc, Str ''tx.DefaultSignModes'']"
    unfolding MakeEncodingConfig_def Let_def by (auto split: sum.splits)
  then have "proper r" using assms(2) by (blast intro: proper_resultsD)
  then show "proper (enc_Codec enc)" "proper (enc_Amino enc)" "proper (enc_TxConfig enc)" by (simp_all add: enc)
qed

lemma owners_new_params:
  assumes "MakeEncodingConfig attempt = Some (enc, effs)" "proper_results attempt"
    and "new_params (new_base enc effs logger db traceStore baseAppOptions) = Some app1"
    and "proper logger" "proper db" "list_all proper baseAppOptions"
  shows "owners {Params, Consensus, Capability} app1"
proof -
  have "list_all complete baseAppOptions" using assms(6) by (induction baseAppOptions) auto
  then show ?thesis
    using enc_proper [OF assms(1,2)] assms(4,5)
    by (simp add: owners_def ready_def keepers_def new_params_fields [OF assms(3)])
qed

text \<open>The stages after the keepers, as one.\<close>

lemma New_stages:
  assumes "New attempt h logger db traceStore loadLatest appOpts wasmOpts baseAppOptions = Some app"
  obtains enc effs app1 app2 wasmConfig app5 where
    "MakeEncodingConfig attempt = Some (enc, effs)"
    "new_params (new_base enc effs logger db traceStore baseAppOptions) = Some app1"
    "new_wasm attempt appOpts wasmOpts (new_keepers logger app1) = Some (app2, wasmConfig)"
    "keepers app = keepers app2" "app_keys app = app_keys app2"
    "App_ModuleManager app = \<lparr>mm_Modules = managed_modules (new_ibc_router app2),
       mm_OrderBeginBlockers = begin_blockers, mm_OrderEndBlockers = end_blockers,
       mm_OrderInitGenesis = init_genesis_order\<rparr>"
    "new_finish attempt loadLatest app5 = Some app"
proof (rule New_cases [OF assms])
  fix enc effs app1 app2 wasmConfig app3 app4 app5
  assume st: "MakeEncodingConfig attempt = Some (enc, effs)"
    "new_params (new_base enc effs logger db traceStore baseAppOptions) = Some app1"
    "new_wasm attempt appOpts wasmOpts (new_keepers logger app1) = Some (app2, wasmConfig)"
    "new_modules h (new_ibc_router app2) = Some app3" "new_services attempt app3 = Some app4"
    "new_handlers wasmConfig app4 = Some app5" "new_finish attempt loadLatest app5 = Some app"
  let ?mm = "\<lparr>mm_Modules = managed_modules (new_ibc_router app2), mm_OrderBeginBlockers = begin_blockers,
    mm_OrderEndBlockers = end_blockers, mm_OrderInitGenesis = init_genesis_order\<rparr>"
  have app3: "app3 = new_ibc_router app2\<lparr>App_ModuleManager := ?mm\<rparr>" using st(4) by (simp add: new_modules_eq)
  have k3: "keepers app3 = keepers app2" "app_keys app3 = app_keys app2" "App_ModuleManager app3 = ?mm"
    using later_stages_keep(1) [of app2] by (simp_all add: app3 keepers_def)
  show ?thesis
    using that [OF st(1-3) _ _ _ st(7)] k3
      later_stages_keep(2) [OF st(5)] later_stages_keep(3) [OF st(6)] later_stages_keep(4) [OF st(7)] by simp
qed

lemma owners_all:
  assumes "New attempt h logger db traceStore loadLatest appOpts wasmOpts baseAppOptions = Some app"
    and "proper_results attempt" "list_all proper ([logger, db] @ wasmOpts @ baseAppOptions)"
  shows "list_all (\<lambda>(m, v). owns m v) (keepers app)" "app_keys app = NewKVStoreKeys store_names"
proof -
  from New_stages [OF assms(1)] obtain enc effs app1 app2 wasmConfig where st:
    "MakeEncodingConfig attempt = Some (enc, effs)"
    "new_params (new_base enc effs logger db traceStore baseAppOptions) = Some app1"
    "new_wasm attempt appOpts wasmOpts (new_keepers logger app1) = Some (app2, wasmConfig)"
    and keep: "keepers app = keepers app2" "app_keys app = app_keys app2" .
  have "owners {Params, Consensus, Capability} app1"
    using owners_new_params [OF st(1) assms(2) st(2)] assms(3) by simp
  then have "owners (UNIV - {Wasm, Genutil, Vesting}) (new_keepers logger app1)"
    using assms(3) by (intro owners_keepers) simp_all
  then have "owners (insert Wasm (UNIV - {Wasm, Genutil, Vesting})) app2"
    using assms(2,3) new_wasm_config [OF st(3)] st(3) by (intro owners_wasm) (auto intro: proper_resultsD [OF assms(2)])
  then have "list_all (\<lambda>(m, v). owns m v) (keepers app2)" "app_keys app2 = NewKVStoreKeys store_names"
    by (auto simp: owners_def ready_def list_all_iff keepers_def)
  then show "list_all (\<lambda>(m, v). owns m v) (keepers app)" "app_keys app = NewKVStoreKeys store_names"
    by (simp_all only: keep)
qed

lemma mounted: "map (index (NewKVStoreKeys store_names)) (filter (\<lambda>m. m \<in> dom (NewKVStoreKeys store_names)) store_names)
    = map KVStoreKey store_names"
  by (simp add: store_names_def NewKVStoreKeys_def index_def)

definition mount_stores :: "App \<Rightarrow> App" where
  "mount_stores app = mount ''MountMemoryStores'' (app_memKeys app) (mount ''MountTransientStores'' (app_tkeys app)
     (mount ''MountKVStores'' (app_keys app) app))"

definition set_scoped :: "App \<Rightarrow> App" where
  "set_scoped app = app\<lparr>ScopedIBCKeeper := scoped app IBC, ScopedTransferKeeper := scoped app Transfer,
     ScopedWasmKeeper := scoped app Wasm\<rparr>"

lemma new_finish_eq:
  "new_finish attempt loadLatest app =
     (let app = mount_stores (set_scoped app)
      in if loadLatest then
           (case attempt ''LoadLatestVersion'' [BaseApp app] of
              Inl err \<Rightarrow> None
            | Inr _ \<Rightarrow> Some (invoke (BaseApp app) ''LoadLatestVersion'' [] app))
         else Some app)"
  by (simp add: new_finish_def mount_stores_def set_scoped_def scoped_def Let_def cong: sum.case_cong)

lemma set_scoped_keys: "app_keys (set_scoped app) = app_keys app"
  by (simp add: set_scoped_def)

lemma invoke_simps [simp]:
  "BaseApp (invoke r f args app) = BaseApp app" "app_effects (invoke r f args app) = app_effects app @ [(r, f, args)]"
  by (simp_all add: invoke_def)

lemma mount_stores_effects:
  "app_keys app = NewKVStoreKeys store_names \<Longrightarrow>
    (BaseApp (mount_stores app), ''MountKVStores'', map KVStoreKey store_names) \<in> set (app_effects (mount_stores app))"
  by (simp add: mount_stores_def mounted del: all_stores)

lemma finish_effects:
  assumes "new_finish attempt loadLatest app = Some app'" "app_keys app' = NewKVStoreKeys store_names"
  shows "(BaseApp app', ''MountKVStores'', map KVStoreKey store_names) \<in> set (app_effects app')"
proof -
  have "app_keys (set_scoped app) = NewKVStoreKeys store_names"
    using later_stages_keep(4) [OF assms(1)] assms(2) by (simp add: set_scoped_keys)
  note mounted = mount_stores_effects [OF this]
  have "app' = mount_stores (set_scoped app)
      \<or> app' = invoke (BaseApp (mount_stores (set_scoped app))) ''LoadLatestVersion'' [] (mount_stores (set_scoped app))"
    using assms(1) unfolding new_finish_eq Let_def by (simp split: if_splits sum.splits)
  then show ?thesis using mounted by (elim disjE) simp_all
qed

section \<open>Starting up\<close>

text \<open>The library calls of \<open>New\<close> that can fail.\<close>

definition startup_calls :: "bool \<Rightarrow> string set" where
  "startup_calls loadLatest =
     {''types.NewInterfaceRegistryWithOptions'', ''wasm.ReadWasmConfig'', ''ModuleManager.RegisterServices''}
     \<union> (if loadLatest then {''LoadLatestVersion''} else {})"

lemma account_bank_kept [simp]:
  "AccountKeeper (build_BankKeeper logger app) = AccountKeeper app"
  "AccountKeeper (build_StakingKeeper app) = AccountKeeper app" "BankKeeper (build_StakingKeeper app) = BankKeeper app"
  "AccountKeeper (build_MintKeeper app) = AccountKeeper app" "BankKeeper (build_MintKeeper app) = BankKeeper app"
  "AccountKeeper (build_DistrKeeper app) = AccountKeeper app" "BankKeeper (build_DistrKeeper app) = BankKeeper app"
  "AccountKeeper (build_SlashingKeeper app) = AccountKeeper app" "BankKeeper (build_SlashingKeeper app) = BankKeeper app"
  "AccountKeeper (set_staking_hooks app) = AccountKeeper app" "BankKeeper (set_staking_hooks app) = BankKeeper app"
  "AccountKeeper (build_CrisisKeeper app) = AccountKeeper app" "BankKeeper (build_CrisisKeeper app) = BankKeeper app"
  "AccountKeeper (build_FeeGrantKeeper app) = AccountKeeper app" "BankKeeper (build_FeeGrantKeeper app) = BankKeeper app"
  "AccountKeeper (build_UpgradeKeeper app) = AccountKeeper app" "BankKeeper (build_UpgradeKeeper app) = BankKeeper app"
  "AccountKeeper (build_EvidenceKeeper app) = AccountKeeper app" "BankKeeper (build_EvidenceKeeper app) = BankKeeper app"
  "AccountKeeper (build_IBCKeeper app) = AccountKeeper app" "BankKeeper (build_IBCKeeper app) = BankKeeper app"
  "AccountKeeper (build_IBCFeeKeeper app) = AccountKeeper app" "BankKeeper (build_IBCFeeKeeper app) = BankKeeper app"
  "AccountKeeper (build_TransferKeeper app) = AccountKeeper app" "BankKeeper (build_TransferKeeper app) = BankKeeper app"
  "AccountKeeper (build_GovKeeper app) = AccountKeeper app" "BankKeeper (build_GovKeeper app) = BankKeeper app"
  "AccountKeeper (set_gov_router app) = AccountKeeper app" "BankKeeper (set_gov_router app) = BankKeeper app"
  "AccountKeeper (build_TaskregKeeper logger app) = AccountKeeper app" "BankKeeper (build_TaskregKeeper logger app) = BankKeeper app"
  by (simp_all add: build_BankKeeper_def build_StakingKeeper_def build_MintKeeper_def build_DistrKeeper_def
      build_SlashingKeeper_def set_staking_hooks_def build_CrisisKeeper_def build_FeeGrantKeeper_def build_UpgradeKeeper_def
      build_EvidenceKeeper_def build_IBCKeeper_def build_IBCFeeKeeper_def build_TransferKeeper_def build_GovKeeper_def
      set_gov_router_def build_TaskregKeeper_def invoke_def Let_def)

lemma account_bank_built:
  "AccountKeeper (new_keepers logger app) \<noteq> NilV" "BankKeeper (new_keepers logger app) \<noteq> NilV"
  by (simp_all add: new_keepers_def Let_def) (simp_all add: build_AccountKeeper_def build_BankKeeper_def)

lemma new_handlers_total:
  assumes "AccountKeeper app \<noteq> NilV" "BankKeeper app \<noteq> NilV"
  obtains app' where "new_handlers wasmConfig app = Some app'"
  using assms by (auto simp: new_handlers_def NewAnteHandler_def ante_options_def Let_def)

lemma new_finish_last:
  assumes "new_finish attempt loadLatest app = Some app'"
  shows "loadLatest \<longleftrightarrow> last (app_effects app') = (BaseApp app', ''LoadLatestVersion'', [])"
proof (cases loadLatest)
  case True
  then show ?thesis using assms unfolding new_finish_eq Let_def by (auto split: sum.splits)
next
  case False
  then have "app' = mount_stores (set_scoped app)" using assms unfolding new_finish_eq Let_def by simp
  with False show ?thesis by (simp add: mount_stores_def)
qed

lemma New_succeeds:
  assumes "\<And>f args. f \<in> startup_calls loadLatest \<Longrightarrow> \<not> isl (attempt f args)"
  obtains app where "New attempt h logger db traceStore loadLatest appOpts wasmOpts baseAppOptions = Some app"
proof -
  have total: "\<exists>v. \<forall>args. attempt f args = Inr (v args)" if "f \<in> startup_calls loadLatest" for f
    using assms [OF that] by (intro exI [of _ "\<lambda>args. projr (attempt f args)"]) simp
  obtain v1 v2 v3 where ok: "attempt ''types.NewInterfaceRegistryWithOptions'' args = Inr (v1 args)"
    "attempt ''wasm.ReadWasmConfig'' args = Inr (v2 args)" "attempt ''ModuleManager.RegisterServices'' args = Inr (v3 args)" for args
    using total unfolding startup_calls_def by (metis UnI1 insertCI)
  have load: "loadLatest \<Longrightarrow> \<exists>v. attempt ''LoadLatestVersion'' args = Inr v" for args
    using total [of "''LoadLatestVersion''"] by (auto simp: startup_calls_def)
  obtain enc effs where e: "MakeEncodingConfig attempt = Some (enc, effs)"
    by (simp add: MakeEncodingConfig_def ok Let_def)
  obtain app1 where p: "new_params (new_base enc effs logger db traceStore baseAppOptions) = Some app1"
    by (simp add: new_params_def init_params Let_def)
  obtain app2 wc where w: "new_wasm attempt appOpts wasmOpts (new_keepers logger app1) = Some (app2, wc)"
    by (simp add: new_wasm_def ok Let_def)
  obtain app3 where m: "new_modules h (new_ibc_router app2) = Some app3" by (simp add: new_modules_eq)
  obtain app4 where s: "new_services attempt app3 = Some app4"
    by (simp add: new_services_def ok Let_def)
  have "AccountKeeper app2 \<noteq> NilV" "BankKeeper app2 \<noteq> NilV"
    using w account_bank_built [of logger app1] by (auto simp: new_wasm_def Let_def split: sum.splits)
  moreover have "AccountKeeper app4 = AccountKeeper app2" "BankKeeper app4 = BankKeeper app2"
    using m later_stages_keep(1) [of app2] later_stages_keep(2) [OF s] by (auto simp: new_modules_eq keepers_def)
  ultimately obtain app5 where h: "new_handlers wc app4 = Some app5" by (metis new_handlers_total)
  obtain app where "new_finish attempt loadLatest app5 = Some app"
    using load [of "[BaseApp (mount_stores (set_scoped app5))]"] unfolding new_finish_eq Let_def by (cases loadLatest) auto
  with e p w m s h show ?thesis by (intro that [of app]) (simp add: New_def)
qed

definition ok_attempt :: attempt where
  "ok_attempt f args = Inr (Str f)"

lemma ok_attempt_proper: "proper_results ok_attempt"
  by (simp add: proper_results_def ok_attempt_def)

section \<open>Properties\<close>

text \<open>C14: An application that \<^verbatim>\<open>New\<close> returns has one keeper for each of the mounted stores, each keeper is
  given exactly the key of its own module's store and no other, and no keeper is built from one that was
  not there yet: no argument is nil, however deep. The stores mounted on the base application are
  exactly these, each once.
\<close>

theorem store_isolation:
  assumes "New attempt h logger db traceStore loadLatest appOpts wasmOpts baseAppOptions = Some app"
    and "proper_results attempt" "list_all proper ([logger, db] @ wasmOpts @ baseAppOptions)"
  shows "map fst (keepers app) = store_names \<and> distinct store_names
    \<and> list_all (\<lambda>(m, v). store_keys v = [m] \<and> complete v) (keepers app)
    \<and> (BaseApp app, ''MountKVStores'', map KVStoreKey store_names) \<in> set (app_effects app)"
proof (intro conjI)
  show "map fst (keepers app) = store_names" by (simp add: keepers_def store_names_def)
  show "distinct store_names" by (rule orders_complete)
  show "list_all (\<lambda>(m, v). store_keys v = [m] \<and> complete v) (keepers app)"
    using owners_all(1) [OF assms] unfolding owns_def proper_def
    by (rule list.pred_mono_strong) blast
  from New_stages [OF assms(1)] obtain app5 where "new_finish attempt loadLatest app5 = Some app" .
  then show "(BaseApp app, ''MountKVStores'', map KVStoreKey store_names) \<in> set (app_effects app)"
    using owners_all(2) [OF assms] by (rule finish_effects)
qed

definition no_hooks :: hooks where
  "no_hooks = \<lparr>has_BeginBlock = \<lambda>_. False, has_EndBlock = \<lambda>_. False, has_InitGenesis = \<lambda>_. False\<rparr>"

theorem store_isolation_witness:
  "\<exists>app. New ok_attempt no_hooks (Str ''logger'') (Str ''db'') NilV True (Str ''opts'') [] [] = Some app
    \<and> map fst (keepers app) = store_names \<and> distinct store_names
    \<and> list_all (\<lambda>(m, v). store_keys v = [m] \<and> complete v) (keepers app)
    \<and> (BaseApp app, ''MountKVStores'', map KVStoreKey store_names) \<in> set (app_effects app)"
proof -
  obtain app where new: "New ok_attempt no_hooks (Str ''logger'') (Str ''db'') NilV True (Str ''opts'') [] [] = Some app"
    by (rule New_succeeds [of True ok_attempt no_hooks "Str ''logger''" "Str ''db''" NilV "Str ''opts''" "[]" "[]"])
      (simp_all add: ok_attempt_def)
  show ?thesis using new store_isolation [OF new ok_attempt_proper] by simp
qed

text \<open>When the library calls that can fail do not fail, \<^verbatim>\<open>New\<close> returns an application, whichever modules
  have begin-block, end-block or genesis code: no order forgets a module, no subspace is made twice,
  and the ante handler accepts the options it is given. The last thing the application does is to load
  the last committed version, exactly when that is asked for.
\<close>

theorem new_app_starts:
  assumes "\<And>f args. f \<in> startup_calls loadLatest \<Longrightarrow> \<not> isl (attempt f args)"
  shows "\<exists>app. New attempt h logger db traceStore loadLatest appOpts wasmOpts baseAppOptions = Some app
    \<and> (loadLatest \<longleftrightarrow> last (app_effects app) = (BaseApp app, ''LoadLatestVersion'', []))"
proof -
  obtain app where new: "New attempt h logger db traceStore loadLatest appOpts wasmOpts baseAppOptions = Some app"
    using assms by (rule New_succeeds)
  from New_stages [OF new] obtain app5 where "new_finish attempt loadLatest app5 = Some app" .
  from new new_finish_last [OF this] show ?thesis by blast
qed

theorem new_app_starts_witness:
  "\<exists>app. newApp ok_attempt no_hooks (Str ''logger'') (Str ''db'') NilV (Str ''opts'') = Some app
    \<and> last (app_effects app) = (BaseApp app, ''LoadLatestVersion'', [])"
  using new_app_starts [of True ok_attempt no_hooks "Str ''logger''" "Str ''db''" NilV "Str ''opts''" "[]"
      "[Call ''server.DefaultBaseappOptions'' [Str ''opts'']]"]
  by (simp add: newApp_def ok_attempt_def)

text \<open>When one of these calls fails, \<^verbatim>\<open>New\<close> panics: an application never starts without its interface
  registry, its wasm configuration, its services or, where asked for, its last version.
\<close>

theorem new_app_panics:
  assumes "f \<in> startup_calls loadLatest" "\<And>args. isl (attempt f args)"
  shows "New attempt h logger db traceStore loadLatest appOpts wasmOpts baseAppOptions = None"
proof (rule ccontr)
  assume "New attempt h logger db traceStore loadLatest appOpts wasmOpts baseAppOptions \<noteq> None"
  then obtain app where "New attempt h logger db traceStore loadLatest appOpts wasmOpts baseAppOptions = Some app" by blast
  then show False
  proof (rule New_cases)
    fix enc effs app1 app2 wasmConfig app3 app4 app5
    assume st: "MakeEncodingConfig attempt = Some (enc, effs)"
      "new_wasm attempt appOpts wasmOpts (new_keepers logger app1) = Some (app2, wasmConfig)"
      "new_services attempt app3 = Some app4" "new_finish attempt loadLatest app5 = Some app"
    have fails: "\<exists>e. attempt f args = Inl e" for args using assms(2) [of args] by (simp add: isl_def)
    have "f \<noteq> ''types.NewInterfaceRegistryWithOptions''"
      using st(1) fails [of "[Str ''gogoproto.HybridResolver'', bech32 ''GetBech32AccountAddrPrefix'',
        bech32 ''GetBech32ValidatorAddrPrefix'']"] by (auto simp: MakeEncodingConfig_def Let_def)
    moreover have "f \<noteq> ''wasm.ReadWasmConfig''" using new_wasm_config [OF st(2)] fails [of "[appOpts]"] by auto
    moreover have "f \<noteq> ''ModuleManager.RegisterServices''"
      using st(3) assms(2) by (auto simp: new_services_def Let_def split: sum.splits) (metis isl_def sum.disc(2))
    moreover have "\<not> (loadLatest \<and> f = ''LoadLatestVersion'')"
      using st(4) fails [of "[BaseApp (mount_stores (set_scoped app5))]"] unfolding new_finish_eq Let_def by auto
    ultimately show False using assms(1) by (auto simp: startup_calls_def split: if_splits)
  qed
qed

theorem new_app_panics_witness:
  "New (\<lambda>f args. if f = ''wasm.ReadWasmConfig'' then Inl ''no such file'' else Inr (Str f)) no_hooks (Str ''logger'')
    (Str ''db'') NilV False (Str ''opts'') [] [] = None"
  by (rule new_app_panics [of "''wasm.ReadWasmConfig''"]) (simp_all add: startup_calls_def)

definition before :: "'a \<Rightarrow> 'a \<Rightarrow> 'a list \<Rightarrow> bool" where
  "before x y xs \<longleftrightarrow> y \<in> set xs \<and> x \<in> set (takeWhile (\<lambda>z. z \<noteq> y) xs)"

text \<open>C28: In an application that \<^verbatim>\<open>New\<close> returns, the managed modules and each of the three orders are
  permutations of \<^verbatim>\<open>ModuleBasics\<close>: a module that has its codec registered is managed and is run once in
  each phase. The task registry's genesis and blocks come before those of wasm, the capabilities come
  first in genesis, the accounts before the balances, staking before the genesis transactions, and
  distribution and slashing begin a block before the validator set may change.
\<close>

theorem module_orders:
  assumes "New attempt h logger db traceStore loadLatest appOpts wasmOpts baseAppOptions = Some app"
  shows "mset (map fst (mm_Modules (App_ModuleManager app))) = mset ModuleBasics
    \<and> mset (mm_OrderBeginBlockers (App_ModuleManager app)) = mset ModuleBasics
    \<and> mset (mm_OrderEndBlockers (App_ModuleManager app)) = mset ModuleBasics
    \<and> mset (mm_OrderInitGenesis (App_ModuleManager app)) = mset ModuleBasics
    \<and> list_all (before Taskreg Wasm) [mm_OrderBeginBlockers (App_ModuleManager app),
        mm_OrderEndBlockers (App_ModuleManager app), mm_OrderInitGenesis (App_ModuleManager app)]
    \<and> hd (mm_OrderInitGenesis (App_ModuleManager app)) = Capability
    \<and> before Auth Bank (mm_OrderInitGenesis (App_ModuleManager app))
    \<and> before Staking Genutil (mm_OrderInitGenesis (App_ModuleManager app))
    \<and> list_all (\<lambda>m. before m Staking (mm_OrderBeginBlockers (App_ModuleManager app))) [Mint, Distr, Slashing, Evidence]"
proof -
  from New_stages [OF assms] obtain app2 where
    mm: "App_ModuleManager app = \<lparr>mm_Modules = managed_modules (new_ibc_router app2),
       mm_OrderBeginBlockers = begin_blockers, mm_OrderEndBlockers = end_blockers,
       mm_OrderInitGenesis = init_genesis_order\<rparr>" .
  have "set begin_blockers = UNIV" "set end_blockers = UNIV" "set init_genesis_order = UNIV" "set ModuleBasics = UNIV"
    using orders_complete(6-9) by blast+
  then have "mset begin_blockers = mset ModuleBasics" "mset end_blockers = mset ModuleBasics"
    "mset init_genesis_order = mset ModuleBasics"
    "mset (map fst (managed_modules (new_ibc_router app2))) = mset ModuleBasics"
    using orders_complete(1-5) managed_all [of "new_ibc_router app2"]
    by (metis set_eq_iff_mset_eq_distinct)+
  moreover have "before Taskreg Wasm begin_blockers" "before Taskreg Wasm end_blockers" "before Taskreg Wasm init_genesis_order"
    "hd init_genesis_order = Capability" "before Auth Bank init_genesis_order" "before Staking Genutil init_genesis_order"
    "list_all (\<lambda>m. before m Staking begin_blockers) [Mint, Distr, Slashing, Evidence]"
    by (simp_all add: before_def begin_blockers_def end_blockers_def init_genesis_order_def)
  ultimately show ?thesis unfolding mm by simp
qed

theorem module_orders_witness:
  "\<exists>app. newApp ok_attempt no_hooks (Str ''logger'') (Str ''db'') NilV (Str ''opts'') = Some app
    \<and> mset (mm_OrderInitGenesis (App_ModuleManager app)) = mset ModuleBasics
    \<and> before Taskreg Wasm (mm_OrderInitGenesis (App_ModuleManager app))"
proof -
  obtain app where new: "New ok_attempt no_hooks (Str ''logger'') (Str ''db'') NilV True (Str ''opts'') []
      [Call ''server.DefaultBaseappOptions'' [Str ''opts'']] = Some app"
    by (rule New_succeeds [of True ok_attempt no_hooks "Str ''logger''" "Str ''db''" NilV "Str ''opts''" "[]"
      "[Call ''server.DefaultBaseappOptions'' [Str ''opts'']]"]) (simp_all add: ok_attempt_def)
  show ?thesis using new module_orders [OF new] by (simp add: newApp_def)
qed

text \<open>The addresses that the bank refuses transfers to are exactly those of the module accounts; only
  minting and IBC transfers may create coins, and only the two staking pools, governance, transfers and
  wasm may destroy them. The task registry has no account: the bounties it records are not held by it.
\<close>

theorem module_accounts:
  shows "BlockedAddresses address = (\<lambda>a. if a \<in> address ` set (map fst maccPerms) then Some True else None)
    \<and> map fst (filter (\<lambda>(acc, perms). Minter \<in> set perms) maccPerms) = [ModuleAccount Mint, ModuleAccount Transfer]
    \<and> map fst (filter (\<lambda>(acc, perms). Burner \<in> set perms) maccPerms)
      = [BondedPoolName, NotBondedPoolName, ModuleAccount Gov, ModuleAccount Transfer, ModuleAccount Wasm]
    \<and> distinct (map fst maccPerms) \<and> ModuleAccount Taskreg \<notin> set (map fst maccPerms)"
proof -
  have fold: "foldl (\<lambda>m acc. m(address acc \<mapsto> True)) m accs
      = (\<lambda>a. if a \<in> address ` set accs then Some True else m a)" for m :: "string \<Rightarrow> bool option" and accs :: "macc list"
    by (induction accs arbitrary: m) (auto simp: fun_eq_iff)
  show ?thesis
    by (intro conjI) (simp only: BlockedAddresses_def fold, simp_all add: maccPerms_def)
qed

text \<open>\<^verbatim>\<open>appExport\<close> exports the same whatever height it is asked for, whether or not for height zero, and
  whoever may be jailed; it never loads a version of the store, whether there is one or not; and what it
  exports has no validators, no consensus parameters and height 0.
\<close>

theorem export_ignores_height:
  "appExport attempt h logger db traceStore height forZeroHeight jailAllowedAddrs appOpts modulesToExport
      = appExport (attempt(''LoadLatestVersion'' := loading)) h logger db traceStore height' forZeroHeight' jailAllowedAddrs'
          appOpts modulesToExport
    \<and> pred_option (pred_sum (\<lambda>_. True) (\<lambda>e. exp_Height e = 0 \<and> exp_Validators e = [] \<and> exp_ConsensusParams e = NilV))
        (appExport attempt h logger db traceStore height forZeroHeight jailAllowedAddrs appOpts modulesToExport)"
proof
  let ?attempt' = "attempt(''LoadLatestVersion'' := loading)"
  have enc: "MakeEncodingConfig ?attempt' = MakeEncodingConfig attempt" by (simp add: MakeEncodingConfig_def)
  have wasm: "new_wasm ?attempt' appOpts [] app = new_wasm attempt appOpts [] app" for app by (simp add: new_wasm_def)
  have serv: "new_services ?attempt' app = new_services attempt app" for app by (simp add: new_services_def)
  have fin: "new_finish ?attempt' False app = new_finish attempt False app" for app by (simp add: new_finish_eq)
  have export: "ExportAppStateAndValidators ?attempt' app forZeroHeight' jailAllowedAddrs' modulesToExport
      = ExportAppStateAndValidators attempt app forZeroHeight jailAllowedAddrs modulesToExport" for app
    by (simp add: ExportAppStateAndValidators_def cong: sum.case_cong)
  show "appExport attempt h logger db traceStore height forZeroHeight jailAllowedAddrs appOpts modulesToExport
      = appExport ?attempt' h logger db traceStore height' forZeroHeight' jailAllowedAddrs' appOpts modulesToExport"
    unfolding appExport_def New_def enc wasm serv fin export ..
  show "pred_option (pred_sum (\<lambda>_. True) (\<lambda>e. exp_Height e = 0 \<and> exp_Validators e = [] \<and> exp_ConsensusParams e = NilV))
      (appExport attempt h logger db traceStore height forZeroHeight jailAllowedAddrs appOpts modulesToExport)"
    by (auto simp: appExport_def ExportAppStateAndValidators_def Let_def option.pred_set split: sum.splits)
qed

end
