(* ===== verification/Mychain_Cmd.thy ===== *)
theory Mychain_Cmd
  imports App_Props
begin

text \<open>
  The node's command, \<^verbatim>\<open>cmd/mychaind/root.go\<close> and \<^verbatim>\<open>main.go\<close>, with the conventions of \<open>App_Wiring\<close>: commands
  and configurations that libraries build are terms, library calls that can fail are decided by
  \<open>attempt\<close>, and the calls that change library objects are recorded in order.
\<close>

section \<open>root.go\<close>

record root_command =
  cmd_Use :: string
  cmd_Short :: string
  cmd_ClientCtx :: val
  cmd_Commands :: "val list"
  cmd_Flags :: "(string \<times> string \<times> string) list"
  cmd_effects :: "effect list"

definition DefaultNodeHome :: val where "DefaultNodeHome = Str ''DefaultNodeHome''"

definition initAppConfig :: "val \<times> val" where
  "initAppConfig =
     (Str ''serverconfig.DefaultConfigTemplate'',
      Call ''MinGasPrices:='' [Call ''serverconfig.DefaultConfig'' [], Str ''0stake''])"

definition initCometBFTConfig :: val where
  "initCometBFTConfig = Call ''Consensus.TimeoutCommit:='' [Call ''cmtcfg.DefaultConfig'' [], Num 5000000000]"

text \<open>The configuration that every command reads before it runs; \<^verbatim>\<open>Inl\<close> is the returned error.\<close>

definition PersistentPreRunE :: "attempt \<Rightarrow> val \<Rightarrow> val \<Rightarrow> string + val" where
  "PersistentPreRunE attempt initClientCtx cmd =
     (case attempt ''client.ReadPersistentCommandFlags'' [initClientCtx, Call ''Flags'' [cmd]] of
        Inl err \<Rightarrow> Inl err
      | Inr initClientCtx \<Rightarrow>
          (case attempt ''config.ReadFromClientConfig'' [initClientCtx] of
             Inl err \<Rightarrow> Inl err
           | Inr initClientCtx \<Rightarrow>
               (case attempt ''client.SetCmdClientContextHandler'' [initClientCtx, cmd] of
                  Inl err \<Rightarrow> Inl err
                | Inr _ \<Rightarrow>
                    (let (customAppTemplate, customAppConfig) = initAppConfig;
                         customCMTConfig = initCometBFTConfig
                     in attempt ''server.InterceptConfigsPreRunHandler''
                          [cmd, customAppTemplate, customAppConfig, customCMTConfig]))))"

definition AddCommand :: "val list \<Rightarrow> root_command \<Rightarrow> root_command" where
  "AddCommand cmds root = root\<lparr>cmd_Commands := cmd_Commands root @ cmds\<rparr>"

text \<open>\<^verbatim>\<open>server.AddCommands\<close> adds the server's commands; they are one term here.\<close>

definition server_commands :: val where
  "server_commands = Call ''server.AddCommands'' [DefaultNodeHome, Str ''newApp'', Str ''appExport'', Str ''addModuleInitFlags'']"

definition initRootCmd :: "EncodingConfig \<Rightarrow> root_command \<Rightarrow> root_command" where
  "initRootCmd encodingConfig root =
     (let root = root\<lparr>cmd_effects := cmd_effects root @ [(Call ''sdk.GetConfig'' [], ''Seal'', [])]\<rparr>;
          root = AddCommand
            [Call ''genutilcli.InitCmd'' [Str ''ModuleBasics'', DefaultNodeHome],
             Call ''debug.Cmd'' []] root;
          root = AddCommand [server_commands] root;
          root = AddCommand
            [Call ''genutilcli.GenTxCmd'' [Str ''ModuleBasics'', enc_TxConfig encodingConfig,
               Str ''banktypes.GenesisBalancesIterator'', DefaultNodeHome, bech32 ''GetBech32ValidatorAddrPrefix''],
             Call ''genutilcli.CollectGenTxsCmd'' [Str ''banktypes.GenesisBalancesIterator'', DefaultNodeHome,
               Str ''genutiltypes.DefaultMessageValidator'', bech32 ''GetBech32ValidatorAddrPrefix''],
             Call ''genutilcli.ValidateGenesisCmd'' [Str ''ModuleBasics''],
             Call ''genutilcli.AddGenesisAccountCmd'' [DefaultNodeHome, bech32 ''GetBech32AccountAddrPrefix''],
             Call ''keys.Commands'' [],
             Call ''authcmd.QueryTxsByEventsCmd'' [],
             Call ''authcmd.QueryTxCmd'' []] root
      in root\<lparr>cmd_Flags := cmd_Flags root @ [(''chain-id'', '''', ''The network chain ID'')]\<rparr>)"

definition NewRootCmd :: "attempt \<Rightarrow> root_command option" where
  "NewRootCmd attempt =
     map_option (\<lambda>(encodingConfig, effs).
       let initClientCtx =
             Call ''WithViper'' [Call ''WithHomeDir'' [Call ''WithAccountRetriever'' [Call ''WithInput''
               [Call ''WithLegacyAmino'' [Call ''WithTxConfig'' [Call ''WithInterfaceRegistry'' [Call ''WithCodec''
                 [Call ''client.Context'' [], enc_Codec encodingConfig], enc_InterfaceRegistry encodingConfig],
                 enc_TxConfig encodingConfig], enc_Amino encodingConfig], Str ''os.Stdin''],
                 Str ''authtypes.AccountRetriever''], DefaultNodeHome], Str ''''];
           rootCmd = \<lparr>cmd_Use = ''mychaind'', cmd_Short = ''MyChain daemon'', cmd_ClientCtx = initClientCtx,
             cmd_Commands = [], cmd_Flags = [], cmd_effects = effs\<rparr>
       in initRootCmd encodingConfig rootCmd) (MakeEncodingConfig attempt)"

section \<open>main.go\<close>

text \<open>The exit code: 2 is that of a panic. \<^verbatim>\<open>svrcmd.Execute\<close> runs the command.\<close>

definition mychaind_main :: "attempt \<Rightarrow> nat" where
  "mychaind_main attempt =
     (case NewRootCmd attempt of
        None \<Rightarrow> 2
      | Some rootCmd \<Rightarrow>
          (case attempt ''svrcmd.Execute'' (cmd_Commands rootCmd @ [Str '''', DefaultNodeHome]) of
             Inl err \<Rightarrow> 1
           | Inr _ \<Rightarrow> 0))"

section \<open>Properties\<close>

text \<open>The command is complete: it can be built whenever the interface registry can; its address prefixes
  are sealed, after the codecs of all modules were registered and as the last change to the libraries;
  every part of it is there, and no command is added twice.\<close>

theorem root_command_complete:
  assumes "attempt ''types.NewInterfaceRegistryWithOptions'' [Str ''gogoproto.HybridResolver'',
      bech32 ''GetBech32AccountAddrPrefix'', bech32 ''GetBech32ValidatorAddrPrefix''] = Inr registry" "complete registry"
  shows "\<exists>root enc effs. NewRootCmd attempt = Some root \<and> MakeEncodingConfig attempt = Some (enc, effs)
    \<and> last (cmd_effects root) = (Call ''sdk.GetConfig'' [], ''Seal'', [])
    \<and> butlast (cmd_effects root) = effs
    \<and> list_all (\<lambda>m. (Name m, ''RegisterInterfaces'', [registry]) \<in> set effs) ModuleBasics
    \<and> list_all complete (cmd_ClientCtx root # cmd_Commands root) \<and> distinct (cmd_Commands root)"
proof -
  obtain enc effs where e: "MakeEncodingConfig attempt = Some (enc, effs)" and
    enc: "complete (enc_Codec enc)" "complete (enc_TxConfig enc)" "complete (enc_Amino enc)" "complete (enc_InterfaceRegistry enc)"
    and effs: "list_all (\<lambda>m. (Name m, ''RegisterInterfaces'', [registry]) \<in> set effs) ModuleBasics"
    using assms by (auto simp: MakeEncodingConfig_def Let_def list_all_iff)
  have bech: "complete (bech32 p)" for p by (simp add: bech32_def)
  show ?thesis
    using e enc effs bech
    by (simp add: NewRootCmd_def initRootCmd_def AddCommand_def server_commands_def DefaultNodeHome_def initAppConfig_def Let_def)
qed

theorem root_command_complete_witness:
  "\<exists>root. NewRootCmd ok_attempt = Some root \<and> length (cmd_Commands root) = 10
    \<and> last (cmd_effects root) = (Call ''sdk.GetConfig'' [], ''Seal'', [])"
  using root_command_complete [of ok_attempt "Str ''types.NewInterfaceRegistryWithOptions''"]
  by (auto simp: ok_attempt_def NewRootCmd_def initRootCmd_def AddCommand_def Let_def)

end
