(* ===== verification/Spec2Isabelle.thy ===== *)
theory Spec2Isabelle
  imports Service Query_Props Wire_Props Kv_Main Api_Kv_Props Api_Main_Props Bounty_Reads Descriptor_Props Mychain_Cmd
begin

text \<open>
  A verification library for the repository's two blockchains written in Go, the REST service in front of
  them, and the smart contract that runs on one of them.

  The program. \<^verbatim>\<open>mychain\<close> is a Cosmos SDK application whose own logic is the task registry,
  the module \<^verbatim>\<open>x/taskreg\<close>: transactions create tasks, assign them and complete them
  (\<^verbatim>\<open>keeper/msg_server.go\<close>), over a keeper that stores tasks and a counter in the module's
  key-value store (\<^verbatim>\<open>keeper/keeper.go\<close>); queries read them (\<^verbatim>\<open>keeper/grpc_query.go\<close>); genesis
  imports and exports them (\<^verbatim>\<open>keeper/genesis.go\<close>, \<^verbatim>\<open>types/genesis.go\<close>, \<^verbatim>\<open>module.go\<close>); the
  message types are encoded by protobuf code (\<^verbatim>\<open>types/*.pb.go\<close>), described to the libraries by
  hand-written descriptors (\<^verbatim>\<open>types/proto_descriptor.go\<close>, \<^verbatim>\<open>codec.go\<close>). \<^verbatim>\<open>mychain/app\<close> wires this module
  to those of the SDK, and \<^verbatim>\<open>cmd/mychaind\<close> makes a command of it.
  \<^verbatim>\<open>abci-kvstore\<close> is an ABCI application: a key-value store whose blocks are parsed and staged by
  \<^verbatim>\<open>app.go\<close> and written to Badger by \<^verbatim>\<open>state.go\<close>. \<^verbatim>\<open>api-backend\<close> is a REST gateway to both,
  and \<^verbatim>\<open>contracts/task-bounty\<close> a CosmWasm contract in Rust that holds the rewards of tasks.

  Theories, in the order of their dependencies, and the code they model:

    \<^item> \<^verbatim>\<open>Prelude\<close>: Go's bytes, strings, slices and 64-bit integers, \<^verbatim>\<open>binary.BigEndian\<close>,
      decimal formatting, and the generic lemmas.
    \<^item> \<^verbatim>\<open>Wire\<close>: the \<^verbatim>\<open>protowire\<close> package as a parameter with its laws (locale \<^verbatim>\<open>wire_format\<close>),
      the helpers of \<^verbatim>\<open>tx.pb.go\<close> above it, and the receiver loop all \<^verbatim>\<open>Unmarshal\<close> methods
      share. \<^verbatim>\<open>Wire_Std\<close>: the documented wire format, on which the locale is interpreted.
    \<^item> \<^verbatim>\<open>Types_Pb\<close>, \<^verbatim>\<open>Tx_Pb\<close>, \<^verbatim>\<open>Query_Pb\<close>, \<^verbatim>\<open>Query_Std\<close>: the messages of \<^verbatim>\<open>types.pb.go\<close>,
      \<^verbatim>\<open>genesis.pb.go\<close>, \<^verbatim>\<open>tx.pb.go\<close> and \<^verbatim>\<open>query.pb.go\<close> with their encoders, sizes and
      decoders. The SDK's pagination messages are a parameter (locale \<^verbatim>\<open>page_format\<close>).
    \<^item> \<^verbatim>\<open>Taskreg_Keeper\<close>: keys and keeper, over the codec and the store it is given (locales
      \<^verbatim>\<open>task_codec\<close>, \<^verbatim>\<open>kv_store\<close>), the abstract registry of tasks, and the keeper's contract
      towards its clients (locale \<^verbatim>\<open>task_store\<close>), which the keeper satisfies. \<^verbatim>\<open>Store_Std\<close>: the
      generated code as the codec, and a tree as a store.
    \<^item> \<^verbatim>\<open>Msg_Server\<close>, \<^verbatim>\<open>Query_Server\<close>, \<^verbatim>\<open>Taskreg_Genesis\<close>, \<^verbatim>\<open>Service\<close>: transactions with their
      errors, events and stateless checks; queries; genesis; the gRPC handlers and the query client.
    \<^item> \<^verbatim>\<open>Task_Chain\<close>: runs of transactions as a state machine and its invariants.
    \<^item> \<^verbatim>\<open>Taskreg_Descriptor\<close>, \<^verbatim>\<open>Taskreg_Module\<close>: \<^verbatim>\<open>proto_descriptor.go\<close>, the registrations of the
      \<^verbatim>\<open>.pb.go\<close> files and \<^verbatim>\<open>codec.go\<close>, the service descriptors, and \<^verbatim>\<open>module.go\<close>.
    \<^item> \<^verbatim>\<open>App_Wiring\<close>: \<^verbatim>\<open>app/app.go\<close> (\<^verbatim>\<open>New\<close> in the stages of its text), \<^verbatim>\<open>ante.go\<close>,
      \<^verbatim>\<open>encoding.go\<close>, \<^verbatim>\<open>export.go\<close>, and \<^verbatim>\<open>newApp\<close> and \<^verbatim>\<open>appExport\<close> of \<^verbatim>\<open>root.go\<close>;
      \<^verbatim>\<open>Mychain_Cmd\<close>: the rest of \<^verbatim>\<open>root.go\<close> and \<^verbatim>\<open>main.go\<close>.
    \<^item> \<^verbatim>\<open>Badger\<close>, \<^verbatim>\<open>Sha256\<close>, \<^verbatim>\<open>Kv_State\<close>, \<^verbatim>\<open>Kv_App\<close>: the database as a parameter (locales
      \<^verbatim>\<open>badger_db\<close>, \<^verbatim>\<open>working_badger\<close>), SHA-256, \<^verbatim>\<open>state.go\<close> with its contract (locale
      \<^verbatim>\<open>state_store\<close>), and \<^verbatim>\<open>app.go\<close>. \<^verbatim>\<open>Kv_Main\<close>: the process, \<^verbatim>\<open>main.go\<close>.
    \<^item> \<^verbatim>\<open>Go_Json\<close>, \<^verbatim>\<open>Json_Doc\<close>: what the REST service uses of \<^verbatim>\<open>strconv\<close> and
      \<^verbatim>\<open>encoding/json\<close>: \<^verbatim>\<open>ParseUint\<close>, strings with their escapes and UTF-8, the scanner for a
      value, the encoder, and decoding into a struct. \<^verbatim>\<open>Go_Float\<close>, \<^verbatim>\<open>Go_Any\<close>: \<^verbatim>\<open>ParseFloat\<close> and the
      shortest decimals of 64-bit floats, and decoding into an untyped value and encoding it again.
    \<^item> \<^verbatim>\<open>Api_Client\<close>, \<^verbatim>\<open>Api_Kv_Client\<close>, \<^verbatim>\<open>Api_Handlers\<close>, \<^verbatim>\<open>Api_Main\<close>: \<^verbatim>\<open>client/chain.go\<close>,
      \<^verbatim>\<open>client/kvstore.go\<close>, \<^verbatim>\<open>handlers/*.go\<close> and \<^verbatim>\<open>main.go\<close> of \<^verbatim>\<open>api-backend\<close>. The nodes behind
      the clients are records of calls; what is relied on is stated in the locales
      \<^verbatim>\<open>tx_signing\<close> (a signed transaction carries its messages and is signed by the key's account) and \<^verbatim>\<open>kv_node\<close> (the
      application runs behind the RPC calls). \<^verbatim>\<open>Api_Node\<close> connects the service to the models of
      the task registry and the query service.
    \<^item> \<^verbatim>\<open>Bounty_Contract\<close>: the contract (\<^verbatim>\<open>state.rs\<close>, \<^verbatim>\<open>msg.rs\<close>, \<^verbatim>\<open>error.rs\<close>,
      \<^verbatim>\<open>contract.rs\<close>). \<^verbatim>\<open>Bounty_Store\<close>: its storage as a locale (\<^verbatim>\<open>cw_storage\<close>) and the book of
      bounties it refines; \<^verbatim>\<open>Bounty_Host\<close>: the machine that runs it with its bank balances (locale
      \<^verbatim>\<open>wasm_host\<close>), and the invariants of runs. \<^verbatim>\<open>Bounty_Api\<close>: the JSON messages of the contract, and
      claims over the REST service; \<^verbatim>\<open>Bounty_Reads\<close>: the contract behind the queries of the service
      (locale \<^verbatim>\<open>contract_node\<close>).
    \<^item> \<^verbatim>\<open>Task_Props\<close>, \<^verbatim>\<open>Query_Props\<close>, \<^verbatim>\<open>Wire_Props\<close>, \<^verbatim>\<open>Kv_Props\<close>, \<^verbatim>\<open>Api_Props\<close>,
      \<^verbatim>\<open>Api_Kv_Props\<close>, \<^verbatim>\<open>Api_Main_Props\<close>, \<^verbatim>\<open>Descriptor_Props\<close>, \<^verbatim>\<open>App_Props\<close>,
      \<^verbatim>\<open>Bounty_Props\<close> and the last sections of \<^verbatim>\<open>Kv_Main\<close>, \<^verbatim>\<open>Mychain_Cmd\<close>,
      \<^verbatim>\<open>Bounty_Api\<close> and \<^verbatim>\<open>Bounty_Reads\<close>: the properties, each with a witness at a
      concrete input. This theory adds the path of a creation from a client to the store and back.

  Conventions. State is passed explicitly: a handler takes the SDK context (the module's store and
  the events so far) or the application and returns it updated. A returned error is a value of a sum;
  a panic is \<^verbatim>\<open>None\<close> of an option. Integers keep their width: identifiers are 64-bit words and
  wrap, and Go's \<^verbatim>\<open>int\<close> arithmetic on request fields wraps explicitly. Log output and the context's
  other contents are not modelled. Code outside the repository (the SDK's store, codec and JSON codec,
  \<^verbatim>\<open>protowire\<close>, Badger, gRPC, address decoding) is a parameter: a record of functions or a
  function argument, with the documented behaviour that is used stated as a locale. In the wiring of
  the node, what a library's constructor builds is a term that records the call and its arguments
  (a nil field is a term as well), so that every argument can be compared with the source; the calls
  that change library objects are recorded in their order; a library call that can fail is decided by
  the argument \<open>attempt\<close>, and a Go map is a list, as no result depends on its order.

  What is proved. For the task registry: each handler refines a transition of the abstract registry on
  every branch, errors included; runs refine runs; no sequence of transactions panics; identifiers are
  \<^verbatim>\<open>1, 2, ...\<close> without reuse until the counter wraps; tasks below the counter are never lost and only
  move along OPEN, ASSIGNED, COMPLETED, by the creator's and the assignee's transactions; queries answer from the
  registry, and paging is complete where the 64-bit bounds do not overflow, and panics where they do;
  genesis import and export are inverse. For the messages: round trips, sizes, merging, skipping of
  unknown fields, and that no input makes a decoder panic or loop. For the key-value application: what
  a block and a commit do, isolation of uncommitted blocks, restart and crash recovery, agreement of
  replicas, the application hash as a function of the contents. The properties also record where the
  code falls short: the counter's wrap-around, the genesis check that ignores the counter, so that a creation may replace a task, the panics
  of \<^verbatim>\<open>ListTasks\<close>, hash collisions, the application hash that is never reported, dropped storage
  errors, and the meta key that can make a crash fatal. For the REST service: which requests are
  refused with which status, which single message each accepted one puts into a transaction that the service's account signs
  and the node accepts, that
  what was created or set over HTTP is read back over HTTP, that request and response bodies decode
  to what was encoded, every error of a broadcast, and that the service starts after at most sixty
  questions to each chain; and its gaps: a question that is never answered blocks the start, a write that \<^verbatim>\<open>CheckTx\<close> refuses is answered 200, a key with \<^verbatim>\<open>=\<close> is split, an
  answer does not say whether the transaction will succeed, and a sequence is used twice.

  For the descriptors: the encoders write the fields, numbers and types that the four files
  prescribe, every registered type is described, the annotated signer field holds the account that the
  handlers check, and the registered services are the declared ones, served by the keeper. For the node:
  the keepers get their own and distinct stores, no keeper is used before it exists, every module is in
  every order list, and New panics exactly for the listed causes. For the contract: it refines the book of bounties on
  every branch; who may do what; what a claim pays, and that it is paid once; that a run without bonuses
  keeps enough funds for all open bounties, whose claims then succeed; paging of the list; and its gaps:
  a bonus is paid with the funds of other bounties, and a claim that nets zero fails. Over HTTP a bounty
  is read as it is stored, the list shows ten, and ids above \<open>2 ^ 53\<close> are ambiguous. For the process of
  the key-value application: its exit codes and that a restarted process goes on where the last stopped.

  The loops are structural recursions, except the receiver loop, a partial function that is proved to
  return on every input, and the retries of \<^verbatim>\<open>main\<close>, with a measure. Only the JSON parser has fuel:
  twice the length of the text and two; \<^verbatim>\<open>parse_fuel\<close> shows that more never changes a
  result. A float is searched among the decimals of at most 17 digits, the most that 64 bits need;
  \<^verbatim>\<open>float_exact\<close> and \<^verbatim>\<open>float_text_even\<close> show what that gives for whole numbers below \<open>2 ^ 53\<close> and for
  even ones up to \<open>2 ^ 54\<close>. String lengths are bounded by
  Go's largest \<^verbatim>\<open>int\<close> where a size is read back (\<^verbatim>\<open>go_len\<close>).

  Not modelled: the libraries (SDK modules, CometBFT, IBC, wasm, cobra, the HTTP router and its
  middleware), log output, \<^verbatim>\<open>String\<close>, \<^verbatim>\<open>Reset\<close> and \<^verbatim>\<open>ProtoMessage\<close> of the messages where they
  are the library's, getters without logic, and methods that return nil or do nothing (\<^verbatim>\<open>GetTxCmd\<close>,
  \<^verbatim>\<open>GetQueryCmd\<close>, \<^verbatim>\<open>addModuleInitFlags\<close>). Requests to the service run one at a time, so the
  mutex of the client has no counterpart. What a message router does with a registered service, and
  how the SDK finds a transaction's signers, is the SDK's; the texts of JSON syntax errors are a parameter. The bank
  keeper interface of \<^verbatim>\<open>expected_keepers.go\<close> is used by no code.
\<close>

section \<open>Across the components\<close>

text \<open>From client to client: over the generated protobuf code and any store, a creation that
  arrives as the encoding of its message is executed, its encoded response decodes to the identifier,
  and a query client that asks for this identifier through the encoded query service decodes exactly
  the created task, open and unassigned.\<close>

theorem create_then_query_over_wire:
  assumes "wire_format pw" "kv_store (storeService k) m" "cdc k = proto_codec pw"
    and "wf_at k m ctx" "go_MsgCreateTask msg" "MsgCreateTask_Marshal pw msg = Inr bz"
    and "go_len (Task_wire pw (new_task (reg_at k m ctx) msg))"
  shows "\<exists>ctx' out resp. wire_create pw k ctx bz = Some (ctx', Inr out)
    \<and> MsgCreateTaskResponse_Unmarshal pw zero_MsgCreateTaskResponse out = Some (resp, None)
    \<and> ctr_Id resp = reg_next (reg_at k m ctx)
    \<and> queryClient_Task (wire_invoke pw k ctx') \<lparr>qtr_Id = ctr_Id resp\<rparr> = Some (Inr \<lparr>qts_Task =
        \<lparr>task_Id = ctr_Id resp, task_Title = ct_Title msg, task_Description = ct_Description msg,
         task_Creator = ct_Creator msg, task_Assignee = [], task_Status = TASK_STATUS_OPEN\<rparr>\<rparr>)"
proof -
  obtain ctx' where c: "CreateTask k ctx msg = Some (ctx', Inr \<lparr>ctr_Id = reg_next (reg_at k m ctx)\<rparr>)"
    "queryClient_Task (wire_invoke pw k ctx') \<lparr>qtr_Id = reg_next (reg_at k m ctx)\<rparr> =
       Some (Inr \<lparr>qts_Task = new_task (reg_at k m ctx) msg\<rparr>)"
    using created_task_queried [OF assms(1-5,7)] by blast
  with wire_create_eq [OF assms(1,5,6) c(1)] c(2) show ?thesis by (auto simp: new_task_def)
qed

theorem create_then_query_over_wire_witness:
  "\<exists>bz ctx' out resp. MsgCreateTask_Marshal std_wire \<lparr>ct_Creator = ''a'', ct_Title = ''t'', ct_Description = []\<rparr> = Inr bz
    \<and> wire_create std_wire std_keeper ctx0 bz = Some (ctx', Inr out)
    \<and> MsgCreateTaskResponse_Unmarshal std_wire zero_MsgCreateTaskResponse out = Some (resp, None) \<and> ctr_Id resp = 1"
proof -
  let ?msg = "\<lparr>ct_Creator = ''a'', ct_Title = ''t'', ct_Description = []\<rparr>"
  note bz = wire_format.MsgCreateTask_Marshal_eq [OF std_wf, of ?msg]
  have k: "kv_store (storeService std_keeper) RBT.lookup" "cdc std_keeper = proto_codec std_wire"
    using rbt.kv_store_axioms by (simp_all add: std_keeper_def)
  have go: "go_MsgCreateTask ?msg" by (simp add: go_MsgCreateTask_def go_len_def)
  have "go_len (Task_wire std_wire (new_task empty_registry ?msg))"
    by (simp add: go_len_def Task_wire_def new_task_def empty_registry_def appendUint64_def appendString_def
        std_wire_def std_AppendTag_def std_tag_def std_AppendVarint_def std_AppendBytes_def uvarint.simps status_defs)
  with create_then_query_over_wire [OF std_wf k _ go bz, of ctx0] bz show ?thesis
    by (fastforce simp: empty_registry_def)
qed

end
